(* ===== verification/Prelude.thy ===== *)
theory Prelude
  imports Main "HOL-Library.Word" "HOL-Library.Sublist" "HOL-Library.Char_ord"
    "HOL-Library.List_Lexorder" "HOL-Library.Product_Lexorder"
begin

text \<open>
  Shared vocabulary of the development: the collections of rewrite rules the component
  theories fill, Go's \<^verbatim>\<open>time.Time\<close> and \<^verbatim>\<open>time.Duration\<close> as integers counting nanoseconds
  (a duration is an int64, so products are reduced with \<open>int64\<close>), the iteration of a Go map
  in an order the language leaves open, and the removal of duplicates both programs use.
\<close>

section \<open>Collections of rules\<close>

named_theorems go_simps \<open>equations of the Go library functions\<close>
named_theorems idp_simps \<open>equations of the identity provider's helpers\<close>
named_theorems idp_frames \<open>fields that an operation of the identity provider leaves alone\<close>
named_theorems bff_simps \<open>equations of the backend-for-frontend's helpers\<close>

section \<open>Types of the model\<close>

type_synonym time = int
type_synonym duration = int
type_synonym ('e, 'a) result = "'e + 'a"

text \<open>The environment as \<^verbatim>\<open>os.Getenv\<close> reads it: an unset variable is the empty string.\<close>

type_synonym environment = "string \<Rightarrow> string"

section \<open>Machine integers and time\<close>

text \<open>\<open>int64\<close> reduces an integer to the value a 64-bit two's complement word holds.\<close>

definition int64 :: "int \<Rightarrow> int" where
  "int64 x = signed_take_bit 63 x"

definition max_int64 :: int where
  "max_int64 = 9223372036854775807"

definition min_int64 :: int where
  "min_int64 = -9223372036854775808"

definition Second :: duration where
  "Second = 1000000000"

definition Minute :: duration where
  "Minute = 60000000000"

definition Hour :: duration where
  "Hour = 3600000000000"

text \<open>\<^verbatim>\<open>time.Duration(n) * time.Second\<close>: an int64 product, which may wrap around.\<close>

definition seconds :: "int \<Rightarrow> duration" where
  "seconds n = int64 (n * Second)"

text \<open>\<^verbatim>\<open>Time.Sub\<close> saturates at the bounds of a duration.\<close>

definition time_Sub :: "time \<Rightarrow> time \<Rightarrow> duration" where
  "time_Sub t u = max min_int64 (min max_int64 (t - u))"

definition time_Add :: "time \<Rightarrow> duration \<Rightarrow> time" where
  "time_Add t d = t + d"

definition time_Before :: "time \<Rightarrow> time \<Rightarrow> bool" where
  "time_Before t u \<longleftrightarrow> t < u"

definition time_After :: "time \<Rightarrow> time \<Rightarrow> bool" where
  "time_After t u \<longleftrightarrow> u < t"

definition time_Unix :: "time \<Rightarrow> int" where
  "time_Unix t = t div Second"

lemmas time_defs [go_simps] =
  time_Add_def time_Before_def time_After_def time_Unix_def

lemma int64_id: "min_int64 \<le> x \<Longrightarrow> x \<le> max_int64 \<Longrightarrow> int64 x = x"
  unfolding int64_def min_int64_def max_int64_def
  by (intro signed_take_bit_int_eq_self) auto

lemma int64_range: "min_int64 \<le> int64 x" "int64 x \<le> max_int64"
  using signed_take_bit_int_greater_eq_minus_exp [of 63 x] signed_take_bit_int_less_exp [of 63 x]
  by (simp_all add: int64_def min_int64_def max_int64_def)

lemma seconds_small: "\<bar>n\<bar> \<le> 9000000000 \<Longrightarrow> seconds n = n * Second"
  by (auto simp: seconds_def Second_def min_int64_def max_int64_def intro!: int64_id)

section \<open>Iterating over a Go map\<close>

text \<open>
  \<^verbatim>\<open>for k, v := range m\<close> visits every entry once in an order the language does not fix. A
  loop that stops at its first match takes the order of the keys as an argument, which is a
  \<open>valid_order\<close> of the map: each of its keys exactly once.
\<close>

definition valid_order :: "('k \<rightharpoonup> 'v) \<Rightarrow> 'k list \<Rightarrow> bool" where
  "valid_order m ks \<longleftrightarrow> distinct ks \<and> set ks = dom m"

fun range_find :: "('k \<Rightarrow> 'v \<Rightarrow> bool) \<Rightarrow> ('k \<rightharpoonup> 'v) \<Rightarrow> 'k list \<Rightarrow> ('k \<times> 'v) option" where
  "range_find P m [] = None"
| "range_find P m (k # ks) =
     (case m k of
        None \<Rightarrow> range_find P m ks
      | Some v \<Rightarrow> if P k v then Some (k, v) else range_find P m ks)"

lemma range_find_SomeD:
  "range_find P m ks = Some (k, v) \<Longrightarrow> m k = Some v \<and> P k v \<and> k \<in> set ks"
  by (induction ks) (auto split: option.splits if_splits)

lemma range_find_None_iff:
  "range_find P m ks = None \<longleftrightarrow> (\<forall>k\<in>set ks. \<forall>v. m k = Some v \<longrightarrow> \<not> P k v)"
  by (induction ks) (auto split: option.splits)

lemma range_find_None_order:
  assumes "valid_order m ks"
  shows "range_find P m ks = None \<longleftrightarrow> (\<forall>k v. m k = Some v \<longrightarrow> \<not> P k v)"
proof -
  have "set ks = dom m" using assms by (simp add: valid_order_def)
  then show ?thesis by (auto simp: range_find_None_iff)
qed

lemma range_find_unique:
  assumes "valid_order m ks"
    and "m k = Some v" and "P k v"
    and "\<And>k' v'. m k' = Some v' \<Longrightarrow> P k' v' \<Longrightarrow> k' = k"
  shows "range_find P m ks = Some (k, v)"
proof (cases "range_find P m ks")
  case None
  then show ?thesis using assms(1-3) by (simp add: range_find_None_order)
next
  case (Some kv)
  then obtain k' v' where kv: "kv = (k', v')" by (cases kv)
  with Some have "m k' = Some v'" "P k' v'" by (auto dest: range_find_SomeD)
  with assms(2,4) have "k' = k" "v' = v" by auto
  with Some kv show ?thesis by simp
qed

lemma valid_order_finite: "valid_order m ks \<Longrightarrow> finite (dom m)"
  by (metis List.finite_set valid_order_def)

lemma valid_order_exists: "finite (dom m) \<Longrightarrow> \<exists>ks. valid_order m ks"
  by (metis finite_distinct_list valid_order_def)

section \<open>Removing duplicates\<close>

text \<open>
  \<open>dedupe_loop\<close> is the loop of \<^verbatim>\<open>dedupeStrings\<close>: \<open>seen\<close> is the set kept beside the output.
\<close>

fun dedupe_loop :: "'a set \<Rightarrow> 'a list \<Rightarrow> 'a list" where
  "dedupe_loop seen [] = []"
| "dedupe_loop seen (x # xs) =
     (if x \<in> seen then dedupe_loop seen xs else x # dedupe_loop (insert x seen) xs)"

lemma set_dedupe_loop: "set (dedupe_loop seen xs) = set xs - seen"
  by (induction xs arbitrary: seen) auto

lemma distinct_dedupe_loop: "distinct (dedupe_loop seen xs)"
  by (induction xs arbitrary: seen) (auto simp: set_dedupe_loop)

lemma dedupe_loop_fix: "distinct xs \<Longrightarrow> set xs \<inter> seen = {} \<Longrightarrow> dedupe_loop seen xs = xs"
  by (induction xs arbitrary: seen) auto

lemma dedupe_loop_append:
  "dedupe_loop seen (xs @ ys) = dedupe_loop seen xs @ dedupe_loop (seen \<union> set xs) ys"
  by (induction xs arbitrary: seen) (auto simp: insert_absorb)

lemma subseq_dedupe_loop: "subseq (dedupe_loop seen xs) xs"
  by (induction xs arbitrary: seen) auto

section \<open>Lists and options\<close>

text \<open>Updating the first element that matches: the loops with \<^verbatim>\<open>break\<close> over a slice.\<close>

fun update_first :: "('a \<Rightarrow> bool) \<Rightarrow> ('a \<Rightarrow> 'a) \<Rightarrow> 'a list \<Rightarrow> 'a list" where
  "update_first P f [] = []"
| "update_first P f (x # xs) = (if P x then f x # xs else x # update_first P f xs)"

lemma length_update_first [simp]: "length (update_first P f xs) = length xs"
  by (induction xs) auto

lemma map_update_first: "(\<And>x. P x \<Longrightarrow> g (f x) = g x) \<Longrightarrow> map g (update_first P f xs) = map g xs"
  by (induction xs) auto

lemma set_update_first_subset: "set (update_first P f xs) \<subseteq> set xs \<union> f ` {x \<in> set xs. P x}"
  by (induction xs) auto

lemma update_first_id: "\<forall>x\<in>set xs. \<not> P x \<Longrightarrow> update_first P f xs = xs"
  by (induction xs) auto

lemma find_update_first_same:
  "(\<And>x. P x \<Longrightarrow> P (f x)) \<Longrightarrow> find P (update_first P f xs) = map_option f (find P xs)"
  by (induction xs) auto

lemma find_update_first_other:
  "(\<And>x. P x \<Longrightarrow> Q (f x) = Q x) \<Longrightarrow> (\<And>x. P x \<Longrightarrow> Q x \<Longrightarrow> False)
    \<Longrightarrow> find Q (update_first P f xs) = find Q xs"
  by (induction xs) auto

lemma find_SomeD: "find P xs = Some x \<Longrightarrow> P x \<and> x \<in> set xs"
  by (auto simp: find_Some_iff)

lemma find_key:
  assumes "distinct (map g xs)" and "x \<in> set xs"
  shows "find (\<lambda>y. g y = g x) xs = Some x"
  using assms by (induction xs) force+

end
