(* ===== verification/Go_Strings.thy ===== *)
theory Go_Strings
  imports Prelude
begin

text \<open>
  The parts of Go's \<^verbatim>\<open>strings\<close> and \<^verbatim>\<open>strconv\<close> packages that the two programs call, over
  strings as byte sequences (a \<open>char\<close> is a byte). White space is what \<^verbatim>\<open>unicode.IsSpace\<close>
  accepts: the six ASCII characters and the UTF-8 encodings of the wider ones. A lead byte of
  such an encoding never occurs inside another encoded rune, so looking at byte positions one
  after the other finds the same white space as decoding runes does.
\<close>

section \<open>White space\<close>

definition ascii_space :: "char \<Rightarrow> bool" where
  "ascii_space c \<longleftrightarrow> c \<in> {CHR 0x09, CHR 0x0A, CHR 0x0B, CHR 0x0C, CHR 0x0D, CHR 0x20}"

definition wide_spaces :: "string list" where
  "wide_spaces =
     [[CHR 0xC2, CHR 0x85], [CHR 0xC2, CHR 0xA0], [CHR 0xE1, CHR 0x9A, CHR 0x80],
      [CHR 0xE2, CHR 0x80, CHR 0x80], [CHR 0xE2, CHR 0x80, CHR 0x81], [CHR 0xE2, CHR 0x80, CHR 0x82],
      [CHR 0xE2, CHR 0x80, CHR 0x83], [CHR 0xE2, CHR 0x80, CHR 0x84], [CHR 0xE2, CHR 0x80, CHR 0x85],
      [CHR 0xE2, CHR 0x80, CHR 0x86], [CHR 0xE2, CHR 0x80, CHR 0x87], [CHR 0xE2, CHR 0x80, CHR 0x88],
      [CHR 0xE2, CHR 0x80, CHR 0x89], [CHR 0xE2, CHR 0x80, CHR 0x8A], [CHR 0xE2, CHR 0x80, CHR 0xA8],
      [CHR 0xE2, CHR 0x80, CHR 0xA9], [CHR 0xE2, CHR 0x80, CHR 0xAF], [CHR 0xE2, CHR 0x81, CHR 0x9F],
      [CHR 0xE3, CHR 0x80, CHR 0x80]]"

text \<open>The number of bytes of the white space rune a string starts with, 0 when there is none.\<close>

definition wide_space_len :: "string list \<Rightarrow> string \<Rightarrow> nat" where
  "wide_space_len ws s =
     (case find (\<lambda>w. take (length w) s = w) ws of None \<Rightarrow> 0 | Some w \<Rightarrow> length w)"

fun space_len :: "string list \<Rightarrow> string \<Rightarrow> nat" where
  "space_len ws [] = 0"
| "space_len ws (c # cs) =
     (if ascii_space c then 1
      else if of_char c < (128 :: nat) \<and> ws = wide_spaces then 0 else wide_space_len ws (c # cs))"

abbreviation lead_space :: "string \<Rightarrow> nat" where
  "lead_space \<equiv> space_len wide_spaces"

text \<open>Cutting white space off the front of a string; \<open>ws\<close> is reversed to work from the back.\<close>

fun strip_lead :: "string list \<Rightarrow> string \<Rightarrow> string" where
  "strip_lead ws [] = []"
| "strip_lead ws (c # cs) =
     (let n = space_len ws (c # cs) in if n = 0 then c # cs else strip_lead ws (drop (n - 1) cs))"

definition TrimSpace :: "string \<Rightarrow> string" where
  "TrimSpace s = rev (strip_lead (map rev wide_spaces) (rev (strip_lead wide_spaces s)))"

text \<open>\<^verbatim>\<open>strings.Fields\<close>: the maximal runs without white space; \<open>cur\<close> is the run being read, reversed.\<close>

fun fields_from :: "string \<Rightarrow> string \<Rightarrow> string list" where
  "fields_from cur [] = (if cur = [] then [] else [rev cur])"
| "fields_from cur (c # cs) =
     (let n = lead_space (c # cs) in
      if n = 0 then fields_from (c # cur) cs
      else (if cur = [] then [] else [rev cur]) @ fields_from [] (drop (n - 1) cs))"

definition Fields :: "string \<Rightarrow> string list" where
  "Fields s = fields_from [] s"

section \<open>Splitting, joining, searching\<close>

fun Split :: "string \<Rightarrow> char \<Rightarrow> string list" where
  "Split [] sep = [[]]"
| "Split (c # cs) sep =
     (if c = sep then [] # Split cs sep
      else case Split cs sep of [] \<Rightarrow> [[c]] | w # ws \<Rightarrow> (c # w) # ws)"

text \<open>\<^verbatim>\<open>strings.Cut\<close> at a one-byte separator: before, after, found.\<close>

fun Cut :: "string \<Rightarrow> char \<Rightarrow> string \<times> string \<times> bool" where
  "Cut [] sep = ([], [], False)"
| "Cut (c # cs) sep =
     (if c = sep then ([], cs, True)
      else (let (bef, aft, found) = Cut cs sep in (c # bef, aft, found)))"

fun Join :: "string list \<Rightarrow> string \<Rightarrow> string" where
  "Join [] sep = []"
| "Join [w] sep = w"
| "Join (w # ws) sep = w @ sep @ Join ws sep"

definition HasPrefix :: "string \<Rightarrow> string \<Rightarrow> bool" where
  "HasPrefix s p \<longleftrightarrow> take (length p) s = p"

definition HasSuffix :: "string \<Rightarrow> string \<Rightarrow> bool" where
  "HasSuffix s p \<longleftrightarrow> length p \<le> length s \<and> drop (length s - length p) s = p"

definition TrimPrefix :: "string \<Rightarrow> string \<Rightarrow> string" where
  "TrimPrefix s p = (if HasPrefix s p then drop (length p) s else s)"

definition TrimSuffix :: "string \<Rightarrow> string \<Rightarrow> string" where
  "TrimSuffix s p = (if HasSuffix s p then take (length s - length p) s else s)"

definition Trim :: "string \<Rightarrow> string \<Rightarrow> string" where
  "Trim s cutset = rev (dropWhile (\<lambda>c. c \<in> set cutset) (rev (dropWhile (\<lambda>c. c \<in> set cutset) s)))"

definition TrimRight :: "string \<Rightarrow> string \<Rightarrow> string" where
  "TrimRight s cutset = rev (dropWhile (\<lambda>c. c \<in> set cutset) (rev s))"

definition contains_char :: "string \<Rightarrow> char \<Rightarrow> bool" where
  "contains_char s c \<longleftrightarrow> c \<in> set s"

section \<open>Case\<close>

definition is_upper :: "char \<Rightarrow> bool" where
  "is_upper c \<longleftrightarrow> 65 \<le> (of_char c :: nat) \<and> (of_char c :: nat) \<le> 90"

definition is_lower :: "char \<Rightarrow> bool" where
  "is_lower c \<longleftrightarrow> 97 \<le> (of_char c :: nat) \<and> (of_char c :: nat) \<le> 122"

definition lower_char :: "char \<Rightarrow> char" where
  "lower_char c = (if is_upper c then char_of ((of_char c :: nat) + 32) else c)"

definition upper_char :: "char \<Rightarrow> char" where
  "upper_char c = (if is_lower c then char_of ((of_char c :: nat) - 32) else c)"

definition is_ascii :: "string \<Rightarrow> bool" where
  "is_ascii s \<longleftrightarrow> list_all (\<lambda>c. of_char c < (128 :: nat)) s"

text \<open>
  \<^verbatim>\<open>strings.EqualFold\<close> against a constant whose letters have no non-ASCII case variant, which
  is how the programs use it (the only letters with one are k and s).
\<close>

definition EqualFold_ascii :: "string \<Rightarrow> string \<Rightarrow> bool" where
  "EqualFold_ascii s t \<longleftrightarrow> map lower_char s = map lower_char t"

section \<open>strconv\<close>

definition is_digit :: "char \<Rightarrow> bool" where
  "is_digit c \<longleftrightarrow> 48 \<le> (of_char c :: nat) \<and> (of_char c :: nat) \<le> 57"

definition digit_val :: "char \<Rightarrow> int" where
  "digit_val c = int (of_char c) - 48"

definition digits_val :: "string \<Rightarrow> int" where
  "digits_val s = foldl (\<lambda>n c. n * 10 + digit_val c) 0 s"

text \<open>\<^verbatim>\<open>strconv.Atoi\<close>: an optional sign and decimal digits, in the range of a 64-bit int.\<close>

definition Atoi :: "string \<Rightarrow> int option" where
  "Atoi s =
     (let (neg, ds) = (case s of
          [] \<Rightarrow> (False, [])
        | c # cs \<Rightarrow> if c = CHR ''-'' then (True, cs) else if c = CHR ''+'' then (False, cs) else (False, s));
        n = (if neg then - digits_val ds else digits_val ds)
      in if ds = [] \<or> \<not> list_all is_digit ds then None
         else if min_int64 \<le> n \<and> n \<le> max_int64 then Some n else None)"

definition ParseBool :: "string \<Rightarrow> bool option" where
  "ParseBool s =
     (if s \<in> {''1'', ''t'', ''T'', ''true'', ''TRUE'', ''True''} then Some True
      else if s \<in> {''0'', ''f'', ''F'', ''false'', ''FALSE'', ''False''} then Some False
      else None)"

text \<open>\<^verbatim>\<open>%d\<close> of a non-negative integer.\<close>

fun show_nat :: "nat \<Rightarrow> string" where
  "show_nat n =
     (if n < 10 then [char_of (n + 48)] else show_nat (n div 10) @ [char_of (n mod 10 + 48)])"

declare show_nat.simps [simp del]

section \<open>Facts about the fields of a string\<close>

lemma wide_spaces_no_blank: "w \<in> set wide_spaces \<Longrightarrow> CHR 0x20 \<notin> set w"
  by (auto simp: wide_spaces_def)

lemma wide_spaces_nonempty: "w \<in> set wide_spaces \<Longrightarrow> w \<noteq> []"
  by (auto simp: wide_spaces_def)

text \<open>A run: no byte position of it starts white space.\<close>

fun no_space :: "string \<Rightarrow> bool" where
  "no_space [] \<longleftrightarrow> True"
| "no_space (c # cs) \<longleftrightarrow> lead_space (c # cs) = 0 \<and> no_space cs"

definition is_word :: "string \<Rightarrow> bool" where
  "is_word w \<longleftrightarrow> w \<noteq> [] \<and> no_space w"

lemma wide_space_len_0: "wide_space_len wide_spaces s = 0 \<longleftrightarrow>
    (\<forall>w\<in>set wide_spaces. take (length w) s \<noteq> w)"
  by (auto simp: wide_space_len_def find_None_iff find_Some_iff wide_spaces_nonempty
      dest: nth_mem wide_spaces_nonempty split: option.splits)

lemma take_blank_iff:
  assumes "CHR 0x20 \<notin> set w"
  shows "take (length w) (xs @ CHR 0x20 # r) = w \<longleftrightarrow> take (length w) xs = w"
proof
  assume eq: "take (length w) (xs @ CHR 0x20 # r) = w"
  have "length w \<le> length xs"
  proof (rule ccontr)
    assume "\<not> length w \<le> length xs"
    then have "CHR 0x20 \<in> set (take (length w) (xs @ CHR 0x20 # r))"
      by (cases "length w - length xs") (auto simp: take_Cons')
    with eq assms show False by simp
  qed
  with eq show "take (length w) xs = w" by simp
next
  assume eq: "take (length w) xs = w"
  then have "length w \<le> length xs" by (metis length_take min.cobounded1)
  with eq show "take (length w) (xs @ CHR 0x20 # r) = w" by simp
qed

lemma take_match_mono: "take (length w) xs = w \<Longrightarrow> take (length w) (xs @ ys) = w"
proof -
  assume eq: "take (length w) xs = w"
  then have "length w \<le> length xs" by (metis length_take min.cobounded1)
  with eq show ?thesis by simp
qed

lemma lead_space_blank:
  "lead_space (c # cs @ CHR 0x20 # r) = 0 \<longleftrightarrow> lead_space (c # cs) = 0"
proof -
  have "(take (length w) (c # cs @ CHR 0x20 # r) = w) = (take (length w) (c # cs) = w)"
    if "w \<in> set wide_spaces" for w
    using take_blank_iff [OF wide_spaces_no_blank [OF that], of "c # cs" r] by simp
  then show ?thesis by (auto simp: wide_space_len_0)
qed

lemma lead_space_mono: "lead_space (c # cs @ ys) = 0 \<Longrightarrow> lead_space (c # cs) = 0"
  using take_match_mono [of _ "c # cs" ys]
  by (auto simp: wide_space_len_0 split: if_splits)

lemma lead_space_blank_head [simp]: "lead_space (CHR 0x20 # r) = 1"
  by (simp add: ascii_space_def)

lemma fields_from_word_blank:
  "no_space w \<Longrightarrow> fields_from cur (w @ CHR 0x20 # r) =
     (if rev cur @ w = [] then [] else [rev cur @ w]) @ fields_from [] r"
proof (induction w arbitrary: cur)
  case Nil
  then show ?case by (simp del: space_len.simps add: Let_def)
next
  case (Cons c cs)
  then have "lead_space (c # cs @ CHR 0x20 # r) = 0" by (simp add: lead_space_blank del: space_len.simps)
  with Cons show ?case by (simp add: Let_def del: space_len.simps)
qed

lemma fields_from_word:
  "no_space w \<Longrightarrow> fields_from cur w = (if rev cur @ w = [] then [] else [rev cur @ w])"
  by (induction w arbitrary: cur) (auto simp: Let_def simp del: space_len.simps)

lemma Fields_Join: "\<forall>w\<in>set ws. is_word w \<Longrightarrow> Fields (Join ws '' '') = ws"
  unfolding Fields_def
proof (induction ws)
  case (Cons w ws)
  then show ?case
    by (cases ws) (auto simp: is_word_def fields_from_word fields_from_word_blank)
qed simp

lemma no_space_nth: "no_space w \<longleftrightarrow> (\<forall>i<length w. lead_space (drop i w) = 0)"
  by (induction w) (auto simp: less_Suc_eq_0_disj simp del: space_len.simps(2))

text \<open>What has been read of the current run starts no white space, seen in the whole string.\<close>

lemma fields_from_words:
  assumes "\<forall>i<length cur. lead_space (drop i (rev cur) @ s) = 0"
  shows "\<forall>w\<in>set (fields_from cur s). is_word w"
  using assms
proof (induction cur s rule: fields_from.induct)
  case (1 cur)
  then show ?case by (simp add: is_word_def no_space_nth del: space_len.simps)
next
  case (2 cur c cs)
  have cur_word: "no_space (rev cur)"
    unfolding no_space_nth
  proof (intro allI impI)
    fix i assume i: "i < length (rev cur)"
    then obtain d ds where d: "drop i (rev cur) = d # ds" by (metis Cons_nth_drop_Suc)
    from 2(3) i have "lead_space (drop i (rev cur) @ c # cs) = 0" by simp
    with d show "lead_space (drop i (rev cur)) = 0"
      using lead_space_mono [of d ds "c # cs"] by simp
  qed
  show ?case
  proof (cases "lead_space (c # cs) = 0")
    case True
    have "\<forall>i<length (c # cur). lead_space (drop i (rev (c # cur)) @ cs) = 0"
    proof (intro allI impI)
      fix i assume "i < length (c # cur)"
      then consider "i < length cur" | "i = length cur" by (auto simp: less_Suc_eq)
      then show "lead_space (drop i (rev (c # cur)) @ cs) = 0"
        using 2(3) True by cases (auto simp del: space_len.simps)
    qed
    with 2(1) [OF refl True] True show ?thesis by (simp add: Let_def del: space_len.simps)
  next
    case False
    with 2(2) [OF refl False] cur_word show ?thesis
      by (auto simp: Let_def is_word_def simp del: space_len.simps)
  qed
qed

lemma Fields_words: "w \<in> set (Fields s) \<Longrightarrow> is_word w"
  using fields_from_words [of "[]" s] by (auto simp: Fields_def)

lemma Fields_Join_Fields: "set ws \<subseteq> set (Fields s) \<Longrightarrow> Fields (Join ws '' '') = ws"
  by (intro Fields_Join) (auto dest: Fields_words)

section \<open>Prefixes and cutting\<close>

lemma HasPrefix_iff: "HasPrefix s p \<longleftrightarrow> (\<exists>r. s = p @ r)"
  by (auto simp: HasPrefix_def) (metis append_take_drop_id)

lemma HasPrefix_append [simp]: "HasPrefix (p @ r) p"
  by (simp add: HasPrefix_def)

lemma HasPrefix_refl [simp]: "HasPrefix p p"
  by (simp add: HasPrefix_def)

lemma TrimPrefix_append [simp]: "TrimPrefix (p @ r) p = r"
  by (simp add: TrimPrefix_def)

lemma Cut_found: "sep \<notin> set a \<Longrightarrow> Cut (a @ sep # b) sep = (a, b, True)"
  by (induction a) auto

lemma Cut_absent: "sep \<notin> set a \<Longrightarrow> Cut a sep = (a, [], False)"
  by (induction a) auto

lemma Cut_SomeD: "Cut s sep = (a, b, True) \<Longrightarrow> s = a @ sep # b \<and> sep \<notin> set a"
  by (induction s arbitrary: a) (auto split: if_splits prod.splits)

lemma Split_nonempty [simp]: "Split s sep \<noteq> []"
  by (induction s) (auto split: list.splits)

text \<open>A separator that occurs in neither left part splits a string in one way only.\<close>

lemma sep_inject:
  fixes sep :: char
  assumes "a @ sep # b = a' @ sep # b'" and "sep \<notin> set a" and "sep \<notin> set a'"
  shows "a = a' \<and> b = b'"
proof -
  have "Cut (a' @ sep # b') sep = (a, b, True)"
    using Cut_found [OF assms(2), of b] unfolding assms(1) .
  then show ?thesis
    unfolding Cut_found [OF assms(3)] by simp
qed

end
