(* ===== verification/Go_URL.thy ===== *)
theory Go_URL
  imports Go_Strings
begin

text \<open>
  Go's \<^verbatim>\<open>net/url\<close> package as far as the programs use it: \<^verbatim>\<open>Parse\<close> with its escaping modes,
  \<^verbatim>\<open>EscapedPath\<close>, \<^verbatim>\<open>Hostname\<close>, \<^verbatim>\<open>Query\<close>, \<^verbatim>\<open>Values.Encode\<close> and \<^verbatim>\<open>String\<close>. An error is
  \<open>None\<close>: no caller looks at which one it was. The lemmas show that escaping a query component
  and encoding a set of query parameters are undone by parsing, which is what makes a redirect
  deliver the parameters it was built with.
\<close>

section \<open>Escaping\<close>

datatype encoding =
  encodePath | encodeHost | encodeZone | encodeUserPassword | encodeQueryComponent | encodeFragment

definition is_alnum :: "char \<Rightarrow> bool" where
  "is_alnum c \<longleftrightarrow> is_lower c \<or> is_upper c \<or> is_digit c"

definition shouldEscape :: "char \<Rightarrow> encoding \<Rightarrow> bool" where
  "shouldEscape c mode =
     (if is_alnum c then False
      else if (mode = encodeHost \<or> mode = encodeZone) \<and> c \<in> set ''!$&'' \<union> {CHR 0x27} \<union> set ''()*+,;=:[]<>'' \<union> {CHR 0x22} then False
      else if c \<in> set ''-_.~'' then False
      else if c \<in> set ''$&+,/:;=?@'' \<and> mode = encodePath then c = CHR ''?''
      else if c \<in> set ''$&+,/:;=?@'' \<and> mode = encodeUserPassword then c \<in> set ''@/?:''
      else if c \<in> set ''$&+,/:;=?@'' \<and> mode = encodeQueryComponent then True
      else if c \<in> set ''$&+,/:;=?@'' \<and> mode = encodeFragment then False
      else if mode = encodeFragment \<and> c \<in> set ''!()*'' then False
      else True)"

definition upperhex :: "nat \<Rightarrow> char" where
  "upperhex n = ''0123456789ABCDEF'' ! n"

definition ishex :: "char \<Rightarrow> bool" where
  "ishex c \<longleftrightarrow> is_digit c \<or> c \<in> set ''abcdefABCDEF''"

definition unhex :: "char \<Rightarrow> nat" where
  "unhex c =
     (let n = of_char c in
      if is_digit c then n - 48 else if 97 \<le> n then n - 87 else n - 55)"

fun escape :: "string \<Rightarrow> encoding \<Rightarrow> string" where
  "escape [] mode = []"
| "escape (c # cs) mode =
     (if c = CHR 0x20 \<and> mode = encodeQueryComponent then CHR ''+'' # escape cs mode
      else if shouldEscape c mode
        then CHR ''%'' # upperhex (of_char c div 16) # upperhex (of_char c mod 16) # escape cs mode
      else c # escape cs mode)"

text \<open>The checks \<^verbatim>\<open>unescape\<close> makes of an escaped byte \<open>%ab\<close> and of a plain byte.\<close>

definition percent_ok :: "encoding \<Rightarrow> char \<Rightarrow> char \<Rightarrow> bool" where
  "percent_ok mode a b \<longleftrightarrow>
     ishex a \<and> ishex b
     \<and> (mode = encodeHost \<longrightarrow> \<not> (unhex a < 8 \<and> [a, b] \<noteq> ''25''))
     \<and> (mode = encodeZone \<longrightarrow>
         \<not> ([a, b] \<noteq> ''25'' \<and> char_of (unhex a * 16 + unhex b) \<noteq> CHR 0x20
            \<and> shouldEscape (char_of (unhex a * 16 + unhex b)) encodeHost))"

definition plain_ok :: "encoding \<Rightarrow> char \<Rightarrow> bool" where
  "plain_ok mode c \<longleftrightarrow>
     \<not> ((mode = encodeHost \<or> mode = encodeZone) \<and> of_char c < (128 :: nat) \<and> shouldEscape c mode)"

fun unescape :: "string \<Rightarrow> encoding \<Rightarrow> string option" where
  "unescape [] mode = Some []"
| "unescape (c # cs) mode =
     (if c = CHR ''%'' then
        (case cs of
           a # b # ds \<Rightarrow>
             if percent_ok mode a b
             then map_option ((#) (char_of (unhex a * 16 + unhex b))) (unescape ds mode)
             else None
         | _ \<Rightarrow> None)
      else if c = CHR ''+'' then
        map_option ((#) (if mode = encodeQueryComponent then CHR 0x20 else CHR ''+'')) (unescape cs mode)
      else if plain_ok mode c then map_option ((#) c) (unescape cs mode)
      else None)"

definition QueryEscape :: "string \<Rightarrow> string" where
  "QueryEscape s = escape s encodeQueryComponent"

definition QueryUnescape :: "string \<Rightarrow> string option" where
  "QueryUnescape s = unescape s encodeQueryComponent"

section \<open>The URL structure and Parse\<close>

record url =
  u_Scheme :: string
  u_Opaque :: string
  u_User :: "(string \<times> string option) option"
  u_Host :: string
  u_Path :: string
  u_RawPath :: string
  u_OmitHost :: bool
  u_ForceQuery :: bool
  u_RawQuery :: string
  u_Fragment :: string
  u_RawFragment :: string

definition zero_url :: url where
  "zero_url = \<lparr>u_Scheme = [], u_Opaque = [], u_User = None, u_Host = [], u_Path = [],
     u_RawPath = [], u_OmitHost = False, u_ForceQuery = False, u_RawQuery = [],
     u_Fragment = [], u_RawFragment = []\<rparr>"

definition contains_ctl :: "string \<Rightarrow> bool" where
  "contains_ctl s \<longleftrightarrow> list_ex (\<lambda>c. of_char c < (32 :: nat) \<or> of_char c = (127 :: nat)) s"

text \<open>
  \<^verbatim>\<open>getScheme\<close>: \<open>None\<close> for a missing scheme before a colon, otherwise the scheme (empty when
  there is none) and the rest. \<open>acc\<close> holds the letters read, reversed.
\<close>

fun getScheme_from :: "string \<Rightarrow> string \<Rightarrow> string \<Rightarrow> (string \<times> string) option" where
  "getScheme_from raw acc [] = Some ([], raw)"
| "getScheme_from raw acc (c # cs) =
     (if is_lower c \<or> is_upper c then getScheme_from raw (c # acc) cs
      else if is_digit c \<or> c \<in> set ''+-.''
        then if acc = [] then Some ([], raw) else getScheme_from raw (c # acc) cs
      else if c = CHR '':'' then if acc = [] then None else Some (rev acc, cs)
      else Some ([], raw))"

definition getScheme :: "string \<Rightarrow> (string \<times> string) option" where
  "getScheme raw = getScheme_from raw [] raw"

definition validOptionalPort :: "string \<Rightarrow> bool" where
  "validOptionalPort port \<longleftrightarrow>
     (case port of [] \<Rightarrow> True | c # cs \<Rightarrow> c = CHR '':'' \<and> list_all is_digit cs)"

text \<open>\<^verbatim>\<open>strings.LastIndex\<close> of one byte: what stands before and after its last occurrence.\<close>

definition cut_last :: "string \<Rightarrow> char \<Rightarrow> (string \<times> string) option" where
  "cut_last s c =
     (case Cut (rev s) c of (b, a, True) \<Rightarrow> Some (rev a, rev b) | _ \<Rightarrow> None)"

text \<open>The first occurrence of a longer separator: what stands before it and what starts with it.\<close>

fun split_at :: "string \<Rightarrow> string \<Rightarrow> (string \<times> string) option" where
  "split_at p [] = (if p = [] then Some ([], []) else None)"
| "split_at p (c # cs) =
     (if HasPrefix (c # cs) p then Some ([], c # cs)
      else map_option (\<lambda>(a, b). (c # a, b)) (split_at p cs))"

definition parseHost :: "string \<Rightarrow> string option" where
  "parseHost host =
     (if HasPrefix host ''['' then
        (case cut_last host (CHR '']'') of
           None \<Rightarrow> None
         | Some (bef, colonPort) \<Rightarrow>
             if \<not> validOptionalPort colonPort then None
             else (case split_at ''%25'' bef of
                 None \<Rightarrow> unescape host encodeHost
               | Some (h, zone) \<Rightarrow>
                   Option.bind (unescape h encodeHost) (\<lambda>host1.
                   Option.bind (unescape zone encodeZone) (\<lambda>host2.
                   map_option (\<lambda>host3. host1 @ host2 @ host3)
                     (unescape (CHR '']'' # colonPort) encodeHost)))))
      else (case cut_last host (CHR '':'') of
           Some (_, port) \<Rightarrow>
             if \<not> validOptionalPort (CHR '':'' # port) then None else unescape host encodeHost
         | None \<Rightarrow> unescape host encodeHost))"

definition validUserinfo :: "string \<Rightarrow> bool" where
  "validUserinfo s \<longleftrightarrow>
     list_all (\<lambda>c. is_alnum c \<or> c \<in> set ''-._:~!$&'' \<union> {CHR 0x27} \<union> set ''()*+,;=%@'') s"

definition parseAuthority ::
  "string \<Rightarrow> ((string \<times> string option) option \<times> string) option" where
  "parseAuthority authority =
     (case cut_last authority (CHR ''@'') of
        None \<Rightarrow> map_option (\<lambda>h. (None, h)) (parseHost authority)
      | Some (userinfo, hostpart) \<Rightarrow>
          Option.bind (parseHost hostpart) (\<lambda>host.
          if \<not> validUserinfo userinfo then None
          else (case Cut userinfo (CHR '':'') of
              (username, password, found) \<Rightarrow>
                Option.bind (unescape username encodeUserPassword) (\<lambda>un.
                if \<not> found then Some (Some (un, None), host)
                else map_option (\<lambda>pw. (Some (un, Some pw), host))
                  (unescape password encodeUserPassword)))))"

definition setPath :: "url \<Rightarrow> string \<Rightarrow> url option" where
  "setPath u p =
     map_option (\<lambda>path. u\<lparr>u_Path := path,
         u_RawPath := (if p = escape path encodePath then [] else p)\<rparr>)
       (unescape p encodePath)"

definition setFragment :: "url \<Rightarrow> string \<Rightarrow> url option" where
  "setFragment u f =
     map_option (\<lambda>frag. u\<lparr>u_Fragment := frag,
         u_RawFragment := (if f = escape frag encodeFragment then [] else f)\<rparr>)
       (unescape f encodeFragment)"

text \<open>The query and what precedes it: \<open>ForceQuery\<close> for a single question mark at the very end.\<close>

definition cut_query :: "url \<Rightarrow> string \<Rightarrow> url \<times> string" where
  "cut_query u rest =
     (if HasSuffix rest ''?'' \<and> count_list rest (CHR ''?'') = 1
      then (u\<lparr>u_ForceQuery := True\<rparr>, take (length rest - 1) rest)
      else (case Cut rest (CHR ''?'') of (r, q, _) \<Rightarrow> (u\<lparr>u_RawQuery := q\<rparr>, r)))"

definition cut_authority :: "string \<Rightarrow> string \<times> string" where
  "cut_authority rest =
     (case Cut (drop 2 rest) (CHR ''/'') of
        (a, r, True) \<Rightarrow> (a, CHR ''/'' # r)
      | (a, _, False) \<Rightarrow> (a, []))"

definition parse_hier :: "url \<Rightarrow> string \<Rightarrow> url option" where
  "parse_hier u rest =
     (if (u_Scheme u \<noteq> [] \<or> \<not> HasPrefix rest ''///'') \<and> HasPrefix rest ''//'' then
        (case cut_authority rest of
           (authority, rest') \<Rightarrow>
             Option.bind (parseAuthority authority) (\<lambda>(user, host).
               setPath (u\<lparr>u_User := user, u_Host := host\<rparr>) rest'))
      else if u_Scheme u \<noteq> [] \<and> HasPrefix rest ''/'' then setPath (u\<lparr>u_OmitHost := True\<rparr>) rest
      else setPath u rest)"

definition parse_nofrag :: "string \<Rightarrow> url option" where
  "parse_nofrag raw =
     (if contains_ctl raw then None
      else if raw = ''*'' then Some (zero_url\<lparr>u_Path := ''*''\<rparr>)
      else Option.bind (getScheme raw) (\<lambda>(scheme, rest0).
        let (u, rest) = cut_query (zero_url\<lparr>u_Scheme := map lower_char scheme\<rparr>) rest0 in
        if \<not> HasPrefix rest ''/'' \<and> u_Scheme u \<noteq> [] then Some (u\<lparr>u_Opaque := rest\<rparr>)
        else if \<not> HasPrefix rest ''/'' \<and> contains_char (fst (Cut rest (CHR ''/''))) (CHR '':'') then None
        else parse_hier u rest))"

definition url_Parse :: "string \<Rightarrow> url option" where
  "url_Parse raw =
     (case Cut raw (CHR ''#'') of
        (u, frag, _) \<Rightarrow>
          Option.bind (parse_nofrag u) (\<lambda>url. if frag = [] then Some url else setFragment url frag))"

definition url_IsAbs :: "url \<Rightarrow> bool" where
  "url_IsAbs u \<longleftrightarrow> u_Scheme u \<noteq> []"

section \<open>EscapedPath, Hostname, String\<close>

definition validEncoded :: "string \<Rightarrow> encoding \<Rightarrow> bool" where
  "validEncoded s mode \<longleftrightarrow>
     list_all (\<lambda>c. c \<in> set ''!$&'' \<union> {CHR 0x27} \<union> set ''()*+,;=:@[]%'' \<or> \<not> shouldEscape c mode) s"

definition EscapedPath :: "url \<Rightarrow> string" where
  "EscapedPath u =
     (if u_RawPath u \<noteq> [] \<and> validEncoded (u_RawPath u) encodePath
         \<and> unescape (u_RawPath u) encodePath = Some (u_Path u)
      then u_RawPath u
      else if u_Path u = ''*'' then ''*''
      else escape (u_Path u) encodePath)"

definition EscapedFragment :: "url \<Rightarrow> string" where
  "EscapedFragment u =
     (if u_RawFragment u \<noteq> [] \<and> validEncoded (u_RawFragment u) encodeFragment
         \<and> unescape (u_RawFragment u) encodeFragment = Some (u_Fragment u)
      then u_RawFragment u
      else escape (u_Fragment u) encodeFragment)"

definition Hostname :: "url \<Rightarrow> string" where
  "Hostname u =
     (let host = (case cut_last (u_Host u) (CHR '':'') of
            Some (h, port) \<Rightarrow> if validOptionalPort (CHR '':'' # port) then h else u_Host u
          | None \<Rightarrow> u_Host u)
      in if HasPrefix host ''['' \<and> HasSuffix host '']'' then take (length host - 2) (drop 1 host) else host)"

definition userinfo_String :: "string \<times> string option \<Rightarrow> string" where
  "userinfo_String ui =
     escape (fst ui) encodeUserPassword
     @ (case snd ui of None \<Rightarrow> [] | Some pw \<Rightarrow> CHR '':'' # escape pw encodeUserPassword)"

definition url_prefix_String :: "url \<Rightarrow> string" where
  "url_prefix_String u =
     (if u_Scheme u \<noteq> [] then u_Scheme u @ '':'' else [])
     @ (if u_Opaque u \<noteq> [] then u_Opaque u
        else
          (let auth =
             (if u_Scheme u \<noteq> [] \<or> u_Host u \<noteq> [] \<or> u_User u \<noteq> None then
                if u_OmitHost u \<and> u_Host u = [] \<and> u_User u = None then []
                else (if u_Host u \<noteq> [] \<or> u_Path u \<noteq> [] \<or> u_User u \<noteq> None then ''//'' else [])
                  @ (case u_User u of None \<Rightarrow> [] | Some ui \<Rightarrow> userinfo_String ui @ ''@'')
                  @ (if u_Host u \<noteq> [] then escape (u_Host u) encodeHost else [])
              else []);
             path = EscapedPath u
           in auth
              @ (if path \<noteq> [] \<and> hd path \<noteq> CHR ''/'' \<and> u_Host u \<noteq> [] then ''/'' else [])
              @ (if u_Scheme u = [] \<and> auth = [] \<and> contains_char (fst (Cut path (CHR ''/''))) (CHR '':'')
                   \<and> \<not> (path \<noteq> [] \<and> hd path \<noteq> CHR ''/'' \<and> u_Host u \<noteq> [])
                 then ''./'' else [])
              @ path))"

definition url_String :: "url \<Rightarrow> string" where
  "url_String u =
     url_prefix_String u
     @ (if u_ForceQuery u \<or> u_RawQuery u \<noteq> [] then CHR ''?'' # u_RawQuery u else [])
     @ (if u_Fragment u \<noteq> [] then CHR ''#'' # EscapedFragment u else [])"

section \<open>Query parameters\<close>

text \<open>\<^verbatim>\<open>url.Values\<close>: each key with its values; the keys are distinct.\<close>

type_synonym url_values = "(string \<times> string list) list"

fun values_Add :: "url_values \<Rightarrow> string \<Rightarrow> string \<Rightarrow> url_values" where
  "values_Add [] k v = [(k, [v])]"
| "values_Add ((k', vs) # m) k v =
     (if k' = k then (k', vs @ [v]) # m else (k', vs) # values_Add m k v)"

fun values_Set :: "url_values \<Rightarrow> string \<Rightarrow> string \<Rightarrow> url_values" where
  "values_Set [] k v = [(k, [v])]"
| "values_Set ((k', vs) # m) k v =
     (if k' = k then (k', [v]) # m else (k', vs) # values_Set m k v)"

definition values_Get :: "url_values \<Rightarrow> string \<Rightarrow> string" where
  "values_Get m k = (case map_of m k of Some (v # vs) \<Rightarrow> v | _ \<Rightarrow> [])"

definition values_Has :: "url_values \<Rightarrow> string \<Rightarrow> bool" where
  "values_Has m k \<longleftrightarrow> map_of m k \<noteq> None"

definition parse_pair :: "string \<Rightarrow> (string \<times> string) option" where
  "parse_pair p =
     (if contains_char p (CHR '';'') \<or> p = [] then None
      else (case Cut p (CHR ''='') of
          (k, v, _) \<Rightarrow>
            Option.bind (QueryUnescape k) (\<lambda>k'. map_option (\<lambda>v'. (k', v')) (QueryUnescape v))))"

definition add_pair :: "string \<Rightarrow> url_values \<Rightarrow> url_values" where
  "add_pair p m = (case parse_pair p of None \<Rightarrow> m | Some (k, v) \<Rightarrow> values_Add m k v)"

definition ParseQuery :: "string \<Rightarrow> url_values" where
  "ParseQuery q = fold add_pair (Split q (CHR ''&'')) []"

definition encode_pair :: "string \<Rightarrow> string \<Rightarrow> string" where
  "encode_pair k v = QueryEscape k @ CHR ''='' # QueryEscape v"

definition values_Encode :: "url_values \<Rightarrow> string" where
  "values_Encode m =
     Join (concat (map (\<lambda>(k, vs). map (encode_pair k) vs) (sort_key fst m))) ''&''"

section \<open>Encoding query parameters is undone by parsing them\<close>

lemma upperhex_table:
  "\<forall>n\<in>{0, 1, 2, 3, 4, 5, 6, 7, 8, 9, 10, 11, 12, 13, 14, 15}.
     ishex (upperhex n) \<and> unhex (upperhex n) = n \<and> is_alnum (upperhex n)"
  by (simp add: upperhex_def ishex_def unhex_def is_digit_def is_alnum_def is_upper_def is_lower_def)

lemma upperhex_correct:
  assumes "n < 16"
  shows "ishex (upperhex n)" "unhex (upperhex n) = n" "is_alnum (upperhex n)"
proof -
  have "n \<in> {0, 1, 2, 3, 4, 5, 6, 7, 8, 9, 10, 11, 12, 13, 14, 15}"
    using assms unfolding insert_iff empty_iff by presburger
  from bspec [OF upperhex_table this]
  show "ishex (upperhex n)" "unhex (upperhex n) = n" "is_alnum (upperhex n)" by blast+
qed

lemma of_char_less_256 [simp]: "(of_char c :: nat) < 256"
  using of_char_mod_256 [of c, where 'a = nat] by (metis mod_less_divisor zero_less_numeral)

lemma char_of_nibbles: "char_of (of_char c div 16 * 16 + of_char c mod 16 :: nat) = c"
  by simp

lemma percent_ok_query: "m < 16 \<Longrightarrow> n < 16 \<Longrightarrow> percent_ok encodeQueryComponent (upperhex m) (upperhex n)"
  by (simp add: percent_ok_def upperhex_correct)

lemma QueryUnescape_QueryEscape: "QueryUnescape (QueryEscape s) = Some s"
  unfolding QueryUnescape_def QueryEscape_def
proof (induction s)
  case (Cons c cs)
  have "(of_char c :: nat) div 16 < 16" by (simp add: less_mult_imp_div_less)
  moreover have "\<not> shouldEscape c encodeQueryComponent \<Longrightarrow> c \<noteq> CHR ''%'' \<and> c \<noteq> CHR ''+''"
    by (auto simp: shouldEscape_def is_alnum_def is_lower_def is_upper_def is_digit_def split: if_splits)
  ultimately show ?case
    using Cons by (auto simp: percent_ok_query upperhex_correct plain_ok_def)
qed simp

lemma QueryEscape_chars:
  "c \<in> set (QueryEscape s) \<Longrightarrow> is_alnum c \<or> c \<in> set ''-_.~%+''"
  unfolding QueryEscape_def
proof (induction s)
  case (Cons d ds)
  have "(of_char d :: nat) div 16 < 16" by (simp add: less_mult_imp_div_less)
  moreover have "\<not> shouldEscape d encodeQueryComponent \<Longrightarrow> is_alnum d \<or> d \<in> set ''-_.~''"
    by (auto simp: shouldEscape_def split: if_splits)
  ultimately show ?case
    using Cons by (auto simp: upperhex_correct split: if_splits)
qed simp

lemma QueryEscape_no_sep:
  "CHR ''&'' \<notin> set (QueryEscape s)" "CHR ''='' \<notin> set (QueryEscape s)"
  "CHR '';'' \<notin> set (QueryEscape s)" "CHR ''#'' \<notin> set (QueryEscape s)"
  by (auto dest!: QueryEscape_chars simp: is_alnum_def is_lower_def is_upper_def is_digit_def)

lemma parse_pair_encode_pair: "parse_pair (encode_pair k v) = Some (k, v)"
  by (simp add: parse_pair_def encode_pair_def contains_char_def QueryEscape_no_sep Cut_found
      QueryUnescape_QueryEscape)

lemma Split_append_sep: "sep \<notin> set w \<Longrightarrow> Split (w @ sep # s) sep = w # Split s sep"
  by (induction w) auto

lemma Split_no_sep: "sep \<notin> set w \<Longrightarrow> Split w sep = [w]"
  by (induction w) auto

lemma Split_Join: "ws \<noteq> [] \<Longrightarrow> \<forall>w\<in>set ws. sep \<notin> set w \<Longrightarrow> Split (Join ws [sep]) sep = ws"
proof (induction ws)
  case (Cons w ws)
  then show ?case by (cases ws) (auto simp: Split_no_sep Split_append_sep)
qed simp

definition flat_pairs :: "url_values \<Rightarrow> (string \<times> string) list" where
  "flat_pairs m = concat (map (\<lambda>(k, vs). map (Pair k) vs) m)"

lemma map_of_values_Add:
  "map_of (values_Add m k v) =
     (map_of m)(k \<mapsto> (case map_of m k of None \<Rightarrow> [] | Some vs \<Rightarrow> vs) @ [v])"
  by (induction m k v rule: values_Add.induct) auto

lemma map_of_values_Set: "map_of (values_Set m k v) = (map_of m)(k \<mapsto> [v])"
  by (induction m k v rule: values_Set.induct) auto

lemma keys_values_Set: "fst ` set (values_Set m k v) = insert k (fst ` set m)"
  by (induction m k v rule: values_Set.induct) auto

lemma distinct_values_Set:
  "distinct (map fst m) \<Longrightarrow> distinct (map fst (values_Set m k v))"
proof (induction m k v rule: values_Set.induct)
  case (2 k' vs m k v)
  then show ?case using keys_values_Set [of m k v] by auto
qed simp

lemma nonempty_values_Set:
  "[] \<notin> snd ` set m \<Longrightarrow> [] \<notin> snd ` set (values_Set m k v)"
  by (induction m k v rule: values_Set.induct) auto

lemma map_of_add_pairs:
  "map_of (fold (\<lambda>(k, v) m. values_Add m k v) ps m) k =
     (let vs = map snd (filter (\<lambda>p. fst p = k) ps) in
      if vs = [] then map_of m k
      else Some ((case map_of m k of None \<Rightarrow> [] | Some us \<Rightarrow> us) @ vs))"
  by (induction ps arbitrary: m) (auto simp: map_of_values_Add Let_def split: option.splits)

lemma filter_flat_pairs:
  "distinct (map fst m) \<Longrightarrow>
     map snd (filter (\<lambda>p. fst p = k) (flat_pairs m)) = (case map_of m k of None \<Rightarrow> [] | Some vs \<Rightarrow> vs)"
proof (induction m)
  case (Cons kv m)
  obtain k' vs where kv: "kv = (k', vs)" by (cases kv)
  have "map snd (filter (\<lambda>p. fst p = k) (map (Pair k') vs)) = (if k' = k then vs else [])"
    by (induction vs) auto
  moreover have "map_of m k' = None" using Cons.prems kv by (simp add: map_of_eq_None_iff)
  ultimately show ?case using Cons kv by (auto simp: flat_pairs_def)
qed (simp add: flat_pairs_def)

lemma fold_add_pair_encoded:
  "fold add_pair (map (\<lambda>(k, v). encode_pair k v) ps) m = fold (\<lambda>(k, v) m. values_Add m k v) ps m"
  by (induction ps arbitrary: m) (auto simp: add_pair_def parse_pair_encode_pair)

lemma values_Encode_alt:
  "values_Encode m = Join (map (\<lambda>(k, v). encode_pair k v) (flat_pairs (sort_key fst m))) ''&''"
  by (auto simp: values_Encode_def flat_pairs_def map_concat comp_def split_def)

lemma ParseQuery_Join:
  "ParseQuery (Join (map (\<lambda>(k, v). encode_pair k v) ps) ''&'') = fold (\<lambda>(k, v) m. values_Add m k v) ps []"
proof (cases "ps = []")
  case True
  then show ?thesis by (simp add: ParseQuery_def add_pair_def parse_pair_def)
next
  case False
  have "\<forall>w\<in>set (map (\<lambda>(k, v). encode_pair k v) ps). CHR ''&'' \<notin> set w"
    by (auto simp: encode_pair_def QueryEscape_no_sep)
  with False show ?thesis
    by (simp add: ParseQuery_def Split_Join fold_add_pair_encoded)
qed

lemma ParseQuery_values_Encode:
  assumes "distinct (map fst m)" and "[] \<notin> snd ` set m"
  shows "map_of (ParseQuery (values_Encode m)) = map_of m"
proof
  fix k
  have d: "distinct (map fst (sort_key fst m))" using assms(1) by (simp add: distinct_map)
  then have same: "map_of (sort_key fst m) = map_of m"
    by (intro map_of_inject_set [THEN iffD2]) (use assms(1) in auto)
  have "map_of m k \<noteq> Some []" using assms(2) by (force dest: map_of_SomeD)
  then show "map_of (ParseQuery (values_Encode m)) k = map_of m k"
    using filter_flat_pairs [OF d, of k]
    by (auto simp: values_Encode_alt ParseQuery_Join map_of_add_pairs same Let_def split: option.splits)
qed

lemma distinct_values_Add: "distinct (map fst m) \<Longrightarrow> distinct (map fst (values_Add m k v))"
proof (induction m k v rule: values_Add.induct)
  case (2 k' vs m k v)
  have "fst ` set (values_Add m k v) = insert k (fst ` set m)"
    by (induction m k v rule: values_Add.induct) auto
  with 2 show ?case by auto
qed simp

lemma nonempty_values_Add:
  "[] \<notin> snd ` set m \<Longrightarrow> [] \<notin> snd ` set (values_Add m k v)"
  by (induction m k v rule: values_Add.induct) auto

lemma ParseQuery_wf:
  "distinct (map fst (ParseQuery q))" "[] \<notin> snd ` set (ParseQuery q)"
proof -
  have "distinct (map fst (fold add_pair ps m)) \<and> ([] \<notin> snd ` set (fold add_pair ps m))"
    if "distinct (map fst m) \<and> ([] \<notin> snd ` set m)" for ps m
    using that
  proof (induction ps arbitrary: m)
    case (Cons p ps)
    have "distinct (map fst (add_pair p m)) \<and> ([] \<notin> snd ` set (add_pair p m))"
      using Cons.prems
      by (simp add: add_pair_def distinct_values_Add nonempty_values_Add split: option.split)
    then show ?case using Cons.IH by simp
  qed simp
  from this [of "[]"] show "distinct (map fst (ParseQuery q))" "[] \<notin> snd ` set (ParseQuery q)"
    by (simp_all add: ParseQuery_def)
qed

section \<open>A parsed host has no zero byte\<close>

text \<open>
  Unescaping a host never makes a zero byte: an escape in host mode stands for a byte of at
  least 0x80 or for the percent sign, and in a zone only for bytes that need no escaping.
\<close>

lemma unhex_bound: "ishex c \<Longrightarrow> unhex c < 16"
  by (auto simp: ishex_def unhex_def is_digit_def)

lemma shouldEscape_nul: "shouldEscape (CHR 0x00) encodeHost"
  by (simp add: shouldEscape_def is_alnum_def is_lower_def is_upper_def is_digit_def)

lemma percent_ok_no_nul:
  assumes "percent_ok mode a b" and "mode = encodeHost \<or> mode = encodeZone"
  shows "char_of (unhex a * 16 + unhex b) \<noteq> CHR 0x00"
proof
  let ?n = "unhex a * 16 + unhex b"
  assume nul: "char_of ?n = CHR 0x00"
  have hex: "ishex a" "ishex b" using assms(1) by (auto simp: percent_ok_def)
  then have "?n < 256" using unhex_bound [of a] unhex_bound [of b] by linarith
  moreover have "of_char (char_of ?n) = ?n mod 256" by (rule of_char_of)
  ultimately have "?n = 0" using nul by simp
  then have "unhex a = 0" "[a, b] \<noteq> ''25''" by (auto simp: unhex_def is_digit_def)
  with assms show False
    unfolding percent_ok_def nul using shouldEscape_nul by auto
qed

lemma unescape_no_nul:
  "unescape s mode = Some t \<Longrightarrow> mode = encodeHost \<or> mode = encodeZone \<Longrightarrow>
     CHR 0x00 \<notin> set s \<Longrightarrow> CHR 0x00 \<notin> set t"
proof (induction s mode arbitrary: t rule: unescape.induct)
  case (2 c cs mode)
  show ?case
  proof (cases "c = CHR ''%''")
    case True
    with 2(4) obtain a b ds t' where cs: "cs = a # b # ds" "percent_ok mode a b"
      and t: "unescape ds mode = Some t'" "t = char_of (unhex a * 16 + unhex b) # t'"
      by (auto split: list.splits if_splits)
    from 2(1) [OF True cs(1) refl cs(2) t(1) 2(5)] 2(6) cs(1) have "CHR 0x00 \<notin> set t'" by simp
    with t(2) percent_ok_no_nul [OF cs(2) 2(5)] show ?thesis by auto
  next
    case False
    with 2 show ?thesis by (auto split: if_splits)
  qed
qed simp

lemma cut_last_append: "cut_last s c = Some (a, b) \<Longrightarrow> s = a @ c # b"
  by (auto simp: cut_last_def rev_swap split: prod.splits bool.splits dest!: Cut_SomeD)

lemma split_at_append: "split_at p s = Some (a, b) \<Longrightarrow> s = a @ b"
  by (induction p s arbitrary: a rule: split_at.induct) (auto split: if_splits)

lemma Cut_subset: "Cut s sep = (a, b, f) \<Longrightarrow> set a \<subseteq> set s \<and> set b \<subseteq> set s"
  by (induction s arbitrary: a b f) (auto split: if_splits prod.splits)

lemma parseHost_no_nul:
  assumes "parseHost host = Some h" and "CHR 0x00 \<notin> set host"
  shows "CHR 0x00 \<notin> set h"
proof (cases "unescape host encodeHost = Some h")
  case True
  then show ?thesis using unescape_no_nul assms(2) by blast
next
  case False
  with assms(1) obtain bef port hh zone h1 h2 h3 where
    cut: "cut_last host (CHR '']'') = Some (bef, port)" and sp: "split_at ''%25'' bef = Some (hh, zone)"
    and u: "unescape hh encodeHost = Some h1" "unescape zone encodeZone = Some h2"
      "unescape (CHR '']'' # port) encodeHost = Some h3" and h: "h = h1 @ h2 @ h3"
    by (auto simp: parseHost_def bind_eq_Some_conv simp del: unescape.simps split: if_splits option.splits prod.splits)
  have "host = (hh @ zone) @ CHR '']'' # port"
    using cut_last_append [OF cut] split_at_append [OF sp] by simp
  with assms(2) have "CHR 0x00 \<notin> set hh" "CHR 0x00 \<notin> set zone" "CHR 0x00 \<notin> set (CHR '']'' # port)" by auto
  with u h show ?thesis using unescape_no_nul by (metis Un_iff set_append)
qed

lemma parseAuthority_no_nul:
  assumes "parseAuthority a = Some (user, h)" and "CHR 0x00 \<notin> set a"
  shows "CHR 0x00 \<notin> set h"
proof (cases "cut_last a (CHR ''@'')")
  case None
  with assms show ?thesis by (auto simp: parseAuthority_def dest: parseHost_no_nul)
next
  case (Some uh)
  obtain ui hp where uh: "uh = (ui, hp)" by (cases uh)
  with Some assms(1) have "parseHost hp = Some h"
    by (auto simp: parseAuthority_def bind_eq_Some_conv split: if_splits prod.splits)
  moreover have "CHR 0x00 \<notin> set hp" using cut_last_append [OF Some [unfolded uh]] assms(2) by simp
  ultimately show ?thesis by (rule parseHost_no_nul)
qed

lemma getScheme_from_subset:
  "getScheme_from raw acc s = Some (sch, rest) \<Longrightarrow> rest = raw \<or> set rest \<subseteq> set s"
  by (induction raw acc s rule: getScheme_from.induct) (auto split: if_splits)

lemma cut_query_facts:
  assumes "cut_query u rest0 = (u', rest)"
  shows "set rest \<subseteq> set rest0" and "u_Host u' = u_Host u"
proof -
  show "set rest \<subseteq> set rest0"
    using assms Cut_subset [of rest0 "CHR ''?''"] set_take_subset [of "length rest0 - 1" rest0]
    by (auto simp: cut_query_def split: if_splits prod.splits)
  show "u_Host u' = u_Host u"
    using assms by (auto simp: cut_query_def split: if_splits prod.splits)
qed

lemma cut_authority_subset: "cut_authority rest = (a, r) \<Longrightarrow> set a \<subseteq> set rest"
  using Cut_subset [of "drop 2 rest" "CHR ''/''"] set_drop_subset [of 2 rest]
  by (auto simp: cut_authority_def split: prod.splits bool.splits)

lemma setPath_Host: "setPath u p = Some u' \<Longrightarrow> u_Host u' = u_Host u"
  by (auto simp: setPath_def)

lemma parse_hier_no_nul:
  assumes "parse_hier u rest = Some u'" and "CHR 0x00 \<notin> set rest" and "u_Host u = []"
  shows "CHR 0x00 \<notin> set (u_Host u')"
proof (cases "(u_Scheme u \<noteq> [] \<or> \<not> HasPrefix rest ''///'') \<and> HasPrefix rest ''//''")
  case True
  obtain a r where ar: "cut_authority rest = (a, r)" by (cases "cut_authority rest")
  with True assms(1) obtain user h where "parseAuthority a = Some (user, h)" "u_Host u' = h"
    by (auto simp: parse_hier_def bind_eq_Some_conv dest!: setPath_Host)
  moreover have "CHR 0x00 \<notin> set a" using cut_authority_subset [OF ar] assms(2) by blast
  ultimately show ?thesis using parseAuthority_no_nul by blast
next
  case False
  with assms show ?thesis by (auto simp: parse_hier_def dest!: setPath_Host split: if_splits)
qed

lemma parse_nofrag_no_nul:
  assumes "parse_nofrag raw = Some u"
  shows "CHR 0x00 \<notin> set (u_Host u)"
proof (cases "raw = ''*''")
  case True
  with assms show ?thesis by (auto simp: parse_nofrag_def zero_url_def split: if_splits)
next
  case False
  from assms have raw: "CHR 0x00 \<notin> set raw"
    by (auto simp: parse_nofrag_def contains_ctl_def list_ex_iff split: if_splits)
  from assms False obtain scheme rest0 where gs: "getScheme raw = Some (scheme, rest0)"
    by (auto simp: parse_nofrag_def bind_eq_Some_conv split: if_splits)
  obtain u0 rest where cq: "cut_query (zero_url\<lparr>u_Scheme := map lower_char scheme\<rparr>) rest0 = (u0, rest)"
    by (cases "cut_query (zero_url\<lparr>u_Scheme := map lower_char scheme\<rparr>) rest0")
  have "set rest \<subseteq> set raw"
    using getScheme_from_subset [of raw "[]" raw] gs cut_query_facts(1) [OF cq] by (auto simp: getScheme_def)
  then have rest: "CHR 0x00 \<notin> set rest" using raw by blast
  have host: "u_Host u0 = []" using cut_query_facts(2) [OF cq] by (simp add: zero_url_def)
  from assms False gs cq have "u = u0\<lparr>u_Opaque := rest\<rparr> \<or> parse_hier u0 rest = Some u"
    by (auto simp: parse_nofrag_def split: if_splits)
  then show ?thesis using parse_hier_no_nul [OF _ rest host] host by auto
qed

lemma url_Host_no_nul: "url_Parse raw = Some u \<Longrightarrow> CHR 0x00 \<notin> set (u_Host u)"
  using parse_nofrag_no_nul
  by (fastforce simp: url_Parse_def setFragment_def bind_eq_Some_conv split: prod.splits if_splits)

end
