(* ===== verification/Go_Encoding.thy ===== *)
theory Go_Encoding
  imports Go_Strings
begin

text \<open>
  The encodings and digests of Go's standard library that the programs use: \<^verbatim>\<open>encoding/base64\<close>
  (the unpadded URL alphabet, and the padded standard alphabet behind HTTP Basic), \<^verbatim>\<open>crypto/sha256\<close>
  and \<^verbatim>\<open>crypto/hmac\<close>, over byte strings. Base64 is shown to round trip.
\<close>

section \<open>Base64\<close>

definition url_alphabet :: string where
  "url_alphabet = ''ABCDEFGHIJKLMNOPQRSTUVWXYZabcdefghijklmnopqrstuvwxyz0123456789-_''"

definition std_alphabet :: string where
  "std_alphabet = ''ABCDEFGHIJKLMNOPQRSTUVWXYZabcdefghijklmnopqrstuvwxyz0123456789+/''"

fun sextets :: "int list \<Rightarrow> int list" where
  "sextets [] = []"
| "sextets [a] = [a div 4, a mod 4 * 16]"
| "sextets [a, b] = [a div 4, a mod 4 * 16 + b div 16, b mod 16 * 4]"
| "sextets (a # b # c # r) =
     a div 4 # (a mod 4 * 16 + b div 16) # (b mod 16 * 4 + c div 64) # c mod 64 # sextets r"

text \<open>The bytes of a list of sextets; bits left over at the end are dropped, one sextet alone is an error.\<close>

fun octets :: "int list \<Rightarrow> int list option" where
  "octets [] = Some []"
| "octets [a] = None"
| "octets [a, b] = Some [a * 4 + b div 16]"
| "octets [a, b, c] = Some [a * 4 + b div 16, b mod 16 * 16 + c div 4]"
| "octets (a # b # c # d # r) =
     map_option (\<lambda>bs. (a * 4 + b div 16) # (b mod 16 * 16 + c div 4) # (c mod 4 * 64 + d) # bs) (octets r)"

definition bytes_of :: "string \<Rightarrow> int list" where
  "bytes_of s = map of_char s"

definition string_of :: "int list \<Rightarrow> string" where
  "string_of bs = map char_of bs"

definition sextet_of :: "string \<Rightarrow> char \<Rightarrow> int option" where
  "sextet_of alphabet c = map_of (zip alphabet [0..63]) c"

text \<open>\<^verbatim>\<open>RawURLEncoding.EncodeToString\<close> and \<^verbatim>\<open>DecodeString\<close>, which skips line breaks.\<close>

definition b64_encode :: "string \<Rightarrow> string" where
  "b64_encode s = map (\<lambda>n. url_alphabet ! nat n) (sextets (bytes_of s))"

definition drop_newlines :: "string \<Rightarrow> string" where
  "drop_newlines s = filter (\<lambda>c. c \<noteq> CHR 0x0A \<and> c \<noteq> CHR 0x0D) s"

definition b64_decode :: "string \<Rightarrow> string option" where
  "b64_decode s =
     (let cs = map (sextet_of url_alphabet) (drop_newlines s) in
      if None \<in> set cs then None else map_option string_of (octets (map the cs)))"

text \<open>\<^verbatim>\<open>StdEncoding.DecodeString\<close>: whole quanta, the last one padded with one or two equals signs.\<close>

definition b64_std_decode :: "string \<Rightarrow> string option" where
  "b64_std_decode s =
     (let t = drop_newlines s;
          u = (if HasSuffix t ''=='' then take (length t - 2) t
               else if HasSuffix t ''='' then take (length t - 1) t else t);
          cs = map (sextet_of std_alphabet) u
      in if length t mod 4 \<noteq> 0 \<or> None \<in> set cs then None
         else map_option string_of (octets (map the cs)))"

definition byte_list :: "int list \<Rightarrow> bool" where
  "byte_list bs \<longleftrightarrow> (\<forall>b\<in>set bs. 0 \<le> b \<and> b < 256)"

lemma byte_list_bytes_of: "byte_list (bytes_of s)"
proof -
  have "0 \<le> (of_char c :: int) \<and> (of_char c :: int) < 256" for c
    using of_char_mod_256 [of c, where 'a = int] pos_mod_bound [of 256 "of_char c :: int"]
      pos_mod_sign [of 256 "of_char c :: int"] by simp
  then show ?thesis by (auto simp: byte_list_def bytes_of_def)
qed

lemma pack_div: "0 \<le> y \<Longrightarrow> y < n \<Longrightarrow> (x * n + y) div n = (x :: int)"
  by (simp add: div_add1_eq)

lemma pack_mod: "0 \<le> y \<Longrightarrow> y < n \<Longrightarrow> (x * n + y) mod n = (y :: int)"
  by simp

lemma pack_bound:
  fixes x y m n k :: int
  assumes "0 \<le> x" "x < m" "0 \<le> y" "y < n" "m * n \<le> k"
  shows "0 \<le> x * n + y \<and> x * n + y < k"
proof -
  have "x * n + y < (x + 1) * n" using assms(4) by (simp add: algebra_simps)
  also have "\<dots> \<le> m * n" using assms by (intro mult_right_mono) auto
  finally show ?thesis using assms by auto
qed

lemma byte_divs:
  fixes b :: int
  assumes "0 \<le> b" and "b < 256"
  shows "0 \<le> b div 4" "b div 4 < 64" "0 \<le> b div 16" "b div 16 < 16" "0 \<le> b div 64" "b div 64 < 4"
  using assms by linarith+

text \<open>One quantum: the second and third sextet are made of two bytes, and taken apart again.\<close>

lemma sextet_2:
  assumes "0 \<le> b" "b < 256"
  shows "0 \<le> a mod 4 * 16 + b div 16" "a mod 4 * 16 + b div 16 < 64"
    "(a mod 4 * 16 + b div 16) div 16 = a mod 4" "(a mod 4 * 16 + b div 16) mod 16 = b div (16 :: int)"
proof -
  have m: "0 \<le> a mod 4" "a mod 4 < 4" by simp_all
  note d = byte_divs(3,4) [OF assms]
  have "(4 :: int) * 16 \<le> 64" by simp
  from pack_bound [OF m d this]
  show "0 \<le> a mod 4 * 16 + b div 16" "a mod 4 * 16 + b div 16 < 64" by (rule conjunct1, rule conjunct2)
  show "(a mod 4 * 16 + b div 16) div 16 = a mod 4" by (rule pack_div [OF d])
  show "(a mod 4 * 16 + b div 16) mod 16 = b div 16" by (rule pack_mod [OF d])
qed

lemma sextet_3:
  assumes "0 \<le> c" "c < 256"
  shows "0 \<le> b mod 16 * 4 + c div 64" "b mod 16 * 4 + c div 64 < 64"
    "(b mod 16 * 4 + c div 64) div 4 = b mod 16" "(b mod 16 * 4 + c div 64) mod 4 = c div (64 :: int)"
proof -
  have m: "0 \<le> b mod 16" "b mod 16 < 16" by simp_all
  note d = byte_divs(5,6) [OF assms]
  have "(16 :: int) * 4 \<le> 64" by simp
  from pack_bound [OF m d this]
  show "0 \<le> b mod 16 * 4 + c div 64" "b mod 16 * 4 + c div 64 < 64" by (rule conjunct1, rule conjunct2)
  show "(b mod 16 * 4 + c div 64) div 4 = b mod 16" by (rule pack_div [OF d])
  show "(b mod 16 * 4 + c div 64) mod 4 = c div 64" by (rule pack_mod [OF d])
qed

lemma byte_list_simps [simp]:
  "byte_list []" "byte_list (b # bs) \<longleftrightarrow> 0 \<le> b \<and> b < 256 \<and> byte_list bs"
  by (auto simp: byte_list_def)

lemma sextets_bound: "byte_list bs \<Longrightarrow> n \<in> set (sextets bs) \<Longrightarrow> 0 \<le> n \<and> n < 64"
proof (induction bs rule: sextets.induct)
  case (2 a)
  have a: "0 \<le> a" "a < 256" using 2 by simp_all
  have "n = a div 4 \<or> n = a mod 4 * 16 + 0 div 16" using 2 by simp
  then show ?case using byte_divs(1,2) [OF a] sextet_2(1,2) [of 0 a] by (elim disjE) simp_all
next
  case (3 a b)
  have ab: "0 \<le> a" "a < 256" "0 \<le> b" "b < 256" using 3 by simp_all
  have "n = a div 4 \<or> n = a mod 4 * 16 + b div 16 \<or> n = b mod 16 * 4 + 0 div 64" using 3 by simp
  then show ?case
    using byte_divs(1,2) [OF ab(1,2)] sextet_2(1,2) [OF ab(3,4)] sextet_3(1,2) [of 0 b]
    by (elim disjE) simp_all
next
  case (4 a b c r)
  have abc: "0 \<le> a" "a < 256" "0 \<le> b" "b < 256" "0 \<le> c" "c < 256" and r: "byte_list r"
    using 4(2) by simp_all
  from 4(3) have "n = a div 4 \<or> n = a mod 4 * 16 + b div 16 \<or> n = b mod 16 * 4 + c div 64
      \<or> n = c mod 64 \<or> n \<in> set (sextets r)"
    by (simp only: sextets.simps list.set insert_iff)
  moreover have "0 \<le> c mod 64 \<and> c mod 64 < 64" by simp
  ultimately show ?case
    using "4.IH" [OF r] byte_divs(1,2) [OF abc(1,2)] sextet_2(1,2) [OF abc(3,4)]
      sextet_3(1,2) [OF abc(5,6)] by (elim disjE) (simp_all only:)
qed simp

lemma octets_sextets: "byte_list bs \<Longrightarrow> octets (sextets bs) = Some bs"
proof (induction bs rule: sextets.induct)
  case (2 a)
  show ?case using sextet_2(3) [of 0 a]
    by (simp only: sextets.simps octets.simps div_0 add_0_right div_mult_mod_eq)
next
  case (3 a b)
  then have b: "0 \<le> b" "b < 256" by simp_all
  have "b mod 16 * 4 div 4 = b mod 16" by (rule nonzero_mult_div_cancel_right) simp
  then show ?case
    by (simp only: sextets.simps octets.simps sextet_2(3,4) [OF b] div_mult_mod_eq)
next
  case (4 a b c r)
  then have bc: "0 \<le> b" "b < 256" "0 \<le> c" "c < 256" and r: "byte_list r" by simp_all
  show ?case
    by (simp only: sextets.simps octets.simps "4.IH" [OF r] sextet_2(3,4) [OF bc(1,2)]
        sextet_3(3,4) [OF bc(3,4)] div_mult_mod_eq option.map)
qed simp

lemma length_url_alphabet: "length url_alphabet = 64"
  by (simp add: url_alphabet_def)

lemma distinct_url_alphabet: "distinct url_alphabet"
  by (simp add: url_alphabet_def)

lemma alphabet_lookup:
  assumes "0 \<le> n" and "n < 64"
  shows "sextet_of url_alphabet (url_alphabet ! nat n) = Some n"
proof -
  have len: "length url_alphabet = length [0..63]" by (simp add: length_url_alphabet)
  have "map_of (zip url_alphabet [0..63]) (url_alphabet ! nat n) = Some ([0..63] ! nat n)"
    by (rule map_of_zip_nth [OF len distinct_url_alphabet]) (use assms in \<open>simp add: length_url_alphabet\<close>)
  with assms show ?thesis by (simp add: sextet_of_def)
qed

lemma alphabet_chars: "0 \<le> n \<Longrightarrow> n < 64 \<Longrightarrow> url_alphabet ! nat n \<in> set url_alphabet"
  by (intro nth_mem) (simp add: length_url_alphabet)

lemma url_alphabet_no_newline: "CHR 0x0A \<notin> set url_alphabet" "CHR 0x0D \<notin> set url_alphabet"
  "CHR ''.'' \<notin> set url_alphabet"
  by (simp_all add: url_alphabet_def)

lemma b64_encode_chars: "set (b64_encode s) \<subseteq> set url_alphabet"
  using sextets_bound [OF byte_list_bytes_of] alphabet_chars by (auto simp: b64_encode_def)

lemma b64_decode_encode: "b64_decode (b64_encode s) = Some s"
proof -
  have "drop_newlines (b64_encode s) = b64_encode s"
    using b64_encode_chars [of s] url_alphabet_no_newline
    by (auto simp: drop_newlines_def filter_id_conv)
  moreover have "map (sextet_of url_alphabet) (b64_encode s) = map Some (sextets (bytes_of s))"
    using sextets_bound [OF byte_list_bytes_of] by (simp add: b64_encode_def alphabet_lookup)
  ultimately show ?thesis
    using octets_sextets [OF byte_list_bytes_of [of s]]
    by (auto simp: b64_decode_def comp_def Let_def string_of_def bytes_of_def)
qed

lemma b64_encode_inject: "b64_encode s = b64_encode t \<longleftrightarrow> s = t"
  by (metis b64_decode_encode option.inject)

text \<open>Four characters for every three bytes, rounded up: 43 characters for 32 bytes.\<close>

lemma length_sextets: "length (sextets bs) = (4 * length bs + 2) div 3"
  by (induction bs rule: sextets.induct) auto

lemma length_b64_encode: "length (b64_encode s) = (4 * length s + 2) div 3"
  by (simp add: b64_encode_def length_sextets bytes_of_def)

section \<open>SHA-256 and HMAC\<close>

unbundle bit_operations_syntax

type_synonym w32 = "32 word"

definition sha_K :: "w32 list" where
  "sha_K = [1116352408, 1899447441, 3049323471, 3921009573, 961987163, 1508970993, 2453635748, 2870763221,
     3624381080, 310598401, 607225278, 1426881987, 1925078388, 2162078206, 2614888103, 3248222580,
     3835390401, 4022224774, 264347078, 604807628, 770255983, 1249150122, 1555081692, 1996064986,
     2554220882, 2821834349, 2952996808, 3210313671, 3336571891, 3584528711, 113926993, 338241895,
     666307205, 773529912, 1294757372, 1396182291, 1695183700, 1986661051, 2177026350, 2456956037,
     2730485921, 2820302411, 3259730800, 3345764771, 3516065817, 3600352804, 4094571909, 275423344,
     430227734, 506948616, 659060556, 883997877, 958139571, 1322822218, 1537002063, 1747873779,
     1955562222, 2024104815, 2227730452, 2361852424, 2428436474, 2756734187, 3204031479, 3329325298]"

definition sha_init :: "w32 list" where
  "sha_init = [1779033703, 3144134277, 1013904242, 2773480762, 1359893119, 2600822924, 528734635, 1541459225]"

definition rotr :: "nat \<Rightarrow> w32 \<Rightarrow> w32" where
  "rotr n x = drop_bit n x OR push_bit (32 - n) x"

definition ssig0 :: "w32 \<Rightarrow> w32" where
  "ssig0 x = rotr 7 x XOR rotr 18 x XOR drop_bit 3 x"

definition ssig1 :: "w32 \<Rightarrow> w32" where
  "ssig1 x = rotr 17 x XOR rotr 19 x XOR drop_bit 10 x"

definition bsig0 :: "w32 \<Rightarrow> w32" where
  "bsig0 x = rotr 2 x XOR rotr 13 x XOR rotr 22 x"

definition bsig1 :: "w32 \<Rightarrow> w32" where
  "bsig1 x = rotr 6 x XOR rotr 11 x XOR rotr 25 x"

text \<open>The message schedule as a window of the last sixteen words, used up round by round.\<close>

primrec sha_rounds :: "w32 list \<Rightarrow> w32 list \<Rightarrow> w32 list \<Rightarrow> w32 list" where
  "sha_rounds [] ws st = st"
| "sha_rounds (k # ks) ws st =
     (case st of
        [a, b, c, d, e, f, g, h] \<Rightarrow>
          (let w = hd ws;
               t1 = h + bsig1 e + ((e AND f) XOR (NOT e AND g)) + k + w;
               t2 = bsig0 a + ((a AND b) XOR (a AND c) XOR (b AND c));
               w' = ssig1 (ws ! 14) + ws ! 9 + ssig0 (ws ! 1) + w
           in sha_rounds ks (tl ws @ [w']) [t1 + t2, a, b, c, d + t1, e, f, g])
      | _ \<Rightarrow> st)"

definition sha_block :: "w32 list \<Rightarrow> w32 list \<Rightarrow> w32 list" where
  "sha_block st ws = map2 (+) st (sha_rounds sha_K ws st)"

fun words_of :: "int list \<Rightarrow> w32 list" where
  "words_of (a # b # c # d # r) = word_of_int (a * 2 ^ 24 + b * 2 ^ 16 + c * 2 ^ 8 + d) # words_of r"
| "words_of _ = []"

definition be_bytes :: "nat \<Rightarrow> int \<Rightarrow> int list" where
  "be_bytes len n = map (\<lambda>i. n div 256 ^ (len - 1 - i) mod 256) [0..<len]"

definition sha_pad :: "int list \<Rightarrow> int list" where
  "sha_pad bs =
     bs @ [128] @ replicate ((119 - length bs mod 64) mod 64) 0 @ be_bytes 8 (8 * int (length bs))"

fun sha_blocks :: "w32 list \<Rightarrow> w32 list \<Rightarrow> w32 list" where
  "sha_blocks st ws =
     (if length ws < 16 then st else sha_blocks (sha_block st (take 16 ws)) (drop 16 ws))"

declare sha_blocks.simps [simp del]

definition sha256 :: "string \<Rightarrow> string" where
  "sha256 s =
     string_of (concat (map (\<lambda>w. be_bytes 4 (uint w))
       (sha_blocks sha_init (words_of (sha_pad (bytes_of s))))))"

text \<open>\<^verbatim>\<open>hmac.New(sha256.New, key)\<close> over one message.\<close>

definition xor_bytes :: "int \<Rightarrow> string \<Rightarrow> string" where
  "xor_bytes n s = map (\<lambda>c. char_of ((of_char c :: int) XOR n)) s"

definition hmac_sha256 :: "string \<Rightarrow> string \<Rightarrow> string" where
  "hmac_sha256 key msg =
     (let k = (if 64 < length key then sha256 key else key);
          k' = k @ replicate (64 - length k) (CHR 0x00)
      in sha256 (xor_bytes 0x5C k' @ sha256 (xor_bytes 0x36 k' @ msg)))"

end
