(* ===== verification/Go_JSON.thy ===== *)
theory Go_JSON
  imports Go_Strings
begin

text \<open>
  Decoding with \<^verbatim>\<open>encoding/json\<close> into a struct: the value a JSON text stands for, the field a member
  name selects, and the decoding of one value into a field of a given type.
\<close>

section \<open>JSON values\<close>

text \<open>
  JSON text after the syntax has been read; a number keeps its literal, as \<^verbatim>\<open>encoding/json\<close>
  does until it knows the target type.
\<close>

datatype json =
    JNull
  | JBool bool
  | JNum string
  | JStr string
  | JArr "json list"
  | JObj "(string \<times> json) list"

section \<open>Fields of a struct\<close>

text \<open>
  A member name selects the field with that tag, exactly or else up to case; case folding
  also takes the long s and the Kelvin sign.
\<close>

fun foldName :: "string \<Rightarrow> string" where
  "foldName (c # d # e # cs) =
     (if [c, d, e] = [CHR 0xE2, CHR 0x84, CHR 0xAA] then CHR ''K'' # foldName cs
      else if [c, d] = [CHR 0xC5, CHR 0xBF] then CHR ''S'' # foldName (e # cs)
      else upper_char c # foldName (d # e # cs))"
| "foldName [c, d] = (if [c, d] = [CHR 0xC5, CHR 0xBF] then ''S'' else [upper_char c, upper_char d])"
| "foldName [c] = [upper_char c]"
| "foldName [] = []"

definition match_tag :: "string list \<Rightarrow> string \<Rightarrow> string option" where
  "match_tag tags name =
     (if name \<in> set tags then Some name else find (\<lambda>t. foldName t = foldName name) tags)"

text \<open>Decoding one value; null leaves a string or a number alone and empties a slice or pointer.\<close>

definition decode_string :: "string \<Rightarrow> json \<Rightarrow> string option" where
  "decode_string old j = (case j of JStr v \<Rightarrow> Some v | JNull \<Rightarrow> Some old | _ \<Rightarrow> None)"

fun decode_items :: "string list \<Rightarrow> json list \<Rightarrow> string list option" where
  "decode_items old [] = Some []"
| "decode_items old (j # js) =
     (case decode_string (case old of [] \<Rightarrow> [] | x # _ \<Rightarrow> x) j of
        None \<Rightarrow> None
      | Some x \<Rightarrow> map_option ((#) x) (decode_items (tl old) js))"

definition decode_strings :: "string list \<Rightarrow> json \<Rightarrow> string list option" where
  "decode_strings old j =
     (case j of JArr js \<Rightarrow> decode_items old js | JNull \<Rightarrow> Some [] | _ \<Rightarrow> None)"

definition decode_int64 :: "int \<Rightarrow> json \<Rightarrow> int option" where
  "decode_int64 old j = (case j of JNum lit \<Rightarrow> Atoi lit | JNull \<Rightarrow> Some old | _ \<Rightarrow> None)"

definition decode_int64_pointer :: "json \<Rightarrow> int option option" where
  "decode_int64_pointer j =
     (case j of JNum lit \<Rightarrow> map_option Some (Atoi lit) | JNull \<Rightarrow> Some None | _ \<Rightarrow> None)"

end
