(* ===== verification/Idp_State.thy ===== *)
theory Idp_State
  imports Go_URL Go_Encoding Go_JSON
begin

text \<open>
  The data of the identity provider (\<^verbatim>\<open>idp-auth-server/main.go\<close> and its two companions): the
  structs with their source fields, prefixed by the struct's initials where two structs share
  a field name, and the \<^verbatim>\<open>server\<close> with the maps it keeps and the settings it reads. What the
  program takes from outside (the JWT and JWK libraries, the UUID generator, the random source,
  the clock, the network) is a field of \<open>world\<close>; a request is given parsed.
\<close>

section \<open>Values\<close>

text \<open>
  A value of type \<^verbatim>\<open>any\<close>: what \<^verbatim>\<open>json.Unmarshal\<close> makes (a float64 is kept as its literal) and
  what the server itself puts into a claim (an integer, a list of strings).
\<close>

datatype any =
    ANil
  | ABool bool
  | AFloat string
  | AInt int
  | AStr string
  | AStrs "string list"
  | AArr "any list"
  | AObj "(string \<times> any) list"

type_synonym claims = "string \<rightharpoonup> any"

fun any_of_json :: "json \<Rightarrow> any" where
  "any_of_json JNull = ANil"
| "any_of_json (JBool b) = ABool b"
| "any_of_json (JNum n) = AFloat n"
| "any_of_json (JStr s) = AStr s"
| "any_of_json (JArr js) = AArr (map any_of_json js)"
| "any_of_json (JObj ms) = AObj (map (\<lambda>(k, j). (k, any_of_json j)) ms)"

text \<open>\<^verbatim>\<open>v, _ := c[k].(string)\<close>: the empty string when the claim is absent or of another type.\<close>

definition claim_string :: "claims \<Rightarrow> string \<Rightarrow> string" where
  "claim_string c k = (case c k of Some (AStr s) \<Rightarrow> s | _ \<Rightarrow> [])"

section \<open>The structs of the server\<close>

record clientSession =
  cs_SessionID :: string
  cs_ClientID :: string
  cs_AdvertisedSub :: string
  cs_Scope :: string
  cs_RedirectURI :: string
  cs_CodeChallenge :: string
  cs_CodeChallengeMethod :: string
  cs_IDTokenClaims :: "claims option"
  cs_AccessTokenClaims :: "claims option"
  cs_RefreshTokenClaims :: "claims option"

record session =
  se_Username :: string
  se_Sub :: string
  se_CookieID :: string
  se_ClientSessions :: "clientSession list"

record authContextEntry =
  ac_Scope :: string
  ac_ClientID :: string
  ac_RedirectURI :: string
  ac_State :: string
  ac_Nonce :: string
  ac_CodeChallenge :: string
  ac_CodeChallengeMethod :: string
  ac_Username :: string
  ac_Sub :: string

record codeMetadataEntry =
  cm_CookieID :: string
  cm_ClientID :: string
  cm_Nonce :: string

definition registrationMethodAutomatic :: string where
  "registrationMethodAutomatic = ''automatic''"

definition registrationMethodDynamic :: string where
  "registrationMethodDynamic = ''dynamic''"

definition registrationMethodClientIDMetadataDocument :: string where
  "registrationMethodClientIDMetadataDocument = ''client_id_metadata_document''"

lemmas registrationMethod_defs =
  registrationMethodAutomatic_def registrationMethodDynamic_def
  registrationMethodClientIDMetadataDocument_def

record clientRegistration =
  ClientID :: string
  ClientIDIssuedAt :: int
  ClientSecret :: string
  ClientSecretExpiresAt :: "int option"
  RedirectURIs :: "string list"
  TokenEndpointAuthMethod :: string
  GrantTypes :: "string list"
  ResponseTypes :: "string list"
  Scope :: string
  ClientName :: string
  ClientURI :: string
  LogoURI :: string
  Contacts :: "string list"
  TosURI :: string
  PolicyURI :: string
  Jwks :: "json option"
  JwksURI :: string
  SoftwareID :: string
  SoftwareVersion :: string
  RegistrationMethod :: string

definition zero_registration :: clientRegistration where
  "zero_registration = \<lparr>ClientID = [], ClientIDIssuedAt = 0, ClientSecret = [],
     ClientSecretExpiresAt = None, RedirectURIs = [], TokenEndpointAuthMethod = [],
     GrantTypes = [], ResponseTypes = [], Scope = [], ClientName = [], ClientURI = [],
     LogoURI = [], Contacts = [], TosURI = [], PolicyURI = [], Jwks = None, JwksURI = [],
     SoftwareID = [], SoftwareVersion = [], RegistrationMethod = []\<rparr>"

text \<open>
  A key of a client's published JWK set: its identifier, the restrictions the client put on it,
  and the public part, whose concrete type decides whether it can verify an assertion.
\<close>

datatype public_key = RSAPublicKey string | ECDSAPublicKey string | OtherKey string

record jwk =
  jwk_KeyID :: string
  jwk_Use :: string
  jwk_Algorithm :: string
  jwk_Public :: public_key

record clientIDMetadataEntry =
  me_reg :: clientRegistration
  me_keys :: "jwk list option"
  me_expiresAt :: time

record server =
  authContext :: "string \<rightharpoonup> authContextEntry"
  codeMeta :: "string \<rightharpoonup> codeMetadataEntry"
  sessions :: "string \<rightharpoonup> session"
  clients :: "string \<rightharpoonup> clientRegistration"
  clientIDMetadata :: "string \<rightharpoonup> clientIDMetadataEntry"
  clientIDMetadataTTL :: duration
  allowLoopbackMetadataFetch :: bool
  privateKeyJWTJTIs :: "string \<rightharpoonup> time"
  externalURL :: string
  protectPictureURL :: bool
  extraAudiences :: "string list"
  emailDomain :: string
  accessTokenLifetime :: int
  refreshTokenLifetime :: int
  subjectType :: string
  pairwiseSalt :: string
  publicKey :: public_key
  publicKeyN :: int
  publicKeyE :: int

section \<open>What the server is given\<close>

text \<open>
  What happens at one of the addresses a host name resolves to: the address as \<^verbatim>\<open>net.ParseIP\<close>
  reads it (16 bytes, \<open>None\<close> when it cannot), and whether the connection fails, the exchange
  over it fails, or a response arrives; \<open>hr_ReadError\<close> says that reading its body ends early.
\<close>

record http_reply =
  hr_Status :: nat
  hr_ContentType :: string
  hr_CacheControl :: string
  hr_Body :: string
  hr_ReadError :: bool

datatype connection = ConnectFailed | ExchangeFailed | Replied http_reply

type_synonym dial = "128 word option \<times> connection"

text \<open>
  Options of the JWT parser and the header of a token, as \<^verbatim>\<open>golang-jwt\<close> hands it to the key
  function; a key function answers with the keys to try or refuses.
\<close>

record jwt_options =
  jo_validMethods :: "string list option"
  jo_expRequired :: bool
  jo_leeway :: duration

record jwt_header =
  jh_alg :: string
  jh_kid :: "any option"

type_synonym keyfunc = "jwt_header \<Rightarrow> public_key list option"

text \<open>
  The fields of \<open>world\<close>: the clock reading and the iteration orders of the sessions and the
  clients map for this request; the identifiers the UUID generator hands out for a request ID, a
  code, a cookie, a client session and a client; the random bytes of a client secret (\<open>None\<close> when
  reading them fails); signing and parsing a JWT and the expiry the JWT library reads from its
  claims; the candidate connections for a URL; the JSON text that bytes hold, and the one that they
  start with; decoding a JWK set and selecting from it by key identifier; the media type of a
  content type; lower case outside ASCII and the integer part of a float64 literal.
\<close>

record world =
  w_now :: time
  w_order :: "string list"
  w_clientOrder :: "string list"
  w_reqID :: string
  w_code :: string
  w_cookieID :: string
  w_csID :: string
  w_clientID :: string
  w_secret :: "string option"
  w_sign :: "claims \<Rightarrow> string option"
  w_parse :: "jwt_options \<Rightarrow> keyfunc \<Rightarrow> time \<Rightarrow> string \<Rightarrow> claims option"
  w_expirationTime :: "claims \<Rightarrow> time option"
  w_dials :: "string \<Rightarrow> dial list"
  w_json :: "string \<Rightarrow> json option"
  w_jsonPrefix :: "string \<Rightarrow> json option"
  w_jwks :: "json \<Rightarrow> jwk list option"
  w_keysByID :: "jwk list \<Rightarrow> string \<Rightarrow> jwk list"
  w_mediaType :: "string \<Rightarrow> string option"
  w_toLower :: "string \<Rightarrow> string"
  w_floatToInt :: "string \<Rightarrow> int"

record request =
  r_Method :: string
  r_Path :: string
  r_Form :: url_values
  r_Cookies :: "(string \<times> string) list"
  r_Authorization :: string
  r_Body :: string

section \<open>What the server answers\<close>

text \<open>The reasons for refusing client metadata, with the value that \<^verbatim>\<open>%q\<close> quotes in the message.\<close>

datatype redirectURIError = NotAValidURI | NotAbsoluteURI | HasFragment

datatype registrationReason =
    NotAJSONObject
  | UnsupportedGrantType string
  | UnsupportedResponseType string
  | UnsupportedAuthMethod string
  | RedirectURIsRequired
  | BadRedirectURI redirectURIError string
  | NoClientSecret

record registrationError =
  re_code :: string
  re_description :: registrationReason

record clientSessionView =
  cv_ClientID :: string
  cv_AdvertisedSub :: string
  cv_Scope :: string
  cv_IDTokenIssued :: bool
  cv_RefreshTokenIssued :: bool
  cv_IDTokenClaims :: claims
  cv_AccessTokenClaims :: claims
  cv_IDTokenExpiry :: "int option"
  cv_AccessTokenExpiry :: "int option"
  cv_RefreshTokenExpiry :: "int option"

record sessionView =
  sv_CookieID :: string
  sv_Username :: string
  sv_Sub :: string
  sv_AvatarURL :: string
  sv_ClientSessions :: "clientSessionView list"

record clientRegistrationView =
  rv_ClientID :: string
  rv_RegistrationMethod :: string
  rv_IssuedAt :: int
  rv_Metadata :: clientRegistration

text \<open>The pages are named after their templates and carry the data they are rendered with.\<close>

record authorizeData =
  ad_ClientID :: string
  ad_Scope :: string
  ad_ReqID :: string
  ad_IDTokenClaims :: claims
  ad_AccessTokenClaims :: claims
  ad_ErrorText :: string
  ad_AvatarURL :: string

datatype page =
    ErrorPage string
  | IndexPage "sessionView list"
  | ClientsPage "clientRegistrationView list"
  | AuthenticatePage string
  | AuthorizePage authorizeData
  | ReauthorizePage string string string string string string string
  | EndsessionPage string string string

datatype body =
    NoBody
  | Page page
  | JSONBody claims
  | Registration clientRegistration
  | RegistrationRefused registrationError
  | File string
  | PlainText string

record response =
  status :: nat
  headers :: "(string \<times> string) list"
  setCookie :: "(string \<times> string) option"
  location :: "string option"
  rbody :: body

definition base_response :: response where
  "base_response = \<lparr>status = 200, headers = [], setCookie = None, location = None, rbody = NoBody\<rparr>"

definition NotFound :: response where
  "NotFound = base_response\<lparr>status := 404, rbody := PlainText ''404 page not found''\<rparr>"

definition renderPage :: "page \<Rightarrow> response" where
  "renderPage p = base_response\<lparr>rbody := Page p\<rparr>"

text \<open>\<^verbatim>\<open>http.Redirect\<close> with status 303; the \<open>location\<close> is the URL it is given.\<close>

definition redirectTo :: "string \<Rightarrow> response" where
  "redirectTo u = base_response\<lparr>status := 303, location := Some u\<rparr>"

definition http_Error :: "string \<Rightarrow> nat \<Rightarrow> response" where
  "http_Error text code = base_response\<lparr>status := code, rbody := PlainText text\<rparr>"

lemmas response_defs [idp_simps] =
  base_response_def NotFound_def renderPage_def redirectTo_def http_Error_def

definition form_Get :: "request \<Rightarrow> string \<Rightarrow> string" where
  "form_Get r k = values_Get (r_Form r) k"

definition cookie_of :: "request \<Rightarrow> string \<Rightarrow> string option" where
  "cookie_of r name = map_of (r_Cookies r) name"

section \<open>Concrete inputs\<close>

text \<open>
  A server right after it started, a world whose JWT library signs with the constant string
  \<open>tok\<close> and reads no token, and a request without parameters: the starting points of the examples.
\<close>

definition example_server :: server where
  "example_server = \<lparr>authContext = Map.empty, codeMeta = Map.empty, sessions = Map.empty,
     clients = Map.empty, clientIDMetadata = Map.empty, clientIDMetadataTTL = Hour,
     allowLoopbackMetadataFetch = False, privateKeyJWTJTIs = Map.empty,
     externalURL = ''https://idp'', protectPictureURL = False, extraAudiences = [],
     emailDomain = ''example.com'', accessTokenLifetime = 1200, refreshTokenLifetime = 3600,
     subjectType = ''public'', pairwiseSalt = ''salt'', publicKey = RSAPublicKey ''pub'',
     publicKeyN = 3233, publicKeyE = 65537\<rparr>"

definition example_world :: world where
  "example_world = \<lparr>w_now = 1000 * Second, w_order = [], w_clientOrder = [], w_reqID = ''req-1'',
     w_code = ''code-1'', w_cookieID = ''cookie-1'', w_csID = ''cs-1'', w_clientID = ''client-1'',
     w_secret = Some ''abc'', w_sign = (\<lambda>c. Some ''tok''), w_parse = (\<lambda>opts kf now tok. None),
     w_expirationTime = (\<lambda>c. case c ''exp'' of Some (AInt n) \<Rightarrow> Some (n * Second) | _ \<Rightarrow> None),
     w_dials = (\<lambda>u. []), w_json = (\<lambda>raw. None), w_jsonPrefix = (\<lambda>raw. None), w_jwks = (\<lambda>j. None),
     w_keysByID = (\<lambda>ks kid. filter (\<lambda>k. jwk_KeyID k = kid) ks), w_mediaType = (\<lambda>ct. Some ct),
     w_toLower = (\<lambda>x. x), w_floatToInt = (\<lambda>x. 0)\<rparr>"

definition example_request :: request where
  "example_request = \<lparr>r_Method = ''GET'', r_Path = ''/'', r_Form = [], r_Cookies = [],
     r_Authorization = [], r_Body = []\<rparr>"

end
