(* ===== verification/Idp_Claims.thy ===== *)
theory Idp_Claims
  imports Idp_State
begin

text \<open>
  The helpers of \<^verbatim>\<open>main.go\<close> on scopes, claims, subjects, URLs and tokens: what a token contains
  before it is signed, how an access token is recognised, which subject a relying party sees and
  how a redirect URL is put together.
\<close>

section \<open>Scopes and lists of strings\<close>

definition dedupeStrings :: "string list \<Rightarrow> string list" where
  "dedupeStrings xs = dedupe_loop {} xs"

definition hasScope :: "string \<Rightarrow> string \<Rightarrow> bool" where
  "hasScope scope target = list_ex (\<lambda>s. s = target) (Fields scope)"

definition audContains :: "claims \<Rightarrow> string \<Rightarrow> bool" where
  "audContains claims want =
     (case claims ''aud'' of
        None \<Rightarrow> False
      | Some (AStr v) \<Rightarrow> v = want
      | Some (AArr items) \<Rightarrow> list_ex (\<lambda>item. item = AStr want) items
      | Some _ \<Rightarrow> False)"

section \<open>Profile data derived from the user name\<close>

text \<open>
  \<^verbatim>\<open>strings.ToUpper\<close> of a one-byte string: a byte that is not ASCII is not valid UTF-8 on its
  own and becomes the replacement character.
\<close>

definition toUpper_byte :: "char \<Rightarrow> string" where
  "toUpper_byte c =
     (if of_char c < (128 :: nat) then [upper_char c] else [CHR 0xEF, CHR 0xBF, CHR 0xBD])"

definition toLower :: "world \<Rightarrow> string \<Rightarrow> string" where
  "toLower w s = (if is_ascii s then map lower_char s else w_toLower w s)"

definition capitalize :: "world \<Rightarrow> string \<Rightarrow> string" where
  "capitalize w s = (case s of [] \<Rightarrow> [] | c # cs \<Rightarrow> toUpper_byte c @ toLower w cs)"

definition avatarIndex :: "string \<Rightarrow> nat" where
  "avatarIndex username = sum_list (map of_char username) mod 8 + 1"

definition internalAvatarURL :: "server \<Rightarrow> string \<Rightarrow> string" where
  "internalAvatarURL s username =
     externalURL s @ ''/internal/avatars/'' @ show_nat (avatarIndex username) @ ''.svg''"

definition avatarURL :: "server \<Rightarrow> string \<Rightarrow> string" where
  "avatarURL s username =
     externalURL s @ ''/avatars/'' @ show_nat (avatarIndex username) @ ''.svg''"

definition emailForUsername :: "server \<Rightarrow> string \<Rightarrow> string" where
  "emailForUsername s username = username @ ''@'' @ emailDomain s"

section \<open>Subjects\<close>

definition sectorIdentifier :: "string \<Rightarrow> string \<Rightarrow> string" where
  "sectorIdentifier redirectURI clientID =
     (case url_Parse redirectURI of
        Some u \<Rightarrow> if u_Host u \<noteq> [] then u_Host u else clientID
      | None \<Rightarrow> clientID)"

definition pairwise_message :: "string \<Rightarrow> string \<Rightarrow> string" where
  "pairwise_message sectorID sub = sectorID @ [CHR 0x00] @ sub"

definition computeAdvertisedSub :: "server \<Rightarrow> string \<Rightarrow> string \<Rightarrow> string" where
  "computeAdvertisedSub s sub sectorID =
     (if subjectType s \<noteq> ''pairwise'' then sub
      else b64_encode (hmac_sha256 (pairwiseSalt s) (pairwise_message sectorID sub)))"

section \<open>Claims\<close>

definition defaultAccessTokenClaims :: "authContextEntry \<Rightarrow> claims" where
  "defaultAccessTokenClaims ctx = [''token_use'' \<mapsto> AStr ''access'', ''scope'' \<mapsto> AStr (ac_Scope ctx)]"

definition defaultIDTokenClaims :: "world \<Rightarrow> server \<Rightarrow> authContextEntry \<Rightarrow> claims" where
  "defaultIDTokenClaims w s ctx =
     (let c0 = [''sub'' \<mapsto> AStr (computeAdvertisedSub s (ac_Sub ctx)
                  (sectorIdentifier (ac_RedirectURI ctx) (ac_ClientID ctx))),
                ''azp'' \<mapsto> AStr (ac_ClientID ctx)];
          c1 = (if ac_Nonce ctx \<noteq> [] then c0(''nonce'' \<mapsto> AStr (ac_Nonce ctx)) else c0);
          c2 = (if hasScope (ac_Scope ctx) ''profile''
                then c1(''name'' \<mapsto> AStr (capitalize w (ac_Username ctx)),
                        ''preferred_username'' \<mapsto> AStr (ac_Username ctx),
                        ''picture'' \<mapsto> AStr (avatarURL s (ac_Username ctx)))
                else c1)
      in if ac_Username ctx \<noteq> [] \<and> hasScope (ac_Scope ctx) ''email''
         then c2(''email'' \<mapsto> AStr (emailForUsername s (ac_Username ctx)),
                 ''email_verified'' \<mapsto> ABool True)
         else c2)"

text \<open>
  \<^verbatim>\<open>parseClaimsJSON\<close>: \<open>None\<close> for an error, \<open>Some None\<close> for the nil map that the literal null
  leaves behind; of a repeated member the last one counts.
\<close>

definition parseClaimsJSON :: "world \<Rightarrow> string \<Rightarrow> claims option option" where
  "parseClaimsJSON w raw =
     (case w_json w raw of
        Some JNull \<Rightarrow> Some None
      | Some (JObj ms) \<Rightarrow> Some (Some (map_of (rev (map (\<lambda>(k, j). (k, any_of_json j)) ms))))
      | _ \<Rightarrow> None)"

definition copyClaims :: "claims option \<Rightarrow> claims option" where
  "copyClaims c = c"

section \<open>Tokens\<close>

definition issueToken ::
  "world \<Rightarrow> server \<Rightarrow> string \<Rightarrow> string list \<Rightarrow> claims \<Rightarrow> time \<Rightarrow> (string \<times> claims) option" where
  "issueToken w s subject audience claims expiry =
     (let c0 = (if claims ''sub'' = None then claims(''sub'' \<mapsto> AStr subject) else claims);
          allClaims = c0(''iss'' \<mapsto> AStr (externalURL s), ''aud'' \<mapsto> AStrs audience,
             ''iat'' \<mapsto> AInt (time_Unix (w_now w)), ''exp'' \<mapsto> AInt (time_Unix expiry))
      in map_option (\<lambda>signed. (signed, allClaims(''iat'' := None))) (w_sign w allClaims))"

definition decode_options :: jwt_options where
  "decode_options = \<lparr>jo_validMethods = None, jo_expRequired = False, jo_leeway = 0\<rparr>"

definition decode_keyfunc :: "server \<Rightarrow> keyfunc" where
  "decode_keyfunc s h =
     (if jh_alg h \<in> {''RS256'', ''RS384'', ''RS512''} then Some [publicKey s] else None)"

definition decodeJWT :: "world \<Rightarrow> server \<Rightarrow> string \<Rightarrow> claims option" where
  "decodeJWT w s token = w_parse w decode_options (decode_keyfunc s) (w_now w) token"

definition extractAccessToken :: "world \<Rightarrow> server \<Rightarrow> request \<Rightarrow> claims option" where
  "extractAccessToken w s r =
     (case Fields (r_Authorization r) of
        [scheme, token] \<Rightarrow>
          if EqualFold_ascii scheme ''bearer'' then
            (case decodeJWT w s token of
               Some claims \<Rightarrow>
                 if claims ''token_use'' = Some (AStr ''access'') then Some claims else None
             | None \<Rightarrow> None)
          else None
      | _ \<Rightarrow> None)"

section \<open>Redirect URLs\<close>

definition buildURL :: "string \<Rightarrow> (string \<times> string) list \<Rightarrow> string" where
  "buildURL base params =
     (case url_Parse base of
        None \<Rightarrow> base
      | Some u \<Rightarrow>
          let q = fold (\<lambda>(k, v) q. values_Set q k v) params (ParseQuery (u_RawQuery u))
          in url_String (u\<lparr>u_RawQuery := values_Encode q\<rparr>))"

section \<open>Facts\<close>

lemma set_dedupeStrings [simp]: "set (dedupeStrings xs) = set xs"
  by (simp add: dedupeStrings_def set_dedupe_loop)

lemma distinct_dedupeStrings [simp]: "distinct (dedupeStrings xs)"
  by (simp add: dedupeStrings_def distinct_dedupe_loop)

lemma dedupeStrings_fix: "distinct xs \<Longrightarrow> dedupeStrings xs = xs"
  by (simp add: dedupeStrings_def dedupe_loop_fix)

lemma dedupeStrings_Nil_iff [simp]: "dedupeStrings xs = [] \<longleftrightarrow> xs = []"
  by (metis set_dedupeStrings set_empty)

lemma hasScope_iff: "hasScope scope t \<longleftrightarrow> t \<in> set (Fields scope)"
  by (simp add: hasScope_def list_ex_iff)

lemma hasScope_Join:
  "set ws \<subseteq> set (Fields scope) \<Longrightarrow> hasScope (Join ws '' '') t \<longleftrightarrow> t \<in> set ws"
  by (simp add: hasScope_iff Fields_Join_Fields)

lemma avatarIndex_range: "1 \<le> avatarIndex u" "avatarIndex u \<le> 8"
proof -
  have "sum_list (map of_char u) mod 8 < (8 :: nat)" by simp
  then show "1 \<le> avatarIndex u" "avatarIndex u \<le> 8" by (simp_all add: avatarIndex_def)
qed

text \<open>The user cannot override the claims that say who issued a token, for whom and until when.\<close>

lemma issueToken_claims:
  assumes "issueToken w s subject audience c expiry = Some (tok, issued)"
  shows "issued ''iss'' = Some (AStr (externalURL s))"
    and "issued ''aud'' = Some (AStrs audience)"
    and "issued ''exp'' = Some (AInt (time_Unix expiry))"
    and "issued ''iat'' = None"
    and "issued ''sub'' = (if c ''sub'' = None then Some (AStr subject) else c ''sub'')"
    and "k \<notin> {''iss'', ''aud'', ''exp'', ''iat'', ''sub''} \<Longrightarrow> issued k = c k"
    and "w_sign w (issued(''iat'' \<mapsto> AInt (time_Unix (w_now w)))) = Some tok"
  using assms by (auto simp: issueToken_def Let_def fun_upd_twist split: if_splits)

lemma extractAccessToken_SomeD:
  "extractAccessToken w s r = Some c \<Longrightarrow>
     c ''token_use'' = Some (AStr ''access'') \<and> (\<exists>token. token \<in> set (Fields (r_Authorization r)) \<and> decodeJWT w s token = Some c)"
  by (auto simp: extractAccessToken_def split: list.splits if_splits option.splits)

section \<open>The redirect delivers its parameters\<close>

lemma fold_values_Set_wf:
  "distinct (map fst m) \<and> [] \<notin> snd ` set m \<Longrightarrow>
     distinct (map fst (fold (\<lambda>(k, v) q. values_Set q k v) ps m))
     \<and> [] \<notin> snd ` set (fold (\<lambda>(k, v) q. values_Set q k v) ps m)"
proof (induction ps arbitrary: m)
  case (Cons p ps)
  then have "distinct (map fst (values_Set m (fst p) (snd p))) \<and> [] \<notin> snd ` set (values_Set m (fst p) (snd p))"
    using distinct_values_Set nonempty_values_Set by blast
  from Cons.IH [OF this] show ?case by (simp add: split_def)
qed simp

lemma map_of_fold_values_Set:
  "distinct (map fst ps) \<Longrightarrow>
     map_of (fold (\<lambda>(k, v) q. values_Set q k v) ps m) k =
       (case map_of ps k of Some v \<Rightarrow> Some [v] | None \<Rightarrow> map_of m k)"
proof (induction ps arbitrary: m)
  case (Cons p ps)
  obtain k' v where p: "p = (k', v)" by (cases p)
  have "map_of ps k' = None" using Cons.prems p by (simp add: map_of_eq_None_iff)
  with Cons p show ?case by (auto simp: map_of_values_Set split: option.splits)
qed simp

lemma buildURL_query:
  assumes "url_Parse base = Some u" and "distinct (map fst ps)"
  shows "\<exists>q. buildURL base ps = url_String (u\<lparr>u_RawQuery := q\<rparr>)
    \<and> (\<forall>k. map_of (ParseQuery q) k =
           (case map_of ps k of Some v \<Rightarrow> Some [v] | None \<Rightarrow> map_of (ParseQuery (u_RawQuery u)) k))"
proof -
  let ?m = "fold (\<lambda>(k, v) q. values_Set q k v) ps (ParseQuery (u_RawQuery u))"
  have "distinct (map fst ?m)" "[] \<notin> snd ` set ?m"
    using fold_values_Set_wf ParseQuery_wf by blast+
  then have "map_of (ParseQuery (values_Encode ?m)) = map_of ?m" by (rule ParseQuery_values_Encode)
  with assms show ?thesis
    by (intro exI [of _ "values_Encode ?m"])
      (simp add: buildURL_def Let_def map_of_fold_values_Set)
qed

section \<open>Pairwise subjects\<close>

text \<open>
  The message a pairwise subject is derived from determines the sector and the user: two users,
  or two sectors named by a redirect URI's host, never share a message.
\<close>

lemma sector_no_nul: "CHR 0x00 \<notin> set clientID \<Longrightarrow> CHR 0x00 \<notin> set (sectorIdentifier uri clientID)"
  by (auto simp: sectorIdentifier_def dest: url_Host_no_nul split: option.splits)

lemma pairwise_message_inject:
  assumes "pairwise_message a x = pairwise_message b y" and "CHR 0x00 \<notin> set a" and "CHR 0x00 \<notin> set b"
  shows "a = b \<and> x = y"
  using assms by (intro sep_inject) (simp_all add: pairwise_message_def)

end
