(* ===== verification/Idp_Registration.thy ===== *)
theory Idp_Registration
  imports Idp_Claims "HOL-Library.Multiset"
begin

text \<open>
  The client registry of \<^verbatim>\<open>main.go\<close>: decoding RFC 7591 metadata, \<^verbatim>\<open>normalizeRegistration\<close>, the
  \<^verbatim>\<open>/register\<close> handler, the automatic registration made at \<^verbatim>\<open>/authorize\<close> and the
  \<^verbatim>\<open>/clients\<close> page. The lemmas say exactly which metadata is accepted, what
  a normalised registration guarantees, and what a request records of the client it names.
\<close>

section \<open>Decoding client metadata\<close>

definition registration_tags :: "string list" where
  "registration_tags = [''client_id'', ''client_id_issued_at'', ''client_secret'',
     ''client_secret_expires_at'', ''redirect_uris'', ''token_endpoint_auth_method'',
     ''grant_types'', ''response_types'', ''scope'', ''client_name'', ''client_uri'', ''logo_uri'',
     ''contacts'', ''tos_uri'', ''policy_uri'', ''jwks'', ''jwks_uri'', ''software_id'',
     ''software_version'', ''registration_method'']"

definition field_tag :: "string \<Rightarrow> string option" where
  "field_tag name = match_tag registration_tags name"

definition decodeField :: "clientRegistration \<Rightarrow> string \<Rightarrow> json \<Rightarrow> clientRegistration option" where
  "decodeField r t j =
     (if t = ''client_id'' then map_option (\<lambda>v. r\<lparr>ClientID := v\<rparr>) (decode_string (ClientID r) j)
      else if t = ''client_id_issued_at'' then
        map_option (\<lambda>v. r\<lparr>ClientIDIssuedAt := v\<rparr>) (decode_int64 (ClientIDIssuedAt r) j)
      else if t = ''client_secret'' then
        map_option (\<lambda>v. r\<lparr>ClientSecret := v\<rparr>) (decode_string (ClientSecret r) j)
      else if t = ''client_secret_expires_at'' then
        map_option (\<lambda>v. r\<lparr>ClientSecretExpiresAt := v\<rparr>) (decode_int64_pointer j)
      else if t = ''redirect_uris'' then
        map_option (\<lambda>v. r\<lparr>RedirectURIs := v\<rparr>) (decode_strings (RedirectURIs r) j)
      else if t = ''token_endpoint_auth_method'' then
        map_option (\<lambda>v. r\<lparr>TokenEndpointAuthMethod := v\<rparr>) (decode_string (TokenEndpointAuthMethod r) j)
      else if t = ''grant_types'' then
        map_option (\<lambda>v. r\<lparr>GrantTypes := v\<rparr>) (decode_strings (GrantTypes r) j)
      else if t = ''response_types'' then
        map_option (\<lambda>v. r\<lparr>ResponseTypes := v\<rparr>) (decode_strings (ResponseTypes r) j)
      else if t = ''scope'' then map_option (\<lambda>v. r\<lparr>Scope := v\<rparr>) (decode_string (Scope r) j)
      else if t = ''client_name'' then
        map_option (\<lambda>v. r\<lparr>ClientName := v\<rparr>) (decode_string (ClientName r) j)
      else if t = ''client_uri'' then
        map_option (\<lambda>v. r\<lparr>ClientURI := v\<rparr>) (decode_string (ClientURI r) j)
      else if t = ''logo_uri'' then map_option (\<lambda>v. r\<lparr>LogoURI := v\<rparr>) (decode_string (LogoURI r) j)
      else if t = ''contacts'' then
        map_option (\<lambda>v. r\<lparr>Contacts := v\<rparr>) (decode_strings (Contacts r) j)
      else if t = ''tos_uri'' then map_option (\<lambda>v. r\<lparr>TosURI := v\<rparr>) (decode_string (TosURI r) j)
      else if t = ''policy_uri'' then
        map_option (\<lambda>v. r\<lparr>PolicyURI := v\<rparr>) (decode_string (PolicyURI r) j)
      else if t = ''jwks'' then Some (r\<lparr>Jwks := Some j\<rparr>)
      else if t = ''jwks_uri'' then map_option (\<lambda>v. r\<lparr>JwksURI := v\<rparr>) (decode_string (JwksURI r) j)
      else if t = ''software_id'' then
        map_option (\<lambda>v. r\<lparr>SoftwareID := v\<rparr>) (decode_string (SoftwareID r) j)
      else if t = ''software_version'' then
        map_option (\<lambda>v. r\<lparr>SoftwareVersion := v\<rparr>) (decode_string (SoftwareVersion r) j)
      else map_option (\<lambda>v. r\<lparr>RegistrationMethod := v\<rparr>) (decode_string (RegistrationMethod r) j))"

fun decodeMembers :: "clientRegistration \<Rightarrow> (string \<times> json) list \<Rightarrow> clientRegistration option" where
  "decodeMembers r [] = Some r"
| "decodeMembers r ((name, j) # ms) =
     (case field_tag name of
        None \<Rightarrow> decodeMembers r ms
      | Some t \<Rightarrow> Option.bind (decodeField r t j) (\<lambda>r'. decodeMembers r' ms))"

definition decodeRegistration :: "json \<Rightarrow> clientRegistration option" where
  "decodeRegistration j =
     (case j of JObj ms \<Rightarrow> decodeMembers zero_registration ms
      | JNull \<Rightarrow> Some zero_registration
      | _ \<Rightarrow> None)"

section \<open>Validation\<close>

definition supportedGrantTypes :: "string list" where
  "supportedGrantTypes = [''authorization_code'', ''refresh_token'']"

definition supportedResponseTypes :: "string list" where
  "supportedResponseTypes = [''code'']"

definition supportedTokenEndpointAuthMethods :: "string list" where
  "supportedTokenEndpointAuthMethods = [''client_secret_basic'', ''client_secret_post'', ''none'']"

definition supportedCodeChallengeMethods :: "string list" where
  "supportedCodeChallengeMethods = [''S256'', ''plain'']"

definition advertisedTokenEndpointAuthMethods :: "string list" where
  "advertisedTokenEndpointAuthMethods = supportedTokenEndpointAuthMethods @ [''private_key_jwt'']"

definition validateRedirectURI :: "string \<Rightarrow> redirectURIError option" where
  "validateRedirectURI redirectURI =
     (case url_Parse redirectURI of
        None \<Rightarrow> Some NotAValidURI
      | Some u \<Rightarrow>
          if \<not> url_IsAbs u then Some NotAbsoluteURI
          else if u_Fragment u \<noteq> [] \<or> contains_char redirectURI (CHR ''#'') then Some HasFragment
          else None)"

definition registration_defaults :: "string \<Rightarrow> clientRegistration \<Rightarrow> clientRegistration" where
  "registration_defaults defaultAuthMethod reg =
     reg\<lparr>GrantTypes := (if GrantTypes reg = [] then [''authorization_code''] else GrantTypes reg),
         ResponseTypes := (if ResponseTypes reg = [] then [''code''] else ResponseTypes reg),
         TokenEndpointAuthMethod :=
           (if TokenEndpointAuthMethod reg = [] then defaultAuthMethod else TokenEndpointAuthMethod reg)\<rparr>"

definition registration_dedupe :: "clientRegistration \<Rightarrow> clientRegistration" where
  "registration_dedupe reg =
     reg\<lparr>RedirectURIs := dedupeStrings (RedirectURIs reg),
         Scope := Join (dedupeStrings (Fields (Scope reg))) '' '',
         GrantTypes := dedupeStrings (GrantTypes reg),
         ResponseTypes := dedupeStrings (ResponseTypes reg)\<rparr>"

definition normalizeRegistration ::
  "clientRegistration \<Rightarrow> string list \<Rightarrow> string \<Rightarrow> (registrationError, clientRegistration) result" where
  "normalizeRegistration reg0 allowedAuthMethods defaultAuthMethod =
     (let reg = registration_defaults defaultAuthMethod reg0;
          invalid = (\<lambda>d. Inl \<lparr>re_code = ''invalid_client_metadata'', re_description = d\<rparr>);
          bad_uri = (\<lambda>d. Inl \<lparr>re_code = ''invalid_redirect_uri'', re_description = d\<rparr>)
      in case find (\<lambda>g. g \<notin> set supportedGrantTypes) (GrantTypes reg) of
           Some g \<Rightarrow> invalid (UnsupportedGrantType g)
         | None \<Rightarrow>
         (case find (\<lambda>t. t \<notin> set supportedResponseTypes) (ResponseTypes reg) of
           Some t \<Rightarrow> invalid (UnsupportedResponseType t)
         | None \<Rightarrow>
           if TokenEndpointAuthMethod reg \<notin> set allowedAuthMethods
           then invalid (UnsupportedAuthMethod (TokenEndpointAuthMethod reg))
           else if ''authorization_code'' \<in> set (GrantTypes reg) \<and> RedirectURIs reg = []
           then bad_uri RedirectURIsRequired
           else
           (case find (\<lambda>u. validateRedirectURI u \<noteq> None) (RedirectURIs reg) of
              Some u \<Rightarrow> bad_uri (BadRedirectURI (the (validateRedirectURI u)) u)
            | None \<Rightarrow> Inr (registration_dedupe reg))))"

section \<open>The /register handler\<close>

definition writeRegistrationError :: "registrationError \<Rightarrow> response" where
  "writeRegistrationError err =
     base_response\<lparr>status := 400,
       headers := [(''Content-Type'', ''application/json''), (''Cache-Control'', ''no-store'')],
       rbody := RegistrationRefused err\<rparr>"

definition newClientSecret :: "world \<Rightarrow> string option" where
  "newClientSecret w = map_option b64_encode (w_secret w)"

definition registered_response :: "clientRegistration \<Rightarrow> response" where
  "registered_response reg =
     base_response\<lparr>status := 201,
       headers := [(''Content-Type'', ''application/json''), (''Cache-Control'', ''no-store''),
         (''Pragma'', ''no-cache'')],
       rbody := Registration reg\<rparr>"

definition register :: "world \<Rightarrow> server \<Rightarrow> request \<Rightarrow> response \<times> server" where
  "register w s r =
     (if r_Method r \<noteq> ''POST'' then (NotFound, s)
      else case Option.bind (w_jsonPrefix w (r_Body r)) decodeRegistration of
        None \<Rightarrow>
          (writeRegistrationError \<lparr>re_code = ''invalid_client_metadata'', re_description = NotAJSONObject\<rparr>, s)
      | Some reg0 \<Rightarrow>
        (case normalizeRegistration reg0 supportedTokenEndpointAuthMethods ''client_secret_basic'' of
           Inl err \<Rightarrow> (writeRegistrationError err, s)
         | Inr reg1 \<Rightarrow>
             let reg2 = reg1\<lparr>ClientID := w_clientID w, ClientIDIssuedAt := time_Unix (w_now w),
                   RegistrationMethod := registrationMethodDynamic\<rparr>
             in if TokenEndpointAuthMethod reg2 \<noteq> ''none'' then
                  (case newClientSecret w of
                     None \<Rightarrow>
                       (writeRegistrationError
                          \<lparr>re_code = ''invalid_client_metadata'', re_description = NoClientSecret\<rparr>, s)
                   | Some secret \<Rightarrow>
                       let reg = reg2\<lparr>ClientSecret := secret, ClientSecretExpiresAt := Some 0\<rparr>
                       in (registered_response reg, s\<lparr>clients := (clients s)(ClientID reg \<mapsto> reg)\<rparr>))
                else (registered_response reg2, s\<lparr>clients := (clients s)(ClientID reg2 \<mapsto> reg2)\<rparr>)))"

section \<open>Automatic registration\<close>

definition automatic_registration :: "world \<Rightarrow> string \<Rightarrow> clientRegistration" where
  "automatic_registration w clientID =
     zero_registration\<lparr>ClientID := clientID, ClientIDIssuedAt := time_Unix (w_now w),
       ResponseTypes := [''code''], GrantTypes := [''authorization_code''],
       TokenEndpointAuthMethod := ''none'', RegistrationMethod := registrationMethodAutomatic\<rparr>"

definition observe_request :: "string \<Rightarrow> string \<Rightarrow> clientRegistration \<Rightarrow> clientRegistration" where
  "observe_request redirectURI scope reg =
     (let reg1 = (if redirectURI \<noteq> []
                  then reg\<lparr>RedirectURIs := dedupeStrings (RedirectURIs reg @ [redirectURI])\<rparr> else reg);
          reg2 = (if scope \<noteq> []
                  then reg1\<lparr>Scope := Join (dedupeStrings (Fields (Scope reg1) @ Fields scope)) '' ''\<rparr>
                  else reg1)
      in if hasScope scope ''offline_access''
         then reg2\<lparr>GrantTypes := dedupeStrings (GrantTypes reg2 @ [''refresh_token''])\<rparr> else reg2)"

definition registerClientLocked :: "world \<Rightarrow> server \<Rightarrow> string \<Rightarrow> string \<Rightarrow> string \<Rightarrow> server" where
  "registerClientLocked w s clientID redirectURI scope =
     (if clientID = [] then s
      else case clients s clientID of
        Some reg \<Rightarrow>
          if RegistrationMethod reg \<noteq> registrationMethodAutomatic then s
          else s\<lparr>clients := (clients s)(clientID \<mapsto> observe_request redirectURI scope reg)\<rparr>
      | None \<Rightarrow>
          s\<lparr>clients := (clients s)(clientID \<mapsto>
              observe_request redirectURI scope (automatic_registration w clientID))\<rparr>)"

section \<open>The /clients page\<close>

definition range_values :: "('k \<rightharpoonup> 'v) \<Rightarrow> 'k list \<Rightarrow> 'v list" where
  "range_values m ks = List.map_filter m ks"

definition registration_key :: "clientRegistration \<Rightarrow> int \<times> string" where
  "registration_key reg = (ClientIDIssuedAt reg, ClientID reg)"

definition registration_view :: "clientRegistration \<Rightarrow> clientRegistrationView" where
  "registration_view reg = \<lparr>rv_ClientID = ClientID reg, rv_RegistrationMethod = RegistrationMethod reg,
     rv_IssuedAt = ClientIDIssuedAt reg, rv_Metadata = reg\<rparr>"

definition clientsPage :: "world \<Rightarrow> server \<Rightarrow> request \<Rightarrow> response \<times> server" where
  "clientsPage w s r =
     (if r_Method r \<noteq> ''GET'' then (NotFound, s)
      else (renderPage (ClientsPage (map registration_view
              (sort_key registration_key (range_values (clients s) (w_clientOrder w))))), s))"

section \<open>What a normalised registration guarantees\<close>

text \<open>The well-formedness of registered metadata, relative to the auth methods that were allowed.\<close>

definition valid_metadata :: "string list \<Rightarrow> clientRegistration \<Rightarrow> bool" where
  "valid_metadata allowed reg \<longleftrightarrow>
     GrantTypes reg \<noteq> [] \<and> set (GrantTypes reg) \<subseteq> set supportedGrantTypes \<and> distinct (GrantTypes reg)
     \<and> ResponseTypes reg \<noteq> [] \<and> set (ResponseTypes reg) \<subseteq> set supportedResponseTypes
     \<and> distinct (ResponseTypes reg)
     \<and> TokenEndpointAuthMethod reg \<in> set allowed
     \<and> (''authorization_code'' \<in> set (GrantTypes reg) \<longrightarrow> RedirectURIs reg \<noteq> [])
     \<and> list_all (\<lambda>u. validateRedirectURI u = None) (RedirectURIs reg) \<and> distinct (RedirectURIs reg)
     \<and> Scope reg = Join (dedupeStrings (Fields (Scope reg))) '' ''"

text \<open>The metadata a client describes itself with and the server does not look at.\<close>

definition same_description :: "clientRegistration \<Rightarrow> clientRegistration \<Rightarrow> bool" where
  "same_description a b \<longleftrightarrow>
     ClientID a = ClientID b \<and> ClientIDIssuedAt a = ClientIDIssuedAt b \<and> ClientSecret a = ClientSecret b
     \<and> ClientSecretExpiresAt a = ClientSecretExpiresAt b \<and> ClientName a = ClientName b
     \<and> ClientURI a = ClientURI b \<and> LogoURI a = LogoURI b \<and> Contacts a = Contacts b
     \<and> TosURI a = TosURI b \<and> PolicyURI a = PolicyURI b \<and> Jwks a = Jwks b \<and> JwksURI a = JwksURI b
     \<and> SoftwareID a = SoftwareID b \<and> SoftwareVersion a = SoftwareVersion b
     \<and> RegistrationMethod a = RegistrationMethod b"

definition acceptable_metadata :: "string list \<Rightarrow> clientRegistration \<Rightarrow> bool" where
  "acceptable_metadata allowed reg \<longleftrightarrow>
     set (GrantTypes reg) \<subseteq> set supportedGrantTypes
     \<and> set (ResponseTypes reg) \<subseteq> set supportedResponseTypes
     \<and> TokenEndpointAuthMethod reg \<in> set allowed
     \<and> (''authorization_code'' \<in> set (GrantTypes reg) \<longrightarrow> RedirectURIs reg \<noteq> [])
     \<and> list_all (\<lambda>u. validateRedirectURI u = None) (RedirectURIs reg)"

lemma normalizeRegistration_Inr:
  "normalizeRegistration reg allowed m = Inr reg' \<longleftrightarrow>
     acceptable_metadata allowed (registration_defaults m reg)
     \<and> reg' = registration_dedupe (registration_defaults m reg)"
  by (auto simp: normalizeRegistration_def acceptable_metadata_def Let_def find_None_iff
      list_all_iff subset_iff split: option.splits if_splits dest!: find_SomeD)

lemma normal_scope: "Fields (Join (dedupeStrings (Fields sc)) '' '') = dedupeStrings (Fields sc)"
  by (rule Fields_Join_Fields [of _ sc]) simp

lemma valid_metadata_dedupe:
  assumes "acceptable_metadata allowed (registration_defaults m reg)"
  shows "valid_metadata allowed (registration_dedupe (registration_defaults m reg))"
proof -
  from normal_scope [of "Scope reg"] show ?thesis
    using assms
    by (auto simp: acceptable_metadata_def valid_metadata_def registration_dedupe_def
        registration_defaults_def list_all_iff dedupeStrings_fix)
qed

lemma same_description_normal:
  "same_description (registration_dedupe (registration_defaults m reg)) reg"
  by (simp add: same_description_def registration_dedupe_def registration_defaults_def)

lemma normal_fixed:
  assumes "valid_metadata allowed reg" and "TokenEndpointAuthMethod reg = [] \<Longrightarrow> m = []"
  shows "registration_dedupe (registration_defaults m reg) = reg"
  using assms
  by (auto simp: valid_metadata_def registration_dedupe_def registration_defaults_def dedupeStrings_fix)

lemma valid_acceptable:
  "valid_metadata allowed reg \<Longrightarrow> (TokenEndpointAuthMethod reg = [] \<Longrightarrow> m = [])
     \<Longrightarrow> acceptable_metadata allowed (registration_defaults m reg)"
  by (auto simp: valid_metadata_def acceptable_metadata_def registration_defaults_def)

lemma validateRedirectURI_None:
  "validateRedirectURI u = None \<Longrightarrow>
     (\<exists>p. url_Parse u = Some p \<and> u_Scheme p \<noteq> [] \<and> u_Fragment p = []) \<and> CHR ''#'' \<notin> set u"
  by (auto simp: validateRedirectURI_def url_IsAbs_def contains_char_def split: option.splits if_splits)

section \<open>The registry\<close>

text \<open>The registration that \<^verbatim>\<open>/register\<close> makes of normalised metadata.\<close>

definition dynamic_registration :: "world \<Rightarrow> clientRegistration \<Rightarrow> string option \<Rightarrow> clientRegistration" where
  "dynamic_registration w reg secret =
     (let reg2 = reg\<lparr>ClientID := w_clientID w, ClientIDIssuedAt := time_Unix (w_now w),
            RegistrationMethod := registrationMethodDynamic\<rparr>
      in case secret of None \<Rightarrow> reg2 | Some b \<Rightarrow> reg2\<lparr>ClientSecret := b64_encode b, ClientSecretExpiresAt := Some 0\<rparr>)"

lemma register_cases:
  assumes "register w s r = (resp, s')"
  obtains "s' = s" "status resp \<in> {400, 404}"
  | reg1 secret where "valid_metadata supportedTokenEndpointAuthMethods reg1"
      "TokenEndpointAuthMethod reg1 \<noteq> ''none'' \<Longrightarrow> \<exists>b. w_secret w = Some b \<and> secret = Some b"
      "resp = registered_response (dynamic_registration w reg1 secret)"
      "s' = s\<lparr>clients := (clients s)(w_clientID w \<mapsto> dynamic_registration w reg1 secret)\<rparr>"
proof (cases "\<exists>reg0 reg1. Option.bind (w_jsonPrefix w (r_Body r)) decodeRegistration = Some reg0
      \<and> normalizeRegistration reg0 supportedTokenEndpointAuthMethods ''client_secret_basic'' = Inr reg1")
  case False
  then show ?thesis
    using assms that(1) by (auto simp: register_def writeRegistrationError_def response_defs
        split: if_splits option.splits sum.splits)
next
  case True
  then obtain reg0 reg1 where b: "Option.bind (w_jsonPrefix w (r_Body r)) decodeRegistration = Some reg0"
    and n: "normalizeRegistration reg0 supportedTokenEndpointAuthMethods ''client_secret_basic'' = Inr reg1" by blast
  from n have v: "valid_metadata supportedTokenEndpointAuthMethods reg1"
    by (auto simp: normalizeRegistration_Inr valid_metadata_dedupe)
  show ?thesis
    using assms that(1) that(2) [OF v, of "if TokenEndpointAuthMethod reg1 = ''none'' then None else w_secret w"]
    by (auto simp: register_def b n Let_def writeRegistrationError_def response_defs newClientSecret_def
        dynamic_registration_def split: if_splits option.splits)
qed

lemma registerClientLocked_frame [idp_frames]:
  "authContext (registerClientLocked w s c u sc) = authContext s"
  "codeMeta (registerClientLocked w s c u sc) = codeMeta s"
  "sessions (registerClientLocked w s c u sc) = sessions s"
  "clientIDMetadata (registerClientLocked w s c u sc) = clientIDMetadata s"
  "privateKeyJWTJTIs (registerClientLocked w s c u sc) = privateKeyJWTJTIs s"
  "externalURL (registerClientLocked w s c u sc) = externalURL s"
  by (auto simp: registerClientLocked_def split: option.splits)

lemma registerClientLocked_other:
  "c' \<noteq> c \<Longrightarrow> clients (registerClientLocked w s c u sc) c' = clients s c'"
  by (auto simp: registerClientLocked_def split: option.splits)

lemma registerClientLocked_self_registered:
  "clients s c = Some reg \<Longrightarrow> RegistrationMethod reg \<noteq> registrationMethodAutomatic
     \<Longrightarrow> registerClientLocked w s c u sc = s"
  by (auto simp: registerClientLocked_def)

lemma observe_request_fields:
  "ClientID (observe_request u sc reg) = ClientID reg"
  "RegistrationMethod (observe_request u sc reg) = RegistrationMethod reg"
  "TokenEndpointAuthMethod (observe_request u sc reg) = TokenEndpointAuthMethod reg"
  "ClientSecret (observe_request u sc reg) = ClientSecret reg"
  "ClientIDIssuedAt (observe_request u sc reg) = ClientIDIssuedAt reg"
  "set (RedirectURIs (observe_request u sc reg)) = set (RedirectURIs reg) \<union> (if u = [] then {} else {u})"
  "set (GrantTypes (observe_request u sc reg)) =
     set (GrantTypes reg) \<union> (if hasScope sc ''offline_access'' then {''refresh_token''} else {})"
  by (auto simp: observe_request_def Let_def)

lemma observe_request_scope:
  "hasScope (Scope (observe_request u sc reg)) t \<longleftrightarrow> hasScope (Scope reg) t \<or> hasScope sc t"
proof (cases "sc = []")
  case True
  have "Fields [] = []" by (simp add: Fields_def)
  with True show ?thesis by (auto simp: observe_request_def Let_def hasScope_iff)
next
  case False
  have "\<forall>v\<in>set (dedupeStrings (Fields (Scope reg) @ Fields sc)). is_word v"
    by (auto dest: Fields_words)
  from Fields_Join [OF this] False show ?thesis
    by (auto simp: observe_request_def Let_def hasScope_iff)
qed

section \<open>The listing does not depend on the order of the map\<close>

lemma filter_eq_replicate: "filter ((=) k) zs = replicate (count (mset zs) k) k"
  by (induction zs) auto

lemma sort_key_mset_inj:
  assumes "mset xs = mset ys" and "inj_on f (set xs)"
  shows "sort_key f xs = sort_key f ys"
proof (rule properties_for_sort_key)
  show "mset (sort_key f ys) = mset xs" using assms(1) by simp
  show "sorted (map f (sort_key f ys))" by simp
  fix k assume k: "k \<in> set (sort_key f ys)"
  have s: "set xs = set ys" using assms(1) by (rule mset_eq_setD)
  have "filter (\<lambda>x. f k = f x) zs = filter ((=) k) zs" if "set zs = set ys" for zs
    using that k s assms(2) by (intro filter_cong) (auto dest: inj_onD)
  then have "filter (\<lambda>x. f k = f x) (sort_key f ys) = filter ((=) k) (sort_key f ys)"
    and "filter (\<lambda>x. f k = f x) xs = filter ((=) k) xs" using s by auto
  moreover have "filter ((=) k) (sort_key f ys) = filter ((=) k) xs"
    using assms(1) by (simp add: filter_eq_replicate)
  ultimately show "filter (\<lambda>x. f k = f x) (sort_key f ys) = filter (\<lambda>x. f k = f x) xs" by simp
qed

lemma range_values_set: "valid_order m ks \<Longrightarrow> set (range_values m ks) = ran m"
  by (force simp: range_values_def valid_order_def map_filter_def ran_def dom_def)

lemma valid_order_mset: "valid_order m ks \<Longrightarrow> valid_order m ks' \<Longrightarrow> mset ks = mset ks'"
  by (metis set_eq_iff_mset_eq_distinct valid_order_def)

lemma mset_range_values: "mset ks = mset ks' \<Longrightarrow> mset (range_values m ks) = mset (range_values m ks')"
  by (simp add: range_values_def map_filter_def mset_map mset_filter)

lemma clients_listing:
  assumes "valid_order m ks" and keyed: "\<And>c reg. m c = Some reg \<Longrightarrow> ClientID reg = c"
  shows "inj_on registration_key (set (range_values m ks))"
  using keyed by (auto simp: range_values_set [OF assms(1)] ran_def registration_key_def intro!: inj_onI)

lemma distinct_range_values:
  assumes "\<And>c reg. m c = Some reg \<Longrightarrow> ClientID reg = c" and "valid_order m ks"
  shows "distinct (range_values m ks)"
proof -
  have "inj_on (\<lambda>k. the (m k)) (set ks)"
    using assms by (auto simp: valid_order_def dom_def intro!: inj_onI) (metis option.sel)
  then show ?thesis
    using assms(2) by (auto simp: range_values_def map_filter_def valid_order_def distinct_map
        o_def intro: inj_on_subset)
qed

section \<open>Properties\<close>

text \<open>What the metadata of a client has to be, in the terms of RFC 7591: a redirect URI is an absolute URI without a fragment.\<close>

definition redirect_uri_conforms :: "string \<Rightarrow> bool" where
  "redirect_uri_conforms uri \<longleftrightarrow> (\<exists>u. url_Parse uri = Some u \<and> u_Scheme u \<noteq> []) \<and> CHR ''#'' \<notin> set uri"

definition types_conform :: "string list \<Rightarrow> string \<Rightarrow> clientRegistration \<Rightarrow> bool" where
  "types_conform allowed m reg \<longleftrightarrow> set (GrantTypes reg) \<subseteq> {''authorization_code'', ''refresh_token''}
     \<and> set (ResponseTypes reg) \<subseteq> {''code''}
     \<and> (TokenEndpointAuthMethod reg \<in> set allowed \<and> TokenEndpointAuthMethod reg \<noteq> [] \<or> TokenEndpointAuthMethod reg = [] \<and> m \<in> set allowed)"

definition redirects_conform :: "clientRegistration \<Rightarrow> bool" where
  "redirects_conform reg \<longleftrightarrow> list_all redirect_uri_conforms (RedirectURIs reg)
     \<and> (RedirectURIs reg = [] \<longrightarrow> GrantTypes reg \<noteq> [] \<and> ''authorization_code'' \<notin> set (GrantTypes reg))"

text \<open>The first occurrences of the elements of a list.\<close>

fun firsts :: "'a list \<Rightarrow> 'a list" where
  "firsts [] = []"
| "firsts (x # xs) = x # filter (\<lambda>y. y \<noteq> x) (firsts xs)"

lemma dedupe_loop_firsts: "dedupe_loop seen xs = filter (\<lambda>x. x \<notin> seen) (firsts xs)"
proof (induction xs arbitrary: seen)
  case (Cons x xs)
  have "filter (\<lambda>y. y \<noteq> x \<and> y \<notin> seen) ys = filter (\<lambda>y. y \<notin> seen) ys" if "x \<in> seen" for ys
    using that by (induction ys) auto
  with Cons show ?case by auto
qed simp

lemma dedupeStrings_firsts: "dedupeStrings xs = firsts xs"
  by (simp add: dedupeStrings_def dedupe_loop_firsts)

lemma setPath_fragment: "setPath u p = Some v \<Longrightarrow> u_Fragment v = u_Fragment u"
  by (auto simp: setPath_def Let_def)

lemma parse_nofrag_fragment:
  assumes "parse_nofrag raw = Some u"
  shows "u_Fragment u = []"
proof -
  have "u_Fragment (fst (cut_query v rest)) = u_Fragment v" for v rest
    by (simp add: cut_query_def Let_def split_def)
  then have q: "u_Fragment v' = u_Fragment v" if "cut_query v rest = (v', rest')" for v v' rest rest' using that by (metis fst_conv)
  have h: "u_Fragment v' = u_Fragment v" if "parse_hier v rest = Some v'" for v v' rest
    using that by (auto simp: parse_hier_def Let_def bind_eq_Some_conv dest!: setPath_fragment split: if_splits prod.splits)
  show ?thesis
  proof (cases "raw = ''*''")
    case True
    with assms show ?thesis by (auto simp: parse_nofrag_def zero_url_def split: if_splits)
  next
    case False
    with assms obtain scheme rest0 where gs: "getScheme raw = Some (scheme, rest0)"
      by (auto simp: parse_nofrag_def bind_eq_Some_conv split: if_splits)
    obtain u0 rest where cq: "cut_query (zero_url\<lparr>u_Scheme := map lower_char scheme\<rparr>) rest0 = (u0, rest)" by fastforce
    then have "u_Fragment u0 = []" using q [OF cq] by (simp add: zero_url_def)
    then show ?thesis using assms False gs cq h [of u0 rest u] by (auto simp: parse_nofrag_def split: if_splits)
  qed
qed

lemma url_Parse_fragment:
  assumes "url_Parse raw = Some u" and "CHR ''#'' \<notin> set raw"
  shows "u_Fragment u = []"
proof -
  have "Cut raw (CHR ''#'') = (raw, [], False)" by (rule Cut_absent [OF assms(2)])
  then show ?thesis using assms(1) by (auto simp: url_Parse_def bind_eq_Some_conv parse_nofrag_fragment)
qed

lemma redirect_uri_conforms_iff: "validateRedirectURI uri = None \<longleftrightarrow> redirect_uri_conforms uri"
proof (cases "url_Parse uri")
  case None
  then show ?thesis by (simp add: validateRedirectURI_def redirect_uri_conforms_def)
next
  case (Some u)
  show ?thesis
  proof (cases "CHR ''#'' \<in> set uri")
    case False
    then have "u_Fragment u = []" using url_Parse_fragment [OF Some] by simp
    then show ?thesis using Some False by (simp add: validateRedirectURI_def redirect_uri_conforms_def url_IsAbs_def contains_char_def)
  qed (simp add: validateRedirectURI_def redirect_uri_conforms_def contains_char_def Some)
qed

text \<open>
  C32: the exact result of checking client metadata. It is accepted when its grant types are among authorization code and refresh token,
  its response types are code, its authentication method (or the default, if it has none) is allowed, every redirect URI parses, has a
  scheme and contains no hash sign, and there is a redirect URI unless grant types without authorization code are asked for. The
  accepted registration has authorization code, code and the default method where a list or the method was empty, and otherwise the same
  lists and scopes with repetitions dropped, nothing else changed. Refused metadata is an invalid redirect URI if
  only the redirect URIs are at fault, else invalid metadata.
\<close>

theorem normalizeRegistration_exact:
  "case normalizeRegistration reg allowed m of
     Inr reg' \<Rightarrow> types_conform allowed m reg \<and> redirects_conform reg
       \<and> reg' = reg\<lparr>GrantTypes := (if GrantTypes reg = [] then [''authorization_code''] else firsts (GrantTypes reg)),
           ResponseTypes := (if ResponseTypes reg = [] then [''code''] else firsts (ResponseTypes reg)),
           TokenEndpointAuthMethod := (if TokenEndpointAuthMethod reg = [] then m else TokenEndpointAuthMethod reg),
           RedirectURIs := firsts (RedirectURIs reg), Scope := Join (firsts (Fields (Scope reg))) '' ''\<rparr>
   | Inl err \<Rightarrow> \<not> (types_conform allowed m reg \<and> redirects_conform reg)
       \<and> re_code err = (if types_conform allowed m reg then ''invalid_redirect_uri'' else ''invalid_client_metadata'')"
proof -
  let ?d = "registration_defaults m reg"
  have t: "types_conform allowed m reg \<longleftrightarrow> set (GrantTypes ?d) \<subseteq> set supportedGrantTypes
      \<and> set (ResponseTypes ?d) \<subseteq> set supportedResponseTypes \<and> TokenEndpointAuthMethod ?d \<in> set allowed"
    by (auto simp: types_conform_def registration_defaults_def supportedGrantTypes_def supportedResponseTypes_def)
  have r: "redirects_conform reg \<longleftrightarrow> (''authorization_code'' \<in> set (GrantTypes ?d) \<longrightarrow> RedirectURIs ?d \<noteq> [])
      \<and> list_all (\<lambda>u. validateRedirectURI u = None) (RedirectURIs ?d)"
    by (auto simp: redirects_conform_def registration_defaults_def redirect_uri_conforms_iff)
  show ?thesis
  proof (cases "normalizeRegistration reg allowed m")
    case (Inr reg')
    then have a: "acceptable_metadata allowed ?d" "reg' = registration_dedupe ?d" by (simp_all add: normalizeRegistration_Inr)
    then have "types_conform allowed m reg" "redirects_conform reg" by (simp_all add: t r acceptable_metadata_def)
    then show ?thesis
      using Inr a(2) by (simp add: registration_dedupe_def registration_defaults_def dedupeStrings_firsts)
  next
    case (Inl err)
    then have "\<not> acceptable_metadata allowed ?d" using normalizeRegistration_Inr [of reg allowed m] by (metis sum.distinct(1))
    then have n: "\<not> (types_conform allowed m reg \<and> redirects_conform reg)" by (auto simp: t r acceptable_metadata_def)
    have "re_code err = (if types_conform allowed m reg then ''invalid_redirect_uri'' else ''invalid_client_metadata'')"
      using Inl unfolding normalizeRegistration_def Let_def t
      by (auto simp: find_None_iff dest!: find_SomeD split: option.splits if_splits)
    with n Inl show ?thesis by simp
  qed
qed

text \<open>
  C31: what \<^verbatim>\<open>normalizeRegistration\<close> returns is well formed (supported and duplicate-free grant and
  response types, valid redirect URIs, a canonical scope string), asks for the same scopes, lists the same
  redirect URIs, leaves the descriptive metadata alone, and is a fixed point of the normalisation.
\<close>

theorem normalizeRegistration_sound:
  assumes "normalizeRegistration reg allowed m = Inr reg'" and "m \<noteq> []"
  shows "valid_metadata allowed reg' \<and> same_description reg' reg
    \<and> set (RedirectURIs reg') = set (RedirectURIs reg)
    \<and> (\<forall>t. hasScope (Scope reg') t = hasScope (Scope reg) t)
    \<and> normalizeRegistration reg' allowed m = Inr reg'"
proof -
  from assms(1) have acc: "acceptable_metadata allowed (registration_defaults m reg)"
    and reg': "reg' = registration_dedupe (registration_defaults m reg)"
    by (auto simp: normalizeRegistration_Inr)
  then have v: "valid_metadata allowed reg'" by (simp add: valid_metadata_dedupe)
  have t: "TokenEndpointAuthMethod reg' \<noteq> []"
    using reg' assms(2) by (simp add: registration_dedupe_def registration_defaults_def)
  have "normalizeRegistration reg' allowed m = Inr reg'"
    using v t by (simp add: normalizeRegistration_Inr valid_acceptable normal_fixed)
  moreover have "hasScope (Scope reg') u = hasScope (Scope reg) u" for u
    by (simp add: reg' registration_dedupe_def registration_defaults_def hasScope_iff normal_scope)
  moreover have "set (RedirectURIs reg') = set (RedirectURIs reg)"
    by (simp add: reg' registration_dedupe_def registration_defaults_def)
  ultimately show ?thesis using v by (simp add: reg' same_description_normal)
qed

definition example_metadata :: clientRegistration where
  "example_metadata = zero_registration\<lparr>RedirectURIs := [''https://app/cb''], Scope := ''openid  openid''\<rparr>"

definition normalized_example :: clientRegistration where
  "normalized_example = zero_registration\<lparr>RedirectURIs := [''https://app/cb''], Scope := ''openid'',
     TokenEndpointAuthMethod := ''none'', GrantTypes := [''authorization_code''], ResponseTypes := [''code'']\<rparr>"

theorem normalizeRegistration_sound_witness:
  "normalizeRegistration example_metadata supportedTokenEndpointAuthMethods ''none'' = Inr normalized_example
     \<and> valid_metadata supportedTokenEndpointAuthMethods normalized_example"
proof -
  have r: "normalizeRegistration example_metadata supportedTokenEndpointAuthMethods ''none'' = Inr normalized_example"
    by code_simp
  from normalizeRegistration_sound [OF r] r show ?thesis by simp
qed

text \<open>
  C33: a request to \<^verbatim>\<open>/register\<close> either is refused and changes nothing, or answers 201 with exactly the
  registration it stored: under a server-chosen identifier, marked as dynamic, with well-formed
  metadata and, for a confidential client, a server-generated secret that does not expire.
\<close>

theorem register_outcome:
  assumes "register w s r = (resp, s')"
  shows "(s' = s \<and> status resp \<in> {400, 404})
     \<or> (\<exists>reg. resp = registered_response reg \<and> s' = s\<lparr>clients := (clients s)(w_clientID w \<mapsto> reg)\<rparr>
          \<and> ClientID reg = w_clientID w \<and> ClientIDIssuedAt reg = time_Unix (w_now w)
          \<and> RegistrationMethod reg = registrationMethodDynamic
          \<and> valid_metadata supportedTokenEndpointAuthMethods reg
          \<and> (if TokenEndpointAuthMethod reg = ''none'' then True
             else ClientSecretExpiresAt reg = Some 0
               \<and> (\<exists>b. w_secret w = Some b \<and> ClientSecret reg = b64_encode b)))"
  using assms
proof (cases rule: register_cases)
  case (2 reg1 secret)
  let ?reg = "dynamic_registration w reg1 secret"
  have "valid_metadata supportedTokenEndpointAuthMethods ?reg"
    using 2(1) by (simp add: dynamic_registration_def valid_metadata_def Let_def split: option.split)
  with 2 show ?thesis
    by (intro disjI2 exI [of _ ?reg])
      (auto simp: dynamic_registration_def Let_def split: option.splits)
qed simp

definition registering_world :: world where
  "registering_world = example_world\<lparr>w_jsonPrefix := (\<lambda>raw. Some (JObj
     [(''redirect_uris'', JArr [JStr ''https://app/cb'']), (''client_secret'', JStr ''mine''),
      (''token_endpoint_auth_method'', JStr raw)]))\<rparr>"

definition register_request :: "string \<Rightarrow> request" where
  "register_request m = example_request\<lparr>r_Method := ''POST'', r_Path := ''/register'', r_Body := m\<rparr>"

theorem register_outcome_witness:
  "status (fst (register registering_world example_server (register_request ''client_secret_basic''))) = 201
   \<and> (\<exists>reg. clients (snd (register registering_world example_server (register_request ''client_secret_basic'')))
          ''client-1'' = Some reg \<and> ClientSecret reg = ''YWJj'')"
proof -
  let ?p = "register registering_world example_server (register_request ''client_secret_basic'')"
  have st: "status (fst ?p) = 201"
    and m: "map_option TokenEndpointAuthMethod (clients (snd ?p) ''client-1'') = Some ''client_secret_basic''"
    and ids: "w_clientID registering_world = ''client-1''" "w_secret registering_world = Some ''abc''"
    and b: "b64_encode ''abc'' = ''YWJj''" by code_simp+
  from register_outcome [of registering_world example_server "register_request ''client_secret_basic''" "fst ?p" "snd ?p"] st m
  show ?thesis by (auto simp: ids b)
qed

text \<open>A public client keeps the secret it sent, although the server ignores it otherwise.\<close>

lemma register_none_keeps_secret:
  "map_option ClientSecret (clients (snd (register registering_world example_server
     (register_request ''none''))) ''client-1'') = Some ''mine''"
  by code_simp

text \<open>
  A registration extended by what a request shows: its redirect URI, its scopes, and the refresh token grant when it asks for
  \<^verbatim>\<open>offline_access\<close>; nothing else differs.
\<close>

definition widened :: "string \<Rightarrow> string \<Rightarrow> clientRegistration \<Rightarrow> clientRegistration \<Rightarrow> bool" where
  "widened uri scope reg0 reg \<longleftrightarrow> reg = reg0\<lparr>RedirectURIs := RedirectURIs reg, Scope := Scope reg, GrantTypes := GrantTypes reg\<rparr>
     \<and> set (RedirectURIs reg) = set (RedirectURIs reg0) \<union> (if uri = [] then {} else {uri})
     \<and> set (Fields (Scope reg)) = set (Fields (Scope reg0)) \<union> set (Fields scope)
     \<and> set (GrantTypes reg) = set (GrantTypes reg0) \<union> (if hasScope scope ''offline_access'' then {''refresh_token''} else {})"

lemma observe_request_widened: "widened uri scope reg0 (observe_request uri scope reg0)"
proof -
  have "set (Fields (Scope (observe_request uri scope reg0))) = set (Fields (Scope reg0)) \<union> set (Fields scope)"
    using observe_request_scope [of uri scope reg0] by (auto simp: hasScope_iff)
  then show ?thesis unfolding widened_def observe_request_fields by (auto simp: observe_request_def Let_def)
qed

text \<open>The registration a client has when a request is seen, or the one it gets when it is seen for the first time.\<close>

definition seen_registration :: "world \<Rightarrow> server \<Rightarrow> string \<Rightarrow> clientRegistration" where
  "seen_registration w s c = (case clients s c of
       Some reg \<Rightarrow> reg
     | None \<Rightarrow> zero_registration\<lparr>ClientID := c, ClientIDIssuedAt := time_Unix (w_now w), ResponseTypes := [''code''],
         GrantTypes := [''authorization_code''], TokenEndpointAuthMethod := ''none'',
         RegistrationMethod := registrationMethodAutomatic\<rparr>)"

lemma registerClientLocked_clients:
  "clients (registerClientLocked w s c uri scope) =
     (if c \<noteq> [] \<and> RegistrationMethod (seen_registration w s c) = registrationMethodAutomatic
      then (clients s)(c \<mapsto> observe_request uri scope (seen_registration w s c)) else clients s)"
  by (simp add: registerClientLocked_def seen_registration_def automatic_registration_def split: option.split)

text \<open>
  \<^verbatim>\<open>/clients\<close> lists every registration once, sorted by issue time and then client
  identifier, and the page does not depend on the order in which the Go map is iterated.
\<close>

theorem clientsPage_listing:
  assumes keyed: "\<And>c reg. clients s c = Some reg \<Longrightarrow> ClientID reg = c"
    and "valid_order (clients s) (w_clientOrder w)" and "valid_order (clients s) (w_clientOrder w')"
    and "r_Method r = ''GET''"
  shows "\<exists>regs. clientsPage w s r = (renderPage (ClientsPage (map registration_view regs)), s)
    \<and> set regs = ran (clients s) \<and> distinct regs \<and> sorted (map registration_key regs)
    \<and> clientsPage w' s r = clientsPage w s r"
proof -
  let ?xs = "range_values (clients s) (w_clientOrder w)"
  have inj: "inj_on registration_key (set ?xs)" using clients_listing [OF assms(2)] keyed by simp
  have "mset ?xs = mset (range_values (clients s) (w_clientOrder w'))"
    using assms(2,3) by (intro mset_range_values valid_order_mset)
  then have "sort_key registration_key ?xs = sort_key registration_key (range_values (clients s) (w_clientOrder w'))"
    using inj by (rule sort_key_mset_inj)
  then have "clientsPage w' s r = clientsPage w s r" by (simp add: clientsPage_def)
  moreover have "distinct ?xs" using keyed assms(2) by (rule distinct_range_values)
  ultimately show ?thesis
    using assms(4) by (intro exI [of _ "sort_key registration_key ?xs"])
      (simp add: clientsPage_def range_values_set [OF assms(2)])
qed

definition two_clients :: server where
  "two_clients = example_server\<lparr>clients := [''b'' \<mapsto> zero_registration\<lparr>ClientID := ''b''\<rparr>,
     ''a'' \<mapsto> zero_registration\<lparr>ClientID := ''a''\<rparr>]\<rparr>"

theorem clientsPage_listing_witness:
  "clientsPage (example_world\<lparr>w_clientOrder := [''b'', ''a'']\<rparr>) two_clients example_request
     = clientsPage (example_world\<lparr>w_clientOrder := [''a'', ''b'']\<rparr>) two_clients example_request"
proof -
  have k: "ClientID reg = c" if "clients two_clients c = Some reg" for c reg
    using that by (auto simp: two_clients_def split: if_splits)
  have "valid_order (clients two_clients) [''a'', ''b'']" "valid_order (clients two_clients) [''b'', ''a'']"
    by (auto simp: two_clients_def valid_order_def)
  then show ?thesis
    using clientsPage_listing [of two_clients "example_world\<lparr>w_clientOrder := [''a'', ''b'']\<rparr>"
        "example_world\<lparr>w_clientOrder := [''b'', ''a'']\<rparr>" example_request] k
    by (auto simp: example_request_def)
qed

end
