(* ===== verification/Idp_Sessions.thy ===== *)
theory Idp_Sessions
  imports Idp_Registration
begin

text \<open>
  The sessions of the identity provider: the lookups of \<^verbatim>\<open>main.go\<close> by subject, by advertised
  subject and by client session identifier, the table of client sessions a session keeps per
  client, and its updates. \<open>keyed_table\<close> is the contract the handlers rely on; the
  well-formedness of the sessions map makes each lookup independent of the iteration order.
\<close>

section \<open>Lookups\<close>

definition getSessionBySubLocked :: "world \<Rightarrow> server \<Rightarrow> string \<Rightarrow> session option" where
  "getSessionBySubLocked w s sub =
     map_option snd (range_find (\<lambda>_ sess. se_Sub sess = sub) (sessions s) (w_order w))"

definition getSessionByAdvertisedSubLocked :: "world \<Rightarrow> server \<Rightarrow> string \<Rightarrow> string" where
  "getSessionByAdvertisedSubLocked w s advertisedSub =
     (case range_find (\<lambda>_ sess. list_ex (\<lambda>cs. cs_AdvertisedSub cs = advertisedSub) (se_ClientSessions sess))
             (sessions s) (w_order w) of
        Some (cookieID, _) \<Rightarrow> cookieID
      | None \<Rightarrow> [])"

definition getSessionByClientSessionIDLocked ::
  "world \<Rightarrow> server \<Rightarrow> string \<Rightarrow> (string \<times> session \<times> clientSession) option" where
  "getSessionByClientSessionIDLocked w s csID =
     (if csID = [] then None
      else case range_find (\<lambda>_ sess. list_ex (\<lambda>cs. cs_SessionID cs = csID) (se_ClientSessions sess))
                  (sessions s) (w_order w) of
        Some (cookieID, sess) \<Rightarrow>
          map_option (\<lambda>cs. (cookieID, sess, cs)) (find (\<lambda>cs. cs_SessionID cs = csID) (se_ClientSessions sess))
      | None \<Rightarrow> None)"

section \<open>Client sessions of a session\<close>

definition find_clientSession :: "clientSession list \<Rightarrow> string \<Rightarrow> clientSession option" where
  "find_clientSession css clientID = find (\<lambda>cs. cs_ClientID cs = clientID) css"

definition getClientSessionByID :: "session \<Rightarrow> string \<Rightarrow> clientSession option" where
  "getClientSessionByID sess clientID = find_clientSession (se_ClientSessions sess) clientID"

fun upsertClientSession :: "clientSession list \<Rightarrow> clientSession \<Rightarrow> clientSession list" where
  "upsertClientSession [] cs = [cs]"
| "upsertClientSession (x # xs) cs =
     (if cs_ClientID x = cs_ClientID cs then cs # xs else x # upsertClientSession xs cs)"

definition updateClientSessionPKCE :: "session \<Rightarrow> string \<Rightarrow> string \<Rightarrow> string \<Rightarrow> session" where
  "updateClientSessionPKCE sess clientID codeChallenge codeChallengeMethod =
     sess\<lparr>se_ClientSessions := update_first (\<lambda>cs. cs_ClientID cs = clientID)
       (\<lambda>cs. cs\<lparr>cs_CodeChallenge := codeChallenge, cs_CodeChallengeMethod := codeChallengeMethod\<rparr>)
       (se_ClientSessions sess)\<rparr>"

definition updateClientSessionRedirectURI :: "session \<Rightarrow> string \<Rightarrow> string \<Rightarrow> session" where
  "updateClientSessionRedirectURI sess clientID redirectURI =
     sess\<lparr>se_ClientSessions := update_first (\<lambda>cs. cs_ClientID cs = clientID)
       (\<lambda>cs. cs\<lparr>cs_RedirectURI := redirectURI\<rparr>) (se_ClientSessions sess)\<rparr>"

section \<open>The table contract\<close>

text \<open>A table with one entry per key: what a lookup returns after an upsert.\<close>

locale keyed_table =
  fixes key :: "'v \<Rightarrow> 'k"
    and lookup :: "'v list \<Rightarrow> 'k \<Rightarrow> 'v option"
    and upsert :: "'v list \<Rightarrow> 'v \<Rightarrow> 'v list"
  assumes lookup_empty: "lookup [] k = None"
    and lookup_upsert: "lookup (upsert t v) k = (if k = key v then Some v else lookup t k)"
    and lookup_key: "lookup t k = Some v \<Longrightarrow> key v = k \<and> v \<in> set t"
    and upsert_set: "set (upsert t v) \<subseteq> insert v (set t)"
    and upsert_distinct: "distinct (map key t) \<Longrightarrow> distinct (map key (upsert t v))"
    and distinct_lookup: "distinct (map key t) \<Longrightarrow> v \<in> set t \<Longrightarrow> lookup t (key v) = Some v"
begin

lemma lookup_upsert_same: "lookup (upsert t v) (key v) = Some v"
  by (simp add: lookup_upsert)

lemma set_upsert:
  assumes "distinct (map key t)"
  shows "set (upsert t v) = insert v {u \<in> set t. key u \<noteq> key v}"
proof (intro set_eqI iffI)
  fix u assume u: "u \<in> set (upsert t v)"
  have "lookup (upsert t v) (key u) = Some u"
    using distinct_lookup [OF upsert_distinct [OF assms]] u by blast
  then have "v = u \<or> key u \<noteq> key v \<and> lookup t (key u) = Some u"
    unfolding lookup_upsert by (metis option.inject)
  then show "u \<in> insert v {u \<in> set t. key u \<noteq> key v}"
    using lookup_key [of t "key u" u] by blast
next
  fix u assume u: "u \<in> insert v {u \<in> set t. key u \<noteq> key v}"
  then have "lookup (upsert t v) (key u) = Some u"
    using distinct_lookup [OF assms] by (auto simp: lookup_upsert)
  then show "u \<in> set (upsert t v)" using lookup_key by blast
qed

end

lemma set_upsertClientSession: "set (upsertClientSession css cs) \<subseteq> insert cs (set css)"
  by (induction css) auto

lemma distinct_upsertClientSession:
  "distinct (map cs_ClientID css) \<Longrightarrow> distinct (map cs_ClientID (upsertClientSession css cs))"
proof (induction css)
  case (Cons x xs)
  have "cs_ClientID ` set (upsertClientSession xs cs) \<subseteq> insert (cs_ClientID cs) (cs_ClientID ` set xs)"
    using set_upsertClientSession by fastforce
  with Cons show ?case by auto
qed simp

lemma find_upsertClientSession:
  "find_clientSession (upsertClientSession css cs) k =
     (if k = cs_ClientID cs then Some cs else find_clientSession css k)"
  by (induction css) (auto simp: find_clientSession_def)

lemma find_clientSession_SomeD: "find_clientSession css k = Some cs \<Longrightarrow> cs_ClientID cs = k \<and> cs \<in> set css"
  by (auto simp: find_clientSession_def dest: find_SomeD)

lemma find_clientSession_distinct:
  "distinct (map cs_ClientID css) \<Longrightarrow> cs \<in> set css \<Longrightarrow> find_clientSession css (cs_ClientID cs) = Some cs"
  by (simp add: find_clientSession_def find_key)

interpretation css: keyed_table cs_ClientID find_clientSession upsertClientSession
  by unfold_locales
    (simp_all add: find_upsertClientSession set_upsertClientSession distinct_upsertClientSession
      find_clientSession_SomeD find_clientSession_distinct find_clientSession_def [of "[]"])

section \<open>Well-formed sessions\<close>

text \<open>A challenge is only kept with a method the token endpoint knows.\<close>

definition pkce_ok :: "string \<Rightarrow> string \<Rightarrow> bool" where
  "pkce_ok codeChallenge codeChallengeMethod \<longleftrightarrow>
     codeChallenge = [] \<or> codeChallengeMethod \<in> set supportedCodeChallengeMethods"

definition session_ok :: "string \<Rightarrow> session \<Rightarrow> bool" where
  "session_ok cookieID sess \<longleftrightarrow>
     cookieID \<noteq> [] \<and> se_CookieID sess = cookieID \<and> distinct (map cs_ClientID (se_ClientSessions sess))
     \<and> (\<forall>cs\<in>set (se_ClientSessions sess).
          cs_SessionID cs \<noteq> [] \<and> pkce_ok (cs_CodeChallenge cs) (cs_CodeChallengeMethod cs))"

text \<open>
  The sessions map: every entry well formed under its own key, one session per subject, and a
  client session identifier names one client session of one session.
\<close>

definition entries_ok :: "(string \<rightharpoonup> session) \<Rightarrow> bool" where
  "entries_ok m \<longleftrightarrow> (\<forall>k sess. m k = Some sess \<longrightarrow> session_ok k sess)"

definition subs_unique :: "(string \<rightharpoonup> session) \<Rightarrow> bool" where
  "subs_unique m \<longleftrightarrow>
     (\<forall>k sess k' sess'. m k = Some sess \<longrightarrow> m k' = Some sess' \<longrightarrow> se_Sub sess = se_Sub sess' \<longrightarrow> k = k')"

definition csids_unique :: "(string \<rightharpoonup> session) \<Rightarrow> bool" where
  "csids_unique m \<longleftrightarrow>
     (\<forall>k sess k' sess' cs cs'. m k = Some sess \<longrightarrow> m k' = Some sess' \<longrightarrow> cs \<in> set (se_ClientSessions sess)
        \<longrightarrow> cs' \<in> set (se_ClientSessions sess') \<longrightarrow> cs_SessionID cs = cs_SessionID cs'
        \<longrightarrow> k = k' \<and> cs_ClientID cs = cs_ClientID cs')"

definition sessions_ok :: "(string \<rightharpoonup> session) \<Rightarrow> bool" where
  "sessions_ok m \<longleftrightarrow> entries_ok m \<and> subs_unique m \<and> csids_unique m"

lemma entries_okD: "sessions_ok m \<Longrightarrow> m k = Some sess \<Longrightarrow> session_ok k sess"
  by (simp add: sessions_ok_def entries_ok_def)

lemma subs_uniqueD:
  "sessions_ok m \<Longrightarrow> m k = Some sess \<Longrightarrow> m k' = Some sess' \<Longrightarrow> se_Sub sess = se_Sub sess' \<Longrightarrow> k = k'"
  unfolding sessions_ok_def subs_unique_def by blast

lemma csids_uniqueD:
  "sessions_ok m \<Longrightarrow> m k = Some sess \<Longrightarrow> m k' = Some sess' \<Longrightarrow> cs \<in> set (se_ClientSessions sess)
     \<Longrightarrow> cs' \<in> set (se_ClientSessions sess') \<Longrightarrow> cs_SessionID cs = cs_SessionID cs'
     \<Longrightarrow> k = k' \<and> cs_ClientID cs = cs_ClientID cs'"
  unfolding sessions_ok_def csids_unique_def by blast

lemma sessions_ok_empty: "sessions_ok Map.empty"
  by (simp add: sessions_ok_def entries_ok_def subs_unique_def csids_unique_def)

lemma delete_SomeD: "(m(k := None)) k' = Some v \<Longrightarrow> m k' = Some v"
  by (simp split: if_splits)

lemma upd_SomeD: "(m(k \<mapsto> v)) k' = Some v' \<Longrightarrow> k' = k \<and> v' = v \<or> k' \<noteq> k \<and> m k' = Some v'"
  by (simp split: if_splits)

lemma sessions_ok_delete: "sessions_ok m \<Longrightarrow> sessions_ok (m(k := None))"
  unfolding sessions_ok_def entries_ok_def subs_unique_def csids_unique_def
  by (intro conjI allI impI) (drule delete_SomeD | blast)+

text \<open>
  Storing a session, new or changed: its subject is not taken by another entry and its client
  session identifiers occur nowhere else.
\<close>

lemma sessions_ok_store:
  assumes ok: "sessions_ok m" and new: "session_ok k sess'"
    and sub: "\<And>k2 sess2. m k2 = Some sess2 \<Longrightarrow> se_Sub sess2 = se_Sub sess' \<Longrightarrow> k2 = k"
    and csid: "\<And>cs' k2 sess2 cs2. cs' \<in> set (se_ClientSessions sess') \<Longrightarrow> m k2 = Some sess2 \<Longrightarrow> k2 \<noteq> k
        \<Longrightarrow> cs2 \<in> set (se_ClientSessions sess2) \<Longrightarrow> cs_SessionID cs' \<noteq> cs_SessionID cs2"
    and inj: "\<And>a b. a \<in> set (se_ClientSessions sess') \<Longrightarrow> b \<in> set (se_ClientSessions sess')
        \<Longrightarrow> cs_SessionID a = cs_SessionID b \<Longrightarrow> cs_ClientID a = cs_ClientID b"
  shows "sessions_ok (m(k \<mapsto> sess'))"
  unfolding sessions_ok_def
proof (intro conjI)
  show "entries_ok (m(k \<mapsto> sess'))"
    unfolding entries_ok_def
  proof (intro allI impI)
    fix k1 s1 assume "(m(k \<mapsto> sess')) k1 = Some s1"
    then show "session_ok k1 s1" using new entries_okD [OF ok, of k1 s1] by (cases "k1 = k") simp_all
  qed
  show "subs_unique (m(k \<mapsto> sess'))"
    unfolding subs_unique_def
  proof (intro allI impI)
    fix k1 s1 k2 s2
    assume *: "(m(k \<mapsto> sess')) k1 = Some s1" "(m(k \<mapsto> sess')) k2 = Some s2" "se_Sub s1 = se_Sub s2"
    from *(1,2) consider "k1 = k" "k2 = k" | "k1 = k" "s1 = sess'" "m k2 = Some s2"
      | "k2 = k" "m k1 = Some s1" "s2 = sess'" | "m k1 = Some s1" "m k2 = Some s2"
      using upd_SomeD by metis
    then show "k1 = k2"
    proof cases
      case 2 with *(3) sub [of k2 s2] show ?thesis by metis
    next
      case 3 with *(3) sub [of k1 s1] show ?thesis by metis
    next
      case 4 then show ?thesis using *(3) by (rule subs_uniqueD [OF ok])
    qed simp
  qed
  show "csids_unique (m(k \<mapsto> sess'))"
    unfolding csids_unique_def
  proof (intro allI impI)
    fix k1 s1 k2 s2 a b
    assume *: "(m(k \<mapsto> sess')) k1 = Some s1" "(m(k \<mapsto> sess')) k2 = Some s2"
      and e: "a \<in> set (se_ClientSessions s1)" "b \<in> set (se_ClientSessions s2)" "cs_SessionID a = cs_SessionID b"
    from * consider "k1 = k" "k2 = k" "s1 = sess'" "s2 = sess'" | "k1 = k" "k2 \<noteq> k" "s1 = sess'" "m k2 = Some s2"
      | "k1 \<noteq> k" "k2 = k" "m k1 = Some s1" "s2 = sess'" | "m k1 = Some s1" "m k2 = Some s2"
      using upd_SomeD by metis
    then show "k1 = k2 \<and> cs_ClientID a = cs_ClientID b"
    proof cases
      case 1 with e inj [of a b] show ?thesis by blast
    next
      case 2 with e csid show ?thesis by blast
    next
      case 3 with e csid show ?thesis by metis
    next
      case 4 with e csids_uniqueD [OF ok] show ?thesis by blast
    qed
  qed
qed

text \<open>A change that keeps the subject and the identifiers of every client session.\<close>

definition session_refines :: "session \<Rightarrow> session \<Rightarrow> bool" where
  "session_refines sess sess' \<longleftrightarrow>
     se_Sub sess' = se_Sub sess
     \<and> map cs_ClientID (se_ClientSessions sess') = map cs_ClientID (se_ClientSessions sess)
     \<and> map cs_SessionID (se_ClientSessions sess') = map cs_SessionID (se_ClientSessions sess)"

lemma session_refines_elem:
  assumes "session_refines sess sess'" and "cs' \<in> set (se_ClientSessions sess')"
  shows "\<exists>cs\<in>set (se_ClientSessions sess). cs_SessionID cs = cs_SessionID cs' \<and> cs_ClientID cs = cs_ClientID cs'"
proof -
  from assms(2) obtain i where i: "i < length (se_ClientSessions sess')" "se_ClientSessions sess' ! i = cs'"
    by (auto simp: in_set_conv_nth)
  have len: "length (se_ClientSessions sess') = length (se_ClientSessions sess)"
    using assms(1) by (metis session_refines_def length_map)
  have "map cs_SessionID (se_ClientSessions sess') ! i = map cs_SessionID (se_ClientSessions sess) ! i"
    "map cs_ClientID (se_ClientSessions sess') ! i = map cs_ClientID (se_ClientSessions sess) ! i"
    using assms(1) by (simp_all add: session_refines_def)
  with i len show ?thesis by (auto intro!: bexI [of _ "se_ClientSessions sess ! i"])
qed

lemma sessions_ok_refine:
  assumes ok: "sessions_ok m" and old: "m k = Some sess" and new: "session_ok k sess'"
    and r: "session_refines sess sess'"
  shows "sessions_ok (m(k \<mapsto> sess'))"
proof (rule sessions_ok_store [OF ok new])
  show "k2 = k" if "m k2 = Some sess2" "se_Sub sess2 = se_Sub sess'" for k2 sess2
    using that r subs_uniqueD [OF ok that(1) old] by (simp add: session_refines_def)
  show "cs_SessionID cs' \<noteq> cs_SessionID cs2"
    if "cs' \<in> set (se_ClientSessions sess')" "m k2 = Some sess2" "k2 \<noteq> k" "cs2 \<in> set (se_ClientSessions sess2)"
    for cs' k2 sess2 cs2
    using that session_refines_elem [OF r that(1)] csids_uniqueD [OF ok that(2) old that(4)] by metis
  show "cs_ClientID a = cs_ClientID b"
    if "a \<in> set (se_ClientSessions sess')" "b \<in> set (se_ClientSessions sess')" "cs_SessionID a = cs_SessionID b" for a b
    using that session_refines_elem [OF r that(1)] session_refines_elem [OF r that(2)]
      csids_uniqueD [OF ok old old] by metis
qed

section \<open>The updates keep sessions well formed\<close>

lemma update_first_refines:
  assumes "\<And>cs. cs_ClientID (f cs) = cs_ClientID cs" and "\<And>cs. cs_SessionID (f cs) = cs_SessionID cs"
  shows "session_refines sess (sess\<lparr>se_ClientSessions := update_first P f (se_ClientSessions sess)\<rparr>)"
  using assms by (simp add: session_refines_def map_update_first)

lemma update_first_session_ok:
  assumes "session_ok k sess" and "\<And>cs. cs_ClientID (f cs) = cs_ClientID cs"
    and "\<And>cs. cs_SessionID (f cs) = cs_SessionID cs"
    and "\<And>cs. pkce_ok (cs_CodeChallenge cs) (cs_CodeChallengeMethod cs)
      \<Longrightarrow> pkce_ok (cs_CodeChallenge (f cs)) (cs_CodeChallengeMethod (f cs))"
  shows "session_ok k (sess\<lparr>se_ClientSessions := update_first P f (se_ClientSessions sess)\<rparr>)"
  using assms set_update_first_subset [of P f "se_ClientSessions sess"]
  by (fastforce simp: session_ok_def map_update_first)

lemma updateClientSessionPKCE_refines: "session_refines sess (updateClientSessionPKCE sess c ch m)"
  unfolding updateClientSessionPKCE_def by (rule update_first_refines) simp_all

lemma updateClientSessionRedirectURI_refines: "session_refines sess (updateClientSessionRedirectURI sess c u)"
  unfolding updateClientSessionRedirectURI_def by (rule update_first_refines) simp_all

lemma updateClientSessionPKCE_ok:
  "session_ok k sess \<Longrightarrow> pkce_ok ch m \<Longrightarrow> session_ok k (updateClientSessionPKCE sess c ch m)"
  unfolding updateClientSessionPKCE_def by (rule update_first_session_ok) simp_all

lemma updateClientSessionRedirectURI_ok:
  "session_ok k sess \<Longrightarrow> session_ok k (updateClientSessionRedirectURI sess c u)"
  unfolding updateClientSessionRedirectURI_def by (rule update_first_session_ok) simp_all

lemma session_refines_trans: "session_refines a b \<Longrightarrow> session_refines b c \<Longrightarrow> session_refines a c"
  by (simp add: session_refines_def)

lemma getClientSessionByID_updates:
  "getClientSessionByID (updateClientSessionRedirectURI (updateClientSessionPKCE sess c ch m) c u) d =
     (if d = c
      then map_option (\<lambda>cs. cs\<lparr>cs_CodeChallenge := ch, cs_CodeChallengeMethod := m, cs_RedirectURI := u\<rparr>)
             (getClientSessionByID sess c)
      else getClientSessionByID sess d)"
  by (auto simp: getClientSessionByID_def find_clientSession_def updateClientSessionRedirectURI_def
      updateClientSessionPKCE_def find_update_first_same find_update_first_other option.map_comp o_def)

lemma upsert_session_ok:
  assumes "session_ok k sess" and "cs_SessionID cs \<noteq> []" and "pkce_ok (cs_CodeChallenge cs) (cs_CodeChallengeMethod cs)"
  shows "session_ok k (sess\<lparr>se_ClientSessions := upsertClientSession (se_ClientSessions sess) cs\<rparr>)"
  using assms css.upsert_set [of "se_ClientSessions sess" cs]
  by (auto simp: session_ok_def css.upsert_distinct)

section \<open>The lookups do not depend on the iteration order\<close>

lemma getSessionBySub_Some:
  assumes "getSessionBySubLocked w s sub = Some sess" and "sessions_ok (sessions s)"
  shows "sessions s (se_CookieID sess) = Some sess \<and> se_Sub sess = sub"
  using assms by (auto simp: getSessionBySubLocked_def session_ok_def dest!: range_find_SomeD dest: entries_okD)

lemma getSessionBySub_None:
  assumes "getSessionBySubLocked w s sub = None" and "valid_order (sessions s) (w_order w)"
  shows "sessions s k = Some sess \<Longrightarrow> se_Sub sess \<noteq> sub"
  using assms by (simp add: getSessionBySubLocked_def range_find_None_order)

lemma getSessionByClientSessionID_SomeD:
  assumes "getSessionByClientSessionIDLocked w s csID = Some (k, sess, cs)"
  shows "sessions s k = Some sess \<and> cs \<in> set (se_ClientSessions sess) \<and> cs_SessionID cs = csID \<and> csID \<noteq> []"
  using assms
  by (auto simp: getSessionByClientSessionIDLocked_def split: if_splits option.splits
      dest!: range_find_SomeD find_SomeD)

lemma getSessionByAdvertisedSub_nonempty:
  assumes "getSessionByAdvertisedSubLocked w s a = k" and "k \<noteq> []"
  shows "\<exists>sess cs. sessions s k = Some sess \<and> cs \<in> set (se_ClientSessions sess) \<and> cs_AdvertisedSub cs = a"
  using assms
  by (auto simp: getSessionByAdvertisedSubLocked_def list_ex_iff split: option.splits dest!: range_find_SomeD)

text \<open>
  C38: in a well-formed sessions map a client session identifier finds exactly the client session it
  was given to, together with the session holding it, whatever order the map is iterated in; an
  identifier that no client session carries, the empty one included, finds nothing.
\<close>

theorem getSessionByClientSessionID_exact:
  assumes "sessions_ok (sessions s)" and "valid_order (sessions s) (w_order w)"
  shows "getSessionByClientSessionIDLocked w s csID = Some (k, sess, cs) \<longleftrightarrow>
     sessions s k = Some sess \<and> cs \<in> set (se_ClientSessions sess) \<and> cs_SessionID cs = csID"
proof
  assume r: "sessions s k = Some sess \<and> cs \<in> set (se_ClientSessions sess) \<and> cs_SessionID cs = csID"
  let ?P = "\<lambda>_ sess. list_ex (\<lambda>cs. cs_SessionID cs = csID) (se_ClientSessions sess)"
  have ok: "session_ok k sess" using r entries_okD [OF assms(1)] by blast
  have "range_find ?P (sessions s) (w_order w) = Some (k, sess)"
    using r by (intro range_find_unique [OF assms(2)])
      (auto simp: list_ex_iff dest: csids_uniqueD [OF assms(1)])
  moreover have "find (\<lambda>cs. cs_SessionID cs = csID) (se_ClientSessions sess) = Some cs"
  proof -
    have d: "distinct (map cs_ClientID (se_ClientSessions sess))" using ok by (simp add: session_ok_def)
    have "inj_on cs_SessionID (set (se_ClientSessions sess))"
    proof (rule inj_onI)
      fix a b assume ab: "a \<in> set (se_ClientSessions sess)" "b \<in> set (se_ClientSessions sess)"
        and e: "cs_SessionID a = cs_SessionID b"
      have "cs_ClientID a = cs_ClientID b" using csids_uniqueD [OF assms(1) _ _ ab e] r by blast
      with ab d show "a = b" by (metis distinct_map inj_onD)
    qed
    with d have "distinct (map cs_SessionID (se_ClientSessions sess))" by (simp add: distinct_map)
    from find_key [OF this, of cs] r show ?thesis by simp
  qed
  moreover have "csID \<noteq> []" using ok r by (auto simp: session_ok_def)
  ultimately show "getSessionByClientSessionIDLocked w s csID = Some (k, sess, cs)"
    by (simp add: getSessionByClientSessionIDLocked_def)
qed (simp add: getSessionByClientSessionID_SomeD)

definition example_clientSession :: clientSession where
  "example_clientSession = \<lparr>cs_SessionID = ''cs-1'', cs_ClientID = ''app'', cs_AdvertisedSub = ''internal|bob'',
     cs_Scope = ''openid profile offline_access'', cs_RedirectURI = ''https://app/cb'', cs_CodeChallenge = ''secret'',
     cs_CodeChallengeMethod = ''plain'', cs_IDTokenClaims = None, cs_AccessTokenClaims = None,
     cs_RefreshTokenClaims = None\<rparr>"

definition example_session :: session where
  "example_session = \<lparr>se_Username = ''bob'', se_Sub = ''internal|bob'', se_CookieID = ''cookie-1'',
     se_ClientSessions = [example_clientSession]\<rparr>"

definition session_server :: server where
  "session_server = example_server\<lparr>sessions := [''cookie-1'' \<mapsto> example_session],
     codeMeta := [''code-1'' \<mapsto> \<lparr>cm_CookieID = ''cookie-1'', cm_ClientID = ''app'', cm_Nonce = ''n''\<rparr>]\<rparr>"

definition session_world :: world where
  "session_world = example_world\<lparr>w_order := [''cookie-1''], w_reqID := ''req-2'', w_code := ''code-2'',
     w_cookieID := ''cookie-2'', w_csID := ''cs-2''\<rparr>"

lemma session_server_ok:
  "sessions_ok (sessions session_server)" "valid_order (sessions session_server) (w_order session_world)"
proof -
  have "session_ok ''cookie-1'' example_session" by code_simp
  then have "sessions_ok [''cookie-1'' \<mapsto> example_session]"
    by (rule sessions_ok_store [OF sessions_ok_empty]) (simp_all add: example_session_def)
  then show "sessions_ok (sessions session_server)" by (simp add: session_server_def)
  show "valid_order (sessions session_server) (w_order session_world)"
    by (simp add: valid_order_def session_server_def session_world_def)
qed

theorem getSessionByClientSessionID_exact_witness:
  "getSessionByClientSessionIDLocked session_world session_server ''cs-1''
     = Some (''cookie-1'', example_session, example_clientSession)"
  using getSessionByClientSessionID_exact [OF session_server_ok, of "''cs-1''" "''cookie-1''" example_session
      example_clientSession]
  by (simp add: session_server_def example_session_def example_clientSession_def)

end
