(* ===== verification/Go_Net.thy ===== *)
theory Go_Net
  imports Go_URL
begin

text \<open>
  The part of Go's \<^verbatim>\<open>net\<close> package that guards outbound fetches. An address is the 16 bytes that
  \<^verbatim>\<open>net.ParseIP\<close> returns, as a 128-bit word; an IPv4 address is kept in its mapped form and \<open>To4\<close>
  recovers it. The classification methods of \<^verbatim>\<open>net.IP\<close> are written on bytes, as in the library,
  and shown to be prefix tests.
\<close>

unbundle bit_operations_syntax

section \<open>Parsing addresses\<close>

text \<open>One decimal field of an IPv4 address: at most 255 and without a leading zero.\<close>

definition parse_octet :: "string \<Rightarrow> nat option" where
  "parse_octet s =
     (if s \<noteq> [] \<and> list_all is_digit s \<and> (hd s \<noteq> CHR ''0'' \<or> length s = 1) \<and> digits_val s \<le> 255
      then Some (nat (digits_val s)) else None)"

fun all_some :: "'a option list \<Rightarrow> 'a list option" where
  "all_some [] = Some []"
| "all_some (None # xs) = None"
| "all_some (Some x # xs) = map_option ((#) x) (all_some xs)"

definition parseIPv4Fields :: "string \<Rightarrow> nat list option" where
  "parseIPv4Fields s =
     (let parts = Split s (CHR ''.'')
      in if length parts = 4 then all_some (map parse_octet parts) else None)"

text \<open>The leading hexadecimal digits of a group: at most four.\<close>

fun hex_group :: "string \<Rightarrow> nat \<Rightarrow> nat \<Rightarrow> (nat \<times> nat \<times> string) option" where
  "hex_group [] off acc = Some (off, acc, [])"
| "hex_group (c # cs) off acc =
     (if ishex c
      then if off > 3 then None else hex_group cs (off + 1) (acc * 16 + unhex c)
      else Some (off, acc, c # cs))"

text \<open>
  The loop of \<^verbatim>\<open>parseIPv6\<close>: \<open>n\<close> groups may still follow, \<open>gs\<close> holds the groups read so far and \<open>e\<close> how many of
  them stand before the ellipsis. The result carries the text left over.
\<close>

fun ipv6_groups :: "nat \<Rightarrow> string \<Rightarrow> nat list \<Rightarrow> nat option \<Rightarrow> (nat list \<times> nat option \<times> string) option" where
  "ipv6_groups 0 s gs e = Some (gs, e, s)"
| "ipv6_groups (Suc n) s gs e =
     (case hex_group s 0 0 of
        None \<Rightarrow> None
      | Some (off, acc, r) \<Rightarrow>
          if off = 0 then None
          else (case r of
            [] \<Rightarrow> Some (gs @ [acc], e, [])
          | c # r' \<Rightarrow>
              if c = CHR ''.'' then
                (if e = None \<and> length gs \<noteq> 6 \<or> length gs + 2 > 8 then None
                 else case parseIPv4Fields s of
                   Some [a, b, c, d] \<Rightarrow> Some (gs @ [a * 256 + b, c * 256 + d], e, [])
                 | _ \<Rightarrow> None)
              else if c \<noteq> CHR '':'' then None
              else (case r' of
                [] \<Rightarrow> None
              | d # r'' \<Rightarrow>
                  if d = CHR '':'' then
                    (if e \<noteq> None then None
                     else if r'' = [] then Some (gs @ [acc], Some (length gs + 1), [])
                     else ipv6_groups n r'' (gs @ [acc]) (Some (length gs + 1)))
                  else ipv6_groups n r' (gs @ [acc]) e)))"

definition groups_addr :: "nat list \<Rightarrow> 128 word" where
  "groups_addr gs = foldl (\<lambda>a g. a * 65536 + of_nat g) 0 gs"

definition parseIPv6 :: "string \<Rightarrow> 128 word option" where
  "parseIPv6 s =
     (if s = ''::'' then Some 0
      else case (if HasPrefix s ''::'' then ipv6_groups 8 (drop 2 s) [] (Some 0) else ipv6_groups 8 s [] None) of
        None \<Rightarrow> None
      | Some (gs, e, rest) \<Rightarrow>
          if rest \<noteq> [] then None
          else if length gs < 8 then
            (case e of
               None \<Rightarrow> None
             | Some k \<Rightarrow> Some (groups_addr (take k gs @ replicate (8 - length gs) 0 @ drop k gs)))
          else if e \<noteq> None then None
          else Some (groups_addr gs))"

definition mapped :: "32 word \<Rightarrow> 128 word" where
  "mapped x = 0xffff00000000 OR ucast x"

definition octets_addr :: "nat list \<Rightarrow> 32 word" where
  "octets_addr bs = foldl (\<lambda>a b. a * 256 + of_nat b) 0 bs"

text \<open>An address with a zone is refused by \<^verbatim>\<open>net.ParseIP\<close>, so a percent sign never parses.\<close>

definition ParseIP :: "string \<Rightarrow> 128 word option" where
  "ParseIP s =
     (case dropWhile (\<lambda>c. c \<noteq> CHR ''.'' \<and> c \<noteq> CHR '':'' \<and> c \<noteq> CHR ''%'') s of
        c # _ \<Rightarrow>
          if c = CHR ''.'' then map_option (\<lambda>bs. mapped (octets_addr bs)) (parseIPv4Fields s)
          else if c = CHR '':'' then parseIPv6 s
          else None
      | [] \<Rightarrow> None)"

section \<open>Classification\<close>

definition To4 :: "128 word \<Rightarrow> 32 word option" where
  "To4 a = (if drop_bit 32 a = 0xffff then Some (ucast a) else None)"

definition byte4 :: "32 word \<Rightarrow> nat \<Rightarrow> 8 word" where
  "byte4 x i = ucast (drop_bit (24 - 8 * i) x)"

definition byte16 :: "128 word \<Rightarrow> nat \<Rightarrow> 8 word" where
  "byte16 a i = ucast (drop_bit (120 - 8 * i) a)"

definition IsLoopback :: "128 word \<Rightarrow> bool" where
  "IsLoopback ip = (case To4 ip of Some ip4 \<Rightarrow> byte4 ip4 0 = 127 | None \<Rightarrow> ip = 1)"

definition IsUnspecified :: "128 word \<Rightarrow> bool" where
  "IsUnspecified ip \<longleftrightarrow> ip = mapped 0 \<or> ip = 0"

definition IsPrivate :: "128 word \<Rightarrow> bool" where
  "IsPrivate ip =
     (case To4 ip of
        Some ip4 \<Rightarrow> byte4 ip4 0 = 10 \<or> (byte4 ip4 0 = 172 \<and> byte4 ip4 1 AND 0xf0 = 16)
          \<or> (byte4 ip4 0 = 192 \<and> byte4 ip4 1 = 168)
      | None \<Rightarrow> byte16 ip 0 AND 0xfe = 0xfc)"

definition IsLinkLocalUnicast :: "128 word \<Rightarrow> bool" where
  "IsLinkLocalUnicast ip =
     (case To4 ip of
        Some ip4 \<Rightarrow> byte4 ip4 0 = 169 \<and> byte4 ip4 1 = 254
      | None \<Rightarrow> byte16 ip 0 = 0xfe \<and> byte16 ip 1 AND 0xc0 = 0x80)"

definition IsLinkLocalMulticast :: "128 word \<Rightarrow> bool" where
  "IsLinkLocalMulticast ip =
     (case To4 ip of
        Some ip4 \<Rightarrow> byte4 ip4 0 = 224 \<and> byte4 ip4 1 = 0 \<and> byte4 ip4 2 = 0
      | None \<Rightarrow> byte16 ip 0 = 0xff \<and> byte16 ip 1 AND 0x0f = 0x02)"

definition IsInterfaceLocalMulticast :: "128 word \<Rightarrow> bool" where
  "IsInterfaceLocalMulticast ip \<longleftrightarrow> byte16 ip 0 = 0xff \<and> byte16 ip 1 AND 0x0f = 0x01"

definition IsMulticast :: "128 word \<Rightarrow> bool" where
  "IsMulticast ip =
     (case To4 ip of Some ip4 \<Rightarrow> byte4 ip4 0 AND 0xf0 = 0xe0 | None \<Rightarrow> byte16 ip 0 = 0xff)"

section \<open>Networks\<close>

datatype ipnet = Net4 "32 word" nat | Net6 "128 word" nat

definition prefix4 :: "32 word \<Rightarrow> nat \<Rightarrow> 32 word \<Rightarrow> bool" where
  "prefix4 p n x \<longleftrightarrow> drop_bit (32 - n) x = drop_bit (32 - n) p"

definition prefix6 :: "128 word \<Rightarrow> nat \<Rightarrow> 128 word \<Rightarrow> bool" where
  "prefix6 p n a \<longleftrightarrow> drop_bit (128 - n) a = drop_bit (128 - n) p"

fun net_Contains :: "ipnet \<Rightarrow> 128 word \<Rightarrow> bool" where
  "net_Contains (Net4 p n) ip = (case To4 ip of Some ip4 \<Rightarrow> prefix4 p n ip4 | None \<Rightarrow> False)"
| "net_Contains (Net6 p n) ip = (case To4 ip of Some _ \<Rightarrow> False | None \<Rightarrow> prefix6 p n ip)"

text \<open>\<^verbatim>\<open>net.ParseCIDR\<close>; the network keeps only the bits of its mask.\<close>

definition ParseCIDR :: "string \<Rightarrow> ipnet option" where
  "ParseCIDR s =
     (case Cut s (CHR ''/'') of
        (addr, len, True) \<Rightarrow>
          if len \<noteq> [] \<and> list_all is_digit len then
            let n = nat (digits_val len) in
            (case ParseIP addr of
               None \<Rightarrow> None
             | Some ip \<Rightarrow>
                 if list_ex (\<lambda>c. c = CHR '':'') addr
                 then if n \<le> 128 then Some (Net6 (push_bit (128 - n) (drop_bit (128 - n) ip)) n) else None
                 else if n \<le> 32 then Some (Net4 (push_bit (32 - n) (drop_bit (32 - n) (ucast ip))) n) else None)
          else None
      | _ \<Rightarrow> None)"

section \<open>The classification is a table of prefixes\<close>

lemma unat_drop_div: "unat (drop_bit k (x :: 'a::len word)) = unat x div 2 ^ k"
  by (metis drop_bit_eq_div unat_drop_bit_eq)

lemma unat_byte4: "unat (byte4 x i) = unat x div 2 ^ (24 - 8 * i) mod 256"
  by (simp add: byte4_def unsigned_ucast_eq unat_drop_div take_bit_eq_mod del: drop_bit_eq_div)

lemma unat_byte16: "unat (byte16 x i) = unat x div 2 ^ (120 - 8 * i) mod 256"
  by (simp add: byte16_def unsigned_ucast_eq unat_drop_div take_bit_eq_mod del: drop_bit_eq_div)

lemma prefix4_nat: "prefix4 p n x \<longleftrightarrow> unat x div 2 ^ (32 - n) = unat p div 2 ^ (32 - n)"
  unfolding prefix4_def word_unat_eq_iff
  by (simp only: unat_drop_div)

lemma prefix6_nat: "prefix6 p n x \<longleftrightarrow> unat x div 2 ^ (128 - n) = unat p div 2 ^ (128 - n)"
  unfolding prefix6_def word_unat_eq_iff
  by (simp only: unat_drop_div)

lemma byte_mask_table:
  "list_all (\<lambda>n :: int. (n AND 0xf0 = 16 \<longleftrightarrow> n div 16 = 1)
     \<and> (n AND 0xf0 = 0xe0 \<longleftrightarrow> n div 16 = 14)
     \<and> (n AND 0xfe = 0xfc \<longleftrightarrow> n div 2 = 126)
     \<and> (n AND 0xc0 = 0x80 \<longleftrightarrow> n div 64 = 2)) [0..255]"
  by code_simp

lemma unat_div_uint: "unat (b :: 8 word) div m = k \<longleftrightarrow> uint b div int m = int k"
  by (metis int_ops(8) of_nat_eq_iff uint_nat zdiv_int)

lemma byte_masks:
  "(b :: 8 word) AND 0xf0 = 16 \<longleftrightarrow> unat b div 16 = 1"
  "b AND 0xf0 = 0xe0 \<longleftrightarrow> unat b div 16 = 14"
  "b AND 0xfe = 0xfc \<longleftrightarrow> unat b div 2 = 126"
  "b AND 0xc0 = 0x80 \<longleftrightarrow> unat b div 64 = 2"
proof -
  have "uint b \<in> set [0..255]" using uint_bounded [of b] by simp
  with byte_mask_table have "(uint b AND 0xf0 = 16 \<longleftrightarrow> uint b div 16 = 1) \<and> (uint b AND 0xf0 = 0xe0 \<longleftrightarrow> uint b div 16 = 14)
     \<and> (uint b AND 0xfe = 0xfc \<longleftrightarrow> uint b div 2 = 126) \<and> (uint b AND 0xc0 = 0x80 \<longleftrightarrow> uint b div 64 = 2)"
    by (simp only: list_all_iff)
  then show
    "b AND 0xf0 = 16 \<longleftrightarrow> unat b div 16 = 1" "b AND 0xf0 = 0xe0 \<longleftrightarrow> unat b div 16 = 14"
    "b AND 0xfe = 0xfc \<longleftrightarrow> unat b div 2 = 126" "b AND 0xc0 = 0x80 \<longleftrightarrow> unat b div 64 = 2"
    by (simp_all add: word_uint_eq_iff uint_and unat_div_uint)
qed

text \<open>A quotient is determined by its own quotient and remainder.\<close>

lemma div_split: "r < m \<Longrightarrow> (y :: nat) = q * m + r \<longleftrightarrow> y div m = q \<and> y mod m = r"
  by auto

lemma mod_div_swap: "(a :: nat) mod (m * n) div m = a div m mod n"
  by (cases "m = 0") (simp_all add: mod_mult2_eq)

text \<open>The first byte and the top bits of the second one are a prefix of the address.\<close>

lemma byte_pair:
  assumes "k \<le> 8" and "r < 2 ^ (8 - k)"
  shows "(X :: nat) div 2 ^ (b + 8) = c \<and> X div 2 ^ b mod 256 div 2 ^ k = r
    \<longleftrightarrow> X div 2 ^ (b + k) = c * 2 ^ (8 - k) + r"
proof -
  have m: "(256 :: nat) = 2 ^ k * 2 ^ (8 - k)" using assms(1) by (simp flip: power_add)
  have b1: "X div 2 ^ b mod 256 div 2 ^ k = X div 2 ^ (b + k) mod 2 ^ (8 - k)"
    by (simp only: m mod_div_swap power_add div_mult2_eq)
  have "b + k + (8 - k) = b + 8" using assms(1) by simp
  then have b0: "X div 2 ^ (b + 8) = X div 2 ^ (b + k) div 2 ^ (8 - k)"
    by (metis div_mult2_eq power_add)
  show ?thesis unfolding b0 b1 using div_split [OF assms(2)] by metis
qed

lemma byte4_0: "byte4 x 0 = c \<longleftrightarrow> unat x div 2 ^ 24 = unat c"
proof -
  have "unat x div 2 ^ 24 < 256" using unsigned_less [of x, where ?'a = nat] by (simp add: less_mult_imp_div_less)
  then show ?thesis by (simp add: word_unat_eq_iff unat_byte4)
qed

lemma byte16_0: "byte16 a 0 = c \<longleftrightarrow> unat a div 2 ^ 120 = unat c"
proof -
  have "unat a div 2 ^ 120 < 256" using unsigned_less [of a, where ?'a = nat] by (simp add: less_mult_imp_div_less)
  then show ?thesis by (simp add: word_unat_eq_iff unat_byte16)
qed

lemma byte4_01:
  "k \<le> 8 \<Longrightarrow> r < 2 ^ (8 - k) \<Longrightarrow>
     byte4 x 0 = c \<and> unat (byte4 x 1) div 2 ^ k = r \<longleftrightarrow> unat x div 2 ^ (16 + k) = unat c * 2 ^ (8 - k) + r"
  using byte_pair [of k r "unat x" 16 "unat c"] by (simp add: byte4_0 unat_byte4)

lemma byte16_01:
  "k \<le> 8 \<Longrightarrow> r < 2 ^ (8 - k) \<Longrightarrow>
     byte16 x 0 = c \<and> unat (byte16 x 1) div 2 ^ k = r \<longleftrightarrow> unat x div 2 ^ (112 + k) = unat c * 2 ^ (8 - k) + r"
  using byte_pair [of k r "unat x" 112 "unat c"] by (simp add: byte16_0 unat_byte16)

lemma To4_Some_iff: "To4 a = Some x \<longleftrightarrow> a = mapped x"
proof
  assume "To4 a = Some x"
  then have d: "drop_bit 32 a = 0xffff" and x: "x = ucast a" by (auto simp: To4_def split: if_splits)
  have "a = push_bit 32 (drop_bit 32 a) OR ucast (ucast a :: 32 word)"
    by (rule bit_word_eqI) (auto simp: bit_simps)
  then show "a = mapped x" by (simp add: d mapped_def x)
next
  assume "a = mapped x"
  moreover have "drop_bit 32 (mapped x) = 0xffff"
    unfolding mapped_def drop_bit_or by (rule bit_word_eqI) (auto simp: bit_simps dest: bit_imp_le_length)
  moreover have "ucast (mapped x) = x"
  proof -
    have "ucast (0xffff00000000 :: 128 word) = (0 :: 32 word)" by (simp add: word_unat_eq_iff)
    moreover have "ucast (ucast x :: 128 word) = x" by (rule bit_word_eqI) (auto simp: bit_simps)
    ultimately show ?thesis by (simp only: mapped_def unsigned_or_eq or.left_neutral)
  qed
  ultimately show "To4 a = Some x" by (simp add: To4_def)
qed

section \<open>Each method as a prefix\<close>

lemma four_bits:
  "byte4 x 0 AND 0xf0 = 0xe0 \<longleftrightarrow> prefix4 0xe0000000 4 x"
  "byte4 x 0 = 127 \<longleftrightarrow> prefix4 0x7f000000 8 x"
  "byte4 x 0 = 10 \<longleftrightarrow> prefix4 0x0a000000 8 x"
  "byte4 x 0 = 172 \<and> byte4 x 1 AND 0xf0 = 16 \<longleftrightarrow> prefix4 0xac100000 12 x"
  "byte4 x 0 = 192 \<and> byte4 x 1 = 168 \<longleftrightarrow> prefix4 0xc0a80000 16 x"
  "byte4 x 0 = 169 \<and> byte4 x 1 = 254 \<longleftrightarrow> prefix4 0xa9fe0000 16 x"
proof -
  have "unat x div 2 ^ 24 < 256" using unsigned_less [of x, where ?'a = nat] by (simp add: less_mult_imp_div_less)
  then show "byte4 x 0 AND 0xf0 = 0xe0 \<longleftrightarrow> prefix4 0xe0000000 4 x"
    by (simp add: byte_masks unat_byte4 prefix4_nat flip: div_mult2_eq)
  show "byte4 x 0 = 127 \<longleftrightarrow> prefix4 0x7f000000 8 x" "byte4 x 0 = 10 \<longleftrightarrow> prefix4 0x0a000000 8 x"
    by (simp_all add: byte4_0 prefix4_nat)
  show "byte4 x 0 = 172 \<and> byte4 x 1 AND 0xf0 = 16 \<longleftrightarrow> prefix4 0xac100000 12 x"
    using byte4_01 [of 4 1 x 172] by (simp add: byte_masks prefix4_nat)
  show "byte4 x 0 = 192 \<and> byte4 x 1 = 168 \<longleftrightarrow> prefix4 0xc0a80000 16 x"
    using byte4_01 [of 0 168 x 192] by (simp add: word_unat_eq_iff [of "byte4 x (Suc 0)"] prefix4_nat)
  show "byte4 x 0 = 169 \<and> byte4 x 1 = 254 \<longleftrightarrow> prefix4 0xa9fe0000 16 x"
    using byte4_01 [of 0 254 x 169] by (simp add: word_unat_eq_iff [of "byte4 x (Suc 0)"] prefix4_nat)
qed

lemma sixteen_bits:
  "byte16 a 0 = 0xff \<longleftrightarrow> prefix6 0xff000000000000000000000000000000 8 a"
  "byte16 a 0 AND 0xfe = 0xfc \<longleftrightarrow> prefix6 0xfc000000000000000000000000000000 7 a"
  "byte16 a 0 = 0xfe \<and> byte16 a 1 AND 0xc0 = 0x80 \<longleftrightarrow> prefix6 0xfe800000000000000000000000000000 10 a"
proof -
  have "unat a div 2 ^ 120 < 256" using unsigned_less [of a, where ?'a = nat] by (simp add: less_mult_imp_div_less)
  then show "byte16 a 0 AND 0xfe = 0xfc \<longleftrightarrow> prefix6 0xfc000000000000000000000000000000 7 a"
    by (simp add: byte_masks unat_byte16 prefix6_nat flip: div_mult2_eq)
  show "byte16 a 0 = 0xff \<longleftrightarrow> prefix6 0xff000000000000000000000000000000 8 a"
    by (simp_all add: byte16_0 prefix6_nat)
  show "byte16 a 0 = 0xfe \<and> byte16 a 1 AND 0xc0 = 0x80 \<longleftrightarrow> prefix6 0xfe800000000000000000000000000000 10 a"
    using byte16_01 [of 6 2 a 254] by (simp add: byte_masks prefix6_nat)
qed

lemma classify4:
  assumes "To4 a = Some x"
  shows "IsLoopback a \<longleftrightarrow> prefix4 0x7f000000 8 x"
    and "IsUnspecified a \<longleftrightarrow> prefix4 0 32 x"
    and "IsPrivate a \<longleftrightarrow> prefix4 0x0a000000 8 x \<or> prefix4 0xac100000 12 x \<or> prefix4 0xc0a80000 16 x"
    and "IsLinkLocalUnicast a \<longleftrightarrow> prefix4 0xa9fe0000 16 x"
    and "IsMulticast a \<longleftrightarrow> prefix4 0xe0000000 4 x"
    and "IsLinkLocalMulticast a \<Longrightarrow> IsMulticast a"
    and "\<not> IsInterfaceLocalMulticast a"
proof -
  have a: "a = mapped x" using assms by (simp add: To4_Some_iff)
  show "IsLoopback a \<longleftrightarrow> prefix4 0x7f000000 8 x" by (simp add: IsLoopback_def assms four_bits)
  show "IsPrivate a \<longleftrightarrow> prefix4 0x0a000000 8 x \<or> prefix4 0xac100000 12 x \<or> prefix4 0xc0a80000 16 x"
    unfolding IsPrivate_def assms option.case four_bits ..
  show "IsLinkLocalUnicast a \<longleftrightarrow> prefix4 0xa9fe0000 16 x"
    unfolding IsLinkLocalUnicast_def assms option.case four_bits ..
  show "IsMulticast a \<longleftrightarrow> prefix4 0xe0000000 4 x" by (simp add: IsMulticast_def assms four_bits)
  show "IsLinkLocalMulticast a \<Longrightarrow> IsMulticast a"
    by (simp add: IsLinkLocalMulticast_def IsMulticast_def assms)
  have "To4 (mapped 0) = Some 0" by (simp add: To4_Some_iff)
  moreover have "To4 0 = None" by (simp add: To4_def)
  ultimately have "IsUnspecified a \<longleftrightarrow> x = 0"
    using assms a by (metis IsUnspecified_def option.distinct(1) option.inject)
  then show "IsUnspecified a \<longleftrightarrow> prefix4 0 32 x" by (simp add: prefix4_def)
  have d: "drop_bit 32 a = 0xffff" using assms by (simp add: To4_def split: if_splits)
  have "drop_bit 120 a = drop_bit 88 (drop_bit 32 a)" by simp
  also have "\<dots> = 0" unfolding d by simp
  finally show "\<not> IsInterfaceLocalMulticast a" by (simp add: IsInterfaceLocalMulticast_def byte16_def)
qed

lemma classify6:
  assumes "To4 a = None"
  shows "IsLoopback a \<longleftrightarrow> a = 1"
    and "IsUnspecified a \<longleftrightarrow> a = 0"
    and "IsPrivate a \<longleftrightarrow> prefix6 0xfc000000000000000000000000000000 7 a"
    and "IsLinkLocalUnicast a \<longleftrightarrow> prefix6 0xfe800000000000000000000000000000 10 a"
    and "IsMulticast a \<longleftrightarrow> prefix6 0xff000000000000000000000000000000 8 a"
    and "IsLinkLocalMulticast a \<Longrightarrow> IsMulticast a"
    and "IsInterfaceLocalMulticast a \<Longrightarrow> IsMulticast a"
proof -
  have "a \<noteq> mapped 0" using assms To4_Some_iff [of a 0] by auto
  then show "IsUnspecified a \<longleftrightarrow> a = 0" by (simp add: IsUnspecified_def)
  show "IsLoopback a \<longleftrightarrow> a = 1" by (simp add: IsLoopback_def assms)
  show "IsPrivate a \<longleftrightarrow> prefix6 0xfc000000000000000000000000000000 7 a"
    by (simp add: IsPrivate_def assms sixteen_bits)
  show "IsLinkLocalUnicast a \<longleftrightarrow> prefix6 0xfe800000000000000000000000000000 10 a"
    unfolding IsLinkLocalUnicast_def assms option.case sixteen_bits ..
  show "IsMulticast a \<longleftrightarrow> prefix6 0xff000000000000000000000000000000 8 a"
    by (simp add: IsMulticast_def assms sixteen_bits)
  show "IsLinkLocalMulticast a \<Longrightarrow> IsMulticast a" "IsInterfaceLocalMulticast a \<Longrightarrow> IsMulticast a"
    by (simp_all add: IsLinkLocalMulticast_def IsInterfaceLocalMulticast_def IsMulticast_def assms)
qed

end
