(* ===== verification/Idp_Metadata.thy ===== *)
theory Idp_Metadata
  imports Idp_Sessions Go_Net
begin

text \<open>
  Client ID metadata documents (\<^verbatim>\<open>clientid_metadata.go\<close>): which client identifiers are document
  URLs, the guarded outbound fetch and its address filter, validation of a document, its cache
  lifetime, and the cache itself. The lemmas say which addresses are ever dialled, that the
  lifetime stays within its bounds, and when the network is used at all.
\<close>

section \<open>Constants\<close>

definition clientIDMetadataMaxBytes :: nat where
  "clientIDMetadataMaxBytes = 5120"

definition clientIDMetadataMinTTL :: duration where
  "clientIDMetadataMinTTL = 60 * Second"

definition clientIDMetadataMaxTTL :: duration where
  "clientIDMetadataMaxTTL = 24 * Hour"

definition clientIDMetadataDefaultTTL :: duration where
  "clientIDMetadataDefaultTTL = 900 * Second"

definition clientIDMetadataAuthMethods :: "string list" where
  "clientIDMetadataAuthMethods = [''none'', ''private_key_jwt'']"

section \<open>Client identifier URLs\<close>

datatype clientIDURLError =
    NotAURL | BadScheme | HasUserinfo | NoHost | NoPath | DotSegment | URLFragment

definition clientIDMetadataURL :: "string \<Rightarrow> (clientIDURLError, url) result" where
  "clientIDMetadataURL clientID =
     (case url_Parse clientID of
        None \<Rightarrow> Inl NotAURL
      | Some u \<Rightarrow>
          if u_Scheme u \<notin> {''https'', ''http''} then Inl BadScheme
          else if u_User u \<noteq> None then Inl HasUserinfo
          else if u_Host u = [] then Inl NoHost
          else if u_Path u = [] \<or> u_Path u = ''/'' then Inl NoPath
          else if list_ex (\<lambda>segment. segment = ''.'' \<or> segment = ''..'') (Split (EscapedPath u) (CHR ''/''))
          then Inl DotSegment
          else if u_Fragment u \<noteq> [] \<or> contains_char clientID (CHR ''#'') then Inl URLFragment
          else Inr u)"

definition isClientIDMetadataDocumentURL :: "string \<Rightarrow> bool" where
  "isClientIDMetadataDocumentURL clientID =
     (case clientIDMetadataURL clientID of Inr _ \<Rightarrow> True | Inl _ \<Rightarrow> False)"

section \<open>The address filter\<close>

datatype addressError = NotAnIP | LoopbackAddress | SpecialUse | SpecialUseIn ipnet

text \<open>\<open>None\<close> is the panic of \<^verbatim>\<open>mustParseCIDRs\<close> at start-up; \<open>ssrfBlockedCIDRs_eval\<close> shows it does not occur.\<close>

definition mustParseCIDRs :: "string list \<Rightarrow> ipnet list option" where
  "mustParseCIDRs cidrs = all_some (map ParseCIDR cidrs)"

definition blocked_cidrs :: "string list" where
  "blocked_cidrs = [''100.64.0.0/10'', ''192.0.0.0/24'', ''192.0.2.0/24'', ''198.18.0.0/15'',
     ''198.51.100.0/24'', ''203.0.113.0/24'', ''240.0.0.0/4'', ''255.255.255.255/32'',
     ''::/128'', ''100::/64'', ''2001:db8::/32'']"

definition ssrfBlockedCIDRs :: "ipnet list" where
  "ssrfBlockedCIDRs = (case mustParseCIDRs blocked_cidrs of Some nets \<Rightarrow> nets | None \<Rightarrow> [])"

definition checkFetchAddress :: "128 word option \<Rightarrow> bool \<Rightarrow> addressError option" where
  "checkFetchAddress ip allowLoopback =
     (case ip of
        None \<Rightarrow> Some NotAnIP
      | Some ip \<Rightarrow>
          if IsLoopback ip then (if allowLoopback then None else Some LoopbackAddress)
          else if IsUnspecified ip \<or> IsPrivate ip \<or> IsLinkLocalUnicast ip \<or> IsLinkLocalMulticast ip
            \<or> IsInterfaceLocalMulticast ip \<or> IsMulticast ip then Some SpecialUse
          else map_option SpecialUseIn (find (\<lambda>blocked. net_Contains blocked ip) ssrfBlockedCIDRs))"

definition externalURLIsLoopback :: "string \<Rightarrow> bool" where
  "externalURLIsLoopback extURL =
     (case url_Parse extURL of
        None \<Rightarrow> False
      | Some u \<Rightarrow>
          Hostname u = ''localhost''
          \<or> (case ParseIP (Hostname u) of Some ip \<Rightarrow> IsLoopback ip | None \<Rightarrow> False))"

section \<open>The guarded fetch\<close>

datatype fetchError =
    BadRequestURL | FetchFailed | WrongStatus nat | UnparsableContentType | NotJSONContent string
  | ReadFailed | TooLarge

text \<open>
  Dialling walks through the addresses of the host until a connection stands; the control
  function refuses an address before anything is sent to it.
\<close>

fun dial_first :: "bool \<Rightarrow> dial list \<Rightarrow> http_reply option" where
  "dial_first allowLoopback [] = None"
| "dial_first allowLoopback ((ip, conn) # ds) =
     (if checkFetchAddress ip allowLoopback \<noteq> None then dial_first allowLoopback ds
      else case conn of
        ConnectFailed \<Rightarrow> dial_first allowLoopback ds
      | ExchangeFailed \<Rightarrow> None
      | Replied reply \<Rightarrow> Some reply)"

definition metadataHTTPClient_Do :: "world \<Rightarrow> server \<Rightarrow> string \<Rightarrow> http_reply option" where
  "metadataHTTPClient_Do w s rawURL = dial_first (allowLoopbackMetadataFetch s) (w_dials w rawURL)"

definition fetchGuardedJSON ::
  "world \<Rightarrow> server \<Rightarrow> string \<Rightarrow> (fetchError, string \<times> http_reply) result" where
  "fetchGuardedJSON w s rawURL =
     (if url_Parse rawURL = None then Inl BadRequestURL
      else case metadataHTTPClient_Do w s rawURL of
        None \<Rightarrow> Inl FetchFailed
      | Some resp \<Rightarrow>
          if hr_Status resp \<noteq> 200 then Inl (WrongStatus (hr_Status resp))
          else case w_mediaType w (hr_ContentType resp) of
            None \<Rightarrow> Inl UnparsableContentType
          | Some mediaType \<Rightarrow>
              if mediaType \<noteq> ''application/json'' \<and> \<not> HasSuffix mediaType ''+json''
              then Inl (NotJSONContent mediaType)
              else if hr_ReadError resp \<and> length (hr_Body resp) \<le> clientIDMetadataMaxBytes then Inl ReadFailed
              else let bytes = take (clientIDMetadataMaxBytes + 1) (hr_Body resp)
                in if length bytes > clientIDMetadataMaxBytes then Inl TooLarge
                else Inr (bytes, resp))"

section \<open>Validating a document\<close>

datatype documentError =
    DocumentNotObject | NoClientID | WrongClientID string | ForbiddenMember string
  | DocumentNotMetadata | DocumentRejected registrationReason | NoPublishedKeys

definition validateClientIDMetadata ::
  "world \<Rightarrow> string \<Rightarrow> string \<Rightarrow> (documentError, clientRegistration) result" where
  "validateClientIDMetadata w clientID bytes =
     (case parseClaimsJSON w bytes of
        None \<Rightarrow> Inl DocumentNotObject
      | Some raw0 \<Rightarrow>
          let raw = (case raw0 of None \<Rightarrow> Map.empty | Some m \<Rightarrow> m);
              documentClientID = claim_string raw ''client_id''
          in if documentClientID = [] then Inl NoClientID
          else if documentClientID \<noteq> clientID then Inl (WrongClientID documentClientID)
          else case find (\<lambda>forbidden. raw forbidden \<noteq> None) [''client_secret'', ''client_secret_expires_at''] of
            Some forbidden \<Rightarrow> Inl (ForbiddenMember forbidden)
          | None \<Rightarrow>
            (case Option.bind (w_json w bytes) decodeRegistration of
               None \<Rightarrow> Inl DocumentNotMetadata
             | Some reg0 \<Rightarrow>
               (case normalizeRegistration reg0 clientIDMetadataAuthMethods ''none'' of
                  Inl regErr \<Rightarrow> Inl (DocumentRejected (re_description regErr))
                | Inr reg \<Rightarrow>
                    if TokenEndpointAuthMethod reg = ''private_key_jwt'' \<and> Jwks reg = None \<and> JwksURI reg = []
                    then Inl NoPublishedKeys
                    else Inr (reg\<lparr>ClientID := clientID, ClientIDIssuedAt := time_Unix (w_now w),
                      ClientSecret := [], ClientSecretExpiresAt := None,
                      RegistrationMethod := registrationMethodClientIDMetadataDocument\<rparr>))))"

section \<open>Cache lifetime\<close>

fun ttl_loop :: "duration \<Rightarrow> string list \<Rightarrow> duration" where
  "ttl_loop fallback [] = fallback"
| "ttl_loop fallback (directive # ds) =
     (let (name, val, found) = Cut (TrimSpace directive) (CHR ''='')
      in if \<not> found \<or> \<not> EqualFold_ascii (TrimSpace name) ''max-age'' then ttl_loop fallback ds
      else case Atoi (Trim (TrimSpace val) [CHR 0x22]) of
        None \<Rightarrow> ttl_loop fallback ds
      | Some n \<Rightarrow>
          if n \<le> 0 then ttl_loop fallback ds
          else min (max (seconds n) clientIDMetadataMinTTL) clientIDMetadataMaxTTL)"

definition clientIDMetadataTTLFrom :: "server \<Rightarrow> string \<Rightarrow> duration" where
  "clientIDMetadataTTLFrom s cacheControl =
     (let fallback = (if clientIDMetadataTTL s \<le> 0 then clientIDMetadataDefaultTTL else clientIDMetadataTTL s)
      in ttl_loop fallback (Split cacheControl (CHR '','')))"

section \<open>Resolving a client\<close>

datatype metadataError = Fetch fetchError | Document documentError

definition fetchClientIDMetadata ::
  "world \<Rightarrow> server \<Rightarrow> string \<Rightarrow> (metadataError, clientRegistration \<times> duration) result" where
  "fetchClientIDMetadata w s clientID =
     (case fetchGuardedJSON w s clientID of
        Inl err \<Rightarrow> Inl (Fetch err)
      | Inr (bytes, resp) \<Rightarrow>
          (case validateClientIDMetadata w clientID bytes of
             Inl err \<Rightarrow> Inl (Document err)
           | Inr reg \<Rightarrow> Inr (reg, clientIDMetadataTTLFrom s (hr_CacheControl resp))))"

definition keep_issue_time :: "server \<Rightarrow> string \<Rightarrow> clientRegistration \<Rightarrow> clientRegistration" where
  "keep_issue_time s clientID reg =
     (case clients s clientID of
        Some previous \<Rightarrow>
          if RegistrationMethod previous = registrationMethodClientIDMetadataDocument
             \<and> ClientIDIssuedAt previous \<noteq> 0
          then reg\<lparr>ClientIDIssuedAt := ClientIDIssuedAt previous\<rparr> else reg
      | None \<Rightarrow> reg)"

definition live_entry :: "world \<Rightarrow> server \<Rightarrow> string \<Rightarrow> clientIDMetadataEntry option" where
  "live_entry w s clientID =
     (case clientIDMetadata s clientID of
        Some entry \<Rightarrow> if time_Before (w_now w) (me_expiresAt entry) then Some entry else None
      | None \<Rightarrow> None)"

definition resolveClientIDMetadata ::
  "world \<Rightarrow> server \<Rightarrow> string \<Rightarrow> (metadataError, clientRegistration) result \<times> server" where
  "resolveClientIDMetadata w s clientID =
     (case live_entry w s clientID of
        Some entry \<Rightarrow> (Inr (me_reg entry), s)
      | None \<Rightarrow>
          (case fetchClientIDMetadata w s clientID of
             Inl err \<Rightarrow> (Inl err, s)
           | Inr (reg0, ttl) \<Rightarrow>
               let reg = keep_issue_time s clientID reg0
               in (Inr reg,
                   s\<lparr>clientIDMetadata := (clientIDMetadata s)(clientID \<mapsto>
                       \<lparr>me_reg = reg, me_keys = None, me_expiresAt = time_Add (w_now w) ttl\<rparr>),
                     clients := (clients s)(clientID \<mapsto> reg)\<rparr>)))"

section \<open>Which addresses are dialled\<close>

text \<open>
  The table the filter amounts to: an IPv4 address is matched against the prefixes of
  \<open>special_use4\<close>, any other address against those of \<open>special_use6\<close>.
\<close>

definition special_use4 :: "(32 word \<times> nat) list" where
  "special_use4 = [(0x00000000, 32), (0x0a000000, 8), (0xac100000, 12), (0xc0a80000, 16), (0xa9fe0000, 16),
     (0xe0000000, 4), (0x64400000, 10), (0xc0000000, 24), (0xc0000200, 24), (0xc6120000, 15),
     (0xc6336400, 24), (0xcb007100, 24), (0xf0000000, 4), (0xffffffff, 32)]"

definition special_use6 :: "(128 word \<times> nat) list" where
  "special_use6 = [(0, 128), (0xfc000000000000000000000000000000, 7), (0xfe800000000000000000000000000000, 10),
     (0xff000000000000000000000000000000, 8), (0x01000000000000000000000000000000, 64),
     (0x20010db8000000000000000000000000, 32)]"

definition may_dial :: "bool \<Rightarrow> 128 word \<Rightarrow> bool" where
  "may_dial allowLoopback a =
     (case To4 a of
        Some x \<Rightarrow>
          if prefix4 0x7f000000 8 x then allowLoopback else \<not> list_ex (\<lambda>(p, n). prefix4 p n x) special_use4
      | None \<Rightarrow>
          if a = 1 then allowLoopback else \<not> list_ex (\<lambda>(p, n). prefix6 p n a) special_use6)"

lemma ssrfBlockedCIDRs_eval:
  "ssrfBlockedCIDRs = [Net4 0x64400000 10, Net4 0xc0000000 24, Net4 0xc0000200 24, Net4 0xc6120000 15,
     Net4 0xc6336400 24, Net4 0xcb007100 24, Net4 0xf0000000 4, Net4 0xffffffff 32, Net6 0 128,
     Net6 0x01000000000000000000000000000000 64, Net6 0x20010db8000000000000000000000000 32]"
  by code_simp

declare ssrfBlockedCIDRs_eval [code]

lemma find_None_list_ex: "find P xs = None \<longleftrightarrow> \<not> list_ex P xs"
  by (auto simp: find_None_iff list_ex_iff)

lemma checkFetchAddress_passes:
  "checkFetchAddress (Some a) allow = None \<longleftrightarrow>
     (if IsLoopback a then allow
      else \<not> (IsUnspecified a \<or> IsPrivate a \<or> IsLinkLocalUnicast a \<or> IsLinkLocalMulticast a
            \<or> IsInterfaceLocalMulticast a \<or> IsMulticast a) \<and> \<not> list_ex (\<lambda>b. net_Contains b a) ssrfBlockedCIDRs)"
  by (simp add: checkFetchAddress_def flip: find_None_list_ex)

lemma checkFetchAddress_table: "checkFetchAddress (Some a) allow = None \<longleftrightarrow> may_dial allow a"
proof (cases "To4 a")
  case (Some x)
  note c = classify4 [OF Some]
  have "(IsUnspecified a \<or> IsPrivate a \<or> IsLinkLocalUnicast a \<or> IsLinkLocalMulticast a
     \<or> IsInterfaceLocalMulticast a \<or> IsMulticast a) \<longleftrightarrow> IsUnspecified a \<or> IsPrivate a \<or> IsLinkLocalUnicast a \<or> IsMulticast a"
    using c(6,7) by blast
  then show ?thesis
    unfolding checkFetchAddress_passes may_dial_def Some option.case ssrfBlockedCIDRs_eval special_use4_def
      c(1-5) by (simp add: Some)
next
  case None
  note c = classify6 [OF None]
  have z: "a = 0 \<longleftrightarrow> prefix6 0 128 a" by (simp add: prefix6_def)
  have "(IsUnspecified a \<or> IsPrivate a \<or> IsLinkLocalUnicast a \<or> IsLinkLocalMulticast a
     \<or> IsInterfaceLocalMulticast a \<or> IsMulticast a) \<longleftrightarrow> IsUnspecified a \<or> IsPrivate a \<or> IsLinkLocalUnicast a \<or> IsMulticast a"
    using c(6,7) by blast
  then show ?thesis
    unfolding checkFetchAddress_passes may_dial_def None option.case ssrfBlockedCIDRs_eval special_use6_def
      c(1-5) z by (auto simp: None)
qed

lemma dial_first_SomeD:
  "dial_first allow ds = Some reply \<Longrightarrow> \<exists>a. (Some a, Replied reply) \<in> set ds \<and> may_dial allow a"
proof (induction ds)
  case (Cons d ds)
  obtain ip conn where d: "d = (ip, conn)" by (cases d)
  show ?case
  proof (cases "checkFetchAddress ip allow = None \<and> conn = Replied reply")
    case True
    then obtain a where "ip = Some a" by (cases ip) (auto simp: checkFetchAddress_def)
    with True d show ?thesis by (auto simp: checkFetchAddress_table)
  next
    case False
    with Cons d have "dial_first allow ds = Some reply" by (auto split: if_splits connection.splits)
    with Cons.IH show ?thesis by auto
  qed
qed simp

lemma fetchGuardedJSON_InrD:
  "fetchGuardedJSON w s u = Inr (bytes, reply) \<Longrightarrow>
     (\<exists>a. (Some a, Replied reply) \<in> set (w_dials w u) \<and> may_dial (allowLoopbackMetadataFetch s) a)
     \<and> hr_Status reply = 200 \<and> bytes = hr_Body reply \<and> length bytes \<le> clientIDMetadataMaxBytes \<and> \<not> hr_ReadError reply"
  by (auto simp: fetchGuardedJSON_def metadataHTTPClient_Do_def Let_def dest!: dial_first_SomeD
      split: if_splits option.splits)

section \<open>The lifetime of a document\<close>

lemma ttl_loop_bounds:
  "ttl_loop fallback ds = fallback
   \<or> clientIDMetadataMinTTL \<le> ttl_loop fallback ds \<and> ttl_loop fallback ds \<le> clientIDMetadataMaxTTL"
proof (induction ds)
  case (Cons d ds)
  have "clientIDMetadataMinTTL \<le> clientIDMetadataMaxTTL"
    by (simp add: clientIDMetadataMinTTL_def clientIDMetadataMaxTTL_def Second_def Hour_def)
  with Cons show ?case by (auto simp: split_def Let_def split: option.splits)
qed simp

section \<open>Documents\<close>

lemma validateClientIDMetadata_InrD:
  assumes "validateClientIDMetadata w clientID bytes = Inr reg"
  shows "ClientID reg = clientID \<and> clientID \<noteq> [] \<and> ClientSecret reg = []
    \<and> RegistrationMethod reg = registrationMethodClientIDMetadataDocument
    \<and> valid_metadata clientIDMetadataAuthMethods reg
    \<and> (TokenEndpointAuthMethod reg = ''private_key_jwt'' \<longrightarrow> Jwks reg \<noteq> None \<or> JwksURI reg \<noteq> [])"
proof -
  have v: "valid_metadata clientIDMetadataAuthMethods reg1"
    if "normalizeRegistration reg0 clientIDMetadataAuthMethods ''none'' = Inr reg1" for reg0 reg1
    using that by (auto simp: normalizeRegistration_Inr valid_metadata_dedupe)
  show ?thesis
    using assms
    by (auto simp: validateClientIDMetadata_def Let_def valid_metadata_def dest!: v
        split: option.splits if_splits sum.splits)
qed

section \<open>The cache\<close>

lemma resolve_frame [idp_frames]:
  assumes "resolveClientIDMetadata w s c = (res, s')"
  shows "authContext s' = authContext s" "codeMeta s' = codeMeta s" "sessions s' = sessions s"
    "privateKeyJWTJTIs s' = privateKeyJWTJTIs s" "externalURL s' = externalURL s"
    "\<And>d. d \<noteq> c \<Longrightarrow> clients s' d = clients s d" "\<And>d. d \<noteq> c \<Longrightarrow> clientIDMetadata s' d = clientIDMetadata s d"
  using assms by (auto simp: resolveClientIDMetadata_def Let_def split: option.splits sum.splits)

lemma keep_issue_time_fields:
  "ClientID (keep_issue_time s c reg) = ClientID reg"
  "RegistrationMethod (keep_issue_time s c reg) = RegistrationMethod reg"
  "TokenEndpointAuthMethod (keep_issue_time s c reg) = TokenEndpointAuthMethod reg"
  "RedirectURIs (keep_issue_time s c reg) = RedirectURIs reg"
  "ClientSecret (keep_issue_time s c reg) = ClientSecret reg"
  "valid_metadata ms (keep_issue_time s c reg) = valid_metadata ms reg"
  "Jwks (keep_issue_time s c reg) = Jwks reg" "JwksURI (keep_issue_time s c reg) = JwksURI reg"
  by (simp_all add: keep_issue_time_def valid_metadata_def split: option.split)

lemma fetchClientIDMetadata_InrD:
  assumes "fetchClientIDMetadata w s c = Inr (reg, ttl)"
  shows "ClientID reg = c \<and> c \<noteq> [] \<and> ClientSecret reg = []
    \<and> RegistrationMethod reg = registrationMethodClientIDMetadataDocument
    \<and> valid_metadata clientIDMetadataAuthMethods reg
    \<and> (TokenEndpointAuthMethod reg = ''private_key_jwt'' \<longrightarrow> Jwks reg \<noteq> None \<or> JwksURI reg \<noteq> [])
    \<and> (\<exists>cc. ttl = clientIDMetadataTTLFrom s cc)"
  using assms
  by (auto simp: fetchClientIDMetadata_def dest!: validateClientIDMetadata_InrD split: sum.splits)

lemma TTLFrom_positive: "0 < clientIDMetadataTTLFrom s cc"
proof -
  have "0 < clientIDMetadataDefaultTTL" "0 < clientIDMetadataMinTTL"
    by (simp_all add: clientIDMetadataDefaultTTL_def clientIDMetadataMinTTL_def Second_def)
  then show ?thesis
    using ttl_loop_bounds [of "if clientIDMetadataTTL s \<le> 0 then clientIDMetadataDefaultTTL else clientIDMetadataTTL s"
        "Split cc (CHR '','')"]
    by (auto simp: clientIDMetadataTTLFrom_def Let_def)
qed

text \<open>What a cached document guarantees.\<close>

definition document_ok :: "string \<Rightarrow> clientRegistration \<Rightarrow> bool" where
  "document_ok c reg \<longleftrightarrow> ClientID reg = c \<and> c \<noteq> [] \<and> ClientSecret reg = []
     \<and> RegistrationMethod reg = registrationMethodClientIDMetadataDocument
     \<and> valid_metadata clientIDMetadataAuthMethods reg
     \<and> (TokenEndpointAuthMethod reg = ''private_key_jwt'' \<longrightarrow> Jwks reg \<noteq> None \<or> JwksURI reg \<noteq> [])"

lemma resolve_cases:
  assumes "resolveClientIDMetadata w s c = (res, s')"
  obtains (cached) entry where "live_entry w s c = Some entry" "res = Inr (me_reg entry)" "s' = s"
  | (failed) err where "live_entry w s c = None" "res = Inl err" "s' = s"
  | (fetched) reg ttl where "live_entry w s c = None" "res = Inr reg" "document_ok c reg" "0 < ttl"
      "s' = s\<lparr>clientIDMetadata := (clientIDMetadata s)(c \<mapsto>
                \<lparr>me_reg = reg, me_keys = None, me_expiresAt = w_now w + ttl\<rparr>),
              clients := (clients s)(c \<mapsto> reg)\<rparr>"
proof (cases "live_entry w s c")
  case (Some entry)
  with assms have "res = Inr (me_reg entry)" "s' = s" by (simp_all add: resolveClientIDMetadata_def)
  with Some show ?thesis by (rule cached)
next
  case None
  show ?thesis
  proof (cases "fetchClientIDMetadata w s c")
    case (Inl err)
    with None assms have "res = Inl err" "s' = s" by (simp_all add: resolveClientIDMetadata_def)
    with None show ?thesis by (rule failed)
  next
    case (Inr p)
    then obtain reg0 ttl where p: "fetchClientIDMetadata w s c = Inr (reg0, ttl)" by (cases p) auto
    have "document_ok c (keep_issue_time s c reg0)" "0 < ttl"
      using fetchClientIDMetadata_InrD [OF p] TTLFrom_positive
      by (auto simp: document_ok_def keep_issue_time_fields)
    with None p assms show ?thesis
      by (intro fetched [of "keep_issue_time s c reg0" ttl])
        (auto simp: resolveClientIDMetadata_def Let_def time_defs)
  qed
qed

section \<open>Properties\<close>

text \<open>
  C20: the server connects only to addresses outside the special-use prefixes of the table: the
  byte tests of \<^verbatim>\<open>net.IP\<close> and the blocked networks together are exactly this prefix table, an
  IPv4-mapped address is judged as the IPv4 address it stands for, and loopback is reachable only under
  the development exception.
\<close>

theorem checkFetchAddress_exact:
  "checkFetchAddress ip allow = None \<longleftrightarrow> (\<exists>a. ip = Some a \<and> may_dial allow a)"
  by (cases ip) (simp_all add: checkFetchAddress_table, simp add: checkFetchAddress_def)

text \<open>
  C21: a document is only taken from a permitted address, from a response with status 200 whose body
  was read completely and has at most 5120 bytes; it is never truncated.
\<close>

theorem fetchGuardedJSON_safe:
  assumes "fetchGuardedJSON w s u = Inr (bytes, reply)"
  shows "(\<exists>a. (Some a, Replied reply) \<in> set (w_dials w u) \<and> may_dial (allowLoopbackMetadataFetch s) a)
     \<and> hr_Status reply = 200 \<and> bytes = hr_Body reply \<and> length bytes \<le> 5120 \<and> \<not> hr_ReadError reply"
  using fetchGuardedJSON_InrD [OF assms] unfolding clientIDMetadataMaxBytes_def by blast

definition example_reply :: http_reply where
  "example_reply = \<lparr>hr_Status = 200, hr_ContentType = ''application/json'', hr_CacheControl = ''max-age=120'',
     hr_Body = ''{}'', hr_ReadError = False\<rparr>"

text \<open>The first address the name resolves to, 10.0.0.1, is private and skipped, the second, 8.8.8.8, is public.\<close>

definition fetching_world :: world where
  "fetching_world = example_world\<lparr>w_dials := (\<lambda>u. [(Some 0xffff0a000001, Replied example_reply),
     (Some 0xffff08080808, Replied example_reply)]), w_json := (\<lambda>raw. Some (JObj
       [(''client_id'', JStr ''https://app/id''), (''redirect_uris'', JArr [JStr ''https://app/cb''])]))\<rparr>"

theorem fetchGuardedJSON_safe_witness:
  "fetchGuardedJSON fetching_world example_server ''https://app/id'' = Inr (''{}'', example_reply)
   \<and> length ''{}'' \<le> 5120 \<and> hr_Status example_reply = 200"
proof -
  have "fetchGuardedJSON fetching_world example_server ''https://app/id'' = Inr (''{}'', example_reply)"
    by code_simp
  with fetchGuardedJSON_safe [OF this] show ?thesis by blast
qed

text \<open>
  C37: the cache lifetime of a document is positive and either the configured default or between 60
  seconds and 24 hours, whatever the \<^verbatim>\<open>Cache-Control\<close> header says, even where the int64 product of
  seconds overflows.
\<close>

theorem clientIDMetadataTTL_bounds:
  "0 < clientIDMetadataTTLFrom s cacheControl
   \<and> clientIDMetadataTTLFrom s cacheControl \<in> {60 * Second..24 * Hour}
      \<union> {if clientIDMetadataTTL s \<le> 0 then 900 * Second else clientIDMetadataTTL s}"
  using TTLFrom_positive ttl_loop_bounds
    [of "if clientIDMetadataTTL s \<le> 0 then clientIDMetadataDefaultTTL else clientIDMetadataTTL s"
      "Split cacheControl (CHR '','')"]
  by (auto simp: clientIDMetadataTTLFrom_def Let_def clientIDMetadataDefaultTTL_def
      clientIDMetadataMinTTL_def clientIDMetadataMaxTTL_def)

text \<open>A max-age beyond the int64 range of nanoseconds is cut to the lower bound, not the upper one.\<close>

lemma clientIDMetadataTTL_overflow:
  "clientIDMetadataTTLFrom example_server ''max-age=9223372036'' = clientIDMetadataMaxTTL"
  "clientIDMetadataTTLFrom example_server ''max-age=9223372037'' = clientIDMetadataMinTTL"
  by code_simp+

text \<open>An address of 0.0.0.0/8 other than 0.0.0.0 and the NAT64 form of a private address pass the filter.\<close>

lemma checkFetchAddress_gaps:
  "checkFetchAddress (Some (mapped 0x00000001)) False = None"
  "checkFetchAddress (Some 0x0064ff9b00000000000000000a000001) False = None"
  by code_simp+

text \<open>
  C35: resolving a metadata client either serves the live cache entry without touching the network or the
  state, or fails and leaves the state alone, or stores a document that names this client, carries no secret, is well
  formed and publishes keys where it authenticates with them, and only under this client's identifier.
\<close>

theorem resolveClientIDMetadata_outcome:
  assumes "resolveClientIDMetadata w s c = (res, s')"
  shows "(case live_entry w s c of
       Some entry \<Rightarrow> res = Inr (me_reg entry) \<and> s' = s
     | None \<Rightarrow> (case res of
         Inl err \<Rightarrow> s' = s
       | Inr reg \<Rightarrow> document_ok c reg
           \<and> (\<exists>entry. s' = s\<lparr>clientIDMetadata := (clientIDMetadata s)(c \<mapsto> entry), clients := (clients s)(c \<mapsto> reg)\<rparr>
                \<and> me_reg entry = reg \<and> me_keys entry = None \<and> w_now w < me_expiresAt entry)))"
  using assms by (cases rule: resolve_cases) auto

theorem resolveClientIDMetadata_outcome_witness:
  "\<exists>reg s'. resolveClientIDMetadata fetching_world example_server ''https://app/id'' = (Inr reg, s')
     \<and> document_ok ''https://app/id'' reg"
proof -
  let ?p = "resolveClientIDMetadata fetching_world example_server ''https://app/id''"
  have l: "live_entry fetching_world example_server ''https://app/id'' = None"
    and i: "\<not> isl (fst ?p)" by code_simp+
  from i obtain reg where r: "fst ?p = Inr reg" by (cases "fst ?p") auto
  from resolveClientIDMetadata_outcome [of fetching_world example_server _ "fst ?p" "snd ?p"] l r show ?thesis
    by (metis (no_types, lifting) option.case(1) prod.collapse sum.case(2))
qed

text \<open>
  C36: once a document has been fetched, resolving the same client again before it expires returns the
  same registration and changes nothing, whatever the network answers by then.
\<close>

theorem resolveClientIDMetadata_cached:
  assumes "resolveClientIDMetadata w s c = (Inr reg, s')"
    and "clientIDMetadata s' c = Some entry" and "w_now w' < me_expiresAt entry" and "w_now w \<le> w_now w'"
  shows "resolveClientIDMetadata w' s' c = (Inr reg, s')"
  using assms(1)
proof (cases rule: resolve_cases)
  case (cached e)
  with assms(2-) have "e = entry" by (auto simp: live_entry_def split: option.splits if_splits)
  with cached assms(2-) show ?thesis by (simp add: resolveClientIDMetadata_def live_entry_def time_defs)
next
  case (fetched reg' ttl)
  with assms(2-) show ?thesis by (auto simp: resolveClientIDMetadata_def live_entry_def time_defs)
qed simp

theorem resolveClientIDMetadata_cached_witness:
  "fst (resolveClientIDMetadata (example_world\<lparr>w_now := 1100 * Second\<rparr>)
      (snd (resolveClientIDMetadata fetching_world example_server ''https://app/id'')) ''https://app/id'')
    = fst (resolveClientIDMetadata fetching_world example_server ''https://app/id'')"
proof -
  let ?p = "resolveClientIDMetadata fetching_world example_server ''https://app/id''"
  have i: "\<not> isl (fst ?p)"
    and e: "map_option me_expiresAt (clientIDMetadata (snd ?p) ''https://app/id'') = Some (1120 * Second)"
    and n: "w_now fetching_world = 1000 * Second" by code_simp+
  from i obtain reg where r: "fst ?p = Inr reg" by (cases "fst ?p") auto
  from e obtain entry where entry: "clientIDMetadata (snd ?p) ''https://app/id'' = Some entry"
    and x: "me_expiresAt entry = 1120 * Second" by auto
  have p: "?p = (Inr reg, snd ?p)" using r by (metis prod.collapse)
  show ?thesis
    using resolveClientIDMetadata_cached [OF p entry, of "example_world\<lparr>w_now := 1100 * Second\<rparr>"] x n r
    by (simp add: Second_def)
qed

end
