(* ===== verification/Replay_Guard.thy ===== *)
theory Replay_Guard
  imports Prelude
begin

text \<open>
  The contract of a replay guard, which both programs use: a key that was claimed is refused for a
  while, whatever other keys are claimed in between. The identity provider guards the \<^verbatim>\<open>jti\<close> of a client
  assertion this way, the backend-for-frontend the \<^verbatim>\<open>state\<close> of a login. \<open>window p t u\<close> says that a
  claim with parameter \<open>p\<close> made at time \<open>t\<close> still counts at time \<open>u\<close>.
\<close>

text \<open>A run of claims, each with its time, key and parameter.\<close>

fun claims_run ::
  "(time \<Rightarrow> 'k \<Rightarrow> 'p \<Rightarrow> 's \<Rightarrow> bool \<times> 's) \<Rightarrow> (time \<times> 'k \<times> 'p) list \<Rightarrow> 's \<Rightarrow> 's" where
  "claims_run claim [] s = s"
| "claims_run claim ((t, k, p) # cs) s = claims_run claim cs (snd (claim t k p s))"

locale replay_guard =
  fixes claim :: "time \<Rightarrow> 'k \<Rightarrow> 'p \<Rightarrow> 's \<Rightarrow> bool \<times> 's"
    and blocked :: "'s \<Rightarrow> 'k \<Rightarrow> time \<Rightarrow> bool"
    and window :: "'p \<Rightarrow> time \<Rightarrow> time \<Rightarrow> bool"
  assumes accepts: "fst (claim t k p s) \<longleftrightarrow> \<not> blocked s k t"
    and records: "fst (claim t k p s) \<Longrightarrow> t \<le> u \<Longrightarrow> window p t u \<Longrightarrow> blocked (snd (claim t k p s)) k u"
    and remembers: "blocked s k u \<Longrightarrow> t \<le> u \<Longrightarrow> blocked (snd (claim t k' p' s)) k u"
begin

lemma run_remembers:
  "blocked s k u \<Longrightarrow> \<forall>c\<in>set cs. fst c \<le> u \<Longrightarrow> blocked (claims_run claim cs s) k u"
proof (induction cs arbitrary: s)
  case (Cons c cs)
  obtain t k' p where c: "c = (t, k', p)" by (cases c)
  with Cons.prems have "blocked (snd (claim t k' p s)) k u" by (auto intro: remembers)
  with Cons c show ?case by simp
qed simp

lemma no_second_claim:
  assumes "fst (claim t k p s)" and "t \<le> u" and "window p t u" and "\<forall>c\<in>set cs. fst c \<le> u"
  shows "\<not> fst (claim u k q (claims_run claim cs (snd (claim t k p s))))"
  using records [OF assms(1-3)] assms(4) by (simp add: accepts run_remembers)

end

end
