(* ===== verification/Idp_ClientAuth.thy ===== *)
theory Idp_ClientAuth
  imports Idp_Metadata Replay_Guard
begin

text \<open>
  Client authentication at the token endpoint: reading the credentials of a request and checking them
  against the registration (\<^verbatim>\<open>main.go\<close>), and RFC 7523 assertions (\<^verbatim>\<open>private_key_jwt.go\<close>)
  with the client's key set and the cache of used assertions, which is a replay guard.
\<close>

section \<open>Credentials\<close>

definition privateKeyJWTAssertionType :: string where
  "privateKeyJWTAssertionType = ''urn:ietf:params:oauth:client-assertion-type:jwt-bearer''"

definition privateKeyJWTMaxLifetime :: duration where
  "privateKeyJWTMaxLifetime = 10 * Minute"

definition privateKeyJWTLeeway :: duration where
  "privateKeyJWTLeeway = 60 * Second"

definition privateKeyJWTAlgorithms :: "string list" where
  "privateKeyJWTAlgorithms = [''RS256'', ''RS384'', ''RS512'', ''PS256'', ''PS384'', ''PS512'',
     ''ES256'', ''ES384'', ''ES512'']"

definition advertisedTokenEndpointAuthSigningAlgs :: "string list" where
  "advertisedTokenEndpointAuthSigningAlgs = [''RS256'', ''ES256'']"

record clientCredentials =
  cc_clientID :: string
  cc_secret :: string
  cc_method :: string
  cc_assertion :: string

text \<open>\<^verbatim>\<open>Request.BasicAuth\<close> of the standard library.\<close>

definition BasicAuth :: "request \<Rightarrow> (string \<times> string) option" where
  "BasicAuth r =
     (if length (r_Authorization r) < 6 \<or> \<not> EqualFold_ascii (take 6 (r_Authorization r)) ''Basic ''
      then None
      else case b64_std_decode (drop 6 (r_Authorization r)) of
        None \<Rightarrow> None
      | Some cs \<Rightarrow> (case Cut cs (CHR '':'') of (user, pass, True) \<Rightarrow> Some (user, pass) | _ \<Rightarrow> None))"

definition parseClientCredentials :: "request \<Rightarrow> clientCredentials" where
  "parseClientCredentials r =
     (if form_Get r ''client_assertion_type'' = privateKeyJWTAssertionType
      then \<lparr>cc_clientID = form_Get r ''client_id'', cc_secret = [], cc_method = ''private_key_jwt'',
             cc_assertion = form_Get r ''client_assertion''\<rparr>
      else case BasicAuth r of
        Some (clientID, secret) \<Rightarrow>
          \<lparr>cc_clientID = clientID, cc_secret = secret, cc_method = ''client_secret_basic'', cc_assertion = []\<rparr>
      | None \<Rightarrow>
          if form_Get r ''client_secret'' \<noteq> []
          then \<lparr>cc_clientID = form_Get r ''client_id'', cc_secret = form_Get r ''client_secret'',
                 cc_method = ''client_secret_post'', cc_assertion = []\<rparr>
          else \<lparr>cc_clientID = form_Get r ''client_id'', cc_secret = [], cc_method = ''none'', cc_assertion = []\<rparr>)"

section \<open>Keys\<close>

datatype authError =
    AssertionMissing
  | JwksFetch fetchError
  | NoKeysPublished
  | BadKeySet
  | EmptyKeySet
  | BadAssertion
  | WrongIssuer string
  | WrongSubject string
  | WrongAudience
  | NoExpiry
  | ExpiresTooLate
  | NoJTI
  | Replayed string
  | CannotReresolve metadataError
  | WrongMethod string string
  | WrongClient string string
  | NoStoredSecret
  | SecretMismatch

datatype keyError = NoSuchKid string | NoUsableKey string

definition usable_key :: "string \<Rightarrow> jwk \<Rightarrow> public_key option" where
  "usable_key alg candidate =
     (if jwk_Use candidate \<noteq> [] \<and> jwk_Use candidate \<noteq> ''sig'' then None
      else if jwk_Algorithm candidate \<noteq> [] \<and> jwk_Algorithm candidate \<noteq> alg then None
      else case jwk_Public candidate of
        RSAPublicKey k \<Rightarrow> Some (RSAPublicKey k)
      | ECDSAPublicKey k \<Rightarrow> Some (ECDSAPublicKey k)
      | OtherKey _ \<Rightarrow> None)"

definition verificationKeys ::
  "world \<Rightarrow> jwk list \<Rightarrow> string \<Rightarrow> string \<Rightarrow> (keyError, public_key list) result" where
  "verificationKeys w keys kid alg =
     (let candidates = (if kid \<noteq> [] then w_keysByID w keys kid else keys)
      in if kid \<noteq> [] \<and> candidates = [] then Inl (NoSuchKid kid)
      else let out = List.map_filter (usable_key alg) candidates
        in if out = [] then Inl (NoUsableKey alg) else Inr out)"

definition read_keySet :: "world \<Rightarrow> json option \<Rightarrow> (authError, jwk list) result" where
  "read_keySet w raw =
     (case Option.bind raw (w_jwks w) of
        None \<Rightarrow> Inl BadKeySet
      | Some keys \<Rightarrow> if keys = [] then Inl EmptyKeySet else Inr keys)"

definition resolve_keySet :: "world \<Rightarrow> server \<Rightarrow> clientRegistration \<Rightarrow> (authError, jwk list) result" where
  "resolve_keySet w s reg =
     (case Jwks reg of
        Some raw \<Rightarrow> read_keySet w (Some raw)
      | None \<Rightarrow>
          if JwksURI reg \<noteq> [] then
            (case fetchGuardedJSON w s (JwksURI reg) of
               Inl err \<Rightarrow> Inl (JwksFetch err)
             | Inr (bytes, _) \<Rightarrow> read_keySet w (w_json w bytes))
          else Inl NoKeysPublished)"

definition clientKeySet ::
  "world \<Rightarrow> server \<Rightarrow> string \<Rightarrow> clientRegistration \<Rightarrow> (authError, jwk list) result \<times> server" where
  "clientKeySet w s clientID reg =
     (case Option.bind (live_entry w s clientID) me_keys of
        Some keys \<Rightarrow> (Inr keys, s)
      | None \<Rightarrow>
          (case resolve_keySet w s reg of
             Inl err \<Rightarrow> (Inl err, s)
           | Inr keys \<Rightarrow>
               (Inr keys,
                case live_entry w s clientID of
                  Some entry \<Rightarrow>
                    s\<lparr>clientIDMetadata := (clientIDMetadata s)(clientID \<mapsto> entry\<lparr>me_keys := Some keys\<rparr>)\<rparr>
                | None \<Rightarrow> s)))"

section \<open>Used assertions\<close>

definition jti_key :: "string \<Rightarrow> string \<Rightarrow> string" where
  "jti_key clientID jti = clientID @ [CHR 0x00] @ jti"

definition prune_jtis :: "time \<Rightarrow> (string \<rightharpoonup> time) \<Rightarrow> (string \<rightharpoonup> time)" where
  "prune_jtis now m =
     (\<lambda>seen. case m seen of
        Some seenExpiry \<Rightarrow> if time_After now seenExpiry then None else Some seenExpiry
      | None \<Rightarrow> None)"

text \<open>The cache step of \<^verbatim>\<open>consumePrivateKeyJWTJTI\<close>: prune, refuse a known key, record a new one.\<close>

definition claim_jti :: "time \<Rightarrow> string \<Rightarrow> time \<Rightarrow> (string \<rightharpoonup> time) \<Rightarrow> bool \<times> (string \<rightharpoonup> time)" where
  "claim_jti now key expiry m =
     (let m' = prune_jtis now m
      in if m' key \<noteq> None then (False, m')
      else (True, m'(key \<mapsto> time_Add expiry privateKeyJWTLeeway)))"

definition consumePrivateKeyJWTJTI ::
  "world \<Rightarrow> server \<Rightarrow> string \<Rightarrow> string \<Rightarrow> time \<Rightarrow> authError option \<times> server" where
  "consumePrivateKeyJWTJTI w s clientID jti expiry =
     (let (fresh, m) = claim_jti (w_now w) (jti_key clientID jti) expiry (privateKeyJWTJTIs s)
      in (if fresh then None else Some (Replayed jti), s\<lparr>privateKeyJWTJTIs := m\<rparr>))"

section \<open>Assertions\<close>

definition assertion_options :: jwt_options where
  "assertion_options = \<lparr>jo_validMethods = Some privateKeyJWTAlgorithms, jo_expRequired = True,
     jo_leeway = privateKeyJWTLeeway\<rparr>"

definition assertion_keyfunc :: "world \<Rightarrow> jwk list \<Rightarrow> keyfunc" where
  "assertion_keyfunc w keys h =
     (let kid = (case jh_kid h of Some (AStr k) \<Rightarrow> k | _ \<Rightarrow> [])
      in case verificationKeys w keys kid (jh_alg h) of Inr ks \<Rightarrow> Some ks | Inl _ \<Rightarrow> None)"

definition verifyPrivateKeyJWT ::
  "world \<Rightarrow> server \<Rightarrow> string \<Rightarrow> clientRegistration \<Rightarrow> string \<Rightarrow> authError option \<times> server" where
  "verifyPrivateKeyJWT w s clientID reg assertion =
     (if assertion = [] then (Some AssertionMissing, s)
      else case clientKeySet w s clientID reg of
        (Inl err, s1) \<Rightarrow> (Some err, s1)
      | (Inr keySet, s1) \<Rightarrow>
          (case w_parse w assertion_options (assertion_keyfunc w keySet) (w_now w) assertion of
             None \<Rightarrow> (Some BadAssertion, s1)
           | Some claims \<Rightarrow>
               if claim_string claims ''iss'' \<noteq> clientID then (Some (WrongIssuer (claim_string claims ''iss'')), s1)
               else if claim_string claims ''sub'' \<noteq> clientID
               then (Some (WrongSubject (claim_string claims ''sub'')), s1)
               else if \<not> audContains claims (externalURL s @ ''/token'') \<and> \<not> audContains claims (externalURL s)
               then (Some WrongAudience, s1)
               else case w_expirationTime w claims of
                 None \<Rightarrow> (Some NoExpiry, s1)
               | Some expiry \<Rightarrow>
                   if time_After expiry (time_Add (w_now w) privateKeyJWTMaxLifetime)
                   then (Some ExpiresTooLate, s1)
                   else if claim_string claims ''jti'' = [] then (Some NoJTI, s1)
                   else consumePrivateKeyJWTJTI w s1 clientID (claim_string claims ''jti'') expiry))"

section \<open>Authenticating a client\<close>

definition check_credentials ::
  "world \<Rightarrow> server \<Rightarrow> string \<Rightarrow> clientCredentials \<Rightarrow> clientRegistration \<Rightarrow> authError option \<times> server" where
  "check_credentials w s clientID creds reg =
     (if TokenEndpointAuthMethod reg = [] \<or> TokenEndpointAuthMethod reg = ''none'' then (None, s)
      else if cc_method creds \<noteq> TokenEndpointAuthMethod reg
      then (Some (WrongMethod (TokenEndpointAuthMethod reg) (cc_method creds)), s)
      else if TokenEndpointAuthMethod reg = ''private_key_jwt'' then
        (if cc_clientID creds \<noteq> [] \<and> cc_clientID creds \<noteq> clientID
         then (Some (WrongClient (cc_clientID creds) clientID), s)
         else verifyPrivateKeyJWT w s clientID reg (cc_assertion creds))
      else if cc_clientID creds \<noteq> clientID then (Some (WrongClient (cc_clientID creds) clientID), s)
      else if ClientSecret reg = [] then (Some NoStoredSecret, s)
      else if cc_secret creds \<noteq> ClientSecret reg then (Some SecretMismatch, s)
      else (None, s))"

definition authenticateClient ::
  "world \<Rightarrow> server \<Rightarrow> string \<Rightarrow> clientCredentials \<Rightarrow> authError option \<times> server" where
  "authenticateClient w s clientID creds =
     (case clients s clientID of
        None \<Rightarrow> (None, s)
      | Some reg \<Rightarrow>
          if RegistrationMethod reg = registrationMethodDynamic then check_credentials w s clientID creds reg
          else if RegistrationMethod reg = registrationMethodClientIDMetadataDocument then
            (case resolveClientIDMetadata w s clientID of
               (Inr refreshed, s1) \<Rightarrow> check_credentials w s1 clientID creds refreshed
             | (Inl err, s1) \<Rightarrow>
                 if TokenEndpointAuthMethod reg = ''private_key_jwt'' then (Some (CannotReresolve err), s1)
                 else check_credentials w s1 clientID creds reg)
          else (None, s))"

section \<open>The cache of used assertions is a replay guard\<close>

definition jti_blocked :: "(string \<rightharpoonup> time) \<Rightarrow> string \<Rightarrow> time \<Rightarrow> bool" where
  "jti_blocked m key now \<longleftrightarrow> (\<exists>h. m key = Some h \<and> now \<le> h)"

definition jti_window :: "time \<Rightarrow> time \<Rightarrow> time \<Rightarrow> bool" where
  "jti_window expiry t u \<longleftrightarrow> u \<le> expiry + privateKeyJWTLeeway"

lemma prune_jtis_Some: "prune_jtis now m k = Some h \<longleftrightarrow> m k = Some h \<and> now \<le> h"
  by (auto simp: prune_jtis_def time_defs split: option.splits)

lemma prune_jtis_None: "prune_jtis now m k = None \<longleftrightarrow> \<not> jti_blocked m k now"
  by (auto simp: prune_jtis_def jti_blocked_def time_defs split: option.splits)

lemma claim_jti_accepted: "fst (claim_jti now key e m) \<longleftrightarrow> \<not> jti_blocked m key now"
  by (auto simp: claim_jti_def Let_def simp flip: prune_jtis_None)

lemma claim_jti_result:
  "snd (claim_jti now key e m) =
     (if jti_blocked m key now then prune_jtis now m
      else (prune_jtis now m)(key \<mapsto> e + privateKeyJWTLeeway))"
  using prune_jtis_None [of now m key]
  by (cases "jti_blocked m key now") (auto simp: claim_jti_def Let_def time_defs)

interpretation jti: replay_guard claim_jti jti_blocked jti_window
proof unfold_locales
  show "fst (claim_jti t k p s) \<longleftrightarrow> \<not> jti_blocked s k t" for t k p s by (rule claim_jti_accepted)
  show "jti_blocked (snd (claim_jti t k p s)) k u"
    if "fst (claim_jti t k p s)" "t \<le> u" "jti_window p t u" for t k p s u
    using that unfolding claim_jti_accepted claim_jti_result
    by (simp add: jti_blocked_def [of "_(k \<mapsto> _)"] jti_window_def)
  show "jti_blocked (snd (claim_jti t k' p' s)) k u" if "jti_blocked s k u" "t \<le> u" for s k u t k' p'
  proof -
    obtain h where h: "s k = Some h" "u \<le> h" using \<open>jti_blocked s k u\<close> by (auto simp: jti_blocked_def)
    with \<open>t \<le> u\<close> have "prune_jtis t s k = Some h" by (simp add: prune_jtis_Some)
    moreover have "jti_blocked s k t" using h \<open>t \<le> u\<close> by (auto simp: jti_blocked_def)
    ultimately show ?thesis using h unfolding claim_jti_result by (auto simp: jti_blocked_def)
  qed
qed

lemma jti_key_inject:
  "CHR 0x00 \<notin> set c \<Longrightarrow> CHR 0x00 \<notin> set d \<Longrightarrow> jti_key c j = jti_key d k \<longleftrightarrow> c = d \<and> j = k"
  unfolding jti_key_def by (auto dest: sep_inject)

section \<open>What a successful authentication shows\<close>

lemma consume_None:
  "consumePrivateKeyJWTJTI w s c j e = (None, s') \<longleftrightarrow>
     fst (claim_jti (w_now w) (jti_key c j) e (privateKeyJWTJTIs s))
     \<and> s' = s\<lparr>privateKeyJWTJTIs := snd (claim_jti (w_now w) (jti_key c j) e (privateKeyJWTJTIs s))\<rparr>"
  by (auto simp: consumePrivateKeyJWTJTI_def split_def Let_def split: if_splits)

lemma clientKeySet_frame:
  assumes "clientKeySet w s c reg = (res, s')"
  shows "privateKeyJWTJTIs s' = privateKeyJWTJTIs s" "sessions s' = sessions s" "codeMeta s' = codeMeta s"
    "authContext s' = authContext s" "clients s' = clients s" "externalURL s' = externalURL s"
  using assms by (auto simp: clientKeySet_def split: option.splits sum.splits)

text \<open>The assertion a successful check accepted: for this client, this server, in time, and unused.\<close>

definition assertion_ok :: "world \<Rightarrow> server \<Rightarrow> string \<Rightarrow> claims \<Rightarrow> time \<Rightarrow> bool" where
  "assertion_ok w s c claims expiry \<longleftrightarrow>
     claim_string claims ''iss'' = c \<and> claim_string claims ''sub'' = c
     \<and> (audContains claims (externalURL s @ ''/token'') \<or> audContains claims (externalURL s))
     \<and> w_expirationTime w claims = Some expiry \<and> expiry \<le> w_now w + privateKeyJWTMaxLifetime
     \<and> claim_string claims ''jti'' \<noteq> []"

lemma verifyPrivateKeyJWT_None:
  assumes "verifyPrivateKeyJWT w s c reg a = (None, s')"
  shows "\<exists>keys claims expiry s1. clientKeySet w s c reg = (Inr keys, s1)
    \<and> w_parse w assertion_options (assertion_keyfunc w keys) (w_now w) a = Some claims
    \<and> assertion_ok w s c claims expiry
    \<and> fst (claim_jti (w_now w) (jti_key c (claim_string claims ''jti'')) expiry (privateKeyJWTJTIs s))
    \<and> privateKeyJWTJTIs s' =
        snd (claim_jti (w_now w) (jti_key c (claim_string claims ''jti'')) expiry (privateKeyJWTJTIs s))"
proof -
  obtain res s1 where k: "clientKeySet w s c reg = (res, s1)" by fastforce
  show ?thesis
    using assms clientKeySet_frame(1) [OF k]
    by (auto simp: verifyPrivateKeyJWT_def k consume_None assertion_ok_def time_defs not_less
        split: if_splits sum.splits option.splits)
qed

lemma check_credentials_secret:
  assumes "TokenEndpointAuthMethod reg \<in> {''client_secret_basic'', ''client_secret_post''}"
  shows "check_credentials w s c creds reg = (None, s') \<longleftrightarrow>
    s' = s \<and> cc_method creds = TokenEndpointAuthMethod reg \<and> cc_clientID creds = c
    \<and> cc_secret creds = ClientSecret reg \<and> ClientSecret reg \<noteq> []"
  using assms by (auto simp: check_credentials_def)

section \<open>Properties\<close>

text \<open>
  C12: a client that registered dynamically for \<^verbatim>\<open>client_secret_basic\<close> or \<^verbatim>\<open>client_secret_post\<close> is
  authenticated exactly when the request presents its own identifier and its stored, non-empty secret with the
  method it registered; authentication changes nothing.
\<close>

theorem authenticateClient_secret:
  assumes "clients s c = Some reg" and "RegistrationMethod reg = registrationMethodDynamic"
    and "TokenEndpointAuthMethod reg \<in> {''client_secret_basic'', ''client_secret_post''}"
  shows "(fst (authenticateClient w s c creds) = None \<longleftrightarrow>
      cc_method creds = TokenEndpointAuthMethod reg \<and> cc_clientID creds = c
      \<and> cc_secret creds = ClientSecret reg \<and> ClientSecret reg \<noteq> [])
    \<and> snd (authenticateClient w s c creds) = s"
  using assms by (auto simp: authenticateClient_def check_credentials_def)

definition secret_server :: server where
  "secret_server = example_server\<lparr>clients := [''app'' \<mapsto> zero_registration\<lparr>ClientID := ''app'',
     ClientSecret := ''s3cret'', TokenEndpointAuthMethod := ''client_secret_basic'',
     RegistrationMethod := registrationMethodDynamic\<rparr>]\<rparr>"

definition basic_request :: request where
  "basic_request = example_request\<lparr>r_Method := ''POST'', r_Authorization := ''Basic YXBwOnMzY3JldA==''\<rparr>"

theorem authenticateClient_secret_witness:
  "parseClientCredentials basic_request
     = \<lparr>cc_clientID = ''app'', cc_secret = ''s3cret'', cc_method = ''client_secret_basic'', cc_assertion = []\<rparr>
   \<and> fst (authenticateClient example_world secret_server ''app'' (parseClientCredentials basic_request)) = None"
proof -
  have p: "parseClientCredentials basic_request
     = \<lparr>cc_clientID = ''app'', cc_secret = ''s3cret'', cc_method = ''client_secret_basic'', cc_assertion = []\<rparr>"
    by code_simp
  have "fst (authenticateClient example_world secret_server ''app'' (parseClientCredentials basic_request)) = None"
    unfolding p
    using authenticateClient_secret [of secret_server "''app''" "the (clients secret_server ''app'')" example_world]
    by (simp add: secret_server_def)
  with p show ?thesis by blast
qed

text \<open>
  C10: a client assertion that authenticated a client is refused when it is presented again, as long as the JWT library
  would still accept it (up to its expiry plus the leeway), however many other assertions are
  checked in between.
\<close>

theorem verifyPrivateKeyJWT_single_use:
  assumes first: "verifyPrivateKeyJWT w s c reg a = (None, s')"
    and parsed: "w_parse w assertion_options (assertion_keyfunc w keys) (w_now w) a = Some claims"
      "fst (clientKeySet w s c reg) = Inr keys" "w_expirationTime w claims = Some expiry"
    and between: "privateKeyJWTJTIs s2 = claims_run claim_jti others (privateKeyJWTJTIs s')"
      "list_all (\<lambda>x. fst x \<le> w_now w2) others"
    and later: "w_now w \<le> w_now w2" "w_now w2 \<le> expiry + privateKeyJWTLeeway"
    and again: "fst (clientKeySet w2 s2 c reg2) = Inr keys2"
      "w_parse w2 assertion_options (assertion_keyfunc w2 keys2) (w_now w2) a2 = Some claims2"
      "claim_string claims2 ''jti'' = claim_string claims ''jti''"
  shows "fst (verifyPrivateKeyJWT w2 s2 c reg2 a2) \<noteq> None"
proof
  let ?k = "jti_key c (claim_string claims ''jti'')"
  assume "fst (verifyPrivateKeyJWT w2 s2 c reg2 a2) = None"
  then obtain s3 where "verifyPrivateKeyJWT w2 s2 c reg2 a2 = (None, s3)" by (metis prod.collapse)
  from verifyPrivateKeyJWT_None [OF this] again obtain e2
    where 2: "fst (claim_jti (w_now w2) ?k e2 (privateKeyJWTJTIs s2))" by auto
  from verifyPrivateKeyJWT_None [OF first] parsed
  have 1: "fst (claim_jti (w_now w) ?k expiry (privateKeyJWTJTIs s))"
    "privateKeyJWTJTIs s' = snd (claim_jti (w_now w) ?k expiry (privateKeyJWTJTIs s))"
    by (auto simp: assertion_ok_def)
  have "\<not> fst (claim_jti (w_now w2) ?k e2 (claims_run claim_jti others (snd (claim_jti (w_now w) ?k expiry (privateKeyJWTJTIs s)))))"
    using 1(1) later between(2) by (intro jti.no_second_claim) (auto simp: jti_window_def list_all_iff)
  with 1(2) 2 between(1) show False by simp
qed

definition assertion_claims :: claims where
  "assertion_claims = [''iss'' \<mapsto> AStr ''app'', ''sub'' \<mapsto> AStr ''app'', ''aud'' \<mapsto> AStr ''https://idp'',
     ''exp'' \<mapsto> AInt 1300, ''jti'' \<mapsto> AStr ''j-1'']"

definition assertion_world :: world where
  "assertion_world = example_world\<lparr>w_jwks := (\<lambda>j. Some [\<lparr>jwk_KeyID = ''k'', jwk_Use = ''sig'', jwk_Algorithm = [],
       jwk_Public = RSAPublicKey ''pub''\<rparr>]),
     w_parse := (\<lambda>opts kf now tok. if tok = ''jwt'' then Some assertion_claims else None)\<rparr>"

definition jwks_registration :: clientRegistration where
  "jwks_registration = zero_registration\<lparr>ClientID := ''app'', Jwks := Some (JObj [])\<rparr>"

theorem verifyPrivateKeyJWT_single_use_witness:
  "fst (verifyPrivateKeyJWT assertion_world example_server ''app'' jwks_registration ''jwt'') = None
   \<and> fst (verifyPrivateKeyJWT (assertion_world\<lparr>w_now := 1359 * Second\<rparr>)
        (snd (verifyPrivateKeyJWT assertion_world example_server ''app'' jwks_registration ''jwt''))
        ''app'' jwks_registration ''jwt'') \<noteq> None"
proof -
  let ?p = "verifyPrivateKeyJWT assertion_world example_server ''app'' jwks_registration ''jwt''"
  let ?w2 = "assertion_world\<lparr>w_now := 1359 * Second\<rparr>"
  let ?ks = "[\<lparr>jwk_KeyID = ''k'', jwk_Use = ''sig'', jwk_Algorithm = [], jwk_Public = RSAPublicKey ''pub''\<rparr>]"
  have f: "fst ?p = None"
    and k: "fst (clientKeySet assertion_world example_server ''app'' jwks_registration) = Inr ?ks"
    and k2: "fst (clientKeySet ?w2 (snd ?p) ''app'' jwks_registration) = Inr ?ks"
    and e: "w_expirationTime assertion_world assertion_claims = Some (1300 * Second)" by code_simp+
  have p: "?p = (None, snd ?p)" using f by (metis prod.collapse)
  show ?thesis
    using verifyPrivateKeyJWT_single_use [OF p _ k e _ _ _ _ k2, of "[]" "''jwt''" assertion_claims] f
    by (simp add: assertion_world_def example_world_def privateKeyJWTLeeway_def Second_def)
qed

text \<open>
  The keys offered for an assertion are asymmetric keys the client published for signatures, not
  restricted to another algorithm, and carry the key identifier the assertion names; the JWK library
  selects by key identifier.
\<close>

theorem verificationKeys_sound:
  assumes "\<And>ks kid. set (w_keysByID w ks kid) \<subseteq> {k \<in> set ks. jwk_KeyID k = kid}"
    and "verificationKeys w keys kid alg = Inr out"
  shows "out \<noteq> [] \<and> list_all (\<lambda>pk. (\<exists>n. pk = RSAPublicKey n \<or> pk = ECDSAPublicKey n)
    \<and> (\<exists>k\<in>set keys. jwk_Public k = pk \<and> jwk_Use k \<in> {[], ''sig''} \<and> jwk_Algorithm k \<in> {[], alg}
         \<and> (kid = [] \<or> jwk_KeyID k = kid))) out"
proof -
  let ?cand = "if kid \<noteq> [] then w_keysByID w keys kid else keys"
  have out: "out = List.map_filter (usable_key alg) ?cand" and ne: "out \<noteq> []"
    using assms(2) unfolding verificationKeys_def Let_def by (auto split: if_splits)
  have cand: "k \<in> set keys \<and> (kid = [] \<or> jwk_KeyID k = kid)" if "k \<in> set ?cand" for k
    using that assms(1) [of keys kid] by (auto split: if_splits)
  have use: "(\<exists>n. pk = RSAPublicKey n \<or> pk = ECDSAPublicKey n) \<and> jwk_Public k = pk
      \<and> jwk_Use k \<in> {[], ''sig''} \<and> jwk_Algorithm k \<in> {[], alg}" if "usable_key alg k = Some pk" for k pk
    using that by (cases "jwk_Public k") (simp_all add: usable_key_def split: if_splits, metis+)
  have "(\<exists>n. pk = RSAPublicKey n \<or> pk = ECDSAPublicKey n)
      \<and> (\<exists>k\<in>set keys. jwk_Public k = pk \<and> jwk_Use k \<in> {[], ''sig''} \<and> jwk_Algorithm k \<in> {[], alg}
           \<and> (kid = [] \<or> jwk_KeyID k = kid))" if "pk \<in> set out" for pk
  proof -
    from that obtain k where k: "k \<in> set ?cand" "usable_key alg k = Some pk"
      unfolding out map_filter_def by auto
    from cand [OF k(1)] use [OF k(2)] show ?thesis by blast
  qed
  with ne show ?thesis by (simp add: list_all_iff)
qed

theorem verificationKeys_sound_witness:
  "verificationKeys example_world [\<lparr>jwk_KeyID = ''a'', jwk_Use = ''enc'', jwk_Algorithm = [], jwk_Public = RSAPublicKey ''1''\<rparr>,
      \<lparr>jwk_KeyID = ''a'', jwk_Use = [], jwk_Algorithm = ''ES256'', jwk_Public = ECDSAPublicKey ''2''\<rparr>] ''a'' ''ES256''
     = Inr [ECDSAPublicKey ''2'']
   \<and> [ECDSAPublicKey ''2''] \<noteq> []"
proof -
  let ?ks = "[\<lparr>jwk_KeyID = ''a'', jwk_Use = ''enc'', jwk_Algorithm = [], jwk_Public = RSAPublicKey ''1''\<rparr>,
      \<lparr>jwk_KeyID = ''a'', jwk_Use = [], jwk_Algorithm = ''ES256'', jwk_Public = ECDSAPublicKey ''2''\<rparr>]"
  have r: "verificationKeys example_world ?ks ''a'' ''ES256'' = Inr [ECDSAPublicKey ''2'']" by code_simp
  have "set (w_keysByID example_world ks kid) \<subseteq> {k \<in> set ks. jwk_KeyID k = kid}" for ks kid
    by (auto simp: example_world_def)
  from verificationKeys_sound [OF this r] r show ?thesis by blast
qed

end
