(* ===== verification/Idp_Authorize.thy ===== *)
theory Idp_Authorize
  imports Idp_ClientAuth
begin

text \<open>
  The browser side of \<^verbatim>\<open>main.go\<close>: \<^verbatim>\<open>/authorize\<close> with the check of the client it names, the login and
  approval pages, the code they issue, and the ways a session ends. Every handler maps the world, the server and
  a request to a response and the server afterwards.
\<close>

section \<open>Which client a request is for\<close>

definition renderAuthorizeError :: "string \<Rightarrow> response" where
  "renderAuthorizeError msg = (renderPage (ErrorPage msg))\<lparr>status := 400\<rparr>"

text \<open>The checks on the registration, and \<open>None\<close> where the request may continue.\<close>

definition check_registration :: "clientRegistration \<Rightarrow> string \<Rightarrow> string \<Rightarrow> response option" where
  "check_registration reg redirectURI codeChallenge =
     (if RegistrationMethod reg \<in> {registrationMethodClientIDMetadataDocument, registrationMethodDynamic}
         \<and> redirectURI \<notin> set (RedirectURIs reg)
      then Some (renderAuthorizeError (''The redirect_uri does not match this client'' @ [CHR 0x27] @ ''s registration''))
      else if RegistrationMethod reg = registrationMethodClientIDMetadataDocument
         \<and> TokenEndpointAuthMethod reg = ''none'' \<and> codeChallenge = []
      then Some (renderAuthorizeError ''This client is registered as public and must use PKCE'')
      else None)"

definition resolveAuthorizeClient ::
  "world \<Rightarrow> server \<Rightarrow> string \<Rightarrow> string \<Rightarrow> string \<Rightarrow> string \<Rightarrow> response option \<times> server" where
  "resolveAuthorizeClient w s clientID redirectURI scope codeChallenge =
     (if isClientIDMetadataDocumentURL clientID then
        (case resolveClientIDMetadata w s clientID of
           (Inl err, s1) \<Rightarrow>
             (Some (renderAuthorizeError ''Could not resolve the client ID metadata document''), s1)
         | (Inr reg, s1) \<Rightarrow> (check_registration reg redirectURI codeChallenge, s1))
      else
        let s1 = registerClientLocked w s clientID redirectURI scope;
            reg = (case clients s1 clientID of Some reg \<Rightarrow> reg | None \<Rightarrow> zero_registration)
        in (check_registration reg redirectURI codeChallenge, s1))"

section \<open>Issuing a code\<close>

definition sessionCookieName :: string where
  "sessionCookieName = ''session''"

definition issueCodeAndRedirect ::
  "world \<Rightarrow> server \<Rightarrow> session \<Rightarrow> string \<Rightarrow> string \<Rightarrow> string \<Rightarrow> response \<times> server" where
  "issueCodeAndRedirect w s sess clientID state nonce =
     (let code = w_code w;
          s1 = s\<lparr>codeMeta := (codeMeta s)(code \<mapsto>
                 \<lparr>cm_CookieID = se_CookieID sess, cm_ClientID = clientID, cm_Nonce = nonce\<rparr>)\<rparr>
      in case getClientSessionByID sess clientID of
        None \<Rightarrow> (renderPage (ErrorPage ''Unknown client session''), s1)
      | Some clientSess \<Rightarrow>
          ((redirectTo (buildURL (cs_RedirectURI clientSess)
              [(''code'', code), (''state'', state), (''iss'', externalURL s)]))
             \<lparr>setCookie := Some (sessionCookieName, se_CookieID sess)\<rparr>, s1))"

section \<open>The authorization endpoint\<close>

text \<open>An existing session takes over the challenge and the redirect URI of the request.\<close>

definition continue_session ::
  "world \<Rightarrow> server \<Rightarrow> string \<Rightarrow> session \<Rightarrow> string \<Rightarrow> string \<Rightarrow> string \<Rightarrow> string \<Rightarrow> string \<Rightarrow> string
     \<Rightarrow> response \<times> server" where
  "continue_session w s cookieID sess0 clientID redirectURI codeChallenge codeChallengeMethod state nonce =
     (let sess = updateClientSessionRedirectURI
                   (updateClientSessionPKCE sess0 clientID codeChallenge codeChallengeMethod) clientID redirectURI
      in issueCodeAndRedirect w (s\<lparr>sessions := (sessions s)(cookieID \<mapsto> sess)\<rparr>) sess clientID state nonce)"

definition login_required :: "server \<Rightarrow> string \<Rightarrow> string \<Rightarrow> response" where
  "login_required s redirectURI state =
     redirectTo (buildURL redirectURI [(''error'', ''login_required''), (''state'', state), (''iss'', externalURL s)])"

text \<open>\<^verbatim>\<open>prompt=none\<close> without a session cookie: the session is found through the ID token hint.\<close>

definition silent_authorize ::
  "world \<Rightarrow> server \<Rightarrow> request \<Rightarrow> string \<Rightarrow> string \<Rightarrow> string \<Rightarrow> string \<Rightarrow> string \<Rightarrow> string \<Rightarrow> response \<times> server" where
  "silent_authorize w s r clientID redirectURI codeChallenge codeChallengeMethod state nonce =
     (case decodeJWT w s (form_Get r ''id_token_hint'') of
        None \<Rightarrow> (login_required s redirectURI state, s)
      | Some idTokenClaims \<Rightarrow>
          let existingSessionID = getSessionByAdvertisedSubLocked w s (claim_string idTokenClaims ''sub'')
          in case (if existingSessionID \<noteq> [] then sessions s existingSessionID else None) of
            Some sess \<Rightarrow>
              continue_session w s existingSessionID sess clientID redirectURI codeChallenge codeChallengeMethod
                state nonce
          | None \<Rightarrow> (login_required s redirectURI state, s))"

text \<open>The rest of \<^verbatim>\<open>authorize\<close>, once the client is established: its three exits.\<close>

definition authorize_resolved ::
  "world \<Rightarrow> server \<Rightarrow> request \<Rightarrow> string \<Rightarrow> string \<Rightarrow> string \<Rightarrow> string \<Rightarrow> string \<Rightarrow> response \<times> server" where
  "authorize_resolved w s r clientID scope redirectURI codeChallenge codeChallengeMethod =
     (let state = form_Get r ''state'';
          nonce = form_Get r ''nonce'';
          sessionCookie = (case cookie_of r sessionCookieName of Some v \<Rightarrow> v | None \<Rightarrow> [])
      in case sessions s sessionCookie of
        Some sess \<Rightarrow>
          continue_session w s sessionCookie sess clientID redirectURI codeChallenge codeChallengeMethod state nonce
      | None \<Rightarrow>
          if form_Get r ''prompt'' = ''none'' then
            silent_authorize w s r clientID redirectURI codeChallenge codeChallengeMethod state nonce
          else
            (renderPage (AuthenticatePage (w_reqID w)),
             s\<lparr>authContext := (authContext s)(w_reqID w \<mapsto>
               \<lparr>ac_Scope = scope, ac_ClientID = clientID, ac_RedirectURI = redirectURI, ac_State = state,
                ac_Nonce = nonce, ac_CodeChallenge = codeChallenge,
                ac_CodeChallengeMethod = codeChallengeMethod, ac_Username = [], ac_Sub = []\<rparr>)\<rparr>))"

text \<open>RFC 7636: a challenge without a method means plain.\<close>

definition challenge_method :: "request \<Rightarrow> string" where
  "challenge_method r =
     (if form_Get r ''code_challenge'' \<noteq> [] \<and> form_Get r ''code_challenge_method'' = []
      then ''plain'' else form_Get r ''code_challenge_method'')"

definition authorize :: "world \<Rightarrow> server \<Rightarrow> request \<Rightarrow> response \<times> server" where
  "authorize w s r =
     (if r_Method r \<noteq> ''GET'' \<and> r_Method r \<noteq> ''POST'' then (NotFound, s)
      else
        let clientID = form_Get r ''client_id'';
            scope = form_Get r ''scope'';
            redirectURI = form_Get r ''redirect_uri'';
            codeChallenge = form_Get r ''code_challenge'';
            codeChallengeMethod = challenge_method r
        in if codeChallenge \<noteq> [] \<and> codeChallengeMethod \<notin> set supportedCodeChallengeMethods
           then (renderAuthorizeError ''Unsupported code_challenge_method'', s)
           else case resolveAuthorizeClient w s clientID redirectURI scope codeChallenge of
             (Some refusal, s1) \<Rightarrow> (refusal, s1)
           | (None, s1) \<Rightarrow>
               authorize_resolved w s1 r clientID scope redirectURI codeChallenge codeChallengeMethod)"

section \<open>Login and approval\<close>

definition zero_authContext :: authContextEntry where
  "zero_authContext = \<lparr>ac_Scope = [], ac_ClientID = [], ac_RedirectURI = [], ac_State = [], ac_Nonce = [],
     ac_CodeChallenge = [], ac_CodeChallengeMethod = [], ac_Username = [], ac_Sub = []\<rparr>"

definition login :: "world \<Rightarrow> server \<Rightarrow> request \<Rightarrow> response \<times> server" where
  "login w s r =
     (if r_Method r \<noteq> ''POST'' then (NotFound, s)
      else
        let reqID = form_Get r ''reqid'';
            username = form_Get r ''username'';
            sub = ''internal|'' @ username;
            password = form_Get r ''password''
        in if password \<noteq> ''valid'' then (renderPage (ErrorPage ''Authentication error''), s)
           else
             let ctx = (case authContext s reqID of Some c \<Rightarrow> c | None \<Rightarrow> zero_authContext)
                         \<lparr>ac_Username := username, ac_Sub := sub\<rparr>;
                 s1 = s\<lparr>authContext := (authContext s)(reqID \<mapsto> ctx)\<rparr>
             in (renderPage (AuthorizePage
                   \<lparr>ad_ClientID = ac_ClientID ctx, ad_Scope = ac_Scope ctx, ad_ReqID = reqID,
                    ad_IDTokenClaims = defaultIDTokenClaims w s ctx,
                    ad_AccessTokenClaims = defaultAccessTokenClaims ctx,
                    ad_ErrorText = [], ad_AvatarURL = internalAvatarURL s username\<rparr>), s1))"

text \<open>The client session an approval stores, under the identifier the client's session already has.\<close>

definition approved_clientSession ::
  "world \<Rightarrow> server \<Rightarrow> authContextEntry \<Rightarrow> session \<Rightarrow> claims option \<Rightarrow> claims option \<Rightarrow> clientSession" where
  "approved_clientSession w s ctx sess idTokenClaims accessTokenClaims =
     \<lparr>cs_SessionID = (case find (\<lambda>cs. cs_ClientID cs = ac_ClientID ctx) (se_ClientSessions sess) of
         Some cs \<Rightarrow> (if cs_SessionID cs = [] then w_csID w else cs_SessionID cs)
       | None \<Rightarrow> w_csID w),
      cs_ClientID = ac_ClientID ctx,
      cs_AdvertisedSub =
        computeAdvertisedSub s (ac_Sub ctx) (sectorIdentifier (ac_RedirectURI ctx) (ac_ClientID ctx)),
      cs_Scope = ac_Scope ctx, cs_RedirectURI = ac_RedirectURI ctx, cs_CodeChallenge = ac_CodeChallenge ctx,
      cs_CodeChallengeMethod = ac_CodeChallengeMethod ctx, cs_IDTokenClaims = idTokenClaims,
      cs_AccessTokenClaims = accessTokenClaims, cs_RefreshTokenClaims = None\<rparr>"

definition session_for :: "world \<Rightarrow> server \<Rightarrow> authContextEntry \<Rightarrow> session" where
  "session_for w s ctx =
     (case getSessionBySubLocked w s (ac_Sub ctx) of
        Some sess \<Rightarrow> sess
      | None \<Rightarrow> \<lparr>se_Username = ac_Username ctx, se_Sub = ac_Sub ctx, se_CookieID = w_cookieID w,
                 se_ClientSessions = []\<rparr>)"

definition approve_session ::
  "world \<Rightarrow> server \<Rightarrow> string \<Rightarrow> authContextEntry \<Rightarrow> claims option \<Rightarrow> claims option \<Rightarrow> session \<times> server" where
  "approve_session w s reqID ctx idTokenClaims accessTokenClaims =
     (let sess0 = session_for w s ctx;
          cs = approved_clientSession w s ctx sess0 idTokenClaims accessTokenClaims;
          sess = sess0\<lparr>se_ClientSessions := upsertClientSession (se_ClientSessions sess0) cs\<rparr>
      in (sess, s\<lparr>authContext := (authContext s)(reqID := None),
                  sessions := (sessions s)(se_CookieID sess \<mapsto> sess)\<rparr>))"

definition approve :: "world \<Rightarrow> server \<Rightarrow> request \<Rightarrow> response \<times> server" where
  "approve w s r =
     (if r_Method r \<noteq> ''POST'' then (NotFound, s)
      else
        let reqID = form_Get r ''reqid''
        in case authContext s reqID of
          None \<Rightarrow> (renderPage (ErrorPage ''Unknown request ID''), s)
        | Some ctx \<Rightarrow>
            if \<not> values_Has (r_Form r) ''approve'' then (renderPage (ErrorPage ''Not approved''), s)
            else
              let idTokenClaimsJSON = form_Get r ''id_token_claims_json'';
                  accessTokenClaimsJSON = form_Get r ''access_token_claims_json'';
                  again = (\<lambda>msg. renderPage (ReauthorizePage (ac_ClientID ctx) (ac_Scope ctx) reqID
                     idTokenClaimsJSON accessTokenClaimsJSON msg (internalAvatarURL s (ac_Username ctx))))
              in case parseClaimsJSON w idTokenClaimsJSON of
                None \<Rightarrow> (again ''ID token claims must be valid JSON object'', s)
              | Some idTokenClaims \<Rightarrow>
                (case parseClaimsJSON w accessTokenClaimsJSON of
                   None \<Rightarrow> (again ''Access token claims must be valid JSON object'', s)
                 | Some accessTokenClaims \<Rightarrow>
                     let (sess, s1) = approve_session w s reqID ctx idTokenClaims accessTokenClaims
                     in issueCodeAndRedirect w s1 sess (ac_ClientID ctx) (ac_State ctx) (ac_Nonce ctx)))"

section \<open>Ending a session\<close>

definition logout :: "world \<Rightarrow> server \<Rightarrow> request \<Rightarrow> response \<times> server" where
  "logout w s r =
     (if r_Method r \<noteq> ''POST'' then (NotFound, s)
      else (redirectTo (externalURL s), s\<lparr>sessions := (sessions s)(form_Get r ''cookieid'' := None)\<rparr>))"

definition endsession :: "world \<Rightarrow> server \<Rightarrow> request \<Rightarrow> response \<times> server" where
  "endsession w s r =
     (if r_Method r \<noteq> ''GET'' \<and> r_Method r \<noteq> ''POST'' then (NotFound, s)
      else case decodeJWT w s (form_Get r ''id_token_hint'') of
        None \<Rightarrow> (renderPage (ErrorPage ''ID token not for us''), s)
      | Some claims \<Rightarrow>
          let existingSessionID = getSessionByAdvertisedSubLocked w s (claim_string claims ''sub'')
          in if existingSessionID \<noteq> [] then
               (renderPage (EndsessionPage existingSessionID
                  (case sessions s existingSessionID of Some sess \<Rightarrow> se_Username sess | None \<Rightarrow> [])
                  (form_Get r ''post_logout_redirect_uri'')), s)
             else (renderPage (ErrorPage ''Error logging out''), s))"

definition endsessionApprove :: "world \<Rightarrow> server \<Rightarrow> request \<Rightarrow> response \<times> server" where
  "endsessionApprove w s r =
     (if r_Method r \<noteq> ''GET'' \<and> r_Method r \<noteq> ''POST'' then (NotFound, s)
      else (redirectTo (form_Get r ''redirurl''),
            s\<lparr>sessions := (sessions s)(form_Get r ''sessionid'' := None)\<rparr>))"

end
