(* ===== verification/Idp_Token.thy ===== *)
theory Idp_Token
  imports Idp_Authorize
begin

text \<open>
  The endpoints that clients call: \<^verbatim>\<open>/token\<close> with its two grants, \<^verbatim>\<open>/userinfo\<close> and the protected
  avatar. The token handler is split the way its code is: the grant establishes the client
  and the claims, the client is authenticated, the tokens are issued and the session is updated.
\<close>

section \<open>Errors\<close>

definition writeOAuthError :: "nat \<Rightarrow> string \<Rightarrow> response" where
  "writeOAuthError st code =
     base_response\<lparr>status := st, headers := [(''Content-Type'', ''application/json'')],
       rbody := JSONBody [''error'' \<mapsto> AStr code]\<rparr>"

definition writeBearerError :: "server \<Rightarrow> nat \<Rightarrow> string \<Rightarrow> response" where
  "writeBearerError s st code =
     (writeOAuthError st code)
       \<lparr>headers := [(''WWW-Authenticate'',
            ''Bearer realm='' @ [CHR 0x22] @ externalURL s @ [CHR 0x22] @ '', error='' @ [CHR 0x22] @ code @ [CHR 0x22]),
          (''Content-Type'', ''application/json'')]\<rparr>"

definition writeClientAuthError :: "string \<Rightarrow> response" where
  "writeClientAuthError method =
     (let e = writeOAuthError 401 ''invalid_client''
      in if method = ''client_secret_basic''
         then e\<lparr>headers := (''WWW-Authenticate'', ''Basic realm='' @ [CHR 0x22] @ ''token'' @ [CHR 0x22]) # headers e\<rparr>
         else e)"

section \<open>The grants\<close>

text \<open>What a grant leaves in the local variables of the handler.\<close>

record grant =
  gr_advertisedSub :: string
  gr_username :: string
  gr_scope :: string
  gr_clientID :: string
  gr_cookieID :: string
  gr_clientSessionID :: string
  gr_idTokenClaims :: claims
  gr_accessClaims :: claims

definition pkce_verified :: "clientSession \<Rightarrow> string \<Rightarrow> bool" where
  "pkce_verified clientSess codeVerifier =
     (if cs_CodeChallenge clientSess = [] then True
      else if cs_CodeChallengeMethod clientSess = ''plain'' then codeVerifier = cs_CodeChallenge clientSess
      else if cs_CodeChallengeMethod clientSess = ''S256''
      then b64_encode (sha256 codeVerifier) = cs_CodeChallenge clientSess
      else False)"

definition make_grant ::
  "world \<Rightarrow> server \<Rightarrow> string \<Rightarrow> session \<Rightarrow> clientSession \<Rightarrow> string \<Rightarrow> string \<Rightarrow> grant" where
  "make_grant w s cookieID sess clientSess clientID nonce =
     \<lparr>gr_advertisedSub = cs_AdvertisedSub clientSess, gr_username = se_Username sess,
      gr_scope = cs_Scope clientSess, gr_clientID = clientID, gr_cookieID = cookieID,
      gr_clientSessionID = cs_SessionID clientSess,
      gr_idTokenClaims =
        (case cs_IDTokenClaims clientSess of
           Some c \<Rightarrow> c
         | None \<Rightarrow> defaultIDTokenClaims w s (zero_authContext
             \<lparr>ac_Sub := se_Sub sess, ac_Username := se_Username sess, ac_Scope := cs_Scope clientSess,
              ac_ClientID := clientID, ac_Nonce := nonce, ac_RedirectURI := cs_RedirectURI clientSess\<rparr>)),
      gr_accessClaims =
        (case cs_AccessTokenClaims clientSess of
           Some c \<Rightarrow> c
         | None \<Rightarrow> defaultAccessTokenClaims (zero_authContext\<lparr>ac_Scope := cs_Scope clientSess\<rparr>))
          (''csid'' \<mapsto> AStr (cs_SessionID clientSess))\<rparr>"

text \<open>
  Setting \<^verbatim>\<open>csid\<close> in the claims also sets it in the stored client session, because the claims map is shared
  when there is one; \<open>P\<close> is the test that found the client session.
\<close>

definition share_csid :: "server \<Rightarrow> string \<Rightarrow> session \<Rightarrow> (clientSession \<Rightarrow> bool) \<Rightarrow> string \<Rightarrow> server" where
  "share_csid s cookieID sess P csid =
     s\<lparr>sessions := (sessions s)(cookieID \<mapsto> sess\<lparr>se_ClientSessions := update_first P
        (\<lambda>cs. cs\<lparr>cs_AccessTokenClaims := map_option (\<lambda>c. c(''csid'' \<mapsto> AStr csid)) (cs_AccessTokenClaims cs)\<rparr>)
        (se_ClientSessions sess)\<rparr>)\<rparr>"

definition code_grant :: "world \<Rightarrow> server \<Rightarrow> request \<Rightarrow> (response, grant) result \<times> server" where
  "code_grant w s r =
     (let code = form_Get r ''code'';
          codeVerifier = form_Get r ''code_verifier'';
          refuse = Inl (writeOAuthError 403 ''invalid_grant'')
      in case codeMeta s code of
        None \<Rightarrow> (refuse, s)
      | Some meta \<Rightarrow>
          let s1 = s\<lparr>codeMeta := (codeMeta s)(code := None)\<rparr>
          in case sessions s1 (cm_CookieID meta) of
            None \<Rightarrow> (refuse, s1)
          | Some sess \<Rightarrow>
              (case getClientSessionByID sess (cm_ClientID meta) of
                 None \<Rightarrow> (refuse, s1)
               | Some clientSess \<Rightarrow>
                   if \<not> pkce_verified clientSess codeVerifier then (refuse, s1)
                   else (Inr (make_grant w s1 (cm_CookieID meta) sess clientSess (cm_ClientID meta) (cm_Nonce meta)),
                         share_csid s1 (cm_CookieID meta) sess (\<lambda>cs. cs_ClientID cs = cm_ClientID meta)
                           (cs_SessionID clientSess))))"

definition refresh_grant :: "world \<Rightarrow> server \<Rightarrow> request \<Rightarrow> (response, grant) result \<times> server" where
  "refresh_grant w s r =
     (let refuse = Inl (writeOAuthError 401 ''invalid_grant'')
      in case decodeJWT w s (form_Get r ''refresh_token'') of
        None \<Rightarrow> (refuse, s)
      | Some refreshClaims \<Rightarrow>
          let csID = claim_string refreshClaims ''csid''
          in case getSessionByClientSessionIDLocked w s csID of
            None \<Rightarrow> (refuse, s)
          | Some (cookieID, sess, clientSess) \<Rightarrow>
              let nonce = (case cs_IDTokenClaims clientSess of Some c \<Rightarrow> claim_string c ''nonce'' | None \<Rightarrow> [])
              in (Inr (make_grant w s cookieID sess clientSess (cs_ClientID clientSess) nonce),
                  share_csid s cookieID sess (\<lambda>cs. cs_SessionID cs = csID) (cs_SessionID clientSess)))"

section \<open>Issuing tokens\<close>

text \<open>The three tokens with the claims they were issued with; \<open>None\<close> where signing fails.\<close>

record issued_tokens =
  it_access :: "string \<times> claims"
  it_refresh :: "(string \<times> claims) option"
  it_id :: "(string \<times> claims) option"

definition issue_all :: "world \<Rightarrow> server \<Rightarrow> grant \<Rightarrow> issued_tokens option" where
  "issue_all w s g =
     (let accessAud = dedupeStrings ((externalURL s @ ''/userinfo'') # extraAudiences s);
          refreshAud = dedupeStrings [externalURL s @ ''/token'']
      in case issueToken w s (gr_advertisedSub g) accessAud (gr_accessClaims g)
                (time_Add (w_now w) (seconds (accessTokenLifetime s))) of
        None \<Rightarrow> None
      | Some access \<Rightarrow>
          (case (if hasScope (gr_scope g) ''offline_access''
                 then map_option Some (issueToken w s (gr_advertisedSub g) refreshAud
                        [''token_use'' \<mapsto> AStr ''refresh'', ''csid'' \<mapsto> AStr (gr_clientSessionID g)]
                        (time_Add (w_now w) (seconds (refreshTokenLifetime s))))
                 else Some None) of
             None \<Rightarrow> None
           | Some refresh \<Rightarrow>
               (case (if hasScope (gr_scope g) ''openid''
                      then map_option Some (issueToken w s (gr_advertisedSub g) [gr_clientID g]
                             (gr_idTokenClaims g) (time_Add (w_now w) (60 * Minute)))
                      else Some None) of
                  None \<Rightarrow> None
                | Some id_token \<Rightarrow> Some \<lparr>it_access = access, it_refresh = refresh, it_id = id_token\<rparr>)))"

definition token_response :: "server \<Rightarrow> issued_tokens \<Rightarrow> response" where
  "token_response s t =
     base_response\<lparr>headers := [(''Content-Type'', ''application/json'')],
       rbody := JSONBody
         (let m0 = [''access_token'' \<mapsto> AStr (fst (it_access t)), ''expires_in'' \<mapsto> AInt (accessTokenLifetime s),
                    ''token_type'' \<mapsto> AStr ''Bearer''];
              m1 = (case it_refresh t of Some (tok, _) \<Rightarrow> m0(''refresh_token'' \<mapsto> AStr tok) | None \<Rightarrow> m0)
          in case it_id t of Some (tok, _) \<Rightarrow> m1(''id_token'' \<mapsto> AStr tok) | None \<Rightarrow> m1)\<rparr>"

definition record_issued :: "server \<Rightarrow> grant \<Rightarrow> issued_tokens \<Rightarrow> server" where
  "record_issued s g t =
     (case sessions s (gr_cookieID g) of
        None \<Rightarrow> s
      | Some sess \<Rightarrow>
          s\<lparr>sessions := (sessions s)(gr_cookieID g \<mapsto> sess\<lparr>se_ClientSessions :=
             update_first (\<lambda>cs. cs_SessionID cs = gr_clientSessionID g)
               (\<lambda>cs. cs\<lparr>cs_AdvertisedSub := gr_advertisedSub g,
                        cs_AccessTokenClaims := Some (snd (it_access t)),
                        cs_RefreshTokenClaims := map_option snd (it_refresh t),
                        cs_IDTokenClaims :=
                          (case it_id t of Some (_, c) \<Rightarrow> Some c | None \<Rightarrow> cs_IDTokenClaims cs)\<rparr>)
               (se_ClientSessions sess)\<rparr>)\<rparr>)"

section \<open>The token endpoint\<close>

definition token_grant :: "world \<Rightarrow> server \<Rightarrow> request \<Rightarrow> (response, grant) result \<times> server" where
  "token_grant w s r =
     (if form_Get r ''grant_type'' = ''authorization_code'' then code_grant w s r
      else if form_Get r ''grant_type'' = ''refresh_token'' then refresh_grant w s r
      else (Inl (writeOAuthError 400 ''unsupported_grant_type''), s))"

definition token :: "world \<Rightarrow> server \<Rightarrow> request \<Rightarrow> response \<times> server" where
  "token w s r =
     (if r_Method r \<noteq> ''POST'' then (NotFound, s)
      else
        let creds = parseClientCredentials r
        in case token_grant w s r of
          (Inl refusal, s1) \<Rightarrow> (refusal, s1)
        | (Inr g, s1) \<Rightarrow>
            (case authenticateClient w s1 (gr_clientID g) creds of
               (Some err, s2) \<Rightarrow> (writeClientAuthError (cc_method creds), s2)
             | (None, s2) \<Rightarrow>
                 (case issue_all w s2 g of
                    None \<Rightarrow> (http_Error ''token issue error'' 500, s2)
                  | Some t \<Rightarrow> (token_response s2 t, record_issued s2 g t))))"

section \<open>Userinfo and avatars\<close>

definition idTokenOnlyClaims :: "string list" where
  "idTokenOnlyClaims = [''iss'', ''aud'', ''azp'', ''exp'', ''iat'', ''nbf'', ''jti'', ''nonce'',
     ''auth_time'', ''at_hash'', ''c_hash'', ''acr'', ''amr'']"

definition claimScopes :: "string \<rightharpoonup> string" where
  "claimScopes = [''name'' \<mapsto> ''profile'', ''preferred_username'' \<mapsto> ''profile'', ''picture'' \<mapsto> ''profile'',
     ''email'' \<mapsto> ''email'', ''email_verified'' \<mapsto> ''email'']"

definition mirror_issued :: "string \<Rightarrow> string \<Rightarrow> claims \<Rightarrow> claims" where
  "mirror_issued sub scope issued =
     (\<lambda>name. if name = ''sub'' then Some (AStr sub)
       else if name \<in> set idTokenOnlyClaims then None
       else case claimScopes name of
         Some sc \<Rightarrow> if hasScope scope sc then issued name else None
       | None \<Rightarrow> issued name)"

definition derive_claims :: "world \<Rightarrow> server \<Rightarrow> string \<Rightarrow> string \<Rightarrow> string \<Rightarrow> claims" where
  "derive_claims w s sub scope username =
     (let m0 = [''sub'' \<mapsto> AStr sub];
          m1 = (if username \<noteq> [] \<and> hasScope scope ''profile''
                then m0(''preferred_username'' \<mapsto> AStr username, ''name'' \<mapsto> AStr (capitalize w username),
                        ''picture'' \<mapsto> AStr (avatarURL s username))
                else m0)
      in if username \<noteq> [] \<and> hasScope scope ''email''
         then m1(''email'' \<mapsto> AStr (emailForUsername s username), ''email_verified'' \<mapsto> ABool True) else m1)"

definition userinfo :: "world \<Rightarrow> server \<Rightarrow> request \<Rightarrow> response \<times> server" where
  "userinfo w s r =
     (if r_Method r \<noteq> ''GET'' \<and> r_Method r \<noteq> ''POST'' then (NotFound, s)
      else case extractAccessToken w s r of
        None \<Rightarrow> (writeBearerError s 401 ''invalid_token'', s)
      | Some claims \<Rightarrow>
          let scope = claim_string claims ''scope'';
              csID = claim_string claims ''csid'';
              sub = claim_string claims ''sub'';
              found = getSessionByClientSessionIDLocked w s csID;
              issued = (case found of Some (_, _, cs) \<Rightarrow> copyClaims (cs_IDTokenClaims cs) | None \<Rightarrow> None);
              username = (case found of Some (_, sess, _) \<Rightarrow> se_Username sess | None \<Rightarrow> [])
          in (base_response\<lparr>headers := [(''Content-Type'', ''application/json'')],
                rbody := JSONBody (case issued of
                    Some m \<Rightarrow> mirror_issued sub scope m
                  | None \<Rightarrow> derive_claims w s sub scope username)\<rparr>, s))"

text \<open>\<^verbatim>\<open>filepath.Base\<close> on a slash-separated path.\<close>

definition filepath_Base :: "string \<Rightarrow> string" where
  "filepath_Base p =
     (if p = [] then ''.''
      else let q = TrimRight p ''/''
        in if q = [] then ''/'' else last (Split q (CHR ''/'')))"

definition serve_avatar :: "request \<Rightarrow> response" where
  "serve_avatar r =
     base_response\<lparr>headers := [(''Content-Type'', ''image/svg+xml'')],
       rbody := File (''avatars/'' @ filepath_Base (r_Path r))\<rparr>"

definition avatar :: "world \<Rightarrow> server \<Rightarrow> request \<Rightarrow> response \<times> server" where
  "avatar w s r =
     (if r_Method r \<noteq> ''GET'' then (NotFound, s)
      else if protectPictureURL s then
        (case extractAccessToken w s r of
           None \<Rightarrow> (writeBearerError s 401 ''invalid_token'', s)
         | Some claims \<Rightarrow>
             (case getSessionByClientSessionIDLocked w s (claim_string claims ''csid'') of
                None \<Rightarrow> (writeBearerError s 401 ''invalid_token'', s)
              | Some (_, sess, _) \<Rightarrow>
                  if filepath_Base (r_Path r) \<noteq> show_nat (avatarIndex (se_Username sess)) @ ''.svg''
                  then (writeBearerError s 403 ''invalid_token'', s)
                  else (serve_avatar r, s)))
      else (serve_avatar r, s))"

definition internalAvatar :: "world \<Rightarrow> server \<Rightarrow> request \<Rightarrow> response \<times> server" where
  "internalAvatar w s r = (if r_Method r \<noteq> ''GET'' then (NotFound, s) else (serve_avatar r, s))"

end
