(* ===== verification/Idp_Server.thy ===== *)
theory Idp_Server
  imports Idp_Token
begin

text \<open>
  The identity provider as a whole: the remaining pages and documents, the routing of \<^verbatim>\<open>newMux\<close>
  behind \<^verbatim>\<open>withCORS\<close>, start-up from the environment, and the state machine whose steps are the requests. A request is
  one step; the path is given as the router sees it, without the redirect to a clean path.
\<close>

section \<open>The session list\<close>

definition intFromAny :: "world \<Rightarrow> any \<Rightarrow> int \<Rightarrow> int" where
  "intFromAny w v def = (case v of AFloat lit \<Rightarrow> w_floatToInt w lit | AInt n \<Rightarrow> n | _ \<Rightarrow> def)"

text \<open>The time a claim set expires at, \<open>None\<close> for the text \<^verbatim>\<open>not issued\<close>.\<close>

definition formatExpiryClaim :: "world \<Rightarrow> claims option \<Rightarrow> int option" where
  "formatExpiryClaim w claims =
     (case Option.bind claims (\<lambda>c. c ''exp'') of
        None \<Rightarrow> None
      | Some exp \<Rightarrow> let expUnix = intFromAny w exp 0 in if expUnix \<le> 0 then None else Some expUnix)"

definition claims_shown :: "claims option \<Rightarrow> claims" where
  "claims_shown c = (case c of Some m \<Rightarrow> m | None \<Rightarrow> Map.empty)"

definition clientSession_view :: "world \<Rightarrow> clientSession \<Rightarrow> clientSessionView" where
  "clientSession_view w cs =
     \<lparr>cv_ClientID = cs_ClientID cs, cv_AdvertisedSub = cs_AdvertisedSub cs, cv_Scope = cs_Scope cs,
      cv_IDTokenIssued = (cs_IDTokenClaims cs \<noteq> None), cv_RefreshTokenIssued = (cs_RefreshTokenClaims cs \<noteq> None),
      cv_IDTokenClaims = claims_shown (cs_IDTokenClaims cs),
      cv_AccessTokenClaims = claims_shown (cs_AccessTokenClaims cs),
      cv_IDTokenExpiry = formatExpiryClaim w (cs_IDTokenClaims cs),
      cv_AccessTokenExpiry = formatExpiryClaim w (cs_AccessTokenClaims cs),
      cv_RefreshTokenExpiry = formatExpiryClaim w (cs_RefreshTokenClaims cs)\<rparr>"

definition session_view :: "world \<Rightarrow> server \<Rightarrow> string \<Rightarrow> session \<Rightarrow> sessionView" where
  "session_view w s cookieID sess =
     \<lparr>sv_CookieID = cookieID, sv_Username = se_Username sess, sv_Sub = se_Sub sess,
      sv_AvatarURL = internalAvatarURL s (se_Username sess),
      sv_ClientSessions = map (clientSession_view w) (se_ClientSessions sess)\<rparr>"

definition index :: "world \<Rightarrow> server \<Rightarrow> request \<Rightarrow> response \<times> server" where
  "index w s r =
     (if r_Method r \<noteq> ''GET'' \<or> r_Path r \<noteq> ''/'' then (NotFound, s)
      else (renderPage (IndexPage (List.map_filter
              (\<lambda>cookieID. map_option (session_view w s cookieID) (sessions s cookieID)) (w_order w))), s))"

section \<open>Documents\<close>

definition styleCSS :: "world \<Rightarrow> server \<Rightarrow> request \<Rightarrow> response \<times> server" where
  "styleCSS w s r =
     (if r_Method r \<noteq> ''GET'' then (NotFound, s) else (base_response\<lparr>rbody := File ''style.css''\<rparr>, s))"

text \<open>\<^verbatim>\<open>big.Int.Bytes\<close>: the big-endian bytes of a number, none for zero.\<close>

function int_bytes :: "int \<Rightarrow> string" where
  "int_bytes n = (if n \<le> 0 then [] else int_bytes (n div 256) @ [char_of (nat (n mod 256))])"
  by auto
termination by (relation "measure nat") auto

declare int_bytes.simps [simp del]

definition jwks :: "world \<Rightarrow> server \<Rightarrow> request \<Rightarrow> response \<times> server" where
  "jwks w s r =
     (if r_Method r \<noteq> ''GET'' then (NotFound, s)
      else (base_response\<lparr>headers := [(''Content-Type'', ''application/json'')],
              rbody := JSONBody [''keys'' \<mapsto> AArr [AObj [(''kty'', AStr ''RSA''), (''kid'', AStr ''k0''),
                (''alg'', AStr ''RS256''), (''use'', AStr ''sig''),
                (''n'', AStr (b64_encode (int_bytes (publicKeyN s)))),
                (''e'', AStr (b64_encode (int_bytes (publicKeyE s))))]]]\<rparr>, s))"

definition openid_metadata :: "server \<Rightarrow> claims" where
  "openid_metadata s =
     [''issuer'' \<mapsto> AStr (externalURL s),
      ''authorization_endpoint'' \<mapsto> AStr (externalURL s @ ''/authorize''),
      ''token_endpoint'' \<mapsto> AStr (externalURL s @ ''/token''),
      ''userinfo_endpoint'' \<mapsto> AStr (externalURL s @ ''/userinfo''),
      ''jwks_uri'' \<mapsto> AStr (externalURL s @ ''/.well-known/jwks.json''),
      ''end_session_endpoint'' \<mapsto> AStr (externalURL s @ ''/endsession''),
      ''response_types_supported'' \<mapsto> AStrs [''code''],
      ''subject_types_supported'' \<mapsto> AStrs [subjectType s],
      ''id_token_signing_alg_values_supported'' \<mapsto> AStrs [''RS256''],
      ''grant_types_supported'' \<mapsto> AStrs [''authorization_code'', ''refresh_token''],
      ''code_challenge_methods_supported'' \<mapsto> AStrs supportedCodeChallengeMethods,
      ''scopes_supported'' \<mapsto> AStrs [''openid'', ''profile'', ''email'', ''offline_access''],
      ''claims_supported'' \<mapsto> AStrs [''sub'', ''name'', ''picture'', ''email'', ''email_verified''],
      ''registration_endpoint'' \<mapsto> AStr (externalURL s @ ''/register''),
      ''token_endpoint_auth_methods_supported'' \<mapsto> AStrs advertisedTokenEndpointAuthMethods,
      ''token_endpoint_auth_signing_alg_values_supported'' \<mapsto> AStrs advertisedTokenEndpointAuthSigningAlgs,
      ''authorization_response_iss_parameter_supported'' \<mapsto> ABool True,
      ''client_id_metadata_document_supported'' \<mapsto> ABool True]"

definition openidConfiguration :: "world \<Rightarrow> server \<Rightarrow> request \<Rightarrow> response \<times> server" where
  "openidConfiguration w s r =
     (if r_Method r \<noteq> ''GET'' then (NotFound, s)
      else (base_response\<lparr>headers := [(''Content-Type'', ''application/json'')],
              rbody := JSONBody (openid_metadata s)\<rparr>, s))"

section \<open>Routing\<close>

type_synonym handler = "world \<Rightarrow> server \<Rightarrow> request \<Rightarrow> response \<times> server"

definition avatar_paths :: "string \<Rightarrow> string list" where
  "avatar_paths dir = map (\<lambda>i. dir @ show_nat i @ ''.svg'') [1..<9]"

definition newMux :: "string \<Rightarrow> handler" where
  "newMux path =
     (if path = ''/clients'' then clientsPage
      else if path = ''/register'' then register
      else if path = ''/style.css'' then styleCSS
      else if path = ''/logout'' then logout
      else if path = ''/authorize'' then authorize
      else if path = ''/login'' then login
      else if path = ''/approve'' then approve
      else if path = ''/token'' then token
      else if path = ''/userinfo'' then userinfo
      else if path = ''/endsession'' then endsession
      else if path = ''/endsession-approve'' then endsessionApprove
      else if path = ''/.well-known/jwks.json'' then jwks
      else if path = ''/.well-known/openid-configuration'' then openidConfiguration
      else if path \<in> set (avatar_paths ''/avatars/'') then avatar
      else if path \<in> set (avatar_paths ''/internal/avatars/'') then internalAvatar
      else index)"

definition cors_headers :: "(string \<times> string) list" where
  "cors_headers = [(''Access-Control-Allow-Origin'', ''*''),
     (''Access-Control-Allow-Headers'', ''Authorization, Content-Type''),
     (''Access-Control-Allow-Methods'', ''GET, POST, OPTIONS'')]"

definition withCORS :: "handler \<Rightarrow> handler" where
  "withCORS next_handler w s r =
     (if r_Method r = ''OPTIONS'' then (base_response\<lparr>status := 204, headers := cors_headers\<rparr>, s)
      else let (resp, s') = next_handler w s r in (resp\<lparr>headers := cors_headers @ headers resp\<rparr>, s'))"

definition handle :: handler where
  "handle w s r = withCORS (newMux (r_Path r)) w s r"

section \<open>Start-up\<close>

definition getenvDefault :: "environment \<Rightarrow> string \<Rightarrow> string \<Rightarrow> string" where
  "getenvDefault env name def = (let v = TrimSpace (env name) in if v = [] then def else v)"

definition getenvDefaultInt :: "environment \<Rightarrow> string \<Rightarrow> int \<Rightarrow> int" where
  "getenvDefaultInt env name def =
     (let v = TrimSpace (env name)
      in if v = [] then def else case Atoi v of None \<Rightarrow> def | Some n \<Rightarrow> n)"

definition getenvDefaultBool :: "environment \<Rightarrow> string \<Rightarrow> bool \<Rightarrow> bool" where
  "getenvDefaultBool env name def =
     (let v = TrimSpace (env name)
      in if v = [] then def else case ParseBool v of None \<Rightarrow> def | Some b \<Rightarrow> b)"

definition getenvCSV :: "environment \<Rightarrow> string \<Rightarrow> string list" where
  "getenvCSV env name =
     (let v = TrimSpace (env name)
      in if v = [] then [] else filter (\<lambda>p. p \<noteq> []) (map TrimSpace (Split v (CHR '',''))))"

fun hex_DecodeString :: "string \<Rightarrow> string option" where
  "hex_DecodeString [] = Some []"
| "hex_DecodeString [c] = None"
| "hex_DecodeString (c # d # cs) =
     (if ishex c \<and> ishex d
      then map_option ((#) (char_of (unhex c * 16 + unhex d))) (hex_DecodeString cs) else None)"

datatype startupError =
    SaltRequired | SaltNotHex | SaltTooShort | InvalidSubjectType string | KeyGeneration | BadTemplates

text \<open>
  \<^verbatim>\<open>newServer\<close>; \<open>key\<close> is the generated key with its modulus and exponent, \<open>None\<close> when generation fails, and
  \<open>templates_ok\<close> whether the templates load.
\<close>

definition salt_of :: "environment \<Rightarrow> string \<Rightarrow> (startupError, string) result" where
  "salt_of env subjType =
     (if subjType = ''pairwise'' then
        let saltHex = getenvDefault env ''PAIRWISE_SALT'' []
        in if saltHex = [] then Inl SaltRequired
           else case hex_DecodeString saltHex of
             None \<Rightarrow> Inl SaltNotHex
           | Some salt \<Rightarrow> if length salt < 16 then Inl SaltTooShort else Inr salt
      else if subjType \<noteq> ''public'' then Inl (InvalidSubjectType subjType)
      else Inr [])"

definition newServer ::
  "environment \<Rightarrow> (public_key \<times> int \<times> int) option \<Rightarrow> bool \<Rightarrow> (startupError, server) result" where
  "newServer env key templates_ok =
     (let extURL = getenvDefault env ''IDP_EXTERNAL_URL'' ''http://127.0.0.1:5001'';
          subjType = getenvDefault env ''SUBJECT_TYPE'' ''public''
      in case salt_of env subjType of
        Inl err \<Rightarrow> Inl err
      | Inr salt \<Rightarrow>
          (case key of
             None \<Rightarrow> Inl KeyGeneration
           | Some (pub, n, e) \<Rightarrow>
               if \<not> templates_ok then Inl BadTemplates
               else Inr \<lparr>authContext = Map.empty, codeMeta = Map.empty, sessions = Map.empty, clients = Map.empty,
                 clientIDMetadata = Map.empty,
                 clientIDMetadataTTL = seconds (getenvDefaultInt env ''CLIENT_ID_METADATA_TTL'' 900),
                 allowLoopbackMetadataFetch = externalURLIsLoopback extURL,
                 privateKeyJWTJTIs = Map.empty, externalURL = extURL,
                 protectPictureURL = getenvDefaultBool env ''PROTECT_PICTURE_URL'' False,
                 extraAudiences = getenvCSV env ''EXTRA_AUDIENCES'',
                 emailDomain = getenvDefault env ''EMAIL_DOMAIN'' ''example.com'',
                 accessTokenLifetime = getenvDefaultInt env ''ACCESS_TOKEN_LIFETIME'' 1200,
                 refreshTokenLifetime = getenvDefaultInt env ''REFRESH_TOKEN_LIFETIME'' 3600,
                 subjectType = subjType, pairwiseSalt = salt, publicKey = pub, publicKeyN = n, publicKeyE = e\<rparr>))"


section \<open>What a request can change\<close>

text \<open>The handlers that only read, and the case distinction over all requests that the invariants use.\<close>

lemma readers:
  "h \<in> {clientsPage, styleCSS, userinfo, endsession, jwks, openidConfiguration, avatar, internalAvatar, index}
     \<Longrightarrow> snd (h w s r) = s"
  by (elim insertE emptyE)
    (simp_all add: clientsPage_def styleCSS_def userinfo_def endsession_def jwks_def openidConfiguration_def avatar_def
      internalAvatar_def index_def Let_def split: option.split)

lemma newMux_handlers:
  "newMux path \<in> {authorize, login, approve, token, register, logout, endsessionApprove}
   \<or> newMux path \<in> {clientsPage, styleCSS, userinfo, endsession, jwks, openidConfiguration, avatar, internalAvatar, index}"
  by (simp add: newMux_def)

lemma newMux_cases [case_names same authorize login approve token register ended]:
  obtains "snd (newMux path w s r) = s"
  | "newMux path w s r = authorize w s r"
  | "newMux path w s r = login w s r"
  | "newMux path w s r = approve w s r"
  | "newMux path w s r = token w s r"
  | "newMux path w s r = register w s r"
  | k where "snd (newMux path w s r) = s\<lparr>sessions := (sessions s)(k := None)\<rparr>"
proof (cases "newMux path \<in> {clientsPage, styleCSS, userinfo, endsession, jwks, openidConfiguration, avatar, internalAvatar, index}")
  case False
  then consider "newMux path = authorize" | "newMux path = login" | "newMux path = approve" | "newMux path = token"
    | "newMux path = register" | "newMux path = logout" | "newMux path = endsessionApprove"
    using newMux_handlers [of path] by blast
  then show ?thesis
  proof cases
    case 6
    then show ?thesis using that(1,7) by (cases "r_Method r = ''POST''") (simp_all add: logout_def)
  next
    case 7
    then show ?thesis
      using that(1,7) by (cases "r_Method r \<noteq> ''GET'' \<and> r_Method r \<noteq> ''POST''") (simp_all add: endsessionApprove_def)
  qed (use that in simp_all)
qed (use that(1) readers in simp)

lemma handle_state: "snd (handle w s r) = s \<or> snd (handle w s r) = snd (newMux (r_Path r) w s r)"
  by (simp add: handle_def withCORS_def split_def Let_def)

text \<open>What holds after each handler that changes the state, and is kept where nothing changes, holds after every request.\<close>

lemma handle_induct [case_names same authorize login approve token register ended]:
  assumes "P s" and "P (snd (authorize w s r))" and "P (snd (login w s r))" and "P (snd (approve w s r))"
    and "P (snd (token w s r))" and "P (snd (register w s r))" and "\<And>k. P (s\<lparr>sessions := (sessions s)(k := None)\<rparr>)"
  shows "P (snd (handle w s r))"
proof -
  have "P (snd (newMux (r_Path r) w s r))"
    by (rule newMux_cases [of "r_Path r" w s r]) (use assms in simp_all)
  with assms(1) show ?thesis using handle_state [of w s r] by metis
qed

end
