(* ===== verification/Systems.thy ===== *)
theory Systems
  imports Main
begin

text \<open>
  Programs as state machines: the states reachable from a start state, and the contract of an
  invariant, which both programs instantiate with their request handlers as steps.
\<close>

inductive reachable :: "('s \<Rightarrow> bool) \<Rightarrow> ('s \<Rightarrow> 's \<Rightarrow> bool) \<Rightarrow> 's \<Rightarrow> bool" for init step where
  start: "init s \<Longrightarrow> reachable init step s"
| step: "reachable init step s \<Longrightarrow> step s s' \<Longrightarrow> reachable init step s'"

inductive run :: "('s \<Rightarrow> 's \<Rightarrow> bool) \<Rightarrow> 's \<Rightarrow> 's \<Rightarrow> bool" for step where
  stop: "run step s s"
| next_step: "run step s s' \<Longrightarrow> step s' s'' \<Longrightarrow> run step s s''"

lemma reachable_run: "run step s s' \<Longrightarrow> reachable init step s \<Longrightarrow> reachable init step s'"
  by (induction rule: run.induct) (auto intro: reachable.step)

locale guarded_system =
  fixes init :: "'s \<Rightarrow> bool" and step :: "'s \<Rightarrow> 's \<Rightarrow> bool" and inv :: "'s \<Rightarrow> bool"
  assumes init_inv: "init s \<Longrightarrow> inv s"
    and step_inv: "inv s \<Longrightarrow> step s s' \<Longrightarrow> inv s'"
begin

lemma reachable_inv: "reachable init step s \<Longrightarrow> inv s"
  by (induction rule: reachable.induct) (auto intro: init_inv step_inv)

lemma run_inv: "run step s s' \<Longrightarrow> inv s \<Longrightarrow> inv s'"
  by (induction rule: run.induct) (auto intro: step_inv)

text \<open>A fact that steps keep as long as the invariant holds lasts along every run.\<close>

lemma run_stable:
  assumes "run step s s'" and "inv s" and "P s"
    and "\<And>t t'. inv t \<Longrightarrow> step t t' \<Longrightarrow> P t \<Longrightarrow> P t'"
  shows "P s'"
  using assms(1-3)
proof (induction rule: run.induct)
  case (next_step s s' s'')
  then have "inv s'" using run_inv by blast
  with next_step assms(4) show ?case by blast
qed

end

text \<open>
  A system that refines an abstract one: every step, seen through the abstraction, is a step of the abstract system
  (which may stand still).
\<close>

locale refined_system = guarded_system +
  fixes abs :: "'s \<Rightarrow> 'a" and abs_init :: "'a \<Rightarrow> bool" and abs_step :: "'a \<Rightarrow> 'a \<Rightarrow> bool"
  assumes init_refines: "init s \<Longrightarrow> abs_init (abs s)"
    and step_refines: "inv s \<Longrightarrow> step s s' \<Longrightarrow> abs_step (abs s) (abs s')"
begin

lemma run_refines: "run step s s' \<Longrightarrow> inv s \<Longrightarrow> run abs_step (abs s) (abs s')"
  by (induction rule: run.induct) (auto intro: run.intros step_refines run_inv)

lemma reachable_refines: "reachable init step s \<Longrightarrow> reachable abs_init abs_step (abs s)"
  by (induction rule: reachable.induct) (auto intro: reachable.intros init_refines step_refines reachable_inv)

end

end
