(* ===== verification/Idp_Invariants.thy ===== *)
theory Idp_Invariants
  imports Idp_Server Systems
begin

text \<open>
  The invariant of the identity provider and the proof that every request keeps it: sessions and
  identifiers are unique, stored challenges name a known method, the registry and the document cache are keyed by
  the client they describe, and whatever was stored for a dynamically registered client carries
  one of its registered redirect URIs.
\<close>

section \<open>The invariant\<close>

definition contexts_ok :: "(string \<rightharpoonup> authContextEntry) \<Rightarrow> bool" where
  "contexts_ok m \<longleftrightarrow>
     (\<forall>k ctx. m k = Some ctx \<longrightarrow> pkce_ok (ac_CodeChallenge ctx) (ac_CodeChallengeMethod ctx))"

definition registration_ok :: "string \<Rightarrow> clientRegistration \<Rightarrow> bool" where
  "registration_ok c reg \<longleftrightarrow> ClientID reg = c \<and> c \<noteq> []
     \<and> (if isClientIDMetadataDocumentURL c then document_ok c reg
        else RegistrationMethod reg = registrationMethodAutomatic \<and> TokenEndpointAuthMethod reg = ''none''
           \<or> RegistrationMethod reg = registrationMethodDynamic
             \<and> valid_metadata supportedTokenEndpointAuthMethods reg
             \<and> (TokenEndpointAuthMethod reg = ''none'' \<or> ClientSecret reg \<noteq> []))"

definition registry_ok :: "(string \<rightharpoonup> clientRegistration) \<Rightarrow> bool" where
  "registry_ok m \<longleftrightarrow> (\<forall>c reg. m c = Some reg \<longrightarrow> registration_ok c reg)"

definition cache_ok :: "server \<Rightarrow> bool" where
  "cache_ok s \<longleftrightarrow> (\<forall>c entry. clientIDMetadata s c = Some entry \<longrightarrow>
     document_ok c (me_reg entry) \<and> (\<exists>reg. clients s c = Some reg))"

text \<open>
  A redirect URI is settled for a client when the client is known and, if it registered
  dynamically, listed the URI.
\<close>

definition settled :: "(string \<rightharpoonup> clientRegistration) \<Rightarrow> string \<Rightarrow> string \<Rightarrow> bool" where
  "settled m c u \<longleftrightarrow> c = [] \<or> (\<exists>reg. m c = Some reg \<and>
     (RegistrationMethod reg = registrationMethodDynamic \<longrightarrow> u \<in> set (RedirectURIs reg)))"

definition contexts_settled :: "server \<Rightarrow> bool" where
  "contexts_settled s \<longleftrightarrow>
     (\<forall>k ctx. authContext s k = Some ctx \<longrightarrow> settled (clients s) (ac_ClientID ctx) (ac_RedirectURI ctx))"

definition sessions_settled :: "server \<Rightarrow> bool" where
  "sessions_settled s \<longleftrightarrow>
     (\<forall>k sess cs. sessions s k = Some sess \<longrightarrow> cs \<in> set (se_ClientSessions sess)
        \<longrightarrow> settled (clients s) (cs_ClientID cs) (cs_RedirectURI cs))"

definition idp_ok :: "server \<Rightarrow> bool" where
  "idp_ok s \<longleftrightarrow> sessions_ok (sessions s) \<and> contexts_ok (authContext s) \<and> registry_ok (clients s)
     \<and> cache_ok s \<and> contexts_settled s \<and> sessions_settled s"

text \<open>
  What the server relies on in its surroundings: the generated identifiers are not empty and not in
  use (a UUID is also not an http URL), a secret has 32 random bytes, and a Go map is iterated over exactly its keys.
\<close>

definition csids :: "(string \<rightharpoonup> session) \<Rightarrow> string set" where
  "csids m = {cs_SessionID cs | k sess cs. m k = Some sess \<and> cs \<in> set (se_ClientSessions sess)}"

definition fresh_world :: "world \<Rightarrow> server \<Rightarrow> bool" where
  "fresh_world w s \<longleftrightarrow>
     w_cookieID w \<noteq> [] \<and> sessions s (w_cookieID w) = None
     \<and> w_csID w \<noteq> [] \<and> w_csID w \<notin> csids (sessions s)
     \<and> w_code w \<noteq> [] \<and> codeMeta s (w_code w) = None
     \<and> authContext s (w_reqID w) = None
     \<and> w_clientID w \<noteq> [] \<and> clients s (w_clientID w) = None \<and> \<not> isClientIDMetadataDocumentURL (w_clientID w)
     \<and> (\<forall>b. w_secret w = Some b \<longrightarrow> length b = 32)
     \<and> valid_order (sessions s) (w_order w)"

definition idp_init :: "server \<Rightarrow> bool" where
  "idp_init s \<longleftrightarrow> (\<exists>env key. newServer env key True = Inr s)"

inductive idp_step :: "server \<Rightarrow> server \<Rightarrow> bool" where
  request: "fresh_world w s \<Longrightarrow> idp_step s (snd (handle w s r))"

inductive_cases idp_stepE: "idp_step s s'"

section \<open>The registry\<close>

definition dynamic_fixed :: "(string \<rightharpoonup> clientRegistration) \<Rightarrow> (string \<rightharpoonup> clientRegistration) \<Rightarrow> bool" where
  "dynamic_fixed m m' \<longleftrightarrow>
     (\<forall>c reg. m c = Some reg \<longrightarrow> (\<exists>reg'. m' c = Some reg'
        \<and> (RegistrationMethod reg' = registrationMethodDynamic \<longrightarrow> reg' = reg)))"

lemma dynamic_fixed_refl: "dynamic_fixed m m"
  by (simp add: dynamic_fixed_def)

lemma dynamic_fixed_trans: "dynamic_fixed a b \<Longrightarrow> dynamic_fixed b c \<Longrightarrow> dynamic_fixed a c"
  unfolding dynamic_fixed_def by (metis option.inject)

lemma settled_mono: "dynamic_fixed m m' \<Longrightarrow> settled m c u \<Longrightarrow> settled m' c u"
  unfolding settled_def dynamic_fixed_def by metis

lemma dynamic_fixed_upd:
  assumes "m c = None \<or> RegistrationMethod reg \<noteq> registrationMethodDynamic"
  shows "dynamic_fixed m (m(c \<mapsto> reg))"
  using assms by (auto simp: dynamic_fixed_def)

lemma cache_ok_mono:
  "cache_ok s \<Longrightarrow> clientIDMetadata s' = clientIDMetadata s \<Longrightarrow> dynamic_fixed (clients s) (clients s') \<Longrightarrow> cache_ok s'"
  unfolding cache_ok_def dynamic_fixed_def by metis

lemma registry_ok_upd: "registry_ok m \<Longrightarrow> registration_ok c reg \<Longrightarrow> registry_ok (m(c \<mapsto> reg))"
  by (simp add: registry_ok_def)

lemma observe_request_ok:
  "registration_ok c reg \<Longrightarrow> RegistrationMethod reg = registrationMethodAutomatic
     \<Longrightarrow> registration_ok c (observe_request u sc reg)"
  by (auto simp: registration_ok_def observe_request_fields registrationMethod_defs document_ok_def)

lemma automatic_registration_ok:
  "c \<noteq> [] \<Longrightarrow> \<not> isClientIDMetadataDocumentURL c \<Longrightarrow> registration_ok c (automatic_registration w c)"
  by (simp add: registration_ok_def automatic_registration_def)

lemma automatic_not_dynamic: "registrationMethodAutomatic \<noteq> registrationMethodDynamic"
  "registrationMethodClientIDMetadataDocument \<noteq> registrationMethodDynamic"
  "registrationMethodAutomatic \<noteq> registrationMethodClientIDMetadataDocument"
  by (simp_all add: registrationMethod_defs)

lemma registerClientLocked_ok:
  assumes "registry_ok (clients s)" and "\<not> isClientIDMetadataDocumentURL c"
  shows "registry_ok (clients (registerClientLocked w s c u sc))"
    and "dynamic_fixed (clients s) (clients (registerClientLocked w s c u sc))"
    and "c = [] \<or> (\<exists>reg. clients (registerClientLocked w s c u sc) c = Some reg)"
proof -
  have a: "RegistrationMethod (automatic_registration w c) = registrationMethodAutomatic"
    by (simp add: automatic_registration_def)
  show "registry_ok (clients (registerClientLocked w s c u sc))"
    using assms a automatic_registration_ok [of c w]
    by (auto simp: registerClientLocked_def registry_ok_def split: option.split
        intro!: observe_request_ok)
  show "dynamic_fixed (clients s) (clients (registerClientLocked w s c u sc))"
    using a automatic_not_dynamic
    by (auto simp: registerClientLocked_def dynamic_fixed_refl observe_request_fields split: option.split
        intro!: dynamic_fixed_upd)
  show "c = [] \<or> (\<exists>reg. clients (registerClientLocked w s c u sc) c = Some reg)"
    by (auto simp: registerClientLocked_def split: option.split)
qed

lemma document_registration_ok:
  "isClientIDMetadataDocumentURL c \<Longrightarrow> document_ok c reg \<Longrightarrow> registration_ok c reg"
  by (simp add: registration_ok_def document_ok_def)

lemma resolve_ok:
  assumes "resolveClientIDMetadata w s c = (res, s')"
    and "registry_ok (clients s)" and "cache_ok s" and "isClientIDMetadataDocumentURL c"
  shows "registry_ok (clients s')" and "cache_ok s'"
    and "dynamic_fixed (clients s) (clients s')"
    and "res = Inr reg \<Longrightarrow> document_ok c reg"
    and "res = Inr reg \<Longrightarrow> \<exists>reg'. clients s' c = Some reg'"
proof -
  have live: "document_ok c (me_reg entry)" if "live_entry w s c = Some entry" for entry
    using that assms(3) by (auto simp: live_entry_def cache_ok_def split: option.splits if_splits)
  have known: "\<exists>reg. clients s c = Some reg" if "live_entry w s c = Some entry" for entry
    using that assms(3) by (auto simp: live_entry_def cache_ok_def split: option.splits if_splits)
  show "registry_ok (clients s')" using assms(1)
    by (cases rule: resolve_cases) (use assms(2,4) in \<open>auto intro!: registry_ok_upd document_registration_ok\<close>)
  show "cache_ok s'" using assms(1)
    by (cases rule: resolve_cases) (use assms(3) in \<open>auto simp: cache_ok_def\<close>)
  show "dynamic_fixed (clients s) (clients s')" using assms(1)
    by (cases rule: resolve_cases)
      (auto simp: dynamic_fixed_refl document_ok_def registrationMethod_defs intro!: dynamic_fixed_upd)
  show "document_ok c reg" if "res = Inr reg"
    using assms(1) by (cases rule: resolve_cases) (use that live in auto)
  show "\<exists>reg'. clients s' c = Some reg'" if "res = Inr reg"
    using assms(1) by (cases rule: resolve_cases) (use that known in auto)
qed

section \<open>Client authentication\<close>

text \<open>Authentication touches the registry, the document cache and the used assertions, nothing else.\<close>

definition same_login_state :: "server \<Rightarrow> server \<Rightarrow> bool" where
  "same_login_state s s' \<longleftrightarrow>
     sessions s' = sessions s \<and> authContext s' = authContext s \<and> codeMeta s' = codeMeta s
     \<and> externalURL s' = externalURL s \<and> accessTokenLifetime s' = accessTokenLifetime s
     \<and> refreshTokenLifetime s' = refreshTokenLifetime s \<and> extraAudiences s' = extraAudiences s
     \<and> subjectType s' = subjectType s \<and> pairwiseSalt s' = pairwiseSalt s \<and> publicKey s' = publicKey s"

lemma same_login_state_refl: "same_login_state s s"
  by (simp add: same_login_state_def)

lemma same_login_state_trans: "same_login_state a b \<Longrightarrow> same_login_state b c \<Longrightarrow> same_login_state a c"
  by (simp add: same_login_state_def)

lemma registerClientLocked_login: "same_login_state s (registerClientLocked w s c u sc)"
  by (auto simp: registerClientLocked_def same_login_state_def split: option.split)

lemma resolve_login: "resolveClientIDMetadata w s c = (res, s') \<Longrightarrow> same_login_state s s'"
  by (erule resolve_cases) (simp_all add: same_login_state_def)

lemma clientKeySet_ok:
  assumes "clientKeySet w s c reg = (res, s')" and "cache_ok s"
  shows "same_login_state s s' \<and> clients s' = clients s \<and> cache_ok s'"
  using assms
  by (auto simp: clientKeySet_def same_login_state_def cache_ok_def live_entry_def
      split: option.splits sum.splits if_splits)

lemma verifyPrivateKeyJWT_ok:
  assumes "verifyPrivateKeyJWT w s c reg a = (res, s')" and "cache_ok s"
  shows "same_login_state s s' \<and> clients s' = clients s \<and> cache_ok s'"
proof -
  obtain kres s1 where k: "clientKeySet w s c reg = (kres, s1)" by fastforce
  have ok: "same_login_state s s1 \<and> clients s1 = clients s \<and> cache_ok s1"
    using clientKeySet_ok [OF k assms(2)] .
  have "\<exists>m. s' = s \<or> s' = s1\<lparr>privateKeyJWTJTIs := m\<rparr> \<or> s' = s1"
    using assms(1)
    by (auto simp: verifyPrivateKeyJWT_def k consumePrivateKeyJWTJTI_def split_def Let_def
        split: if_splits sum.splits option.splits)
  with ok assms(2) show ?thesis by (auto simp: same_login_state_def cache_ok_def)
qed

lemma check_credentials_ok:
  assumes "check_credentials w s c creds reg = (res, s')" and "cache_ok s"
  shows "same_login_state s s' \<and> clients s' = clients s \<and> cache_ok s'"
  using assms verifyPrivateKeyJWT_ok [of w s c reg "cc_assertion creds" res s']
  by (auto simp: check_credentials_def same_login_state_refl split: if_splits)

lemma authenticateClient_ok:
  assumes "authenticateClient w s c creds = (res, s')"
    and "registry_ok (clients s)" and "cache_ok s"
  shows "same_login_state s s' \<and> registry_ok (clients s') \<and> cache_ok s'
    \<and> dynamic_fixed (clients s) (clients s')"
proof (cases "clients s c")
  case None
  with assms show ?thesis by (simp add: authenticateClient_def same_login_state_refl dynamic_fixed_refl)
next
  case (Some reg)
  then have rok: "registration_ok c reg" using assms(2) by (simp add: registry_ok_def)
  show ?thesis
  proof (cases "RegistrationMethod reg = registrationMethodClientIDMetadataDocument")
    case False
    then show ?thesis
      using assms Some check_credentials_ok [of w s c creds reg res s']
      by (auto simp: authenticateClient_def same_login_state_refl dynamic_fixed_refl split: if_splits)
  next
    case True
    with rok have u: "isClientIDMetadataDocumentURL c"
      by (auto simp: registration_ok_def registrationMethod_defs split: if_splits)
    obtain rres s1 where r: "resolveClientIDMetadata w s c = (rres, s1)" by fastforce
    note ok = resolve_ok(1-3) [OF r assms(2,3) u] resolve_login [OF r]
    have "s' = s1 \<or> (\<exists>reg'. check_credentials w s1 c creds reg' = (res, s'))"
      using assms(1) Some True
      by (auto simp: authenticateClient_def r registrationMethod_defs split: sum.splits if_splits)
    then show ?thesis
      using ok check_credentials_ok [of w s1 c creds _ res s']
      by (auto intro: same_login_state_trans)
  qed
qed

section \<open>Sessions\<close>

lemma settled_clients:
  "contexts_settled s \<Longrightarrow> dynamic_fixed (clients s) (clients s') \<Longrightarrow> authContext s' = authContext s
     \<Longrightarrow> contexts_settled s'"
  by (auto simp: contexts_settled_def intro: settled_mono)

lemma settled_sessions:
  "sessions_settled s \<Longrightarrow> dynamic_fixed (clients s) (clients s') \<Longrightarrow> sessions s' = sessions s
     \<Longrightarrow> sessions_settled s'"
  by (auto simp: sessions_settled_def intro: settled_mono)

lemma idp_ok_clients:
  assumes "idp_ok s" and "same_login_state s s'" and "registry_ok (clients s')"
    and "cache_ok s'" and "dynamic_fixed (clients s) (clients s')"
  shows "idp_ok s'"
  using assms settled_clients [of s s'] settled_sessions [of s s']
  by (auto simp: idp_ok_def same_login_state_def)

text \<open>Storing one session.\<close>

lemma idp_ok_session:
  assumes "idp_ok s" and "sessions_ok ((sessions s)(k \<mapsto> sess))"
    and "\<And>cs. cs \<in> set (se_ClientSessions sess) \<Longrightarrow> settled (clients s) (cs_ClientID cs) (cs_RedirectURI cs)"
  shows "idp_ok (s\<lparr>sessions := (sessions s)(k \<mapsto> sess)\<rparr>)"
  using assms by (auto simp: idp_ok_def contexts_settled_def sessions_settled_def cache_ok_def)

lemma idp_ok_code: "idp_ok (s\<lparr>codeMeta := m\<rparr>) = idp_ok s"
  by (simp add: idp_ok_def contexts_settled_def sessions_settled_def cache_ok_def)

lemma idp_ok_delete: "idp_ok s \<Longrightarrow> idp_ok (s\<lparr>sessions := (sessions s)(k := None)\<rparr>)"
  by (auto simp: idp_ok_def contexts_settled_def sessions_settled_def cache_ok_def sessions_ok_delete)

lemma idp_ok_session_settled:
  "idp_ok s \<Longrightarrow> sessions s k = Some sess \<Longrightarrow> cs \<in> set (se_ClientSessions sess)
     \<Longrightarrow> settled (clients s) (cs_ClientID cs) (cs_RedirectURI cs)"
  by (auto simp: idp_ok_def sessions_settled_def)

text \<open>Changing client sessions in place without touching identifiers, challenge or redirect URI.\<close>

lemma idp_ok_update_first:
  assumes "idp_ok s" and old: "sessions s k = Some sess"
    and f: "\<And>cs. cs_ClientID (f cs) = cs_ClientID cs" "\<And>cs. cs_SessionID (f cs) = cs_SessionID cs"
      "\<And>cs. cs_CodeChallenge (f cs) = cs_CodeChallenge cs"
      "\<And>cs. cs_CodeChallengeMethod (f cs) = cs_CodeChallengeMethod cs"
      "\<And>cs. cs_RedirectURI (f cs) = cs_RedirectURI cs"
  shows "idp_ok (s\<lparr>sessions := (sessions s)(k \<mapsto>
    sess\<lparr>se_ClientSessions := update_first P f (se_ClientSessions sess)\<rparr>)\<rparr>)"
proof (rule idp_ok_session [OF assms(1)])
  have ok: "sessions_ok (sessions s)" using assms(1) by (simp add: idp_ok_def)
  show "sessions_ok ((sessions s)(k \<mapsto> sess\<lparr>se_ClientSessions := update_first P f (se_ClientSessions sess)\<rparr>))"
    using entries_okD [OF ok old] f
    by (intro sessions_ok_refine [OF ok old] update_first_session_ok update_first_refines) simp_all
  fix cs assume "cs \<in> set (se_ClientSessions (sess\<lparr>se_ClientSessions := update_first P f (se_ClientSessions sess)\<rparr>))"
  then obtain cs0 where "cs0 \<in> set (se_ClientSessions sess)" "cs = cs0 \<or> cs = f cs0"
    using set_update_first_subset [of P f "se_ClientSessions sess"] by auto
  then show "settled (clients s) (cs_ClientID cs) (cs_RedirectURI cs)"
    using idp_ok_session_settled [OF assms(1) old] f by metis
qed

section \<open>The browser handlers\<close>

lemma check_registration_None:
  assumes "check_registration reg u ch = None"
  shows "RegistrationMethod reg \<in> {registrationMethodClientIDMetadataDocument, registrationMethodDynamic}
      \<Longrightarrow> u \<in> set (RedirectURIs reg)"
    and "RegistrationMethod reg = registrationMethodClientIDMetadataDocument
      \<Longrightarrow> TokenEndpointAuthMethod reg = ''none'' \<Longrightarrow> ch \<noteq> []"
  using assms by (auto simp: check_registration_def split: if_splits)

text \<open>The client a request may continue with is registered, or has no identifier.\<close>

lemma resolveAuthorizeClient_ok:
  assumes "resolveAuthorizeClient w s c u sc ch = (res, s')" and "idp_ok s"
  shows "idp_ok s'" and "same_login_state s s'"
    and "res = None \<Longrightarrow> c = [] \<or> (\<exists>reg. registration_ok c reg \<and> check_registration reg u ch = None
           \<and> (clients s' c = Some reg \<or> isClientIDMetadataDocumentURL c))"
    and "res = None \<Longrightarrow> settled (clients s') c u"
proof -
  have r: "registry_ok (clients s)" and k: "cache_ok s"
    using assms(2) by (simp_all add: idp_ok_def)
  have "idp_ok s' \<and> same_login_state s s'
     \<and> (res = None \<longrightarrow> (c = [] \<or> (\<exists>reg. registration_ok c reg \<and> check_registration reg u ch = None
           \<and> (clients s' c = Some reg \<or> isClientIDMetadataDocumentURL c))) \<and> settled (clients s') c u)"
  proof (cases "isClientIDMetadataDocumentURL c")
    case True
    obtain rres s1 where rs: "resolveClientIDMetadata w s c = (rres, s1)" by fastforce
    note ok = resolve_ok [OF rs r k True] resolve_login [OF rs]
    have s': "s' = s1" using assms(1) True by (auto simp: resolveAuthorizeClient_def rs split: sum.splits)
    have "idp_ok s1" using assms(2) ok by (auto intro: idp_ok_clients)
    moreover have "\<exists>reg. registration_ok c reg \<and> check_registration reg u ch = None" if "res = None"
      using that assms(1) True ok(4)
      by (auto simp: resolveAuthorizeClient_def rs intro: document_registration_ok split: sum.splits)
    moreover have "settled (clients s1) c u" if none: "res = None"
    proof -
      obtain reg where "rres = Inr reg"
        using none assms(1) True by (cases rres) (auto simp: resolveAuthorizeClient_def rs)
      then obtain reg1 where c1: "clients s1 c = Some reg1" using ok(5) by blast
      then have "document_ok c reg1" using ok(1) True by (auto simp: registry_ok_def registration_ok_def)
      with c1 show ?thesis by (auto simp: settled_def document_ok_def registrationMethod_defs)
    qed
    ultimately show ?thesis using ok(6) s' True by blast
  next
    case False
    let ?s1 = "registerClientLocked w s c u sc"
    note ok = registerClientLocked_ok [OF r False, of w u sc]
    have s': "s' = ?s1" and res: "res = check_registration
        (case clients ?s1 c of Some reg \<Rightarrow> reg | None \<Rightarrow> zero_registration) u ch"
      using assms(1) False by (auto simp: resolveAuthorizeClient_def Let_def)
    have "idp_ok ?s1"
      using registerClientLocked_login ok(1,2)
      by (intro idp_ok_clients [OF assms(2)] cache_ok_mono [OF k]) (simp_all add: idp_frames)
    moreover have "c = [] \<or> (\<exists>reg. registration_ok c reg \<and> check_registration reg u ch = None
        \<and> clients ?s1 c = Some reg) \<and> settled (clients ?s1) c u" if "res = None"
      using that ok(1,3) res check_registration_None(1) [of _ u ch]
      by (auto simp: registry_ok_def settled_def)
    moreover have "settled (clients ?s1) [] u" by (simp add: settled_def)
    ultimately show ?thesis using s' registerClientLocked_login by blast
  qed
  then show "idp_ok s'" "same_login_state s s'"
    "res = None \<Longrightarrow> c = [] \<or> (\<exists>reg. registration_ok c reg \<and> check_registration reg u ch = None
           \<and> (clients s' c = Some reg \<or> isClientIDMetadataDocumentURL c))"
    "res = None \<Longrightarrow> settled (clients s') c u" by blast+
qed

lemma csidsI: "m k = Some sess \<Longrightarrow> cs \<in> set (se_ClientSessions sess) \<Longrightarrow> cs_SessionID cs \<in> csids m"
  by (auto simp: csids_def)

lemma update_first_other_elem:
  "x \<in> set (update_first P f xs) \<Longrightarrow> (\<And>y. P y \<Longrightarrow> P (f y)) \<Longrightarrow> \<not> P x \<Longrightarrow> x \<in> set xs"
  by (induction xs) (auto split: if_splits)

lemma updates_other_elem:
  assumes "cs \<in> set (se_ClientSessions (updateClientSessionRedirectURI (updateClientSessionPKCE sess c ch m) c u))"
    and "cs_ClientID cs \<noteq> c"
  shows "cs \<in> set (se_ClientSessions sess)"
proof -
  have "cs \<in> set (se_ClientSessions (updateClientSessionPKCE sess c ch m))"
    using assms by (rule_tac update_first_other_elem [where P = "\<lambda>cs. cs_ClientID cs = c"
        and f = "\<lambda>cs. cs\<lparr>cs_RedirectURI := u\<rparr>"]) (simp_all add: updateClientSessionRedirectURI_def)
  then show ?thesis
    using assms(2) by (rule_tac update_first_other_elem [where P = "\<lambda>cs. cs_ClientID cs = c"
        and f = "\<lambda>cs. cs\<lparr>cs_CodeChallenge := ch, cs_CodeChallengeMethod := m\<rparr>"])
      (simp_all add: updateClientSessionPKCE_def)
qed

lemma issueCode_ok: "idp_ok (snd (issueCodeAndRedirect w s sess c st n)) = idp_ok s"
  by (simp add: issueCodeAndRedirect_def Let_def idp_ok_code split: option.split)

lemma continue_session_ok:
  assumes "idp_ok s" and old: "sessions s k = Some sess" and "pkce_ok ch m" and "settled (clients s) c u"
  shows "idp_ok (snd (continue_session w s k sess c u ch m st n))"
proof -
  let ?s1 = "updateClientSessionPKCE sess c ch m"
  let ?s2 = "updateClientSessionRedirectURI ?s1 c u"
  have ok: "sessions_ok (sessions s)" using assms(1) by (simp add: idp_ok_def)
  have "session_ok k ?s2"
    using entries_okD [OF ok old] assms(3)
    by (simp add: updateClientSessionPKCE_ok updateClientSessionRedirectURI_ok)
  moreover have "session_refines sess ?s2"
    using session_refines_trans updateClientSessionPKCE_refines updateClientSessionRedirectURI_refines by blast
  ultimately have "sessions_ok ((sessions s)(k \<mapsto> ?s2))" by (rule sessions_ok_refine [OF ok old])
  moreover have "settled (clients s) (cs_ClientID cs) (cs_RedirectURI cs)" if "cs \<in> set (se_ClientSessions ?s2)" for cs
  proof (cases "cs_ClientID cs = c")
    case True
    have d: "distinct (map cs_ClientID (se_ClientSessions ?s2))"
      using \<open>session_ok k ?s2\<close> by (simp add: session_ok_def)
    from css.distinct_lookup [OF d that] True
    have "getClientSessionByID ?s2 c = Some cs" by (simp add: getClientSessionByID_def)
    with assms(4) True show ?thesis by (auto simp: getClientSessionByID_updates)
  next
    case False
    with that have "cs \<in> set (se_ClientSessions sess)" by (rule updates_other_elem)
    then show ?thesis using idp_ok_session_settled [OF assms(1) old] by blast
  qed
  ultimately have "idp_ok (s\<lparr>sessions := (sessions s)(k \<mapsto> ?s2)\<rparr>)" by (rule idp_ok_session [OF assms(1)])
  then show ?thesis by (simp add: continue_session_def Let_def issueCode_ok)
qed

lemma silent_authorize_ok:
  assumes "idp_ok s" and "pkce_ok ch m" and "settled (clients s) c u"
  shows "idp_ok (snd (silent_authorize w s r c u ch m st n))"
  using assms continue_session_ok [OF assms(1) _ assms(2,3)]
  by (auto simp: silent_authorize_def Let_def split: option.split)

lemma authorize_resolved_ok:
  assumes "idp_ok s" and "pkce_ok ch m" and "settled (clients s) c u"
  shows "idp_ok (snd (authorize_resolved w s r c sc u ch m))"
proof -
  have "idp_ok (s\<lparr>authContext := (authContext s)(k \<mapsto> ctx)\<rparr>)"
    if "pkce_ok (ac_CodeChallenge ctx) (ac_CodeChallengeMethod ctx)" "settled (clients s) (ac_ClientID ctx) (ac_RedirectURI ctx)"
    for k ctx
    using that assms(1)
    by (simp add: idp_ok_def contexts_ok_def contexts_settled_def sessions_settled_def cache_ok_def)
  with assms continue_session_ok [OF assms(1) _ assms(2,3)] silent_authorize_ok [OF assms] show ?thesis
    by (simp add: authorize_resolved_def Let_def split: option.split)
qed

lemma authorize_cases:
  assumes "authorize w s r = (resp, s')"
  obtains (refused) "location resp = None" "s' = s"
  | (unresolved) refusal where "resolveAuthorizeClient w s (form_Get r ''client_id'') (form_Get r ''redirect_uri'')
        (form_Get r ''scope'') (form_Get r ''code_challenge'') = (Some refusal, s')" "resp = refusal"
  | (resolved) s1 where "resolveAuthorizeClient w s (form_Get r ''client_id'') (form_Get r ''redirect_uri'')
        (form_Get r ''scope'') (form_Get r ''code_challenge'') = (None, s1)"
      "pkce_ok (form_Get r ''code_challenge'') (challenge_method r)"
      "authorize_resolved w s1 r (form_Get r ''client_id'') (form_Get r ''scope'') (form_Get r ''redirect_uri'')
        (form_Get r ''code_challenge'') (challenge_method r) = (resp, s')"
proof (cases "(r_Method r \<noteq> ''GET'' \<and> r_Method r \<noteq> ''POST'')
    \<or> (form_Get r ''code_challenge'' \<noteq> [] \<and> challenge_method r \<notin> set supportedCodeChallengeMethods)")
  case True
  with assms show ?thesis
    by (intro refused) (auto simp: authorize_def Let_def renderAuthorizeError_def response_defs split: if_splits)
next
  case False
  obtain res s1 where ra: "resolveAuthorizeClient w s (form_Get r ''client_id'') (form_Get r ''redirect_uri'')
      (form_Get r ''scope'') (form_Get r ''code_challenge'') = (res, s1)" by fastforce
  have p: "pkce_ok (form_Get r ''code_challenge'') (challenge_method r)" using False by (auto simp: pkce_ok_def)
  have auth: "authorize w s r = (case res of Some refusal \<Rightarrow> (refusal, s1)
      | None \<Rightarrow> authorize_resolved w s1 r (form_Get r ''client_id'') (form_Get r ''scope'')
          (form_Get r ''redirect_uri'') (form_Get r ''code_challenge'') (challenge_method r))"
    using False by (auto simp: authorize_def Let_def ra split: option.split)
  show ?thesis
  proof (cases res)
    case None
    with ra auth assms p show ?thesis by (intro resolved) auto
  next
    case (Some refusal)
    with ra auth assms show ?thesis by (intro unresolved) auto
  qed
qed

lemma authorize_ok:
  assumes "idp_ok s"
  shows "idp_ok (snd (authorize w s r))"
proof -
  obtain resp s' where a: "authorize w s r = (resp, s')" by fastforce
  then have "idp_ok s'"
  proof (cases rule: authorize_cases)
    case (unresolved refusal)
    then show ?thesis using resolveAuthorizeClient_ok(1) assms by blast
  next
    case (resolved s1)
    from authorize_resolved_ok [OF resolveAuthorizeClient_ok(1) [OF resolved(1) assms] resolved(2)
        resolveAuthorizeClient_ok(4) [OF resolved(1) assms refl]] resolved(3)
    show ?thesis by (metis snd_conv)
  qed (use assms in simp)
  with a show ?thesis by simp
qed

lemma login_ok:
  assumes "idp_ok s"
  shows "idp_ok (snd (login w s r))"
proof -
  let ?ctx = "(case authContext s k of Some c \<Rightarrow> c | None \<Rightarrow> zero_authContext)\<lparr>ac_Username := u, ac_Sub := sb\<rparr>"
  have "idp_ok (s\<lparr>authContext := (authContext s)(k \<mapsto>
      (case authContext s k of Some c \<Rightarrow> c | None \<Rightarrow> zero_authContext)\<lparr>ac_Username := u, ac_Sub := sb\<rparr>)\<rparr>)" for k u sb
    using assms
    by (auto simp: idp_ok_def contexts_ok_def contexts_settled_def sessions_settled_def cache_ok_def
        zero_authContext_def pkce_ok_def settled_def split: option.split)
  with assms show ?thesis by (simp add: login_def Let_def)
qed

lemma session_for_cases:
  assumes "sessions_ok (sessions s)" and "fresh_world w s"
  obtains (old) sess where "session_for w s ctx = sess" "sessions s (se_CookieID sess) = Some sess" "se_Sub sess = ac_Sub ctx"
  | (new) "session_for w s ctx = \<lparr>se_Username = ac_Username ctx, se_Sub = ac_Sub ctx, se_CookieID = w_cookieID w,
       se_ClientSessions = []\<rparr>" "sessions s (w_cookieID w) = None"
      "\<And>k sess. sessions s k = Some sess \<Longrightarrow> se_Sub sess \<noteq> ac_Sub ctx"
proof (cases "getSessionBySubLocked w s (ac_Sub ctx)")
  case (Some sess)
  from getSessionBySub_Some [OF Some assms(1)] Some show ?thesis
    by (metis (no_types, lifting) old option.case(2) session_for_def)
next
  case None
  with getSessionBySub_None [OF None] assms(2) show ?thesis
    by (intro new) (auto simp: session_for_def fresh_world_def)
qed

lemma approve_session_ok:
  assumes "idp_ok s" and "fresh_world w s" and ctx: "authContext s reqID = Some ctx"
  shows "idp_ok (snd (approve_session w s reqID ctx ic ac))"
proof -
  let ?s0 = "session_for w s ctx"
  let ?cs = "approved_clientSession w s ctx ?s0 ic ac"
  let ?sess = "?s0\<lparr>se_ClientSessions := upsertClientSession (se_ClientSessions ?s0) ?cs\<rparr>"
  let ?k = "se_CookieID ?s0"
  have ok: "sessions_ok (sessions s)" using assms(1) by (simp add: idp_ok_def)
  have pk: "pkce_ok (cs_CodeChallenge ?cs) (cs_CodeChallengeMethod ?cs)"
    and st: "settled (clients s) (cs_ClientID ?cs) (cs_RedirectURI ?cs)"
    using assms(1) ctx by (auto simp: idp_ok_def contexts_ok_def contexts_settled_def approved_clientSession_def)
  have s0: "session_ok ?k ?s0"
    using ok assms(2)
  proof (cases rule: session_for_cases [of s w ctx])
    case (old sess)
    with entries_okD [OF ok old(2)] show ?thesis by simp
  next
    case new
    with assms(2) show ?thesis by (simp add: session_ok_def fresh_world_def)
  qed
  have known: "cs \<in> set (se_ClientSessions ?s0) \<Longrightarrow> sessions s ?k = Some ?s0" for cs
    using ok assms(2) by (cases rule: session_for_cases [of s w ctx]) simp_all
  have origin: "(\<exists>e\<in>set (se_ClientSessions ?s0). cs_SessionID e = cs_SessionID ?cs \<and> cs_ClientID e = cs_ClientID ?cs)
      \<or> cs_SessionID ?cs \<notin> csids (sessions s)" and ne: "cs_SessionID ?cs \<noteq> []"
    using assms(2) s0
    by (auto simp: approved_clientSession_def fresh_world_def session_ok_def dest!: find_SomeD split: option.split)
  have new: "session_ok ?k ?sess" using s0 ne pk by (rule upsert_session_ok)
  have members: "cs \<in> set (se_ClientSessions ?sess) \<longleftrightarrow>
      cs = ?cs \<or> cs \<in> set (se_ClientSessions ?s0) \<and> cs_ClientID cs \<noteq> cs_ClientID ?cs" for cs
    using css.set_upsert [of "se_ClientSessions ?s0" ?cs] s0 by (auto simp: session_ok_def)
  have source: "\<exists>e\<in>set (se_ClientSessions ?s0). cs_SessionID e = cs_SessionID cs \<and> cs_ClientID e = cs_ClientID cs"
    if "cs \<in> set (se_ClientSessions ?sess)" "cs_SessionID cs \<in> csids (sessions s)" for cs
    using that(1) unfolding members using that(2) origin by metis
  have "sessions_ok ((sessions s)(?k \<mapsto> ?sess))"
  proof (rule sessions_ok_store [OF ok new])
    show "k2 = ?k" if "sessions s k2 = Some sess2" "se_Sub sess2 = se_Sub ?sess" for k2 sess2
      using ok assms(2)
    proof (cases rule: session_for_cases [of s w ctx])
      case (old sess)
      with subs_uniqueD [OF ok that(1)] that(2) show ?thesis by simp
    next
      case new
      with that show ?thesis by (auto simp del: upsertClientSession.simps)
    qed
    show "cs_SessionID cs' \<noteq> cs_SessionID cs2"
      if t: "cs' \<in> set (se_ClientSessions ?sess)" "sessions s k2 = Some sess2" "k2 \<noteq> ?k"
        "cs2 \<in> set (se_ClientSessions sess2)" for cs' k2 sess2 cs2
    proof
      assume e: "cs_SessionID cs' = cs_SessionID cs2"
      then have "cs_SessionID cs' \<in> csids (sessions s)" using t by (auto simp: csids_def)
      then obtain b where b: "b \<in> set (se_ClientSessions ?s0)" "cs_SessionID b = cs_SessionID cs2"
        using source [OF t(1)] e by auto
      show False using csids_uniqueD [OF ok known [OF b(1)] t(2) b(1) t(4) b(2)] t(3) by blast
    qed
    show "cs_ClientID a = cs_ClientID b"
      if ab: "a \<in> set (se_ClientSessions ?sess)" "b \<in> set (se_ClientSessions ?sess)"
        and e: "cs_SessionID a = cs_SessionID b" for a b
    proof (cases "a = ?cs \<and> b = ?cs")
      case False
      then obtain c where c: "c \<in> set (se_ClientSessions ?s0)" "cs_SessionID c = cs_SessionID a"
        using ab e unfolding members by metis
      then have "cs_SessionID a \<in> csids (sessions s)" using csidsI [of "sessions s", OF known [OF c(1)] c(1)] by simp
      then obtain x y where x: "x \<in> set (se_ClientSessions ?s0)" "cs_SessionID x = cs_SessionID a" "cs_ClientID x = cs_ClientID a"
        and y: "y \<in> set (se_ClientSessions ?s0)" "cs_SessionID y = cs_SessionID b" "cs_ClientID y = cs_ClientID b"
        using source [OF ab(1)] source [OF ab(2)] e by metis
      with csids_uniqueD [OF ok known [OF x(1)] known [OF y(1)] x(1) y(1)] e show ?thesis by simp
    qed simp
  qed
  moreover have "settled (clients s) (cs_ClientID cs) (cs_RedirectURI cs)" if "cs \<in> set (se_ClientSessions ?sess)" for cs
  proof (cases "cs = ?cs")
    case False
    with that have m: "cs \<in> set (se_ClientSessions ?s0)" unfolding members by blast
    from idp_ok_session_settled [OF assms(1) known [OF m] m] show ?thesis .
  qed (use st in simp)
  ultimately have "idp_ok (s\<lparr>sessions := (sessions s)(?k \<mapsto> ?sess)\<rparr>)" by (rule idp_ok_session [OF assms(1)])
  then have "idp_ok (s\<lparr>authContext := (authContext s)(reqID := None), sessions := (sessions s)(?k \<mapsto> ?sess)\<rparr>)"
    by (simp add: idp_ok_def contexts_ok_def contexts_settled_def sessions_settled_def cache_ok_def)
  then show ?thesis by (simp add: approve_session_def Let_def)
qed

lemma approve_ok:
  assumes "idp_ok s" and "fresh_world w s"
  shows "idp_ok (snd (approve w s r))"
  using assms approve_session_ok [OF assms]
  by (auto simp: approve_def Let_def split_def issueCode_ok split: option.split)

section \<open>The token endpoint\<close>

lemma share_csid_ok:
  "idp_ok s \<Longrightarrow> sessions s k = Some sess \<Longrightarrow> idp_ok (share_csid s k sess P csid)"
  unfolding share_csid_def by (rule idp_ok_update_first) simp_all

lemma record_issued_ok: "idp_ok s \<Longrightarrow> idp_ok (record_issued s g t)"
  unfolding record_issued_def by (auto split: option.split intro!: idp_ok_update_first)

lemma token_grant_ok: "idp_ok s \<Longrightarrow> idp_ok (snd (token_grant w s r))"
  by (auto simp: token_grant_def code_grant_def refresh_grant_def Let_def idp_ok_code
      intro!: share_csid_ok dest!: getSessionByClientSessionID_SomeD split: option.split)

lemma token_ok:
  assumes "idp_ok s"
  shows "idp_ok (snd (token w s r))"
proof -
  obtain g s1 where tg: "token_grant w s r = (g, s1)" by fastforce
  have s1: "idp_ok s1" using token_grant_ok [OF assms, of w r] tg by simp
  have auth: "idp_ok s2" if "authenticateClient w s1 c creds = (res, s2)" for c creds res s2
  proof -
    have "registry_ok (clients s1)" "cache_ok s1" using s1 by (simp_all add: idp_ok_def)
    from authenticateClient_ok [OF that this] show ?thesis by (blast intro: idp_ok_clients [OF s1])
  qed
  show ?thesis
    using assms s1
    by (auto simp: token_def Let_def tg split: sum.split option.split prod.split dest: auth intro!: record_issued_ok)
qed

section \<open>Every request\<close>

lemma register_ok:
  assumes "idp_ok s" and "fresh_world w s"
  shows "idp_ok (snd (register w s r))"
proof -
  obtain resp s' where "register w s r = (resp, s')" by fastforce
  then have "idp_ok s'"
  proof (cases rule: register_cases)
    case (2 reg1 secret)
    let ?reg = "dynamic_registration w reg1 secret"
    have f: "w_clientID w \<noteq> []" "clients s (w_clientID w) = None" "\<not> isClientIDMetadataDocumentURL (w_clientID w)"
      using assms(2) by (simp_all add: fresh_world_def)
    have secret: "b64_encode b \<noteq> []" if "w_secret w = Some b" for b
    proof -
      have "length (b64_encode b) = 43" using that assms(2) by (simp add: fresh_world_def length_b64_encode)
      then show ?thesis by auto
    qed
    have "registration_ok (w_clientID w) ?reg"
      using f secret 2(1,2)
      by (auto simp: registration_ok_def dynamic_registration_def Let_def valid_metadata_def split: option.splits)
    moreover have "dynamic_fixed (clients s) ((clients s)(w_clientID w \<mapsto> ?reg))"
      using f(2) by (intro dynamic_fixed_upd) simp
    ultimately show ?thesis
      using assms(1) 2(4)
      by (intro idp_ok_clients [OF assms(1)])
        (auto simp: same_login_state_def idp_ok_def intro!: registry_ok_upd intro: cache_ok_mono)
  qed (use assms in simp)
  with \<open>register w s r = (resp, s')\<close> show ?thesis by simp
qed

lemma handle_ok:
  assumes "idp_ok s" and "fresh_world w s"
  shows "idp_ok (snd (handle w s r))"
  by (rule handle_induct) (simp_all add: assms authorize_ok login_ok approve_ok token_ok register_ok idp_ok_delete)

lemma newServer_ok: "newServer env key t = Inr s \<Longrightarrow> idp_ok s"
  by (auto simp: newServer_def Let_def idp_ok_def sessions_ok_empty contexts_ok_def registry_ok_def cache_ok_def
      contexts_settled_def sessions_settled_def split: sum.splits option.splits if_splits)

interpretation idp: guarded_system idp_init idp_step idp_ok
  by unfold_locales (auto simp: idp_init_def elim!: idp_stepE intro: newServer_ok handle_ok)

section \<open>Properties\<close>

text \<open>
  C1: in every state the identity provider can reach, each session is stored under its own cookie, subjects and client
  session identifiers are unique, a stored PKCE challenge always names a supported method, the registry
  and the cache describe the client they are keyed by, a confidential dynamic client has a
  secret, and everything stored for a dynamic client carries a redirect URI it registered.
\<close>

theorem idp_reachable_ok:
  assumes "reachable idp_init idp_step s"
  shows "idp_ok s"
  using assms by (rule idp.reachable_inv)

definition default_server :: server where
  "default_server = (case newServer (\<lambda>name. []) (Some (RSAPublicKey ''pub'', 3233, 65537)) True of Inr s \<Rightarrow> s)"

definition login_request :: request where
  "login_request = example_request\<lparr>r_Method := ''POST'', r_Path := ''/login'',
     r_Form := [(''reqid'', [''req-1'']), (''username'', [''bob'']), (''password'', [''valid''])]\<rparr>"

definition quiet_world :: world where
  "quiet_world = example_world\<lparr>w_secret := None\<rparr>"

lemma default_server_init: "newServer (\<lambda>name. []) (Some (RSAPublicKey ''pub'', 3233, 65537)) True = Inr default_server"
proof -
  have "\<not> isl (newServer (\<lambda>name. []) (Some (RSAPublicKey ''pub'', 3233, 65537)) True)" by code_simp
  then show ?thesis by (cases "newServer (\<lambda>name. []) (Some (RSAPublicKey ''pub'', 3233, 65537)) True")
      (simp_all add: default_server_def)
qed

lemma newServer_maps:
  "newServer env key t = Inr s \<Longrightarrow> sessions s = Map.empty \<and> codeMeta s = Map.empty \<and> authContext s = Map.empty
     \<and> clients s = Map.empty"
  by (auto simp: newServer_def Let_def split: sum.splits option.splits if_splits)

lemma default_server_maps:
  "sessions default_server = Map.empty" "codeMeta default_server = Map.empty"
  "authContext default_server = Map.empty" "clients default_server = Map.empty"
  using newServer_maps [OF default_server_init] by blast+

lemma default_server_reachable: "reachable idp_init idp_step default_server"
  using default_server_init by (intro reachable.start) (auto simp: idp_init_def)

lemma quiet_world_fresh: "fresh_world quiet_world default_server"
proof -
  have "\<not> isClientIDMetadataDocumentURL ''client-1''" by code_simp
  then show ?thesis
    by (simp add: fresh_world_def default_server_maps quiet_world_def example_world_def csids_def valid_order_def)
qed

theorem idp_reachable_ok_witness:
  "reachable idp_init idp_step (snd (handle quiet_world default_server login_request))
   \<and> idp_ok (snd (handle quiet_world default_server login_request))"
proof -
  have "reachable idp_init idp_step (snd (handle quiet_world default_server login_request))"
    using default_server_reachable quiet_world_fresh by (blast intro: reachable.step idp_step.request)
  then show ?thesis using idp_reachable_ok by blast
qed

end
