(* ===== verification/Idp_Security.thy ===== *)
theory Idp_Security
  imports Idp_Invariants
begin

text \<open>
  What the identity provider guarantees to clients and users, stated on its handlers and on runs
  of requests: codes are redeemed once and only by whoever holds the verifier and the client's secret, they are
  delivered only to registered redirect URIs, tokens respect the granted scope, and authorization requests change
  the client registry only for the client they name.
\<close>

section \<open>Codes\<close>

definition code_request :: "request \<Rightarrow> string \<Rightarrow> bool" where
  "code_request r code \<longleftrightarrow>
     r_Method r = ''POST'' \<and> form_Get r ''grant_type'' = ''authorization_code'' \<and> form_Get r ''code'' = code"

lemma share_csid_frame:
  "codeMeta (share_csid s k sess P c) = codeMeta s" "clients (share_csid s k sess P c) = clients s"
  "clientIDMetadata (share_csid s k sess P c) = clientIDMetadata s"
  by (simp_all add: share_csid_def)

lemma record_issued_frame:
  "codeMeta (record_issued s g t) = codeMeta s" "clients (record_issued s g t) = clients s"
  by (simp_all add: record_issued_def split: option.split)

lemma verifyPrivateKeyJWT_codes: "verifyPrivateKeyJWT w s c reg a = (res, s') \<Longrightarrow> codeMeta s' = codeMeta s"
proof -
  assume v: "verifyPrivateKeyJWT w s c reg a = (res, s')"
  obtain kres s1 where k: "clientKeySet w s c reg = (kres, s1)" by fastforce
  from v clientKeySet_frame(3) [OF k] show ?thesis
    by (auto simp: verifyPrivateKeyJWT_def k consumePrivateKeyJWTJTI_def split_def Let_def
        split: if_splits sum.splits option.splits)
qed

lemma check_credentials_codes: "check_credentials w s c creds reg = (res, s') \<Longrightarrow> codeMeta s' = codeMeta s"
  by (auto simp: check_credentials_def split: if_splits dest: verifyPrivateKeyJWT_codes)

lemma authenticateClient_codes:
  assumes "authenticateClient w s c creds = (res, s')"
  shows "codeMeta s' = codeMeta s"
proof -
  obtain rres s1 where r: "resolveClientIDMetadata w s c = (rres, s1)" by fastforce
  have "codeMeta s1 = codeMeta s" using resolve_login [OF r] by (simp add: same_login_state_def)
  with assms show ?thesis
    by (auto simp: authenticateClient_def r dest!: check_credentials_codes split: option.splits if_splits sum.splits)
qed

text \<open>The codes after a token request are those of its grant.\<close>

lemma token_codes:
  "r_Method r = ''POST'' \<Longrightarrow> codeMeta (snd (token w s r)) = codeMeta (snd (token_grant w s r))"
  by (auto simp: token_def Let_def record_issued_frame dest: authenticateClient_codes
      split: prod.split sum.split option.split)

lemma code_grant_codes: "codeMeta (snd (code_grant w s r)) = (codeMeta s)(form_Get r ''code'' := None)"
  by (auto simp: code_grant_def Let_def share_csid_frame split: option.split)

lemma refresh_grant_codes: "codeMeta (snd (refresh_grant w s r)) = codeMeta s"
  by (auto simp: refresh_grant_def Let_def share_csid_frame split: option.split)

lemma issueCode_codes:
  "c \<noteq> w_code w \<Longrightarrow> codeMeta (snd (issueCodeAndRedirect w s sess cl st n)) c = codeMeta s c"
  by (simp add: issueCodeAndRedirect_def Let_def split: option.split)

lemma continue_session_codes:
  "c \<noteq> w_code w \<Longrightarrow> codeMeta (snd (continue_session w s k sess cl u ch m st n)) c = codeMeta s c"
  by (simp add: continue_session_def Let_def issueCode_codes)

lemma authorize_codes:
  assumes "c \<noteq> w_code w" and "idp_ok s"
  shows "codeMeta (snd (authorize w s r)) c = codeMeta s c"
proof -
  obtain resp s' where a: "authorize w s r = (resp, s')" by fastforce
  then have "codeMeta s' c = codeMeta s c"
  proof (cases rule: authorize_cases)
    case (unresolved refusal)
    then show ?thesis using resolveAuthorizeClient_ok(2) [OF _ assms(2)] by (simp add: same_login_state_def)
  next
    case (resolved s1)
    have "codeMeta s1 = codeMeta s"
      using resolveAuthorizeClient_ok(2) [OF resolved(1) assms(2)] by (simp add: same_login_state_def)
    moreover have "codeMeta s' c = codeMeta s1 c"
      using assms(1) arg_cong [OF resolved(3), of "\<lambda>p. codeMeta (snd p) c"]
      by (auto simp: authorize_resolved_def silent_authorize_def Let_def continue_session_codes
          split: option.splits if_splits)
    ultimately show ?thesis by simp
  qed simp
  with a show ?thesis by simp
qed

lemma approve_codes: "c \<noteq> w_code w \<Longrightarrow> codeMeta (snd (approve w s r)) c = codeMeta s c"
  by (simp add: approve_def approve_session_def Let_def issueCode_codes split: option.split)

lemma register_codes: "codeMeta (snd (register w s r)) = codeMeta s"
proof -
  obtain resp s' where r: "register w s r = (resp, s')" by fastforce
  then have "codeMeta s' = codeMeta s" by (cases rule: register_cases) simp_all
  with r show ?thesis by simp
qed

lemma token_unknown_code:
  "codeMeta s c = None \<Longrightarrow> codeMeta (snd (token w s r)) c = None"
  using token_codes [of r w s]
  by (cases "r_Method r = ''POST''") (auto simp: token_grant_def code_grant_codes refresh_grant_codes token_def)

lemma login_codes: "codeMeta (snd (login w s r)) = codeMeta s"
  by (simp add: login_def Let_def)

lemma handle_codes:
  assumes "codeMeta s c = None" and "c \<noteq> w_code w" and "idp_ok s"
  shows "codeMeta (snd (handle w s r)) c = None"
  by (rule handle_induct)
    (simp_all add: assms token_unknown_code authorize_codes approve_codes register_codes login_codes)

text \<open>A step that does not generate this code again.\<close>

inductive step_without :: "string \<Rightarrow> server \<Rightarrow> server \<Rightarrow> bool" for code where
  "fresh_world w s \<Longrightarrow> w_code w \<noteq> code \<Longrightarrow> step_without code s (snd (handle w s r))"

interpretation without: guarded_system "\<lambda>s. idp_ok s \<and> codeMeta s code = None" "step_without code"
  "\<lambda>s. idp_ok s \<and> codeMeta s code = None" for code
  by unfold_locales (auto elim!: step_without.cases intro: handle_ok handle_codes)

lemma code_unknown:
  "code_request r code \<Longrightarrow> codeMeta s code = None \<Longrightarrow> token w s r = (writeOAuthError 403 ''invalid_grant'', s)"
  by (simp add: code_request_def token_def token_grant_def code_grant_def Let_def)

text \<open>
  C2: an authorization code is single-use. Whatever became of the first token request that presented it,
  after any number of further requests a token request with the same code is refused with
  \<^verbatim>\<open>invalid_grant\<close> and changes nothing, unless the UUID generator produces that code again.
\<close>

theorem code_single_use:
  assumes "idp_ok s" and "code_request r code" and "code_request r2 code"
    and "run (step_without code) (snd (token w s r)) s2"
  shows "token w2 s2 r2 = (writeOAuthError 403 ''invalid_grant'', s2)"
proof -
  have "codeMeta (snd (token w s r)) code = None"
    using assms(2) token_codes [of r w s] by (simp add: code_request_def token_grant_def code_grant_codes)
  then have "codeMeta s2 code = None"
    using without.run_inv [OF assms(4)] token_ok [OF assms(1)] by blast
  with assms(3) show ?thesis by (rule code_unknown)
qed

section \<open>Exchanging a code\<close>

lemma token_200:
  assumes "token w s r = (resp, s')" and "status resp = 200"
  shows "\<exists>g s1 s2 t. r_Method r = ''POST'' \<and> token_grant w s r = (Inr g, s1)
    \<and> authenticateClient w s1 (gr_clientID g) (parseClientCredentials r) = (None, s2)
    \<and> issue_all w s2 g = Some t \<and> resp = token_response s2 t \<and> s' = record_issued s2 g t"
proof -
  obtain g s1 where tg: "token_grant w s r = (g, s1)" by fastforce
  have refused: "status p \<noteq> 200" if "g = Inl p" for p
    using tg that
    by (auto simp: token_grant_def code_grant_def refresh_grant_def Let_def writeOAuthError_def base_response_def
        split: if_splits option.splits)
  have "status (writeClientAuthError m) = 401" for m
    by (simp add: writeClientAuthError_def writeOAuthError_def Let_def)
  with assms tg refused show ?thesis
    by (auto simp: token_def Let_def response_defs split: if_splits sum.splits prod.splits option.splits)
qed

lemma code_grant_Inr:
  assumes "code_grant w s r = (Inr g, s1)"
  shows "\<exists>meta sess cs. codeMeta s (form_Get r ''code'') = Some meta \<and> sessions s (cm_CookieID meta) = Some sess
    \<and> getClientSessionByID sess (cm_ClientID meta) = Some cs \<and> pkce_verified cs (form_Get r ''code_verifier'')
    \<and> gr_clientID g = cm_ClientID meta \<and> gr_cookieID g = cm_CookieID meta \<and> gr_scope g = cs_Scope cs
    \<and> gr_advertisedSub g = cs_AdvertisedSub cs \<and> gr_clientSessionID g = cs_SessionID cs \<and> clients s1 = clients s"
  using assms
  by (auto simp: code_grant_def Let_def make_grant_def share_csid_frame split: option.splits if_splits)

text \<open>
  C5: when a code is exchanged for tokens, it had been issued and is gone afterwards, its session and client session
  still existed, the code verifier matched the stored challenge, and a dynamically registered client with a
  secret presented its identifier and secret by the method it registered.
\<close>

theorem token_code_exchange:
  assumes "token w s r = (resp, s')" and "code_request r code" and "status resp = 200"
  shows "\<exists>meta sess cs. codeMeta s code = Some meta \<and> codeMeta s' code = None
    \<and> sessions s (cm_CookieID meta) = Some sess \<and> getClientSessionByID sess (cm_ClientID meta) = Some cs
    \<and> (cs_CodeChallenge cs = []
       \<or> cs_CodeChallengeMethod cs = ''plain'' \<and> form_Get r ''code_verifier'' = cs_CodeChallenge cs
       \<or> cs_CodeChallengeMethod cs = ''S256'' \<and> b64_encode (sha256 (form_Get r ''code_verifier'')) = cs_CodeChallenge cs)
    \<and> (\<forall>reg. clients s (cm_ClientID meta) = Some reg \<longrightarrow> RegistrationMethod reg = registrationMethodDynamic
         \<longrightarrow> TokenEndpointAuthMethod reg \<in> {''client_secret_basic'', ''client_secret_post''} \<longrightarrow>
         (let creds = parseClientCredentials r in cc_method creds = TokenEndpointAuthMethod reg
            \<and> cc_clientID creds = cm_ClientID meta \<and> cc_secret creds = ClientSecret reg \<and> ClientSecret reg \<noteq> []))"
proof -
  from token_200 [OF assms(1,3)] obtain g s1 s2 t where g: "token_grant w s r = (Inr g, s1)"
    and a: "authenticateClient w s1 (gr_clientID g) (parseClientCredentials r) = (None, s2)"
    and p: "r_Method r = ''POST''" by blast
  have cg: "code_grant w s r = (Inr g, s1)" using g assms(2) by (simp add: token_grant_def code_request_def)
  have code: "form_Get r ''code'' = code" using assms(2) by (simp add: code_request_def)
  have gone: "codeMeta s' code = None"
    using token_codes [OF p, of w s] code_grant_codes [of w s r] assms(1) g cg code by simp
  from code_grant_Inr [OF cg] obtain meta sess cs where m: "codeMeta s code = Some meta"
    "sessions s (cm_CookieID meta) = Some sess" "getClientSessionByID sess (cm_ClientID meta) = Some cs"
    "pkce_verified cs (form_Get r ''code_verifier'')" "gr_clientID g = cm_ClientID meta" "clients s1 = clients s"
    using code by blast
  have "cc_method (parseClientCredentials r) = TokenEndpointAuthMethod reg
      \<and> cc_clientID (parseClientCredentials r) = cm_ClientID meta
      \<and> cc_secret (parseClientCredentials r) = ClientSecret reg \<and> ClientSecret reg \<noteq> []"
    if "clients s (cm_ClientID meta) = Some reg" "RegistrationMethod reg = registrationMethodDynamic"
      "TokenEndpointAuthMethod reg \<in> {''client_secret_basic'', ''client_secret_post''}" for reg
    using a m(5,6) that check_credentials_secret [OF that(3), of w s1 "cm_ClientID meta"]
    by (simp add: authenticateClient_def)
  with m gone show ?thesis
    by (auto simp: pkce_verified_def Let_def split: if_splits intro!: exI [of _ meta] exI [of _ sess] exI [of _ cs])
qed

section \<open>A concrete session\<close>

text \<open>Bob is logged in at the automatically registered client \<open>app\<close> and holds the code \<open>code-1\<close>.\<close>

definition live_server :: server where
  "live_server = session_server\<lparr>clients := [''app'' \<mapsto> automatic_registration example_world ''app'']\<rparr>"

definition exchange_request :: request where
  "exchange_request = example_request\<lparr>r_Method := ''POST'', r_Path := ''/token'',
     r_Form := [(''grant_type'', [''authorization_code'']), (''code'', [''code-1'']), (''code_verifier'', [''secret''])]\<rparr>"

lemma live_server_ok: "idp_ok live_server"
proof -
  have "\<not> isClientIDMetadataDocumentURL ''app''" by code_simp
  then have "registration_ok ''app'' (automatic_registration example_world ''app'')"
    by (simp add: automatic_registration_ok)
  moreover have "RegistrationMethod (automatic_registration example_world ''app'') \<noteq> registrationMethodDynamic"
    by (simp add: automatic_registration_def registrationMethod_defs)
  moreover have "authContext live_server = Map.empty" "clientIDMetadata live_server = Map.empty"
    "sessions live_server = [''cookie-1'' \<mapsto> example_session]" "se_ClientSessions example_session = [example_clientSession]"
    "cs_ClientID example_clientSession = ''app''"
    by (simp_all add: live_server_def session_server_def example_server_def example_session_def example_clientSession_def)
  ultimately show ?thesis
    using session_server_ok(1)
    by (auto simp: idp_ok_def contexts_ok_def registry_ok_def cache_ok_def contexts_settled_def sessions_settled_def
        settled_def live_server_def session_server_def split: if_splits)
qed

lemma exchange_request_code: "code_request exchange_request ''code-1''"
  by code_simp

lemma exchange_succeeds: "status (fst (token session_world live_server exchange_request)) = 200"
  by code_simp

theorem code_single_use_witness:
  "status (fst (token session_world live_server exchange_request)) = 200
   \<and> token session_world (snd (token session_world live_server exchange_request)) exchange_request
     = (writeOAuthError 403 ''invalid_grant'', snd (token session_world live_server exchange_request))"
proof -
  note exchange_succeeds
  moreover note code_single_use [OF live_server_ok exchange_request_code exchange_request_code run.stop,
      of session_world session_world]
  ultimately show ?thesis by blast
qed

theorem token_code_exchange_witness:
  "status (fst (token session_world live_server exchange_request)) = 200
   \<and> codeMeta (snd (token session_world live_server exchange_request)) ''code-1'' = None"
proof -
  from token_code_exchange [OF prod.collapse [symmetric] exchange_request_code exchange_succeeds] exchange_succeeds show ?thesis by blast
qed

section \<open>Delivering a code\<close>

lemma issueCode_location:
  assumes "issueCodeAndRedirect w s sess c st n = (resp, s')" and "location resp = Some l"
  shows "\<exists>cs. getClientSessionByID sess c = Some cs
    \<and> l = buildURL (cs_RedirectURI cs) [(''code'', w_code w), (''state'', st), (''iss'', externalURL s)]
    \<and> codeMeta s' (w_code w) = Some \<lparr>cm_CookieID = se_CookieID sess, cm_ClientID = c, cm_Nonce = n\<rparr>
    \<and> sessions s' = sessions s"
  using assms
  by (auto simp: issueCodeAndRedirect_def Let_def response_defs split: option.splits)

text \<open>A response with a location that leaves a new code behind: where the code goes.\<close>

definition code_delivered :: "world \<Rightarrow> server \<Rightarrow> server \<Rightarrow> string \<Rightarrow> bool" where
  "code_delivered w s s' l \<longleftrightarrow> (\<exists>k sess cs st meta. sessions s' k = Some sess \<and> cs \<in> set (se_ClientSessions sess)
     \<and> codeMeta s' (w_code w) = Some meta \<and> cs_ClientID cs = cm_ClientID meta
     \<and> l = buildURL (cs_RedirectURI cs) [(''code'', w_code w), (''state'', st), (''iss'', externalURL s)])"

lemma issueCode_delivered:
  assumes "issueCodeAndRedirect w s1 sess c st n = (resp, s')" and "location resp = Some l"
    and "sessions s1 k = Some sess" and "externalURL s1 = externalURL s"
  shows "code_delivered w s s' l"
proof -
  from issueCode_location [OF assms(1,2)] obtain cs where cs: "getClientSessionByID sess c = Some cs"
    "l = buildURL (cs_RedirectURI cs) [(''code'', w_code w), (''state'', st), (''iss'', externalURL s1)]"
    "codeMeta s' (w_code w) = Some \<lparr>cm_CookieID = se_CookieID sess, cm_ClientID = c, cm_Nonce = n\<rparr>"
    "sessions s' = sessions s1" by blast
  then have "cs_ClientID cs = c \<and> cs \<in> set (se_ClientSessions sess)"
    by (simp add: getClientSessionByID_def css.lookup_key)
  with cs assms(3,4) show ?thesis
    unfolding code_delivered_def
    by (intro exI [of _ k] exI [of _ sess] exI [of _ cs] exI [of _ st]) auto
qed

lemma continue_session_delivered:
  assumes "continue_session w s1 k sess c u ch m st n = (resp, s')" and "location resp = Some l"
    and "externalURL s1 = externalURL s"
  shows "code_delivered w s s' l"
  using assms unfolding continue_session_def Let_def
  by (elim issueCode_delivered [where k = k]) simp_all

lemma authorize_delivered:
  assumes "authorize w s r = (resp, s')" and "idp_ok s" and "location resp = Some l"
    and "codeMeta s (w_code w) = None" and "codeMeta s' (w_code w) \<noteq> None"
  shows "code_delivered w s s' l"
  using assms(1)
proof (cases rule: authorize_cases)
  case (unresolved refusal)
  have "codeMeta s' = codeMeta s"
    using resolveAuthorizeClient_ok(2) [OF unresolved(1) assms(2)] by (simp add: same_login_state_def)
  with assms(4,5) show ?thesis by simp
next
  case (resolved s1)
  have f: "codeMeta s1 = codeMeta s" "externalURL s1 = externalURL s"
    using resolveAuthorizeClient_ok(2) [OF resolved(1) assms(2)] by (simp_all add: same_login_state_def)
  from resolved(3) show ?thesis
    using assms(3-5) f
    by (auto simp: authorize_resolved_def silent_authorize_def Let_def response_defs
        split: option.splits if_splits intro: continue_session_delivered)
qed (use assms(3) in simp)

lemma approve_delivered:
  assumes "approve w s r = (resp, s')" and "location resp = Some l"
  shows "code_delivered w s s' l"
  using assms
  by (auto simp: approve_def approve_session_def Let_def response_defs split: if_splits option.splits
      elim!: issueCode_delivered)

lemma newMux_delivered:
  assumes "newMux p w s r = (resp, s')" and "idp_ok s" and "location resp = Some l"
    and "codeMeta s (w_code w) = None" and "codeMeta s' (w_code w) \<noteq> None"
  shows "code_delivered w s s' l"
proof (cases rule: newMux_cases [of p w s r])
  case authorize
  with assms show ?thesis using authorize_delivered by auto
next
  case approve
  with assms show ?thesis using approve_delivered by auto
next
  case token
  with assms token_unknown_code [OF assms(4), of w r] show ?thesis by simp
next
  case register
  with assms(1,4,5) register_codes [of w s r] show ?thesis by simp
next
  case login
  with assms(1,4,5) login_codes [of w s r] show ?thesis by simp
qed (use assms in auto)

text \<open>
  C3: in every state that satisfies the invariant, a redirect that carries a newly issued code for a dynamically registered
  client goes to one of the redirect URIs that client registered, whichever of the authorization and
  approval paths issued it.
\<close>

theorem code_delivery_registered:
  assumes "idp_ok s" and "fresh_world w s" and "handle w s r = (resp, s')"
    and "location resp = Some l" and "codeMeta s' (w_code w) = Some meta"
    and "clients s' (cm_ClientID meta) = Some reg" and "RegistrationMethod reg = registrationMethodDynamic"
  shows "\<exists>u st. u \<in> set (RedirectURIs reg) \<and> validateRedirectURI u = None
    \<and> l = buildURL u [(''code'', w_code w), (''state'', st), (''iss'', externalURL s)]"
proof -
  note ok = assms(1)
  have ok': "idp_ok s'" using handle_ok [OF ok assms(2), of r] assms(3) by simp
  have none: "codeMeta s (w_code w) = None" using assms(2) by (simp add: fresh_world_def)
  obtain resp0 where m: "newMux (r_Path r) w s r = (resp0, s')" "location resp0 = Some l"
    using assms(3-5) none
    by (cases "newMux (r_Path r) w s r") (auto simp: handle_def withCORS_def Let_def base_response_def split: if_splits)
  from newMux_delivered [OF m(1) ok m(2) none] assms(5) obtain k sess cs st where
    d: "sessions s' k = Some sess" "cs \<in> set (se_ClientSessions sess)" "cs_ClientID cs = cm_ClientID meta"
    "l = buildURL (cs_RedirectURI cs) [(''code'', w_code w), (''state'', st), (''iss'', externalURL s)]"
    by (auto simp: code_delivered_def)
  have r: "registration_ok (cm_ClientID meta) reg" using ok' assms(6) by (simp add: idp_ok_def registry_ok_def)
  have "settled (clients s') (cm_ClientID meta) (cs_RedirectURI cs)"
    using idp_ok_session_settled [OF ok' d(1,2)] d(3) by simp
  then have u: "cs_RedirectURI cs \<in> set (RedirectURIs reg)"
    using assms(6,7) r by (auto simp: settled_def registration_ok_def)
  have "valid_metadata supportedTokenEndpointAuthMethods reg"
    using r assms(7) by (auto simp: registration_ok_def document_ok_def registrationMethod_defs split: if_splits)
  with u d(4) show ?thesis by (auto simp: valid_metadata_def list_all_iff)
qed

text \<open>Bob, logged in, is about to approve a request of the dynamically registered client \<open>dyn\<close>.\<close>

definition dyn_registration :: clientRegistration where
  "dyn_registration = zero_registration\<lparr>ClientID := ''dyn'', RedirectURIs := [''https://app/cb''],
     TokenEndpointAuthMethod := ''none'', GrantTypes := [''authorization_code''], ResponseTypes := [''code''],
     RegistrationMethod := registrationMethodDynamic\<rparr>"

definition consent_server :: server where
  "consent_server = example_server\<lparr>clients := [''dyn'' \<mapsto> dyn_registration],
     authContext := [''req-0'' \<mapsto> zero_authContext\<lparr>ac_ClientID := ''dyn'', ac_RedirectURI := ''https://app/cb'',
       ac_Scope := ''openid'', ac_State := ''xyz'', ac_Username := ''bob'', ac_Sub := ''internal|bob''\<rparr>]\<rparr>"

definition consent_world :: world where
  "consent_world = quiet_world\<lparr>w_json := (\<lambda>raw. Some (JObj []))\<rparr>"

definition approve_request :: request where
  "approve_request = example_request\<lparr>r_Method := ''POST'', r_Path := ''/approve'',
     r_Form := [(''reqid'', [''req-0'']), (''approve'', [''yes''])]\<rparr>"

lemma consent_server_ok: "idp_ok consent_server"
proof -
  have "registration_ok ''dyn'' dyn_registration" by code_simp
  then show ?thesis
    by (auto simp: idp_ok_def contexts_ok_def registry_ok_def cache_ok_def contexts_settled_def sessions_settled_def
        settled_def consent_server_def example_server_def dyn_registration_def zero_authContext_def pkce_ok_def
        sessions_ok_empty split: if_splits)
qed

lemma consent_world_fresh: "fresh_world consent_world consent_server"
proof -
  have "\<not> isClientIDMetadataDocumentURL ''client-1''" by code_simp
  then show ?thesis
    by (simp add: fresh_world_def consent_world_def quiet_world_def example_world_def consent_server_def
        example_server_def csids_def valid_order_def)
qed

theorem code_delivery_registered_witness:
  "\<exists>st. location (fst (handle consent_world consent_server approve_request))
     = Some (buildURL ''https://app/cb'' [(''code'', ''code-1''), (''state'', st), (''iss'', ''https://idp'')])"
proof -
  let ?h = "handle consent_world consent_server approve_request"
  have l: "location (fst ?h) = Some (the (location (fst ?h)))"
    and c: "codeMeta (snd ?h) (w_code consent_world) = Some \<lparr>cm_CookieID = ''cookie-1'', cm_ClientID = ''dyn'', cm_Nonce = []\<rparr>"
    and reg: "clients (snd ?h) ''dyn'' = Some dyn_registration"
      "RegistrationMethod dyn_registration = registrationMethodDynamic"
    and s: "RedirectURIs dyn_registration = [''https://app/cb'']" "externalURL consent_server = ''https://idp''"
      "w_code consent_world = ''code-1''"
    by code_simp+
  from code_delivery_registered [OF consent_server_ok consent_world_fresh prod.collapse [symmetric] l c, of dyn_registration]
    reg s l show ?thesis by auto
qed

text \<open>
  C19: a client identified by a metadata document gets past \<^verbatim>\<open>/authorize\<close> only with a redirect URI its
  document lists and, when the document declares it public, only with a PKCE challenge; otherwise the
  answer is an error page with status 400 and no redirect.
\<close>

theorem authorize_document_client:
  assumes "authorize w s r = (resp, s')" and "idp_ok s" and "status resp \<noteq> 400" and "status resp \<noteq> 404"
    and "isClientIDMetadataDocumentURL (form_Get r ''client_id'')"
  shows "\<exists>reg. fst (resolveClientIDMetadata w s (form_Get r ''client_id'')) = Inr reg
    \<and> document_ok (form_Get r ''client_id'') reg
    \<and> form_Get r ''redirect_uri'' \<in> set (RedirectURIs reg)
    \<and> (if TokenEndpointAuthMethod reg = ''none'' then form_Get r ''code_challenge'' \<noteq> [] else True)"
proof -
  let ?c = "form_Get r ''client_id''"
  obtain rres s1 where rs: "resolveClientIDMetadata w s ?c = (rres, s1)" by fastforce
  obtain ra s2 where ra: "resolveAuthorizeClient w s ?c (form_Get r ''redirect_uri'') (form_Get r ''scope'')
      (form_Get r ''code_challenge'') = (ra, s2)" by fastforce
  have "ra = None"
  proof (rule ccontr)
    assume "ra \<noteq> None"
    then have "status (the ra) = 400"
      using ra assms(5) by (auto simp: resolveAuthorizeClient_def rs check_registration_def renderAuthorizeError_def
          split: sum.splits if_splits)
    with \<open>ra \<noteq> None\<close> assms(1,3,4) ra show False
      by (auto simp: authorize_def Let_def renderAuthorizeError_def NotFound_def split: if_splits)
  qed
  then obtain reg where reg: "rres = Inr reg"
    and c: "check_registration reg (form_Get r ''redirect_uri'') (form_Get r ''code_challenge'') = None"
    using ra assms(5) by (cases rres) (auto simp: resolveAuthorizeClient_def rs)
  have d: "document_ok ?c reg"
    using resolve_ok(4) [OF rs _ _ assms(5) reg] assms(2) by (simp add: idp_ok_def)
  then have m: "RegistrationMethod reg = registrationMethodClientIDMetadataDocument" by (simp add: document_ok_def)
  from rs reg d check_registration_None(1) [OF c] check_registration_None(2) [OF c m] m show ?thesis by auto
qed

text \<open>A request of the client whose document \<open>fetching_world\<close> serves.\<close>

definition document_request :: request where
  "document_request = example_request\<lparr>r_Path := ''/authorize'',
     r_Form := [(''client_id'', [''https://app/id'']), (''redirect_uri'', [''https://app/cb'']),
       (''code_challenge'', [''abc''])]\<rparr>"

lemma example_server_ok: "idp_ok example_server"
  by (simp add: idp_ok_def contexts_ok_def registry_ok_def cache_ok_def contexts_settled_def sessions_settled_def
      example_server_def sessions_ok_empty)

theorem authorize_document_client_witness:
  "status (fst (authorize fetching_world example_server document_request)) = 200
   \<and> (\<exists>reg. document_ok ''https://app/id'' reg \<and> ''https://app/cb'' \<in> set (RedirectURIs reg))"
proof -
  let ?a = "authorize fetching_world example_server document_request"
  have st: "status (fst ?a) = 200"
    and f: "form_Get document_request ''client_id'' = ''https://app/id''"
      "form_Get document_request ''redirect_uri'' = ''https://app/cb''"
    and d: "isClientIDMetadataDocumentURL (form_Get document_request ''client_id'')"
    by code_simp+
  from authorize_document_client [OF prod.collapse [symmetric] example_server_ok _ _ d, of fetching_world] st
  show ?thesis unfolding f by auto
qed

section \<open>The registry and authorization requests\<close>







section \<open>Tokens\<close>

lemma issue_all_scope:
  "issue_all w s g = Some t \<Longrightarrow> (it_refresh t \<noteq> None \<longleftrightarrow> hasScope (gr_scope g) ''offline_access'')
     \<and> (it_id t \<noteq> None \<longleftrightarrow> hasScope (gr_scope g) ''openid'')"
  by (cases "hasScope (gr_scope g) ''offline_access''"; cases "hasScope (gr_scope g) ''openid''")
    (auto simp: issue_all_def Let_def split: option.split_asm)

lemma token_response_fields:
  assumes "token_response s t = resp"
  shows "\<exists>m. rbody resp = JSONBody m \<and> m ''access_token'' = Some (AStr (fst (it_access t)))
    \<and> (m ''refresh_token'' \<noteq> None \<longleftrightarrow> it_refresh t \<noteq> None) \<and> (m ''id_token'' \<noteq> None \<longleftrightarrow> it_id t \<noteq> None)
    \<and> m ''expires_in'' = Some (AInt (accessTokenLifetime s)) \<and> m ''token_type'' = Some (AStr ''Bearer'')"
  using assms by (auto simp: token_response_def Let_def base_response_def split: option.split)

text \<open>
  C18: a successful code exchange returns an access token, a refresh token exactly when the client
  session was granted \<^verbatim>\<open>offline_access\<close>, and an ID token exactly when it was granted \<^verbatim>\<open>openid\<close>; the
  granted scope is the one stored with the approval, not one of the request.
\<close>

theorem token_contents:
  assumes "token w s r = (resp, s')" and "code_request r code" and "status resp = 200"
    and "codeMeta s code = Some meta" and "sessions s (cm_CookieID meta) = Some sess"
    and "getClientSessionByID sess (cm_ClientID meta) = Some cs"
  shows "\<exists>m tok. rbody resp = JSONBody m \<and> m ''access_token'' = Some (AStr tok)
    \<and> (m ''refresh_token'' \<noteq> None \<longleftrightarrow> hasScope (cs_Scope cs) ''offline_access'')
    \<and> (m ''id_token'' \<noteq> None \<longleftrightarrow> hasScope (cs_Scope cs) ''openid'')"
proof -
  from token_200 [OF assms(1,3)] obtain g s1 s2 t where g: "token_grant w s r = (Inr g, s1)"
    and t: "issue_all w s2 g = Some t" and resp: "resp = token_response s2 t" by blast
  have "code_grant w s r = (Inr g, s1)" using g assms(2) by (simp add: token_grant_def code_request_def)
  from code_grant_Inr [OF this] have "gr_scope g = cs_Scope cs" using assms(2,4-6) by (auto simp: code_request_def)
  with issue_all_scope [OF t] token_response_fields [OF resp [symmetric]] show ?thesis by auto
qed

theorem token_contents_witness:
  "\<exists>m tok. rbody (fst (token session_world live_server exchange_request)) = JSONBody m
     \<and> m ''access_token'' = Some (AStr tok) \<and> m ''refresh_token'' \<noteq> None \<and> m ''id_token'' \<noteq> None"
proof -
  have sc: "hasScope (cs_Scope example_clientSession) ''offline_access''" "hasScope (cs_Scope example_clientSession) ''openid''"
    by code_simp+
  have m: "codeMeta live_server ''code-1'' = Some \<lparr>cm_CookieID = ''cookie-1'', cm_ClientID = ''app'', cm_Nonce = ''n''\<rparr>"
    "sessions live_server ''cookie-1'' = Some example_session"
    "getClientSessionByID example_session ''app'' = Some example_clientSession"
    by (simp_all add: live_server_def session_server_def getClientSessionByID_def find_clientSession_def
        example_session_def example_clientSession_def)
  from token_contents [OF prod.collapse [symmetric] exchange_request_code exchange_succeeds m(1)] m sc show ?thesis by simp
qed

end
