(* ===== verification/Idp_Grants.thy ===== *)
theory Idp_Grants
  imports Idp_Security
begin

text \<open>
  The codes and consents of the identity provider against an abstract authorization service, which it refines, and what remains of a
  session once it has ended.
\<close>

section \<open>The abstract authorization service\<close>

text \<open>
  What the identity provider is, seen from outside: users consent to clients in browser sessions, a consent or a live session
  yields a fresh code, a code is taken back when it is redeemed, and ending a session withdraws its consents.
\<close>

record grants =
  gs_codes :: "string \<rightharpoonup> codeMetadataEntry"
  gs_consents :: "string \<rightharpoonup> string set"

definition no_grants :: grants where
  "no_grants = \<lparr>gs_codes = Map.empty, gs_consents = Map.empty\<rparr>"

definition add_consent :: "string \<Rightarrow> string set option \<Rightarrow> string set option" where
  "add_consent client old = Some (insert client (case old of Some cs \<Rightarrow> cs | None \<Rightarrow> {}))"

inductive grant_step :: "grants \<Rightarrow> grants \<Rightarrow> bool" where
  idle: "grant_step g g"
| issue: "gs_consents g (cm_CookieID meta) \<noteq> None \<Longrightarrow> gs_codes g code = None
    \<Longrightarrow> grant_step g (g\<lparr>gs_codes := (gs_codes g)(code \<mapsto> meta)\<rparr>)"
| consent: "gs_codes g code = None \<Longrightarrow> cookie \<noteq> [] \<Longrightarrow> cm_CookieID meta = cookie
    \<Longrightarrow> grant_step g (g\<lparr>gs_codes := (gs_codes g)(code \<mapsto> meta),
          gs_consents := (gs_consents g)(cookie := add_consent (cm_ClientID meta) (gs_consents g cookie))\<rparr>)"
| redeem: "gs_codes g code = Some meta \<Longrightarrow> grant_step g (g\<lparr>gs_codes := (gs_codes g)(code := None)\<rparr>)"
| withdraw: "grant_step g (g\<lparr>gs_consents := (gs_consents g)(cookie := None)\<rparr>)"

definition consents_of :: "(string \<rightharpoonup> session) \<Rightarrow> string \<rightharpoonup> string set" where
  "consents_of m = (\<lambda>k. map_option (\<lambda>sess. cs_ClientID ` set (se_ClientSessions sess)) (m k))"

definition grants_of :: "server \<Rightarrow> grants" where
  "grants_of s = \<lparr>gs_codes = codeMeta s, gs_consents = consents_of (sessions s)\<rparr>"

section \<open>Refinement\<close>

lemma consents_of_upd [simp]:
  "consents_of (m(k \<mapsto> sess)) = (consents_of m)(k \<mapsto> cs_ClientID ` set (se_ClientSessions sess))"
  "consents_of (m(k := None)) = (consents_of m)(k := None)"
  by (auto simp: consents_of_def fun_eq_iff)

lemma clients_update_first:
  assumes "\<And>cs. cs_ClientID (f cs) = cs_ClientID cs"
  shows "cs_ClientID ` set (update_first P f css) = cs_ClientID ` set css"
  using map_update_first [of P cs_ClientID f css] assms by (metis set_map)

lemma consents_of_same:
  "m k = Some sess \<Longrightarrow> (consents_of m)(k \<mapsto> cs_ClientID ` set (se_ClientSessions sess)) = consents_of m"
  by (auto simp: consents_of_def)

lemma grants_same: "codeMeta s' = codeMeta s \<Longrightarrow> sessions s' = sessions s \<Longrightarrow> grants_of s' = grants_of s"
  by (simp add: grants_of_def)

lemma same_login_grants: "same_login_state s s' \<Longrightarrow> grants_of s' = grants_of s"
  by (simp add: grants_of_def same_login_state_def)

lemma updates_clients:
  "cs_ClientID ` set (se_ClientSessions (updateClientSessionRedirectURI (updateClientSessionPKCE sess c ch m) c u))
     = cs_ClientID ` set (se_ClientSessions sess)"
  by (simp add: updateClientSessionRedirectURI_def updateClientSessionPKCE_def clients_update_first)

lemma updates_cookie [simp]:
  "se_CookieID (updateClientSessionRedirectURI (updateClientSessionPKCE sess c ch m) c u) = se_CookieID sess"
  by (simp add: updateClientSessionRedirectURI_def updateClientSessionPKCE_def)

lemma issueCode_grants:
  "grants_of (snd (issueCodeAndRedirect w s sess c st n)) = (grants_of s)\<lparr>gs_codes := (codeMeta s)(w_code w \<mapsto>
     \<lparr>cm_CookieID = se_CookieID sess, cm_ClientID = c, cm_Nonce = n\<rparr>)\<rparr>"
  by (simp add: issueCodeAndRedirect_def grants_of_def Let_def split: option.split)

lemma continue_session_refines:
  assumes "idp_ok s" and "sessions s k = Some sess" and "codeMeta s (w_code w) = None"
  shows "grant_step (grants_of s) (grants_of (snd (continue_session w s k sess c u ch m st n)))"
proof -
  have k: "se_CookieID sess = k"
    using assms(1,2) entries_okD [of "sessions s" k sess] by (simp add: idp_ok_def session_ok_def)
  have c: "gs_consents (grants_of s) k \<noteq> None" using assms(2) by (simp add: grants_of_def consents_of_def)
  have g: "grants_of (snd (continue_session w s k sess c u ch m st n)) =
     (grants_of s)\<lparr>gs_codes := (gs_codes (grants_of s))(w_code w \<mapsto> \<lparr>cm_CookieID = k, cm_ClientID = c, cm_Nonce = n\<rparr>)\<rparr>"
    using assms(2) k
    by (simp add: continue_session_def issueCode_grants Let_def) (simp add: grants_of_def updates_clients consents_of_same)
  show ?thesis
    unfolding g by (rule grant_step.issue) (use c assms(3) in \<open>simp_all add: grants_of_def\<close>)
qed

lemma authorize_resolved_refines:
  assumes "idp_ok s" and "codeMeta s (w_code w) = None"
  shows "grant_step (grants_of s) (grants_of (snd (authorize_resolved w s r c sc u ch m)))"
proof -
  have "grant_step (grants_of s) (grants_of (snd (silent_authorize w s r c u ch m st n)))" for st n
    using continue_session_refines [OF assms(1) _ assms(2)]
    by (simp add: silent_authorize_def Let_def grant_step.idle split: option.split)
  moreover have "grants_of (s\<lparr>authContext := x\<rparr>) = grants_of s" for x by (rule grants_same) simp_all
  ultimately show ?thesis
    using continue_session_refines [OF assms(1) _ assms(2)]
    by (simp add: authorize_resolved_def Let_def grant_step.idle split: option.split)
qed

lemma authorize_refines:
  assumes "idp_ok s" and "codeMeta s (w_code w) = None"
  shows "grant_step (grants_of s) (grants_of (snd (authorize w s r)))"
proof -
  obtain resp s' where a: "authorize w s r = (resp, s')" by fastforce
  then have "grant_step (grants_of s) (grants_of s')"
  proof (cases rule: authorize_cases)
    case (unresolved refusal)
    then show ?thesis
      using same_login_grants [OF resolveAuthorizeClient_ok(2) [OF _ assms(1)]] by (metis grant_step.idle)
  next
    case (resolved s1)
    note same = resolveAuthorizeClient_ok(2) [OF resolved(1) assms(1)]
    have ok1: "idp_ok s1" using resolveAuthorizeClient_ok [OF resolved(1) assms(1)] by blast
    have g1: "grants_of s1 = grants_of s" "codeMeta s1 (w_code w) = None"
      using same_login_grants [OF same] same assms(2) by (simp_all add: same_login_state_def)
    from authorize_resolved_refines [OF ok1 g1(2)] resolved(3) g1(1) show ?thesis by (metis snd_conv)
  qed (simp add: grant_step.idle)
  with a show ?thesis by simp
qed

lemma clients_upsert: "cs_ClientID ` set (upsertClientSession css cs) = insert (cs_ClientID cs) (cs_ClientID ` set css)"
  by (induction css) auto

lemma approve_session_grants:
  assumes "approve_session w s reqID ctx ic ac = (sess, s1)" and "idp_ok s" and "fresh_world w s"
  shows "se_CookieID sess \<noteq> []" and "grants_of s1 = (grants_of s)\<lparr>gs_consents := (consents_of (sessions s))(se_CookieID sess :=
    add_consent (ac_ClientID ctx) (consents_of (sessions s) (se_CookieID sess)))\<rparr>"
proof -
  have ok: "sessions_ok (sessions s)" using assms(2) by (simp add: idp_ok_def)
  have c: "se_CookieID (session_for w s ctx) \<noteq> [] \<and> add_consent (ac_ClientID ctx)
      (consents_of (sessions s) (se_CookieID (session_for w s ctx)))
      = Some (insert (ac_ClientID ctx) (cs_ClientID ` set (se_ClientSessions (session_for w s ctx))))"
  proof (rule session_for_cases [OF ok assms(3), of ctx])
    fix sess0 assume "session_for w s ctx = sess0" "sessions s (se_CookieID sess0) = Some sess0"
    with entries_okD [OF ok this(2)] show ?thesis by (simp add: add_consent_def consents_of_def session_ok_def)
  qed (use assms(3) in \<open>simp add: add_consent_def consents_of_def fresh_world_def\<close>)
  from assms(1) have sess: "se_CookieID sess = se_CookieID (session_for w s ctx)"
    by (auto simp: approve_session_def Let_def)
  with c show "se_CookieID sess \<noteq> []" by simp
  show "grants_of s1 = (grants_of s)\<lparr>gs_consents := (consents_of (sessions s))(se_CookieID sess :=
    add_consent (ac_ClientID ctx) (consents_of (sessions s) (se_CookieID sess)))\<rparr>"
    using assms(1) c unfolding sess
    by (auto simp: approve_session_def Let_def grants_of_def clients_upsert approved_clientSession_def)
qed

lemma approve_refines:
  assumes "idp_ok s" and "fresh_world w s"
  shows "grant_step (grants_of s) (grants_of (snd (approve w s r)))"
proof -
  have "grant_step (grants_of s) (grants_of (snd (issueCodeAndRedirect w s1 sess (ac_ClientID ctx) st n)))"
    if "approve_session w s k ctx ic ac = (sess, s1)" for k ctx ic ac sess s1 st n
  proof -
    let ?meta = "\<lparr>cm_CookieID = se_CookieID sess, cm_ClientID = ac_ClientID ctx, cm_Nonce = n\<rparr>"
    note g = approve_session_grants [OF that assms]
    have s1: "codeMeta s1 = codeMeta s" using that by (auto simp: approve_session_def Let_def)
    have "grants_of (snd (issueCodeAndRedirect w s1 sess (ac_ClientID ctx) st n)) =
      (grants_of s)\<lparr>gs_codes := (gs_codes (grants_of s))(w_code w \<mapsto> ?meta),
        gs_consents := (gs_consents (grants_of s))(se_CookieID sess :=
          add_consent (cm_ClientID ?meta) (gs_consents (grants_of s) (se_CookieID sess)))\<rparr>"
      unfolding issueCode_grants g(2) s1 by (simp add: grants_of_def)
    also have "grant_step (grants_of s) \<dots>"
      by (rule grant_step.consent) (use assms(2) g(1) in \<open>simp_all add: fresh_world_def grants_of_def\<close>)
    finally show ?thesis .
  qed
  then show ?thesis by (simp add: approve_def Let_def grant_step.idle split_def split: option.split)
qed

lemma share_csid_grants:
  "sessions s k = Some sess \<Longrightarrow> grants_of (share_csid s k sess P csid) = grants_of s"
  by (simp add: share_csid_def grants_of_def clients_update_first consents_of_same)

lemma record_issued_grants: "grants_of (record_issued s g t) = grants_of s"
  by (simp add: record_issued_def grants_of_def clients_update_first consents_of_same split: option.split)

lemma code_grant_consents: "gs_consents (grants_of (snd (code_grant w s r))) = gs_consents (grants_of s)"
  by (auto simp: code_grant_def Let_def share_csid_grants split: option.split) (simp_all add: grants_of_def)

lemma refresh_grant_grants: "grants_of (snd (refresh_grant w s r)) = grants_of s"
  by (auto simp: refresh_grant_def Let_def dest!: getSessionByClientSessionID_SomeD intro!: share_csid_grants
      split: option.split)

lemma token_grants:
  assumes "idp_ok s" and "r_Method r = ''POST''"
  shows "grants_of (snd (token w s r)) = grants_of (snd (token_grant w s r))"
proof -
  obtain g s1 where tg: "token_grant w s r = (g, s1)" by fastforce
  have "idp_ok s1" using token_grant_ok [OF assms(1), of w r] tg by simp
  then have "grants_of s2 = grants_of s1" if "authenticateClient w s1 c creds = (res, s2)" for c creds res s2
    using same_login_grants authenticateClient_ok [OF that] by (auto simp: idp_ok_def)
  with tg assms(2) show ?thesis
    by (auto simp: token_def Let_def record_issued_grants split: prod.split sum.split option.split)
qed

lemma token_refines:
  assumes "idp_ok s"
  shows "grant_step (grants_of s) (grants_of (snd (token w s r)))"
proof (cases "r_Method r = ''POST''")
  case True
  show ?thesis
  proof (cases "form_Get r ''grant_type'' = ''authorization_code''")
    case code: True
    let ?code = "form_Get r ''code''"
    have g: "grants_of (snd (token w s r)) = (grants_of s)\<lparr>gs_codes := (gs_codes (grants_of s))(?code := None)\<rparr>"
      using token_grants [OF assms True, of w] code_grant_consents [of w s r] code_grant_codes [of w s r] code
      by (simp add: token_grant_def) (simp add: grants_of_def)
    show ?thesis
    proof (cases "gs_codes (grants_of s) ?code")
      case None
      then have "grants_of (snd (token w s r)) = grants_of s" unfolding g by (simp add: fun_upd_idem)
      then show ?thesis by (simp add: grant_step.idle)
    next
      case (Some meta)
      then show ?thesis unfolding g by (rule grant_step.redeem)
    qed
  next
    case False
    then show ?thesis
      using token_grants [OF assms True, of w] by (simp add: token_grant_def refresh_grant_grants grant_step.idle)
  qed
qed (simp add: token_def grant_step.idle)

lemma register_grants: "grants_of (snd (register w s r)) = grants_of s"
proof -
  obtain resp s' where r: "register w s r = (resp, s')" by fastforce
  then have "grants_of s' = grants_of s" by (cases rule: register_cases) (simp_all add: grants_of_def)
  with r show ?thesis by simp
qed

lemma handle_refines:
  assumes "idp_ok s" and "fresh_world w s"
  shows "grant_step (grants_of s) (grants_of (snd (handle w s r)))"
proof (rule handle_induct)
  have "codeMeta s (w_code w) = None" using assms(2) by (simp add: fresh_world_def)
  with assms show "grant_step (grants_of s) (grants_of (snd (authorize w s r)))"
    "grant_step (grants_of s) (grants_of (snd (approve w s r)))" "grant_step (grants_of s) (grants_of (snd (token w s r)))"
    by (simp_all add: authorize_refines approve_refines token_refines)
  have "grants_of (snd (login w s r)) = grants_of s" by (rule grants_same) (simp_all add: login_def Let_def)
  then show "grant_step (grants_of s) (grants_of (snd (login w s r)))" by (simp add: grant_step.idle)
  show "grant_step (grants_of s) (grants_of (s\<lparr>sessions := (sessions s)(k := None)\<rparr>))" for k
    using grant_step.withdraw [of "grants_of s" k] by (simp add: grants_of_def)
qed (simp_all add: register_grants grant_step.idle)

lemma newServer_grants: "newServer env key t = Inr s \<Longrightarrow> grants_of s = no_grants"
  by (auto simp: grants_of_def no_grants_def consents_of_def dest!: newServer_maps)

interpretation idp_grants: refined_system idp_init idp_step idp_ok grants_of "\<lambda>g. g = no_grants" grant_step
  by unfold_locales (auto simp: idp_init_def elim!: idp_stepE intro: newServer_grants handle_refines)

text \<open>
  C7: the identity provider refines the abstract authorization service. From start-up on, whatever requests it serves, its codes and the
  clients its sessions consented to evolve by steps of that service only: a code appears once, fresh, for a live
  session, it disappears only by being presented at the token endpoint, and a client is added to a session only
  together with a code for that client and session.
\<close>

theorem idp_refines_grants:
  assumes "reachable idp_init idp_step s" and "run idp_step s s'"
  shows "reachable (\<lambda>g. g = no_grants) grant_step (grants_of s) \<and> run grant_step (grants_of s) (grants_of s')"
  using assms idp_grants.reachable_refines idp_grants.run_refines idp.reachable_inv by blast

theorem idp_refines_grants_witness:
  "run grant_step no_grants (grants_of (snd (handle quiet_world default_server login_request)))"
proof -
  have "run idp_step default_server (snd (handle quiet_world default_server login_request))"
    using run.stop idp_step.request [OF quiet_world_fresh] by (rule run.next_step)
  from idp_refines_grants [OF default_server_reachable this] show ?thesis
    by (simp add: newServer_grants [OF default_server_init])
qed

section \<open>Ending a session\<close>

text \<open>Requests add at most the identifiers generated for them.\<close>

definition sessions_grow :: "world \<Rightarrow> (string \<rightharpoonup> session) \<Rightarrow> (string \<rightharpoonup> session) \<Rightarrow> bool" where
  "sessions_grow w m m' \<longleftrightarrow> dom m' \<subseteq> insert (w_cookieID w) (dom m) \<and> csids m' \<subseteq> insert (w_csID w) (csids m)"

lemma sessions_grow_refl: "sessions_grow w m m"
  by (auto simp: sessions_grow_def)

lemma sessions_grow_delete: "sessions_grow w m (m(k := None))"
  by (auto simp: sessions_grow_def csids_def split: if_splits)

lemma sessions_grow_trans: "sessions_grow w a b \<Longrightarrow> sessions_grow w b c \<Longrightarrow> sessions_grow w a c"
  unfolding sessions_grow_def by blast

lemma sessions_grow_upd:
  assumes "m k = Some sess \<or> k = w_cookieID w"
    and "\<And>cs. cs \<in> set (se_ClientSessions sess') \<Longrightarrow> cs_SessionID cs \<in> insert (w_csID w) (csids m)"
  shows "sessions_grow w m (m(k \<mapsto> sess'))"
  using assms unfolding sessions_grow_def csids_def by (auto split: if_splits)

lemma sessions_grow_refines:
  assumes "m k = Some sess" and "session_refines sess sess'"
  shows "sessions_grow w m (m(k \<mapsto> sess'))"
proof (rule sessions_grow_upd [of _ _ sess])
  fix cs assume "cs \<in> set (se_ClientSessions sess')"
  from session_refines_elem [OF assms(2) this] assms(1) show "cs_SessionID cs \<in> insert (w_csID w) (csids m)"
    by (metis csidsI insertCI)
qed (simp add: assms(1))

lemma continue_session_grow:
  "sessions s k = Some sess \<Longrightarrow> sessions_grow w (sessions s) (sessions (snd (continue_session w s k sess c u ch m st n)))"
  using sessions_grow_refines [OF _ session_refines_trans
      [OF updateClientSessionPKCE_refines updateClientSessionRedirectURI_refines]]
  by (simp add: continue_session_def issueCodeAndRedirect_def Let_def split: option.split)

lemma authorize_grow:
  assumes "idp_ok s"
  shows "sessions_grow w (sessions s) (sessions (snd (authorize w s r)))"
proof -
  have silent: "sessions_grow w (sessions s1) (sessions (snd (silent_authorize w s1 r c u ch m st n)))" for s1 c u ch m st n
    using continue_session_grow by (simp add: silent_authorize_def Let_def sessions_grow_refl split: option.split)
  have ar: "sessions_grow w (sessions s1) (sessions (snd (authorize_resolved w s1 r c sc u ch m)))" for s1 c sc u ch m
    using continue_session_grow silent by (simp add: authorize_resolved_def Let_def sessions_grow_refl split: option.split)
  obtain resp s' where a: "authorize w s r = (resp, s')" by fastforce
  then have "sessions_grow w (sessions s) (sessions s')"
  proof (cases rule: authorize_cases)
    case (unresolved refusal)
    from resolveAuthorizeClient_ok(2) [OF unresolved(1) assms] show ?thesis
      by (simp add: same_login_state_def sessions_grow_refl)
  next
    case (resolved s1)
    from resolveAuthorizeClient_ok(2) [OF resolved(1) assms] have "sessions s1 = sessions s"
      by (simp add: same_login_state_def)
    with ar [of s1] resolved(3) show ?thesis by (metis snd_conv)
  qed (simp add: sessions_grow_refl)
  with a show ?thesis by simp
qed

lemma approved_csid:
  "cs_SessionID (approved_clientSession w s ctx sess ic ac) \<in> insert (w_csID w) (cs_SessionID ` set (se_ClientSessions sess))"
  by (auto simp: approved_clientSession_def dest!: find_SomeD split: option.split)

lemma approve_session_grow:
  assumes "approve_session w s reqID ctx ic ac = (sess, s1)" and "idp_ok s" and "fresh_world w s"
  shows "sessions_grow w (sessions s) (sessions s1)"
proof -
  let ?sess0 = "session_for w s ctx"
  let ?cs = "approved_clientSession w s ctx ?sess0 ic ac"
  have ok: "sessions_ok (sessions s)" using assms(2) by (simp add: idp_ok_def)
  have sess: "sess = ?sess0\<lparr>se_ClientSessions := upsertClientSession (se_ClientSessions ?sess0) ?cs\<rparr>"
    and s1: "sessions s1 = (sessions s)(se_CookieID ?sess0 \<mapsto> sess)"
    using assms(1) by (auto simp: approve_session_def Let_def)
  have old: "sessions s (se_CookieID ?sess0) = Some ?sess0 \<or> se_CookieID ?sess0 = w_cookieID w \<and> se_ClientSessions ?sess0 = []"
    by (rule session_for_cases [OF ok assms(3), of ctx]) auto
  then have "cs_SessionID ` set (se_ClientSessions ?sess0) \<subseteq> csids (sessions s)" by (auto intro: csidsI)
  then have "cs_SessionID cs \<in> insert (w_csID w) (csids (sessions s))" if "cs \<in> set (se_ClientSessions sess)" for cs
    using that set_upsertClientSession [of "se_ClientSessions ?sess0" ?cs] approved_csid [of w s ctx ?sess0 ic ac]
    unfolding sess by auto
  with old show ?thesis unfolding s1 by (intro sessions_grow_upd) auto
qed

lemma approve_grow:
  assumes "idp_ok s" and "fresh_world w s"
  shows "sessions_grow w (sessions s) (sessions (snd (approve w s r)))"
proof -
  have "sessions (snd (issueCodeAndRedirect w s1 sess c st n)) = sessions s1" for s1 sess c st n
    by (simp add: issueCodeAndRedirect_def Let_def split: option.split)
  then show ?thesis
    using approve_session_grow [OF prod.collapse [symmetric] assms]
    by (simp add: approve_def Let_def sessions_grow_refl split_def split: option.split)
qed

lemma share_csid_grow:
  "sessions s k = Some sess \<Longrightarrow> sessions_grow w (sessions s) (sessions (share_csid s k sess P csid))"
  by (simp add: share_csid_def sessions_grow_refines update_first_refines)

lemma record_issued_grow: "sessions_grow w (sessions s) (sessions (record_issued s g t))"
  by (simp add: record_issued_def sessions_grow_refl sessions_grow_refines update_first_refines split: option.split)

lemma token_grant_grow: "sessions_grow w (sessions s) (sessions (snd (token_grant w s r)))"
proof -
  have "sessions_grow w (sessions s) (sessions (snd (code_grant w s r)))"
    using share_csid_grow [of "s\<lparr>codeMeta := (codeMeta s)(form_Get r ''code'' := None)\<rparr>"]
    by (simp add: code_grant_def Let_def sessions_grow_refl split: option.split)
  moreover have "sessions_grow w (sessions s) (sessions (snd (refresh_grant w s r)))"
    by (auto simp: refresh_grant_def Let_def sessions_grow_refl dest!: getSessionByClientSessionID_SomeD
        intro!: share_csid_grow split: option.split)
  ultimately show ?thesis by (simp add: token_grant_def sessions_grow_refl)
qed

lemma token_grow:
  assumes "idp_ok s"
  shows "sessions_grow w (sessions s) (sessions (snd (token w s r)))"
proof -
  obtain g s1 where tg: "token_grant w s r = (g, s1)" by fastforce
  have s1: "sessions_grow w (sessions s) (sessions s1)" using token_grant_grow [of w s r] tg by simp
  have "idp_ok s1" using token_grant_ok [OF assms, of w r] tg by simp
  then have "sessions s2 = sessions s1" if "authenticateClient w s1 c creds = (res, s2)" for c creds res s2
    using authenticateClient_ok [OF that] by (auto simp: idp_ok_def same_login_state_def)
  then have "sessions_grow w (sessions s) (sessions s2) \<and> sessions_grow w (sessions s) (sessions (record_issued s2 g' t))"
    if "authenticateClient w s1 c creds = (res, s2)" for c creds res s2 g' t
    using that s1 record_issued_grow [of w s2 g' t] by (metis sessions_grow_trans)
  then show ?thesis
    using s1 by (simp add: token_def Let_def tg sessions_grow_refl split: sum.split option.split prod.split)
qed

lemma handle_grow:
  assumes "idp_ok s" and "fresh_world w s"
  shows "sessions_grow w (sessions s) (sessions (snd (handle w s r)))"
proof (rule handle_induct)
  have "sessions (snd (register w s r)) = sessions s"
    using register_cases [OF prod.collapse [symmetric], of w s r] by fastforce
  then show "sessions_grow w (sessions s) (sessions (snd (register w s r)))" by (simp add: sessions_grow_refl)
  show "sessions_grow w (sessions s) (sessions (snd (login w s r)))" by (simp add: login_def Let_def sessions_grow_refl)
  show "sessions_grow w (sessions s) (sessions (s\<lparr>sessions := (sessions s)(k := None)\<rparr>))" for k
    using sessions_grow_delete [of w "sessions s" k] by simp
qed (simp_all add: assms authorize_grow approve_grow token_grow sessions_grow_refl)

text \<open>A step that generates none of the identifiers of an ended session again.\<close>

inductive step_apart :: "string \<Rightarrow> string \<Rightarrow> server \<Rightarrow> server \<Rightarrow> bool" for cookie csid where
  "fresh_world w s \<Longrightarrow> w_cookieID w \<noteq> cookie \<Longrightarrow> w_csID w \<noteq> csid \<Longrightarrow> step_apart cookie csid s (snd (handle w s r))"

definition session_over :: "string \<Rightarrow> string \<Rightarrow> server \<Rightarrow> bool" where
  "session_over cookie csid s \<longleftrightarrow> idp_ok s \<and> sessions s cookie = None \<and> csid \<notin> csids (sessions s)"

lemma handle_over:
  assumes "session_over cookie csid s" and "fresh_world w s" and "w_cookieID w \<noteq> cookie" and "w_csID w \<noteq> csid"
  shows "session_over cookie csid (snd (handle w s r))"
proof -
  have "idp_ok s" "cookie \<notin> dom (sessions s)" "csid \<notin> csids (sessions s)"
    using assms(1) by (auto simp: session_over_def)
  with handle_grow [OF this(1) assms(2), of r] handle_ok [OF this(1) assms(2), of r] assms(3,4) show ?thesis
    unfolding session_over_def sessions_grow_def by blast
qed

interpretation over: guarded_system "session_over cookie csid" "step_apart cookie csid" "session_over cookie csid" for cookie csid
  by unfold_locales (auto elim!: step_apart.cases intro: handle_over)

lemma session_deleted_over:
  assumes "idp_ok s" and "sessions s k = Some sess" and "cs \<in> set (se_ClientSessions sess)"
  shows "session_over k (cs_SessionID cs) (s\<lparr>sessions := (sessions s)(k := None)\<rparr>)"
proof -
  have ok: "sessions_ok (sessions s)" using assms(1) by (simp add: idp_ok_def)
  have "cs_SessionID cs \<notin> csids ((sessions s)(k := None))"
  proof
    assume "cs_SessionID cs \<in> csids ((sessions s)(k := None))"
    then obtain j sess' cs' where "((sessions s)(k := None)) j = Some sess'" "cs' \<in> set (se_ClientSessions sess')"
      "cs_SessionID cs = cs_SessionID cs'" unfolding csids_def by auto
    moreover from this(1) have "sessions s j = Some sess'" "j \<noteq> k" by (auto split: if_splits)
    ultimately show False using csids_uniqueD [OF ok assms(2) _ assms(3)] by blast
  qed
  with assms(1) show ?thesis by (simp add: session_over_def idp_ok_delete)
qed

lemma over_lookup:
  assumes "session_over k csid s"
  shows "getSessionByClientSessionIDLocked w s csid = None"
proof (rule ccontr)
  assume "getSessionByClientSessionIDLocked w s csid \<noteq> None"
  then obtain j sess cs where "getSessionByClientSessionIDLocked w s csid = Some (j, sess, cs)" by auto
  then have "csid \<in> csids (sessions s)" using getSessionByClientSessionID_SomeD csidsI by metis
  with assms show False by (simp add: session_over_def)
qed

definition refresh_request :: "world \<Rightarrow> server \<Rightarrow> request \<Rightarrow> string \<Rightarrow> bool" where
  "refresh_request w s r csid \<longleftrightarrow> r_Method r = ''POST'' \<and> form_Get r ''grant_type'' = ''refresh_token''
     \<and> (\<exists>c. decodeJWT w s (form_Get r ''refresh_token'') = Some c \<and> claim_string c ''csid'' = csid)"

text \<open>
  C11: ending a session revokes what was granted in it. After a logout (POST) or an approved end of session (GET or POST), and after any
  number of further requests that draw neither its cookie nor the client session's identifier again, a refresh token of that client
  session gives 401, a code of the session not yet redeemed gives 403, and an access token still gets 200 at the userinfo endpoint (GET or
  POST), but there with nothing but the subject the token itself names: no claim of the ended session.
\<close>

theorem ended_session_revoked:
  assumes "idp_ok s" and "sessions s k = Some sess" and "cs \<in> set (se_ClientSessions sess)"
    and "s1 = snd (logout w s r) \<and> r_Method r = ''POST'' \<and> form_Get r ''cookieid'' = k
       \<or> s1 = snd (endsessionApprove w s r) \<and> r_Method r \<in> {''GET'', ''POST''} \<and> form_Get r ''sessionid'' = k"
    and "run (step_apart k (cs_SessionID cs)) s1 s2"
  shows "(refresh_request w2 s2 r2 (cs_SessionID cs) \<longrightarrow> token w2 s2 r2 = (writeOAuthError 401 ''invalid_grant'', s2))
    \<and> (code_request r2 code \<longrightarrow> map_option cm_CookieID (codeMeta s2 code) = Some k
        \<longrightarrow> fst (token w2 s2 r2) = writeOAuthError 403 ''invalid_grant'')
    \<and> (extractAccessToken w2 s2 r2 = Some c \<longrightarrow> claim_string c ''csid'' = cs_SessionID cs \<longrightarrow> r_Method r2 \<in> {''GET'', ''POST''}
        \<longrightarrow> status (fst (userinfo w2 s2 r2)) = 200
          \<and> rbody (fst (userinfo w2 s2 r2)) = JSONBody [''sub'' \<mapsto> AStr (claim_string c ''sub'')])"
proof -
  have "s1 = s\<lparr>sessions := (sessions s)(k := None)\<rparr>"
    using assms(4) by (auto simp: logout_def endsessionApprove_def)
  then have over: "session_over k (cs_SessionID cs) s2"
    using over.run_inv [OF assms(5)] session_deleted_over [OF assms(1-3)] by simp
  note gone = over_lookup [OF over, of w2]
  have "sessions s2 k = None" using over by (simp add: session_over_def)
  then have "code_request r2 code \<longrightarrow> map_option cm_CookieID (codeMeta s2 code) = Some k
        \<longrightarrow> fst (token w2 s2 r2) = writeOAuthError 403 ''invalid_grant''"
    by (auto simp: code_request_def token_def token_grant_def code_grant_def Let_def)
  moreover have "refresh_request w2 s2 r2 (cs_SessionID cs) \<longrightarrow> token w2 s2 r2 = (writeOAuthError 401 ''invalid_grant'', s2)"
    using gone by (auto simp: refresh_request_def token_def token_grant_def refresh_grant_def Let_def)
  moreover have "extractAccessToken w2 s2 r2 = Some c \<longrightarrow> claim_string c ''csid'' = cs_SessionID cs
        \<longrightarrow> r_Method r2 \<in> {''GET'', ''POST''} \<longrightarrow> status (fst (userinfo w2 s2 r2)) = 200
          \<and> rbody (fst (userinfo w2 s2 r2)) = JSONBody [''sub'' \<mapsto> AStr (claim_string c ''sub'')]"
    using gone by (auto simp: userinfo_def Let_def derive_claims_def copyClaims_def base_response_def)
  ultimately show ?thesis by blast
qed

definition logout_request :: request where
  "logout_request = example_request\<lparr>r_Method := ''POST'', r_Path := ''/logout'', r_Form := [(''cookieid'', [''cookie-1''])]\<rparr>"

theorem ended_session_revoked_witness:
  "status (fst (token session_world live_server exchange_request)) = 200
   \<and> fst (token session_world (snd (logout session_world live_server logout_request)) exchange_request)
     = writeOAuthError 403 ''invalid_grant''"
proof -
  let ?s1 = "snd (logout session_world live_server logout_request)"
  have "sessions live_server ''cookie-1'' = Some example_session" "example_clientSession \<in> set (se_ClientSessions example_session)"
    by (simp_all add: live_server_def session_server_def example_session_def)
  note revoked = ended_session_revoked [OF live_server_ok this _ run.stop, of ?s1 session_world logout_request
      session_world exchange_request "''code-1''"]
  have "r_Method logout_request = ''POST''" "form_Get logout_request ''cookieid'' = ''cookie-1''"
    "map_option cm_CookieID (codeMeta ?s1 ''code-1'') = Some ''cookie-1''"
    by code_simp+
  with revoked exchange_request_code exchange_succeeds show ?thesis by blast
qed

end
