(* ===== verification/Idp_Interleaving.thy ===== *)
theory Idp_Interleaving
  imports Idp_Security
begin

text \<open>
  The code grant at the granularity of its critical sections: \<^verbatim>\<open>token\<close> takes the code out of the map while it holds the mutex, releases
  it, and reads the session later. Any number of token requests and of other requests interleave between the two.
\<close>

section \<open>The two sections of the grant\<close>

definition take_code :: "server \<Rightarrow> request \<Rightarrow> codeMetadataEntry option \<times> server" where
  "take_code s r =
     (case codeMeta s (form_Get r ''code'') of
        Some meta \<Rightarrow> (Some meta, s\<lparr>codeMeta := (codeMeta s)(form_Get r ''code'' := None)\<rparr>)
      | None \<Rightarrow> (None, s))"

definition finish_code :: "world \<Rightarrow> server \<Rightarrow> request \<Rightarrow> codeMetadataEntry \<Rightarrow> (response, grant) result \<times> server" where
  "finish_code w s r meta =
     (let refuse = Inl (writeOAuthError 403 ''invalid_grant'')
      in case sessions s (cm_CookieID meta) of
        None \<Rightarrow> (refuse, s)
      | Some sess \<Rightarrow>
          (case getClientSessionByID sess (cm_ClientID meta) of
             None \<Rightarrow> (refuse, s)
           | Some clientSess \<Rightarrow>
               if \<not> pkce_verified clientSess (form_Get r ''code_verifier'') then (refuse, s)
               else (Inr (make_grant w s (cm_CookieID meta) sess clientSess (cm_ClientID meta) (cm_Nonce meta)),
                     share_csid s (cm_CookieID meta) sess (\<lambda>cs. cs_ClientID cs = cm_ClientID meta) (cs_SessionID clientSess))))"

text \<open>Run one after the other, they are the grant of the sequential model.\<close>

lemma code_grant_sections:
  "code_grant w s r = (case take_code s r of
     (None, s1) \<Rightarrow> (Inl (writeOAuthError 403 ''invalid_grant''), s1)
   | (Some meta, s1) \<Rightarrow> finish_code w s1 r meta)"
  by (simp add: code_grant_def take_code_def finish_code_def Let_def split: option.split)

lemma take_code_facts:
  assumes "take_code s r = (res, s')"
  shows "codeMeta s' = (codeMeta s)(form_Get r ''code'' := None)" and "res = codeMeta s (form_Get r ''code'')"
    and "idp_ok s \<Longrightarrow> idp_ok s'"
  using assms by (auto simp: take_code_def idp_ok_code fun_upd_idem split: option.splits)

lemma finish_code_facts:
  assumes "finish_code w s r meta = (res, s')"
  shows "codeMeta s' = codeMeta s" and "idp_ok s \<Longrightarrow> idp_ok s'"
  using assms by (auto simp: finish_code_def Let_def share_csid_frame intro: share_csid_ok split: option.splits if_splits)

section \<open>Concurrent requests\<close>

text \<open>A token request with a code: not yet started, holding the code's metadata, or through with its grant.\<close>

datatype redemption =
    Started request
  | Taken request codeMetadataEntry
  | Finished request "(response, grant) result"

record concurrent =
  cn_server :: server
  cn_requests :: "redemption list"

text \<open>The steps, where the UUID generator does not produce \<open>code\<close> again.\<close>

inductive conc_step :: "string \<Rightarrow> concurrent \<Rightarrow> concurrent \<Rightarrow> bool" for code where
  arrive: "conc_step code c (c\<lparr>cn_requests := cn_requests c @ [Started r]\<rparr>)"
| taken: "i < length (cn_requests c) \<Longrightarrow> cn_requests c ! i = Started r \<Longrightarrow> take_code (cn_server c) r = (Some meta, s')
    \<Longrightarrow> conc_step code c \<lparr>cn_server = s', cn_requests = (cn_requests c)[i := Taken r meta]\<rparr>"
| refused: "i < length (cn_requests c) \<Longrightarrow> cn_requests c ! i = Started r \<Longrightarrow> take_code (cn_server c) r = (None, s')
    \<Longrightarrow> conc_step code c \<lparr>cn_server = s',
          cn_requests = (cn_requests c)[i := Finished r (Inl (writeOAuthError 403 ''invalid_grant''))]\<rparr>"
| finished: "i < length (cn_requests c) \<Longrightarrow> cn_requests c ! i = Taken r meta \<Longrightarrow> finish_code w (cn_server c) r meta = (res, s')
    \<Longrightarrow> conc_step code c \<lparr>cn_server = s', cn_requests = (cn_requests c)[i := Finished r res]\<rparr>"
| other: "fresh_world w (cn_server c) \<Longrightarrow> w_code w \<noteq> code
    \<Longrightarrow> conc_step code c (c\<lparr>cn_server := snd (handle w (cn_server c) r)\<rparr>)"

inductive_cases conc_stepE: "conc_step code c c'"

fun holds_code :: "string \<Rightarrow> redemption \<Rightarrow> bool" where
  "holds_code code (Started r) = False"
| "holds_code code (Taken r meta) = (form_Get r ''code'' = code)"
| "holds_code code (Finished r res) = (form_Get r ''code'' = code \<and> \<not> isl res)"

definition holders :: "string \<Rightarrow> concurrent \<Rightarrow> nat" where
  "holders code c = length (filter (holds_code code) (cn_requests c))"

definition conc_ok :: "string \<Rightarrow> concurrent \<Rightarrow> bool" where
  "conc_ok code c \<longleftrightarrow> idp_ok (cn_server c)
     \<and> holders code c + (if codeMeta (cn_server c) code = None then 0 else 1) \<le> 1"

lemma length_filter_update:
  "i < length xs \<Longrightarrow> length (filter P (xs[i := x])) + (if P (xs ! i) then 1 else 0)
     = length (filter P xs) + (if P x then 1 else 0)"
proof (induction xs arbitrary: i)
  case (Cons y ys)
  show ?case
  proof (cases i)
    case (Suc j)
    with Cons.IH [of j] Cons.prems show ?thesis by (simp split: if_splits)
  qed simp
qed simp

lemma conc_step_ok:
  assumes "conc_step code c c'" and "conc_ok code c"
  shows "conc_ok code c'"
  using assms(1)
proof (cases rule: conc_step.cases)
  case (arrive r)
  with assms(2) show ?thesis by (simp add: conc_ok_def holders_def)
next
  case (taken i r meta s')
  note t = take_code_facts [OF taken(4)]
  have "holders code c' = holders code c + (if form_Get r ''code'' = code then 1 else 0)"
    using length_filter_update [OF taken(2), of "holds_code code" "Taken r meta"] taken(1,3) by (simp add: holders_def)
  with assms(2) taken(1) t show ?thesis by (auto simp: conc_ok_def split: if_splits)
next
  case (refused i r s')
  note t = take_code_facts [OF refused(4)]
  have "holders code c' = holders code c"
    using length_filter_update [OF refused(2), of "holds_code code" "Finished r (Inl (writeOAuthError 403 ''invalid_grant''))"]
      refused(1,3) by (simp add: holders_def)
  with assms(2) refused(1) t show ?thesis by (auto simp: conc_ok_def split: if_splits)
next
  case (finished i r meta w res s')
  note f = finish_code_facts [OF finished(4)]
  have "holders code c' \<le> holders code c"
    using length_filter_update [OF finished(2), of "holds_code code" "Finished r res"] finished(1,3)
    by (simp add: holders_def split: if_splits)
  with assms(2) finished(1) f show ?thesis by (auto simp: conc_ok_def split: if_splits)
next
  case (other w r)
  have ok: "idp_ok (cn_server c)" using assms(2) by (simp add: conc_ok_def)
  have "codeMeta (cn_server c) code = None \<Longrightarrow> codeMeta (cn_server c') code = None"
    using handle_codes [OF _ other(3) [symmetric] ok] other(1) by simp
  with assms(2) other(1) handle_ok [OF ok other(2)] show ?thesis by (auto simp: conc_ok_def holders_def split: if_splits)
qed

interpretation conc: guarded_system "conc_ok code" "conc_step code" "conc_ok code" for code
  by unfold_locales (auto intro: conc_step_ok)

text \<open>
  C9: a code is redeemed at most once however token requests interleave. Of any number of concurrent token requests with the same code, at most one ever
  holds its metadata or obtains a grant, whatever other requests run between the critical sections, unless the UUID
  generator produces that code again; and each request run alone is the sequential grant.
\<close>

theorem code_single_use_interleaved:
  assumes "idp_ok s" and "run (conc_step code) \<lparr>cn_server = s, cn_requests = []\<rparr> c"
  shows "card {i. i < length (cn_requests c) \<and> holds_code code (cn_requests c ! i)} \<le> 1
    \<and> (\<forall>w s r. code_grant w s r = (case take_code s r of
         (None, s1) \<Rightarrow> (Inl (writeOAuthError 403 ''invalid_grant''), s1)
       | (Some meta, s1) \<Rightarrow> finish_code w s1 r meta))"
proof -
  have "conc_ok code \<lparr>cn_server = s, cn_requests = []\<rparr>" using assms(1) by (simp add: conc_ok_def holders_def)
  then have "holders code c \<le> 1" using conc.run_inv [OF assms(2)] by (auto simp: conc_ok_def split: if_splits)
  then show ?thesis
    using length_filter_conv_card [of "holds_code code" "cn_requests c"] code_grant_sections
    by (auto simp: holders_def)
qed

text \<open>Two requests with the code \<open>code-1\<close> arrive, the first takes it, the second is refused.\<close>

definition racing :: concurrent where
  "racing = \<lparr>cn_server = snd (take_code live_server exchange_request),
     cn_requests = [Taken exchange_request \<lparr>cm_CookieID = ''cookie-1'', cm_ClientID = ''app'', cm_Nonce = ''n''\<rparr>,
       Finished exchange_request (Inl (writeOAuthError 403 ''invalid_grant''))]\<rparr>"

lemma racing_run: "run (conc_step ''code-1'') \<lparr>cn_server = live_server, cn_requests = []\<rparr> racing"
proof -
  let ?r = exchange_request
  let ?meta = "\<lparr>cm_CookieID = ''cookie-1'', cm_ClientID = ''app'', cm_Nonce = ''n''\<rparr>"
  define s1 where "s1 = snd (take_code live_server ?r)"
  have code: "form_Get ?r ''code'' = ''code-1''" by code_simp
  have t1: "take_code live_server ?r = (Some ?meta, s1)"
    by (simp add: s1_def take_code_def code live_server_def session_server_def)
  have t2: "take_code s1 ?r = (None, s1)"
    using take_code_facts(1) [OF t1] code by (simp add: take_code_def)
  have "conc_step ''code-1'' \<lparr>cn_server = live_server, cn_requests = []\<rparr> \<lparr>cn_server = live_server, cn_requests = [Started ?r]\<rparr>"
    using conc_step.arrive [of "''code-1''" "\<lparr>cn_server = live_server, cn_requests = []\<rparr>" ?r] by simp
  with run.stop have "run (conc_step ''code-1'') \<lparr>cn_server = live_server, cn_requests = []\<rparr>
      \<lparr>cn_server = live_server, cn_requests = [Started ?r]\<rparr>" by (rule run.next_step)
  moreover have "conc_step ''code-1'' \<lparr>cn_server = live_server, cn_requests = [Started ?r]\<rparr>
      \<lparr>cn_server = live_server, cn_requests = [Started ?r, Started ?r]\<rparr>"
    using conc_step.arrive [of "''code-1''" "\<lparr>cn_server = live_server, cn_requests = [Started ?r]\<rparr>" ?r] by simp
  ultimately have "run (conc_step ''code-1'') \<lparr>cn_server = live_server, cn_requests = []\<rparr>
      \<lparr>cn_server = live_server, cn_requests = [Started ?r, Started ?r]\<rparr>" by (rule run.next_step)
  moreover have "conc_step ''code-1'' \<lparr>cn_server = live_server, cn_requests = [Started ?r, Started ?r]\<rparr>
      \<lparr>cn_server = s1, cn_requests = [Taken ?r ?meta, Started ?r]\<rparr>"
    using conc_step.taken [of 0 "\<lparr>cn_server = live_server, cn_requests = [Started ?r, Started ?r]\<rparr>" ?r ?meta s1 "''code-1''"] t1
    by simp
  ultimately have "run (conc_step ''code-1'') \<lparr>cn_server = live_server, cn_requests = []\<rparr>
      \<lparr>cn_server = s1, cn_requests = [Taken ?r ?meta, Started ?r]\<rparr>" by (rule run.next_step)
  moreover have "conc_step ''code-1'' \<lparr>cn_server = s1, cn_requests = [Taken ?r ?meta, Started ?r]\<rparr> racing"
    using conc_step.refused [of 1 "\<lparr>cn_server = s1, cn_requests = [Taken ?r ?meta, Started ?r]\<rparr>" ?r s1 "''code-1''"] t2
    by (simp add: racing_def s1_def)
  ultimately show ?thesis by (rule run.next_step)
qed

theorem code_single_use_interleaved_witness:
  "card {i. i < length (cn_requests racing) \<and> holds_code ''code-1'' (cn_requests racing ! i)} = 1"
proof -
  let ?H = "{i. i < length (cn_requests racing) \<and> holds_code ''code-1'' (cn_requests racing ! i)}"
  have "form_Get exchange_request ''code'' = ''code-1''" by code_simp
  then have "0 \<in> ?H" by (simp add: racing_def)
  moreover have "finite ?H" by simp
  ultimately have "card ?H \<noteq> 0" by auto
  moreover have "card ?H \<le> 1" using code_single_use_interleaved [OF live_server_ok racing_run] by blast
  ultimately show ?thesis by linarith
qed

end
