(* ===== verification/Idp_Disclosure.thy ===== *)
theory Idp_Disclosure
  imports Idp_Security
begin

text \<open>
  What leaves the identity provider: the claims the userinfo endpoint discloses, the parameters a redirect carries back
  to the client, and the subject a client gets to see; and concrete runs of behaviour the code shows
  but does not mean.
\<close>

section \<open>Userinfo\<close>

lemma mirror_issued_scoped:
  "mirror_issued sub scope m name = Some v \<Longrightarrow> claimScopes name = Some sc \<Longrightarrow> hasScope scope sc"
  "name \<in> set idTokenOnlyClaims \<Longrightarrow> mirror_issued sub scope m name = None"
  "name \<noteq> ''sub'' \<Longrightarrow> mirror_issued sub scope m name = Some v \<Longrightarrow> m name = Some v"
  "mirror_issued sub scope m ''sub'' = Some (AStr sub)"
  by (auto simp: mirror_issued_def claimScopes_def idTokenOnlyClaims_def split: if_splits option.splits)

lemma claimScopes_Some:
  "claimScopes name = Some sc \<longleftrightarrow> name \<in> {''name'', ''preferred_username'', ''picture''} \<and> sc = ''profile''
     \<or> name \<in> {''email'', ''email_verified''} \<and> sc = ''email''"
  by (auto simp: claimScopes_def)

lemma derive_claims_scoped:
  "derive_claims w s sub scope u name = Some v \<Longrightarrow> claimScopes name = Some sc \<Longrightarrow> hasScope scope sc"
  "name \<in> set idTokenOnlyClaims \<Longrightarrow> derive_claims w s sub scope u name = None"
  "derive_claims w s sub scope u ''sub'' = Some (AStr sub)"
proof -
  show "derive_claims w s sub scope u ''sub'' = Some (AStr sub)" by (simp add: derive_claims_def Let_def)
  show "name \<in> set idTokenOnlyClaims \<Longrightarrow> derive_claims w s sub scope u name = None"
    unfolding idTokenOnlyClaims_def list.set by (elim insertE emptyE) (simp_all add: derive_claims_def Let_def)
  show "derive_claims w s sub scope u name = Some v \<Longrightarrow> claimScopes name = Some sc \<Longrightarrow> hasScope scope sc"
    unfolding claimScopes_Some
    by (elim disjE conjE insertE emptyE) (simp_all add: derive_claims_def Let_def split: if_splits)
qed

lemma userinfo_body:
  assumes "userinfo w s r = (resp, s')" and "extractAccessToken w s r = Some c" and "r_Method r \<in> {''GET'', ''POST''}"
    and "rbody resp = JSONBody m"
  shows "(\<exists>issued. m = mirror_issued (claim_string c ''sub'') (claim_string c ''scope'') issued)
      \<or> (\<exists>u. m = derive_claims w s (claim_string c ''sub'') (claim_string c ''scope'') u)"
    and "getSessionByClientSessionIDLocked w s (claim_string c ''csid'') = Some (k, sess, cs) \<Longrightarrow> cs_IDTokenClaims cs = Some issued
      \<Longrightarrow> m = mirror_issued (claim_string c ''sub'') (claim_string c ''scope'') issued"
  subgoal using assms by (auto simp: userinfo_def Let_def copyClaims_def split: option.splits; blast)
  subgoal using assms by (auto simp: userinfo_def Let_def copyClaims_def)
  done

text \<open>
  C14: the userinfo endpoint answers 200 exactly for a \<^verbatim>\<open>GET\<close> or \<^verbatim>\<open>POST\<close> with a verified access token, and never changes the state. It discloses the
  token's subject, discloses profile and email claims only if the token's scope grants them, never any claim that belongs to the
  ID token alone, and repeats the claims of the ID token that was issued where there is one.
\<close>

theorem userinfo_scope:
  assumes "userinfo w s r = (resp, s')"
  shows "s' = s \<and> (status resp = 200 \<longleftrightarrow> r_Method r \<in> {''GET'', ''POST''} \<and> extractAccessToken w s r \<noteq> None)
    \<and> (\<forall>c m. status resp = 200 \<longrightarrow> extractAccessToken w s r = Some c \<longrightarrow> rbody resp = JSONBody m \<longrightarrow>
        m ''sub'' = Some (AStr (claim_string c ''sub''))
      \<and> (\<forall>name v sc. m name = Some v \<longrightarrow> claimScopes name = Some sc \<longrightarrow> hasScope (claim_string c ''scope'') sc)
      \<and> (\<forall>name\<in>set idTokenOnlyClaims. m name = None)
      \<and> (\<forall>k sess cs issued name v.
           getSessionByClientSessionIDLocked w s (claim_string c ''csid'') = Some (k, sess, cs) \<longrightarrow> cs_IDTokenClaims cs = Some issued
           \<longrightarrow> name \<noteq> ''sub'' \<longrightarrow> m name = Some v \<longrightarrow> issued name = Some v))"
proof -
  have state: "s' = s" using assms by (auto simp: userinfo_def Let_def split: if_splits option.splits)
  have st: "status resp = 200 \<longleftrightarrow> r_Method r \<in> {''GET'', ''POST''} \<and> extractAccessToken w s r \<noteq> None"
    using assms
    by (auto simp: userinfo_def Let_def writeBearerError_def writeOAuthError_def response_defs split: if_splits option.splits)
  show ?thesis
  proof (intro conjI allI impI state st)
    fix c m assume c: "status resp = 200" "extractAccessToken w s r = Some c" "rbody resp = JSONBody m"
    note b = userinfo_body [OF assms c(2) _ c(3)] c(1) st
    then have shape: "(\<exists>issued. m = mirror_issued (claim_string c ''sub'') (claim_string c ''scope'') issued)
      \<or> (\<exists>u. m = derive_claims w s (claim_string c ''sub'') (claim_string c ''scope'') u)" by blast
    then show "m ''sub'' = Some (AStr (claim_string c ''sub''))"
      using mirror_issued_scoped(4) derive_claims_scoped(3) by metis
    from shape show "\<forall>name\<in>set idTokenOnlyClaims. m name = None"
      using mirror_issued_scoped(2) derive_claims_scoped(2) by metis
    fix name v sc assume "m name = Some v" "claimScopes name = Some sc"
    with shape show "hasScope (claim_string c ''scope'') sc"
      using mirror_issued_scoped(1) derive_claims_scoped(1) by metis
  next
    fix c m k sess cs issued name v
    assume c: "status resp = 200" "extractAccessToken w s r = Some c" "rbody resp = JSONBody m"
      and i: "getSessionByClientSessionIDLocked w s (claim_string c ''csid'') = Some (k, sess, cs)"
      "cs_IDTokenClaims cs = Some issued" "name \<noteq> ''sub''" "m name = Some v"
    have "m = mirror_issued (claim_string c ''sub'') (claim_string c ''scope'') issued"
      using userinfo_body(2) [OF assms c(2) _ c(3) i(1,2)] c(1) st by blast
    with i(3,4) show "issued name = Some v" using mirror_issued_scoped(3) by metis
  qed
qed

text \<open>Bob's access token for \<^verbatim>\<open>openid email\<close>, as its verification reads it.\<close>

definition bearer_world :: world where
  "bearer_world = session_world\<lparr>w_parse := (\<lambda>opts kf now tok. if tok = ''at'' then
     Some [''sub'' \<mapsto> AStr ''internal|bob'', ''scope'' \<mapsto> AStr ''openid email'', ''csid'' \<mapsto> AStr ''cs-1'',
           ''token_use'' \<mapsto> AStr ''access''] else None)\<rparr>"

definition bearer_request :: request where
  "bearer_request = example_request\<lparr>r_Path := ''/userinfo'', r_Authorization := ''Bearer at''\<rparr>"

theorem userinfo_scope_witness:
  "status (fst (userinfo bearer_world live_server bearer_request)) = 200
   \<and> (\<exists>m. rbody (fst (userinfo bearer_world live_server bearer_request)) = JSONBody m
        \<and> m ''email_verified'' = Some (ABool True) \<and> m ''sub'' = Some (AStr ''internal|bob'') \<and> m ''name'' = None)"
proof -
  let ?resp = "fst (userinfo bearer_world live_server bearer_request)"
  let ?c = "[''sub'' \<mapsto> AStr ''internal|bob'', ''scope'' \<mapsto> AStr ''openid email'', ''csid'' \<mapsto> AStr ''cs-1'',
    ''token_use'' \<mapsto> AStr ''access'']"
  note scoped = userinfo_scope [OF prod.collapse [symmetric], of bearer_world live_server bearer_request]
  have st: "status ?resp = 200" by code_simp
  have "Fields ''Bearer at'' = [''Bearer'', ''at'']" "EqualFold_ascii ''Bearer'' ''bearer''" by code_simp+
  then have c: "extractAccessToken bearer_world live_server bearer_request = Some ?c"
    by (simp add: extractAccessToken_def bearer_request_def decodeJWT_def bearer_world_def)
  have body: "(case rbody ?resp of JSONBody m \<Rightarrow> m ''email_verified'' = Some (ABool True) | _ \<Rightarrow> False)" by code_simp
  then obtain m where m: "rbody ?resp = JSONBody m" "m ''email_verified'' = Some (ABool True)"
    by (auto split: body.splits)
  have none: "claimScopes ''name'' = Some ''profile''" "\<not> hasScope ''openid email'' ''profile''"
    "claim_string ?c ''scope'' = ''openid email''" "claim_string ?c ''sub'' = ''internal|bob''" by code_simp+
  have sub: "m ''sub'' = Some (AStr (claim_string ?c ''sub''))"
    and sc: "m name = Some v \<Longrightarrow> claimScopes name = Some sc \<Longrightarrow> hasScope (claim_string ?c ''scope'') sc" for name v sc
    using conjunct2 [OF conjunct2 [OF scoped], rule_format, OF st c m(1)] by (elim conjE; simp only:)+
  have "m ''name'' = None"
  proof (rule ccontr)
    assume "m ''name'' \<noteq> None"
    then obtain v where "m ''name'' = Some v" by blast
    from sc [OF this none(1)] none(2,3) show False by simp
  qed
  moreover have "m ''sub'' = Some (AStr ''internal|bob'')" unfolding sub none(4) ..
  ultimately show ?thesis using st m by blast
qed

section \<open>Redirects\<close>

text \<open>
  C30: the redirect that delivers a code reads back. Its query holds exactly one code, the new one under which the session and client are
  recorded, the state the client sent and the issuer, each once, and otherwise the parameters of the client's own redirect URI, whose scheme,
  host and path it keeps.
\<close>

theorem code_redirect_roundtrip:
  assumes "getClientSessionByID sess c = Some cs" and "url_Parse (cs_RedirectURI cs) = Some u"
    and "issueCodeAndRedirect w s sess c st n = (resp, s')"
  shows "\<exists>q. location resp = Some (url_String (u\<lparr>u_RawQuery := q\<rparr>))
    \<and> map_of (ParseQuery q) ''code'' = Some [w_code w] \<and> map_of (ParseQuery q) ''state'' = Some [st]
    \<and> map_of (ParseQuery q) ''iss'' = Some [externalURL s]
    \<and> (\<forall>name. name \<notin> {''code'', ''state'', ''iss''} \<longrightarrow> map_of (ParseQuery q) name = map_of (ParseQuery (u_RawQuery u)) name)
    \<and> codeMeta s' (w_code w) = Some \<lparr>cm_CookieID = se_CookieID sess, cm_ClientID = c, cm_Nonce = n\<rparr>"
proof -
  let ?ps = "[(''code'', w_code w), (''state'', st), (''iss'', externalURL s)]"
  from buildURL_query [OF assms(2), of ?ps] obtain q where
    "buildURL (cs_RedirectURI cs) ?ps = url_String (u\<lparr>u_RawQuery := q\<rparr>)"
    "\<And>k. map_of (ParseQuery q) k = (case map_of ?ps k of Some v \<Rightarrow> Some [v] | None \<Rightarrow> map_of (ParseQuery (u_RawQuery u)) k)"
    by auto
  moreover have "location resp = Some (buildURL (cs_RedirectURI cs) ?ps)"
    "codeMeta s' (w_code w) = Some \<lparr>cm_CookieID = se_CookieID sess, cm_ClientID = c, cm_Nonce = n\<rparr>"
    using assms(1,3) by (auto simp: issueCodeAndRedirect_def Let_def response_defs)
  ultimately show ?thesis by (intro exI [of _ q]) auto
qed

definition query_session :: session where
  "query_session = example_session\<lparr>se_ClientSessions := [example_clientSession\<lparr>cs_RedirectURI := ''https://app/cb?tab=1''\<rparr>]\<rparr>"

theorem code_redirect_roundtrip_witness:
  "\<exists>u q. location (fst (issueCodeAndRedirect session_world live_server query_session ''app'' ''x&y'' ''n''))
      = Some (url_String (u\<lparr>u_RawQuery := q\<rparr>)) \<and> map_of (ParseQuery q) ''state'' = Some [''x&y'']
      \<and> map_of (ParseQuery q) ''tab'' = Some [''1'']"
proof -
  have cs: "getClientSessionByID query_session ''app'' = Some (example_clientSession\<lparr>cs_RedirectURI := ''https://app/cb?tab=1''\<rparr>)"
    by (simp add: getClientSessionByID_def find_clientSession_def query_session_def example_clientSession_def)
  have "map_option (\<lambda>u. map_of (ParseQuery (u_RawQuery u)) ''tab'') (url_Parse ''https://app/cb?tab=1'') = Some (Some [''1''])"
    by code_simp
  then obtain u where u: "url_Parse ''https://app/cb?tab=1'' = Some u" "map_of (ParseQuery (u_RawQuery u)) ''tab'' = Some [''1'']"
    by auto
  then have "url_Parse (cs_RedirectURI (example_clientSession\<lparr>cs_RedirectURI := ''https://app/cb?tab=1''\<rparr>)) = Some u" by simp
  from code_redirect_roundtrip [OF cs this prod.collapse [symmetric], of session_world live_server "''x&y''" "''n''"]
  obtain q where q: "location (fst (issueCodeAndRedirect session_world live_server query_session ''app'' ''x&y'' ''n''))
      = Some (url_String (u\<lparr>u_RawQuery := q\<rparr>))" "map_of (ParseQuery q) ''state'' = Some [''x&y'']"
    "\<forall>name. name \<notin> {''code'', ''state'', ''iss''} \<longrightarrow> map_of (ParseQuery q) name = map_of (ParseQuery (u_RawQuery u)) name"
    by blast
  have "map_of (ParseQuery q) ''tab'' = Some [''1'']" using q(3) u(2) by simp
  with q(1,2) show ?thesis by blast
qed

section \<open>Behaviour the code does not mean\<close>

text \<open>An access token is accepted as a refresh token: the refresh grant reads \<^verbatim>\<open>csid\<close>, which access tokens carry too, and not \<^verbatim>\<open>token_use\<close>.\<close>

definition refresh_with_access :: request where
  "refresh_with_access = example_request\<lparr>r_Method := ''POST'', r_Path := ''/token'',
     r_Form := [(''grant_type'', [''refresh_token'']), (''refresh_token'', [''at''])]\<rparr>"

lemma access_token_refreshes:
  "map_option (\<lambda>c. c ''token_use'') (decodeJWT bearer_world live_server ''at'') = Some (Some (AStr ''access''))"
  "status (fst (token bearer_world live_server refresh_with_access)) = 200"
  by code_simp+

text \<open>
  The challenge is kept per client session and not per code: a later authorization request without a challenge removes the one an outstanding
  code was issued with, so that the code is redeemed without its verifier.
\<close>

definition reauthorize_request :: request where
  "reauthorize_request = example_request\<lparr>r_Path := ''/authorize'', r_Cookies := [(''session'', ''cookie-1'')],
     r_Form := [(''client_id'', [''app'']), (''redirect_uri'', [''https://app/cb''])]\<rparr>"

definition unverified_request :: request where
  "unverified_request = example_request\<lparr>r_Method := ''POST'', r_Path := ''/token'',
     r_Form := [(''grant_type'', [''authorization_code'']), (''code'', [''code-1''])]\<rparr>"

lemma later_request_removes_challenge:
  "status (fst (token session_world live_server unverified_request)) = 403"
  "status (fst (token session_world (snd (authorize session_world live_server reauthorize_request)) unverified_request)) = 200"
  by code_simp+

text \<open>An approval needs no login: it issues a code for a session of the empty subject.\<close>

definition unauthenticated_server :: server where
  "unauthenticated_server = snd (authorize consent_world example_server
     (example_request\<lparr>r_Form := [(''client_id'', [''app'']), (''redirect_uri'', [''https://app/cb''])]\<rparr>))"

definition approval_request :: request where
  "approval_request = example_request\<lparr>r_Method := ''POST'', r_Path := ''/approve'', r_Form := [(''reqid'', [''req-1'']), (''approve'', [''yes''])]\<rparr>"

lemma approval_without_login:
  "location (fst (approve consent_world unauthenticated_server approval_request)) \<noteq> None"
  "map_option se_Sub (sessions (snd (approve consent_world unauthenticated_server approval_request)) ''cookie-1'') = Some []"
  by code_simp+

end
