(* ===== verification/Bff_Config.thy ===== *)
theory Bff_Config
  imports Go_Strings
begin

text \<open>
  The configuration of the backend-for-frontend (\<^verbatim>\<open>bff/internal/config/config.go\<close>): reading it from
  the environment, normalising it and validating it. The lemmas say when loading succeeds, which
  faults are reported together, and what the normalised values look like.
\<close>

section \<open>The configuration\<close>

record BFFConfig =
  OIDCIssuerURL :: string
  OIDCClientID :: string
  OIDCClientSecret :: string
  OIDCScopes :: "string list"
  BFFExternalURL :: string
  SessionSecret :: string
  SessionCookieName :: string
  SessionStorageType :: string
  RedisURL :: string
  APIBaseURL :: string
  APIPathPrefix :: string
  APIUpstreamPathPrefix :: string
  StaticAssetsBaseURL :: string
  ContentSecurityPolicy :: string
  InsecureCookies :: bool
  AuthBypassPaths :: "string list"

definition DefaultContentSecurityPolicy :: string where
  "DefaultContentSecurityPolicy =
     ''default-src '' @ [CHR 0x27] @ ''self'' @ [CHR 0x27] @ ''; script-src '' @ [CHR 0x27] @ ''self'' @ [CHR 0x27]"

record ServerConfig =
  Port :: string

text \<open>The errors \<^verbatim>\<open>Validate\<close> joins, one per requirement; the last two come from other functions.\<close>

datatype configError =
    IssuerRequired
  | ClientIDRequired
  | ClientSecretRequired
  | ExternalURLRequired
  | SessionSecretTooShort
  | RedisURLRequired
  | UnknownStorageType string
  | APIBaseURLRequired
  | StaticAssetsBaseURLRequired
  | NotABoolean string
  | PortEmpty

section \<open>Reading values\<close>

definition defaultString :: "environment \<Rightarrow> string \<Rightarrow> string \<Rightarrow> string" where
  "defaultString env key fallback = (let raw = TrimSpace (env key) in if raw = [] then fallback else raw)"

definition parseScopes :: "string \<Rightarrow> string list" where
  "parseScopes raw0 =
     (let raw = TrimSpace raw0
      in if raw = [] then [''openid'', ''profile'', ''email'', ''offline_access'']
         else filter (\<lambda>s. s \<noteq> []) (Fields raw))"

definition normalizePathPrefix :: "string \<Rightarrow> string" where
  "normalizePathPrefix p0 = (let p = TrimRight p0 ''/'' in if HasPrefix p ''/'' then p else ''/'' @ p)"

definition parseAuthBypassPaths :: "string \<Rightarrow> string list" where
  "parseAuthBypassPaths raw0 =
     (let raw = TrimSpace raw0
      in if raw = [] then [''/auth/'', ''/assets/'', ''/login'', ''/healthz'', ''/favicon.ico'']
         else map (\<lambda>p. TrimSuffix p ''*'') (filter (\<lambda>p. p \<noteq> []) (Fields raw)))"

definition parseBoolDefault :: "environment \<Rightarrow> string \<Rightarrow> bool \<Rightarrow> (configError, bool) result" where
  "parseBoolDefault env key fallback =
     (let raw = TrimSpace (env key)
      in if raw = [] then Inr fallback
         else case ParseBool raw of None \<Rightarrow> Inl (NotABoolean key) | Some v \<Rightarrow> Inr v)"

section \<open>Validation and loading\<close>

definition Validate :: "BFFConfig \<Rightarrow> configError list" where
  "Validate c =
     (if OIDCIssuerURL c = [] then [IssuerRequired] else [])
     @ (if OIDCClientID c = [] then [ClientIDRequired] else [])
     @ (if OIDCClientSecret c = [] then [ClientSecretRequired] else [])
     @ (if BFFExternalURL c = [] then [ExternalURLRequired] else [])
     @ (if length (SessionSecret c) < 32 then [SessionSecretTooShort] else [])
     @ (if SessionStorageType c = ''memory'' \<or> SessionStorageType c = ''cookie'' then []
        else if SessionStorageType c = ''redis'' then (if RedisURL c = [] then [RedisURLRequired] else [])
        else [UnknownStorageType (SessionStorageType c)])
     @ (if APIBaseURL c = [] then [APIBaseURLRequired] else [])
     @ (if StaticAssetsBaseURL c = [] then [StaticAssetsBaseURLRequired] else [])"

text \<open>The configuration as read, before it is validated.\<close>

definition read_config :: "environment \<Rightarrow> bool \<Rightarrow> BFFConfig" where
  "read_config env insecureCookies =
     (let apiPathPrefix = normalizePathPrefix (defaultString env ''API_PATH_PREFIX'' ''/api'');
          raw = TrimSpace (env ''API_UPSTREAM_PATH_PREFIX'');
          upstreamPathPrefix = (if raw \<noteq> [] then normalizePathPrefix raw else apiPathPrefix)
      in \<lparr>OIDCIssuerURL = TrimSpace (env ''OIDC_ISSUER_URL''),
          OIDCClientID = TrimSpace (env ''OIDC_CLIENT_ID''),
          OIDCClientSecret = TrimSpace (env ''OIDC_CLIENT_SECRET''),
          OIDCScopes = parseScopes (env ''OIDC_SCOPES''),
          BFFExternalURL = TrimSpace (env ''BFF_EXTERNAL_URL''),
          SessionSecret = env ''SESSION_SECRET'',
          SessionCookieName = defaultString env ''SESSION_COOKIE_NAME'' ''session'',
          SessionStorageType = defaultString env ''SESSION_STORAGE_TYPE'' ''memory'',
          RedisURL = TrimSpace (env ''REDIS_URL''),
          APIBaseURL = TrimSpace (env ''API_BASE_URL''),
          APIPathPrefix = apiPathPrefix,
          APIUpstreamPathPrefix = upstreamPathPrefix,
          StaticAssetsBaseURL = TrimSpace (env ''STATIC_ASSETS_BASE_URL''),
          ContentSecurityPolicy = defaultString env ''CONTENT_SECURITY_POLICY'' DefaultContentSecurityPolicy,
          InsecureCookies = insecureCookies,
          AuthBypassPaths = parseAuthBypassPaths (env ''AUTH_BYPASS_PATHS'')\<rparr>)"

definition LoadBFF :: "environment \<Rightarrow> (configError list, BFFConfig) result" where
  "LoadBFF env =
     (case parseBoolDefault env ''INSECURE_COOKIES'' False of
        Inl err \<Rightarrow> Inl [err]
      | Inr insecureCookies \<Rightarrow>
          let cfg = read_config env insecureCookies; errs = Validate cfg
          in if errs \<noteq> [] then Inl errs else Inr cfg)"

definition ServerConfig_Validate :: "ServerConfig \<Rightarrow> configError option" where
  "ServerConfig_Validate c = (if TrimSpace (Port c) = [] then Some PortEmpty else None)"

definition LoadServer :: "environment \<Rightarrow> (configError, ServerConfig) result" where
  "LoadServer env =
     (let cfg = \<lparr>Port = defaultString env ''PORT'' ''8080''\<rparr>
      in case ServerConfig_Validate cfg of Some err \<Rightarrow> Inl err | None \<Rightarrow> Inr cfg)"

section \<open>What a loaded configuration guarantees\<close>

lemma TrimRight_suffix: "TrimRight p ''/'' = [] \<or> last (TrimRight p ''/'') \<noteq> CHR ''/''"
proof -
  have "dropWhile (\<lambda>c. c \<in> set ''/'') (rev p) = [] \<or> hd (dropWhile (\<lambda>c. c \<in> set ''/'') (rev p)) \<noteq> CHR ''/''"
    using hd_dropWhile [of "\<lambda>c. c \<in> set ''/''" "rev p"] by auto
  then show ?thesis by (auto simp: TrimRight_def last_rev)
qed

text \<open>
  A normalised prefix starts with a slash and, unless it is the root, does not end in one; normalising it again
  changes nothing.
\<close>

lemma normalizePathPrefix_shape:
  "HasPrefix (normalizePathPrefix p) ''/''"
  "normalizePathPrefix p = ''/'' \<or> last (normalizePathPrefix p) \<noteq> CHR ''/''"
  using TrimRight_suffix [of p] by (auto simp: normalizePathPrefix_def HasPrefix_iff Let_def)

lemma TrimRight_id: "s = [] \<or> last s \<noteq> CHR ''/'' \<Longrightarrow> TrimRight s ''/'' = s"
  by (cases s rule: rev_cases) (simp_all add: TrimRight_def)

lemma normalizePathPrefix_idem: "normalizePathPrefix (normalizePathPrefix p) = normalizePathPrefix p"
proof (cases "normalizePathPrefix p = ''/''")
  case True
  have "normalizePathPrefix ''/'' = ''/''" by code_simp
  with True show ?thesis by simp
next
  case False
  then have "TrimRight (normalizePathPrefix p) ''/'' = normalizePathPrefix p"
    using normalizePathPrefix_shape(2) [of p] by (intro TrimRight_id) simp
  with normalizePathPrefix_shape(1) [of p] show ?thesis
    by (simp add: normalizePathPrefix_def [of "normalizePathPrefix p"] Let_def)
qed

section \<open>The documented environment\<close>

text \<open>A variable as it is meant: its value without surrounding blanks, or the documented default when nothing is left.\<close>

definition setting :: "environment \<Rightarrow> string \<Rightarrow> string \<Rightarrow> string" where
  "setting env key fallback = (if TrimSpace (env key) = [] then fallback else TrimSpace (env key))"

lemma setting_Nil [simp]: "setting env key [] = TrimSpace (env key)"
  by (simp add: setting_def)

definition fault_when :: "configError \<Rightarrow> bool \<Rightarrow> configError set" where
  "fault_when e bad = (if bad then {e} else {})"

text \<open>What is wrong with an environment whose \<^verbatim>\<open>INSECURE_COOKIES\<close> can be read.\<close>

definition faults :: "environment \<Rightarrow> configError set" where
  "faults env = fault_when IssuerRequired (setting env ''OIDC_ISSUER_URL'' [] = [])
     \<union> fault_when ClientIDRequired (setting env ''OIDC_CLIENT_ID'' [] = [])
     \<union> fault_when ClientSecretRequired (setting env ''OIDC_CLIENT_SECRET'' [] = [])
     \<union> fault_when ExternalURLRequired (setting env ''BFF_EXTERNAL_URL'' [] = [])
     \<union> fault_when SessionSecretTooShort (length (env ''SESSION_SECRET'') < 32)
     \<union> fault_when RedisURLRequired (setting env ''SESSION_STORAGE_TYPE'' ''memory'' = ''redis'' \<and> setting env ''REDIS_URL'' [] = [])
     \<union> fault_when (UnknownStorageType (setting env ''SESSION_STORAGE_TYPE'' ''memory''))
         (setting env ''SESSION_STORAGE_TYPE'' ''memory'' \<notin> {''memory'', ''redis'', ''cookie''})
     \<union> fault_when APIBaseURLRequired (setting env ''API_BASE_URL'' [] = [])
     \<union> fault_when StaticAssetsBaseURLRequired (setting env ''STATIC_ASSETS_BASE_URL'' [] = [])"

text \<open>A path prefix: trailing slashes are ignored and a missing leading slash is supplied.\<close>

definition prefix_meant :: "string \<Rightarrow> string \<Rightarrow> bool" where
  "prefix_meant given pfx \<longleftrightarrow> (\<exists>q n. given = q @ replicate n (CHR ''/'') \<and> (q = [] \<or> last q \<noteq> CHR ''/'')
     \<and> pfx = (if q \<noteq> [] \<and> hd q = CHR ''/'' then q else CHR ''/'' # q))"

lemma replicate_dropWhile: "\<exists>n. xs = replicate n c @ dropWhile (\<lambda>x. x \<in> set [c]) xs"
proof (induction xs)
  case (Cons x xs)
  then obtain n where "xs = replicate n c @ dropWhile (\<lambda>x. x \<in> set [c]) xs" by blast
  then have "x = c \<Longrightarrow> x # xs = replicate (Suc n) c @ dropWhile (\<lambda>x. x \<in> set [c]) (x # xs)"
    and "x \<noteq> c \<Longrightarrow> x # xs = replicate 0 c @ dropWhile (\<lambda>x. x \<in> set [c]) (x # xs)" by simp_all
  then show ?case by blast
qed simp

lemma TrimRight_replicate: "\<exists>n. p = TrimRight p ''/'' @ replicate n (CHR ''/'')"
proof -
  from replicate_dropWhile [of "rev p" "CHR ''/''"] obtain n where
    "rev p = replicate n (CHR ''/'') @ dropWhile (\<lambda>x. x \<in> set ''/'') (rev p)" by blast
  then have "rev (rev p) = rev (dropWhile (\<lambda>x. x \<in> set ''/'') (rev p)) @ replicate n (CHR ''/'')"
    by (metis rev_append rev_replicate)
  then show ?thesis unfolding TrimRight_def by (intro exI [of _ n]) simp
qed

lemma normalizePathPrefix_meant: "prefix_meant p (normalizePathPrefix p)"
proof -
  let ?q = "TrimRight p ''/''"
  from TrimRight_replicate [of p] obtain n where "p = ?q @ replicate n (CHR ''/'')" by blast
  moreover have "normalizePathPrefix p = (if ?q \<noteq> [] \<and> hd ?q = CHR ''/'' then ?q else CHR ''/'' # ?q)"
    by (cases ?q) (simp_all add: normalizePathPrefix_def HasPrefix_def)
  ultimately show ?thesis unfolding prefix_meant_def using TrimRight_suffix [of p] by blast
qed

text \<open>A bypass path: one star at the end is dropped.\<close>

definition star_dropped :: "string \<Rightarrow> string \<Rightarrow> bool" where
  "star_dropped given path \<longleftrightarrow> given = path @ ''*'' \<or> given = path \<and> (path = [] \<or> last path \<noteq> CHR ''*'')"

lemma star_dropped_TrimSuffix: "star_dropped p (TrimSuffix p ''*'')"
  by (cases p rule: rev_cases) (auto simp: star_dropped_def TrimSuffix_def HasSuffix_def)

lemma set_if_fault: "set (if P then [x] else []) = fault_when x P"
  by (cases P) (simp_all add: fault_when_def)

lemma storage_faults:
  "set (if t = ''memory'' \<or> t = ''cookie'' then [] else if t = ''redis'' then (if P then [RedisURLRequired] else [])
      else [UnknownStorageType t])
   = fault_when RedisURLRequired (t = ''redis'' \<and> P) \<union> fault_when (UnknownStorageType t) (t \<notin> {''memory'', ''redis'', ''cookie''})"
  by (simp add: fault_when_def)

lemma setting_faults: "set (Validate (read_config env b)) = faults env"
  unfolding Validate_def set_append set_if_fault storage_faults faults_def
  by (simp add: read_config_def Let_def defaultString_def setting_def Un_assoc)

lemma fields_nonempty: "filter (\<lambda>p. p \<noteq> []) (Fields s) = Fields s"
  using Fields_words [of _ s] by (auto simp: filter_id_conv is_word_def)

text \<open>What a configuration has to be for its environment.\<close>

definition documented :: "environment \<Rightarrow> BFFConfig \<Rightarrow> bool" where
  "documented env cfg \<longleftrightarrow>
     OIDCIssuerURL cfg = setting env ''OIDC_ISSUER_URL'' [] \<and> OIDCClientID cfg = setting env ''OIDC_CLIENT_ID'' []
     \<and> OIDCClientSecret cfg = setting env ''OIDC_CLIENT_SECRET'' [] \<and> BFFExternalURL cfg = setting env ''BFF_EXTERNAL_URL'' []
     \<and> APIBaseURL cfg = setting env ''API_BASE_URL'' [] \<and> StaticAssetsBaseURL cfg = setting env ''STATIC_ASSETS_BASE_URL'' []
     \<and> SessionSecret cfg = env ''SESSION_SECRET'' \<and> SessionCookieName cfg = setting env ''SESSION_COOKIE_NAME'' ''session''
     \<and> SessionStorageType cfg = setting env ''SESSION_STORAGE_TYPE'' ''memory'' \<and> RedisURL cfg = setting env ''REDIS_URL'' []
     \<and> OIDCScopes cfg = Fields (setting env ''OIDC_SCOPES'' ''openid profile email offline_access'')
     \<and> ContentSecurityPolicy cfg = setting env ''CONTENT_SECURITY_POLICY'' DefaultContentSecurityPolicy
     \<and> prefix_meant (setting env ''API_PATH_PREFIX'' ''/api'') (APIPathPrefix cfg)
     \<and> prefix_meant (setting env ''API_UPSTREAM_PATH_PREFIX'' (APIPathPrefix cfg)) (APIUpstreamPathPrefix cfg)
     \<and> list_all2 star_dropped (Fields (setting env ''AUTH_BYPASS_PATHS'' ''/auth/ /assets/ /login /healthz /favicon.ico''))
         (AuthBypassPaths cfg)
     \<and> InsecureCookies cfg = (setting env ''INSECURE_COOKIES'' ''false'' \<in> {''1'', ''t'', ''T'', ''true'', ''TRUE'', ''True''})"

lemma default_fields:
  "Fields ''openid profile email offline_access'' = [''openid'', ''profile'', ''email'', ''offline_access'']"
  "Fields ''/auth/ /assets/ /login /healthz /favicon.ico'' = [''/auth/'', ''/assets/'', ''/login'', ''/healthz'', ''/favicon.ico'']"
  by code_simp+

lemma read_config_documented:
  assumes "b = (setting env ''INSECURE_COOKIES'' ''false'' \<in> {''1'', ''t'', ''T'', ''true'', ''TRUE'', ''True''})"
  shows "documented env (read_config env b)"
proof -
  have sc: "parseScopes (env ''OIDC_SCOPES'') = Fields (setting env ''OIDC_SCOPES'' ''openid profile email offline_access'')"
    by (simp add: parseScopes_def setting_def Let_def fields_nonempty default_fields)
  have "list_all2 star_dropped (Fields (setting env ''AUTH_BYPASS_PATHS'' ''/auth/ /assets/ /login /healthz /favicon.ico''))
      (parseAuthBypassPaths (env ''AUTH_BYPASS_PATHS''))"
    by (simp add: parseAuthBypassPaths_def setting_def Let_def fields_nonempty default_fields list.rel_map list.rel_refl
        star_dropped_TrimSuffix) (simp add: star_dropped_def)
  moreover have "prefix_meant (setting env ''API_UPSTREAM_PATH_PREFIX'' p) (if TrimSpace (env ''API_UPSTREAM_PATH_PREFIX'') \<noteq> []
      then normalizePathPrefix (TrimSpace (env ''API_UPSTREAM_PATH_PREFIX'')) else p)" if "p = normalizePathPrefix q" for p q
    using that normalizePathPrefix_meant [of p] normalizePathPrefix_meant [of "TrimSpace (env ''API_UPSTREAM_PATH_PREFIX'')"]
    by (simp add: setting_def normalizePathPrefix_idem)
  ultimately show ?thesis
    using assms sc normalizePathPrefix_meant
    by (simp add: documented_def read_config_def Let_def defaultString_def setting_def)
qed

text \<open>
  C40: the configuration is the documented function of the environment. A value of \<^verbatim>\<open>INSECURE_COOKIES\<close> that is no boolean is the only
  error reported; otherwise exactly the faults of the environment are reported together (a required variable empty, a session
  secret shorter than 32 bytes, an unknown storage type, Redis without its URL), and if there are none, each field holds the
  value of its own variable without surrounding blanks (the secret with them) or its default: the path prefixes lose
  trailing slashes and get a leading one, lists are split at blanks, bypass paths lose one star at the end.
\<close>

theorem LoadBFF_documented:
  "case LoadBFF env of
     Inr cfg \<Rightarrow> faults env = {} \<and> documented env cfg
       \<and> setting env ''INSECURE_COOKIES'' ''false'' \<in> {''1'', ''t'', ''T'', ''true'', ''TRUE'', ''True'', ''0'', ''f'', ''F'', ''false'', ''FALSE'', ''False''}
   | Inl errs \<Rightarrow>
       if setting env ''INSECURE_COOKIES'' ''false'' \<in> {''1'', ''t'', ''T'', ''true'', ''TRUE'', ''True'', ''0'', ''f'', ''F'', ''false'', ''FALSE'', ''False''}
       then set errs = faults env \<and> faults env \<noteq> {}
       else errs = [NotABoolean ''INSECURE_COOKIES'']"
proof -
  let ?v = "setting env ''INSECURE_COOKIES'' ''false''"
  have bool: "parseBoolDefault env ''INSECURE_COOKIES'' False = (case ParseBool ?v of
      None \<Rightarrow> Inl (NotABoolean ''INSECURE_COOKIES'') | Some b \<Rightarrow> Inr b)"
    by (auto simp: parseBoolDefault_def setting_def ParseBool_def Let_def)
  show ?thesis
  proof (cases "ParseBool ?v")
    case None
    then have "?v \<notin> {''1'', ''t'', ''T'', ''true'', ''TRUE'', ''True'', ''0'', ''f'', ''F'', ''false'', ''FALSE'', ''False''}"
      by (simp add: ParseBool_def split: if_splits)
    with None show ?thesis by (simp add: LoadBFF_def bool)
  next
    case (Some b)
    then have v: "?v \<in> {''1'', ''t'', ''T'', ''true'', ''TRUE'', ''True'', ''0'', ''f'', ''F'', ''false'', ''FALSE'', ''False''}"
      and "b = (?v \<in> {''1'', ''t'', ''T'', ''true'', ''TRUE'', ''True''})"
      by (auto simp: ParseBool_def split: if_splits)
    then have d: "documented env (read_config env b)" by (intro read_config_documented)
    show ?thesis
    proof (cases "Validate (read_config env b) = []")
      case True
      then have "faults env = {}" using setting_faults [of env b] by simp
      with True Some d v show ?thesis by (simp add: LoadBFF_def bool Let_def)
    next
      case False
      then have "faults env \<noteq> {}" using setting_faults [of env b] by (metis set_empty)
      with False Some v setting_faults [of env b] show ?thesis by (simp add: LoadBFF_def bool Let_def)
    qed
  qed
qed

end
