(* ===== verification/Bff_State.thy ===== *)
theory Bff_State
  imports Go_URL Go_Encoding Go_JSON
begin

text \<open>
  The data of the backend-for-frontend: sessions and their claims (\<^verbatim>\<open>session.go\<close>), the three stores, HTTP
  requests and responses as the handlers see them, and \<open>bworld\<close>, what the program is given from
  outside during one request. The type variable is the state of the Redis server, which only the functions in
  \<open>redis\<close> read and change.
\<close>

section \<open>Sessions\<close>

record UserClaims =
  uc_Sub :: string
  uc_Name :: string
  uc_Email :: string
  uc_Picture :: string

text \<open>The expiry is \<open>None\<close> where the source has the zero time.\<close>

record Session =
  ss_AccessToken :: string
  ss_RefreshToken :: string
  ss_IDToken :: string
  ss_CSRFToken :: string
  ss_AccessTokenExpiry :: "time option"

record memoryItem =
  mi_session :: Session
  mi_expires :: time

text \<open>The store behind the \<^verbatim>\<open>Store\<close> interface, with the state each implementation keeps.\<close>

datatype 'r store =
    MemoryStore "string \<rightharpoonup> memoryItem"
  | RedisStore string 'r
  | CookieStore string

datatype storeError =
    RandomFailed
  | MarshalFailed
  | UnmarshalFailed
  | BadKeySize
  | RedisFailed
  | CookieTooLarge
  | CiphertextTooShort
  | OpenFailed

section \<open>Surroundings\<close>

text \<open>
  The Redis commands the program issues, on the server's state at a time: SET with an expiry and
  DEL say whether they succeeded, GET answers \<open>None\<close> for an error and \<open>Some None\<close> for a missing key.
\<close>

record 'r redis =
  rd_Set :: "'r \<Rightarrow> time \<Rightarrow> string \<Rightarrow> string \<Rightarrow> duration \<Rightarrow> bool \<times> 'r"
  rd_Get :: "'r \<Rightarrow> time \<Rightarrow> string \<Rightarrow> string option option"
  rd_Del :: "'r \<Rightarrow> time \<Rightarrow> string \<Rightarrow> bool \<times> 'r"

text \<open>A token response of the OAuth library; \<open>ot_IDToken\<close> is the extra field \<^verbatim>\<open>id_token\<close> if it is a string.\<close>

record oauthToken =
  ot_AccessToken :: string
  ot_RefreshToken :: string
  ot_Expiry :: "time option"
  ot_IDToken :: "string option"

record oauthConfig =
  oc_ClientID :: string
  oc_ClientSecret :: string
  oc_AuthURL :: string
  oc_TokenURL :: string
  oc_RedirectURL :: string
  oc_Scopes :: "string list"

text \<open>What a reverse proxy or the avatar client sends, and how that exchange ends: it fails, a reply arrives, or its body ends early.\<close>

record outgoing =
  og_Method :: string
  og_URL :: string
  og_Host :: string
  og_Header :: url_values

record upstream_reply =
  up_Status :: nat
  up_Header :: url_values
  up_Body :: string

datatype exchange = UpstreamFailed | Upstream upstream_reply | UpstreamAborted upstream_reply

text \<open>
  One request's surroundings: the clock; the random bytes of a session identifier, of a Redis session key and of
  a GCM nonce; the verifiers the OAuth library generates; AES-GCM; the JSON
  parser and printer and the text form of a time; the Redis server; and the remote parties: the token
  endpoint through the OAuth library, the ID token verifier of the OIDC library, the HTTP services.
\<close>

record 'r bworld =
  bw_now :: time
  bw_idBytes :: "string option"
  bw_secretBytes :: "string option"
  bw_nonce :: "string option"
  bw_state :: string
  bw_verifier :: string
  bw_csrf :: string
  bw_seal :: "string \<Rightarrow> string \<Rightarrow> string \<Rightarrow> string"
  bw_open :: "string \<Rightarrow> string \<Rightarrow> string \<Rightarrow> string option"
  bw_json :: "string \<Rightarrow> json option"
  bw_render :: "json \<Rightarrow> string"
  bw_timeText :: "time option \<Rightarrow> string option"
  bw_parseTime :: "string \<Rightarrow> time option option"
  bw_redis :: "'r redis"
  bw_exchange :: "oauthConfig \<Rightarrow> string \<Rightarrow> string \<Rightarrow> oauthToken option"
  bw_refresh :: "oauthConfig \<Rightarrow> string \<Rightarrow> oauthToken option"
  bw_verifyIDToken :: "string \<Rightarrow> string \<Rightarrow> UserClaims option"
  bw_upstream :: "outgoing \<Rightarrow> exchange"

section \<open>Requests and responses\<close>

record brequest =
  br_Method :: string
  br_Path :: string
  br_RawPath :: string
  br_Query :: url_values
  br_RawQuery :: string
  br_Cookies :: "(string \<times> string) list"
  br_Header :: url_values
  br_Host :: string
  br_RemoteAddr :: string

definition br_Cookie :: "brequest \<Rightarrow> string \<Rightarrow> string option" where
  "br_Cookie r name = map_of (br_Cookies r) name"

definition header_Get :: "brequest \<Rightarrow> string \<Rightarrow> string" where
  "header_Get r name = values_Get (br_Header r) name"

definition header_Set :: "brequest \<Rightarrow> string \<Rightarrow> string \<Rightarrow> brequest" where
  "header_Set r name v = r\<lparr>br_Header := values_Set (br_Header r) name v\<rparr>"

text \<open>A cookie of a response; all have the path \<^verbatim>\<open>/\<close> and \<^verbatim>\<open>SameSite=Lax\<close>.\<close>

record cookie =
  ck_Name :: string
  ck_Value :: string
  ck_HttpOnly :: bool
  ck_Secure :: bool
  ck_MaxAge :: int

datatype bbody =
    BNone
  | BJSON "(string \<times> string) list"
  | BClaims UserClaims
  | BBytes string
  | BText string

record bresponse =
  bs_Status :: nat
  bs_Header :: "(string \<times> string) list"
  bs_Cookies :: "cookie list"
  bs_Location :: "string option"
  bs_Body :: bbody

definition base_bresponse :: bresponse where
  "base_bresponse = \<lparr>bs_Status = 200, bs_Header = [], bs_Cookies = [], bs_Location = None, bs_Body = BNone\<rparr>"

definition writeJSONError :: "nat \<Rightarrow> string \<Rightarrow> bresponse" where
  "writeJSONError st msg = base_bresponse\<lparr>bs_Status := st, bs_Header := [(''Content-Type'', ''application/json'')],
     bs_Body := BJSON [(''error'', msg)]\<rparr>"

definition seeOther :: "string \<Rightarrow> bresponse" where
  "seeOther u = base_bresponse\<lparr>bs_Status := 303, bs_Location := Some u\<rparr>"

lemmas bresponse_defs [bff_simps] = base_bresponse_def writeJSONError_def seeOther_def

text \<open>Cookies a middleware sets before the handler behind it answers.\<close>

definition with_cookies :: "cookie list \<Rightarrow> bresponse \<Rightarrow> bresponse" where
  "with_cookies cs resp = resp\<lparr>bs_Cookies := cs @ bs_Cookies resp\<rparr>"

end
