(* ===== verification/Bff_Session.thy ===== *)
theory Bff_Session
  imports Bff_State
begin

text \<open>
  Sessions of the backend-for-frontend: their JSON form, the three stores of \<^verbatim>\<open>store.go\<close> and
  \<^verbatim>\<open>cookie_store.go\<close>, and the \<^verbatim>\<open>Manager\<close> that ties a session to a cookie. The contract of a store is a locale; the memory
  store and the Redis store satisfy it with revocation, the cookie store without.
\<close>

section \<open>Claims of an ID token\<close>

definition zero_UserClaims :: UserClaims where
  "zero_UserClaims = \<lparr>uc_Sub = [], uc_Name = [], uc_Email = [], uc_Picture = []\<rparr>"

definition decode_claim :: "UserClaims \<Rightarrow> string \<Rightarrow> json \<Rightarrow> UserClaims option" where
  "decode_claim c t j =
     (if t = ''sub'' then map_option (\<lambda>v. c\<lparr>uc_Sub := v\<rparr>) (decode_string (uc_Sub c) j)
      else if t = ''name'' then map_option (\<lambda>v. c\<lparr>uc_Name := v\<rparr>) (decode_string (uc_Name c) j)
      else if t = ''email'' then map_option (\<lambda>v. c\<lparr>uc_Email := v\<rparr>) (decode_string (uc_Email c) j)
      else map_option (\<lambda>v. c\<lparr>uc_Picture := v\<rparr>) (decode_string (uc_Picture c) j))"

text \<open>\<^verbatim>\<open>json.Unmarshal\<close> into a struct: members in order, unknown names skipped, a wrong type is an error.\<close>

fun decode_struct :: "string list \<Rightarrow> ('c \<Rightarrow> string \<Rightarrow> json \<Rightarrow> 'c option) \<Rightarrow> 'c \<Rightarrow> (string \<times> json) list \<Rightarrow> 'c option" where
  "decode_struct tags dec c [] = Some c"
| "decode_struct tags dec c ((name, j) # ms) =
     (case match_tag tags name of
        None \<Rightarrow> decode_struct tags dec c ms
      | Some t \<Rightarrow> (case dec c t j of None \<Rightarrow> None | Some c' \<Rightarrow> decode_struct tags dec c' ms))"

definition unmarshal_struct ::
  "string list \<Rightarrow> ('c \<Rightarrow> string \<Rightarrow> json \<Rightarrow> 'c option) \<Rightarrow> 'c \<Rightarrow> json option \<Rightarrow> 'c option" where
  "unmarshal_struct tags dec zero j =
     (case j of Some (JObj ms) \<Rightarrow> decode_struct tags dec zero ms | Some JNull \<Rightarrow> Some zero | _ \<Rightarrow> None)"

definition claim_tags :: "string list" where
  "claim_tags = [''sub'', ''name'', ''email'', ''picture'']"

text \<open>\<^verbatim>\<open>strings.SplitN(s, ".", 3)\<close> gives three parts exactly when there are two dots to cut at.\<close>

definition ParseIDTokenClaims :: "'r bworld \<Rightarrow> string \<Rightarrow> UserClaims option" where
  "ParseIDTokenClaims w rawIDToken =
     (let (header, rest, dot1) = Cut rawIDToken (CHR ''.''); (payload64, sig, dot2) = Cut rest (CHR ''.'')
      in if \<not> (dot1 \<and> dot2) then None
         else case b64_decode payload64 of
           None \<Rightarrow> None
         | Some payload \<Rightarrow> unmarshal_struct claim_tags decode_claim zero_UserClaims (bw_json w payload))"

section \<open>Sessions as JSON\<close>

definition zero_Session :: Session where
  "zero_Session = \<lparr>ss_AccessToken = [], ss_RefreshToken = [], ss_IDToken = [], ss_CSRFToken = [],
     ss_AccessTokenExpiry = None\<rparr>"

definition session_tags :: "string list" where
  "session_tags = [''accessToken'', ''refreshToken'', ''idToken'', ''csrfToken'', ''accessTokenExpiry'']"

definition session_json :: "Session \<Rightarrow> string \<Rightarrow> json" where
  "session_json s expiry = JObj [(''accessToken'', JStr (ss_AccessToken s)), (''refreshToken'', JStr (ss_RefreshToken s)),
     (''idToken'', JStr (ss_IDToken s)), (''csrfToken'', JStr (ss_CSRFToken s)), (''accessTokenExpiry'', JStr expiry)]"

text \<open>\<^verbatim>\<open>omitempty\<close> does not apply to a struct, so the expiry is always written.\<close>

definition marshal_Session :: "'r bworld \<Rightarrow> Session \<Rightarrow> string option" where
  "marshal_Session w s =
     map_option (\<lambda>expiry. bw_render w (session_json s expiry)) (bw_timeText w (ss_AccessTokenExpiry s))"

definition decode_session_field :: "'r bworld \<Rightarrow> Session \<Rightarrow> string \<Rightarrow> json \<Rightarrow> Session option" where
  "decode_session_field w s t j =
     (if t = ''accessToken'' then map_option (\<lambda>v. s\<lparr>ss_AccessToken := v\<rparr>) (decode_string (ss_AccessToken s) j)
      else if t = ''refreshToken'' then map_option (\<lambda>v. s\<lparr>ss_RefreshToken := v\<rparr>) (decode_string (ss_RefreshToken s) j)
      else if t = ''idToken'' then map_option (\<lambda>v. s\<lparr>ss_IDToken := v\<rparr>) (decode_string (ss_IDToken s) j)
      else if t = ''csrfToken'' then map_option (\<lambda>v. s\<lparr>ss_CSRFToken := v\<rparr>) (decode_string (ss_CSRFToken s) j)
      else case j of
        JStr v \<Rightarrow> map_option (\<lambda>e. s\<lparr>ss_AccessTokenExpiry := e\<rparr>) (bw_parseTime w v)
      | JNull \<Rightarrow> Some s
      | _ \<Rightarrow> None)"

definition unmarshal_Session :: "'r bworld \<Rightarrow> string \<Rightarrow> Session option" where
  "unmarshal_Session w text = unmarshal_struct session_tags (decode_session_field w) zero_Session (bw_json w text)"

section \<open>Encryption\<close>

definition gcm_NonceSize :: nat where
  "gcm_NonceSize = 12"

definition aes_NewCipher :: "string \<Rightarrow> bool" where
  "aes_NewCipher key \<longleftrightarrow> length key \<in> {16, 24, 32}"

definition encryptAESGCM :: "'r bworld \<Rightarrow> string \<Rightarrow> string \<Rightarrow> (storeError, string) result" where
  "encryptAESGCM w key plaintext =
     (if \<not> aes_NewCipher key then Inl BadKeySize
      else case bw_nonce w of
        None \<Rightarrow> Inl RandomFailed
      | Some nonce \<Rightarrow> Inr (nonce @ bw_seal w key nonce plaintext))"

definition decryptAESGCM :: "'r bworld \<Rightarrow> string \<Rightarrow> string \<Rightarrow> (storeError, string) result" where
  "decryptAESGCM w key data =
     (if \<not> aes_NewCipher key then Inl BadKeySize
      else if length data < gcm_NonceSize then Inl CiphertextTooShort
      else case bw_open w key (take gcm_NonceSize data) (drop gcm_NonceSize data) of
        None \<Rightarrow> Inl OpenFailed
      | Some plaintext \<Rightarrow> Inr plaintext)"

definition randomToken :: "string option \<Rightarrow> (storeError, string) result" where
  "randomToken bytes = (case bytes of None \<Rightarrow> Inl RandomFailed | Some b \<Rightarrow> Inr (b64_encode b))"

section \<open>The memory store\<close>

type_synonym memory = "string \<rightharpoonup> memoryItem"

definition memory_Save ::
  "'r bworld \<Rightarrow> Session \<Rightarrow> duration \<Rightarrow> memory \<Rightarrow> (storeError, string) result \<times> memory" where
  "memory_Save w s ttl m =
     (case randomToken (bw_idBytes w) of
        Inl err \<Rightarrow> (Inl err, m)
      | Inr token \<Rightarrow> (Inr token, m(token \<mapsto> \<lparr>mi_session = s, mi_expires = time_Add (bw_now w) ttl\<rparr>)))"

definition memory_Load ::
  "'r bworld \<Rightarrow> string \<Rightarrow> memory \<Rightarrow> (storeError, Session option) result \<times> memory" where
  "memory_Load w token m =
     (case m token of
        None \<Rightarrow> (Inr None, m)
      | Some item \<Rightarrow>
          if time_After (bw_now w) (mi_expires item) then (Inr None, m(token := None))
          else (Inr (Some (mi_session item)), m))"

definition memory_Delete :: "'r bworld \<Rightarrow> string \<Rightarrow> memory \<Rightarrow> storeError option \<times> memory" where
  "memory_Delete w token m = (None, m(token := None))"

section \<open>The Redis store\<close>

definition redis_Save ::
  "'r bworld \<Rightarrow> string \<Rightarrow> Session \<Rightarrow> duration \<Rightarrow> 'r \<Rightarrow> (storeError, string) result \<times> 'r" where
  "redis_Save w pfx s ttl db =
     (case randomToken (bw_idBytes w) of
        Inl err \<Rightarrow> (Inl err, db)
      | Inr token_id \<Rightarrow>
          (case bw_secretBytes w of
             None \<Rightarrow> (Inl RandomFailed, db)
           | Some secretBytes \<Rightarrow>
               (case marshal_Session w s of
                  None \<Rightarrow> (Inl MarshalFailed, db)
                | Some plaintext \<Rightarrow>
                    (case encryptAESGCM w secretBytes plaintext of
                       Inl err \<Rightarrow> (Inl err, db)
                     | Inr ciphertext \<Rightarrow>
                         (case rd_Set (bw_redis w) db (bw_now w) (pfx @ token_id) ciphertext ttl of
                            (False, db') \<Rightarrow> (Inl RedisFailed, db')
                          | (True, db') \<Rightarrow> (Inr (token_id @ ''.'' @ b64_encode secretBytes), db'))))))"

definition redis_Load :: "'r bworld \<Rightarrow> string \<Rightarrow> string \<Rightarrow> 'r \<Rightarrow> (storeError, Session option) result" where
  "redis_Load w pfx token db =
     (let (token_id, secretB64, ok) = Cut token (CHR ''.'')
      in if \<not> ok then Inr None
         else case b64_decode secretB64 of
           None \<Rightarrow> Inr None
         | Some secretBytes \<Rightarrow>
             (case rd_Get (bw_redis w) db (bw_now w) (pfx @ token_id) of
                None \<Rightarrow> Inl RedisFailed
              | Some None \<Rightarrow> Inr None
              | Some (Some ciphertext) \<Rightarrow>
                  (case decryptAESGCM w secretBytes ciphertext of
                     Inl err \<Rightarrow> Inr None
                   | Inr plaintext \<Rightarrow>
                       (case unmarshal_Session w plaintext of
                          None \<Rightarrow> Inl UnmarshalFailed
                        | Some s \<Rightarrow> Inr (Some s)))))"

definition redis_Delete :: "'r bworld \<Rightarrow> string \<Rightarrow> string \<Rightarrow> 'r \<Rightarrow> storeError option \<times> 'r" where
  "redis_Delete w pfx token db =
     (let (token_id, _, _) = Cut token (CHR ''.'')
      in case rd_Del (bw_redis w) db (bw_now w) (pfx @ token_id) of
        (True, db') \<Rightarrow> (None, db')
      | (False, db') \<Rightarrow> (Some RedisFailed, db'))"

section \<open>The cookie store\<close>

definition maxCookieValueBytes :: nat where
  "maxCookieValueBytes = 3900"

definition NewCookieStore :: "string \<Rightarrow> 'r store" where
  "NewCookieStore secret = CookieStore (sha256 secret)"

definition cookie_Save :: "'r bworld \<Rightarrow> string \<Rightarrow> Session \<Rightarrow> (storeError, string) result" where
  "cookie_Save w key s =
     (case marshal_Session w s of
        None \<Rightarrow> Inl MarshalFailed
      | Some plaintext \<Rightarrow>
          if \<not> aes_NewCipher key then Inl BadKeySize
          else case bw_nonce w of
            None \<Rightarrow> Inl RandomFailed
          | Some nonce \<Rightarrow>
              let token = b64_encode (nonce @ bw_seal w key nonce plaintext)
              in if maxCookieValueBytes < length token then Inl CookieTooLarge else Inr token)"

definition cookie_Load :: "'r bworld \<Rightarrow> string \<Rightarrow> string \<Rightarrow> (storeError, Session option) result" where
  "cookie_Load w key token =
     (case b64_decode token of
        None \<Rightarrow> Inr None
      | Some data \<Rightarrow>
          if \<not> aes_NewCipher key then Inl BadKeySize
          else if length data < gcm_NonceSize then Inr None
          else case bw_open w key (take gcm_NonceSize data) (drop gcm_NonceSize data) of
            None \<Rightarrow> Inr None
          | Some plaintext \<Rightarrow>
              (case unmarshal_Session w plaintext of
                 None \<Rightarrow> Inl UnmarshalFailed
               | Some s \<Rightarrow> Inr (Some s)))"

section \<open>The Store interface\<close>

definition store_Save ::
  "'r bworld \<Rightarrow> Session \<Rightarrow> duration \<Rightarrow> 'r store \<Rightarrow> (storeError, string) result \<times> 'r store" where
  "store_Save w s ttl st =
     (case st of
        MemoryStore m \<Rightarrow> map_prod id MemoryStore (memory_Save w s ttl m)
      | RedisStore pfx db \<Rightarrow> map_prod id (RedisStore pfx) (redis_Save w pfx s ttl db)
      | CookieStore key \<Rightarrow> (cookie_Save w key s, st))"

definition store_Load ::
  "'r bworld \<Rightarrow> string \<Rightarrow> 'r store \<Rightarrow> (storeError, Session option) result \<times> 'r store" where
  "store_Load w token st =
     (case st of
        MemoryStore m \<Rightarrow> map_prod id MemoryStore (memory_Load w token m)
      | RedisStore pfx db \<Rightarrow> (redis_Load w pfx token db, st)
      | CookieStore key \<Rightarrow> (cookie_Load w key token, st))"

definition store_Delete :: "'r bworld \<Rightarrow> string \<Rightarrow> 'r store \<Rightarrow> storeError option \<times> 'r store" where
  "store_Delete w token st =
     (case st of
        MemoryStore m \<Rightarrow> map_prod id MemoryStore (memory_Delete w token m)
      | RedisStore pfx db \<Rightarrow> map_prod id (RedisStore pfx) (redis_Delete w pfx token db)
      | CookieStore key \<Rightarrow> (None, st))"

section \<open>The session manager\<close>

record Manager =
  mg_cookieName :: string
  mg_insecureCookie :: bool

definition sessionTTL :: duration where
  "sessionTTL = 24 * Hour"

definition session_cookie :: "Manager \<Rightarrow> string \<Rightarrow> cookie" where
  "session_cookie m token = \<lparr>ck_Name = mg_cookieName m, ck_Value = token, ck_HttpOnly = True,
     ck_Secure = (\<not> mg_insecureCookie m), ck_MaxAge = sessionTTL div Second\<rparr>"

definition expired_cookie :: "Manager \<Rightarrow> cookie" where
  "expired_cookie m = \<lparr>ck_Name = mg_cookieName m, ck_Value = [], ck_HttpOnly = True,
     ck_Secure = (\<not> mg_insecureCookie m), ck_MaxAge = - 1\<rparr>"

text \<open>The cookies set are returned beside the result and the store.\<close>

definition Manager_Create ::
  "'r bworld \<Rightarrow> Manager \<Rightarrow> Session \<Rightarrow> 'r store \<Rightarrow> (storeError, cookie list) result \<times> 'r store" where
  "Manager_Create w m s st =
     (case store_Save w s sessionTTL st of
        (Inl err, st') \<Rightarrow> (Inl err, st')
      | (Inr token, st') \<Rightarrow> (Inr [session_cookie m token], st'))"

definition Manager_Get ::
  "'r bworld \<Rightarrow> Manager \<Rightarrow> brequest \<Rightarrow> 'r store \<Rightarrow> (storeError, Session option) result \<times> 'r store" where
  "Manager_Get w m r st =
     (case br_Cookie r (mg_cookieName m) of
        None \<Rightarrow> (Inr None, st)
      | Some value \<Rightarrow>
          let token = TrimSpace value
          in if token = [] then (Inr None, st) else store_Load w token st)"

definition delete_cookie_session ::
  "'r bworld \<Rightarrow> Manager \<Rightarrow> brequest \<Rightarrow> 'r store \<Rightarrow> storeError option \<times> 'r store" where
  "delete_cookie_session w m r st =
     (case br_Cookie r (mg_cookieName m) of
        None \<Rightarrow> (None, st)
      | Some value \<Rightarrow> if TrimSpace value = [] then (None, st) else store_Delete w value st)"

definition Manager_Rotate ::
  "'r bworld \<Rightarrow> Manager \<Rightarrow> brequest \<Rightarrow> Session \<Rightarrow> 'r store \<Rightarrow> (storeError, cookie list) result \<times> 'r store" where
  "Manager_Rotate w m r s st = Manager_Create w m s (snd (delete_cookie_session w m r st))"

definition Manager_Destroy ::
  "'r bworld \<Rightarrow> Manager \<Rightarrow> brequest \<Rightarrow> 'r store \<Rightarrow> (storeError, cookie list) result \<times> 'r store" where
  "Manager_Destroy w m r st =
     (case delete_cookie_session w m r st of
        (Some err, st') \<Rightarrow> (Inl err, st')
      | (None, st') \<Rightarrow> (Inr [expired_cookie m], st'))"

end
