(* ===== verification/Bff_Stores.thy ===== *)
theory Bff_Stores
  imports Bff_Session
begin

text \<open>
  The contract of the \<^verbatim>\<open>Store\<close> interface. A store that accepted a session returns it under the token it handed out until
  the time to live has passed, whatever other operations run in between; a revocable store never
  returns it again after a successful deletion. \<open>holds s tok sess t e\<close> says that the store \<open>s\<close> answers \<open>tok\<close> with
  \<open>sess\<close> from \<open>t\<close> until \<open>e\<close>, \<open>mints w tok\<close> that the random identifier of \<open>w\<close> is that of \<open>tok\<close>, and
  \<open>aliases tok' tok\<close> that deleting \<open>tok'\<close> removes what \<open>tok\<close> names.
\<close>

section \<open>The contract\<close>

datatype 'w store_op = SaveOp 'w Session duration | LoadOp 'w string | DeleteOp 'w string

primrec op_world :: "'w store_op \<Rightarrow> 'w" where
  "op_world (SaveOp w s ttl) = w"
| "op_world (LoadOp w tok) = w"
| "op_world (DeleteOp w tok) = w"

text \<open>A sequence of operations on a store, and that their clock readings never go back before \<open>t\<close>.\<close>

fun run_ops ::
  "('w \<Rightarrow> Session \<Rightarrow> duration \<Rightarrow> 's \<Rightarrow> (storeError, string) result \<times> 's)
    \<Rightarrow> ('w \<Rightarrow> string \<Rightarrow> 's \<Rightarrow> (storeError, Session option) result \<times> 's)
    \<Rightarrow> ('w \<Rightarrow> string \<Rightarrow> 's \<Rightarrow> storeError option \<times> 's) \<Rightarrow> 'w store_op list \<Rightarrow> 's \<Rightarrow> 's" where
  "run_ops save load del [] s = s"
| "run_ops save load del (SaveOp w sess ttl # ops) s = run_ops save load del ops (snd (save w sess ttl s))"
| "run_ops save load del (LoadOp w tok # ops) s = run_ops save load del ops (snd (load w tok s))"
| "run_ops save load del (DeleteOp w tok # ops) s = run_ops save load del ops (snd (del w tok s))"

fun timely :: "('w \<Rightarrow> time) \<Rightarrow> time \<Rightarrow> 'w store_op list \<Rightarrow> time \<Rightarrow> bool" where
  "timely clock t [] u \<longleftrightarrow> t \<le> u"
| "timely clock t (x # ops) u \<longleftrightarrow> t \<le> clock (op_world x) \<and> timely clock (clock (op_world x)) ops u"

lemma timely_le: "timely clock t ops u \<Longrightarrow> t \<le> u"
  by (induction ops arbitrary: t) force+

text \<open>Operations in usable surroundings that neither draw the identifier of \<open>tok\<close> nor delete it.\<close>

primrec undisturbed ::
  "('w \<Rightarrow> bool) \<Rightarrow> ('w \<Rightarrow> string \<Rightarrow> bool) \<Rightarrow> (string \<Rightarrow> string \<Rightarrow> bool) \<Rightarrow> string \<Rightarrow> 'w store_op \<Rightarrow> bool" where
  "undisturbed usable mints aliases tok (SaveOp w sess ttl) \<longleftrightarrow> usable w \<and> \<not> mints w tok"
| "undisturbed usable mints aliases tok (LoadOp w tok') \<longleftrightarrow> usable w"
| "undisturbed usable mints aliases tok (DeleteOp w tok') \<longleftrightarrow> usable w \<and> \<not> aliases tok' tok"

abbreviation unminted :: "('w \<Rightarrow> bool) \<Rightarrow> ('w \<Rightarrow> string \<Rightarrow> bool) \<Rightarrow> string \<Rightarrow> 'w store_op \<Rightarrow> bool" where
  "unminted usable mints \<equiv> undisturbed usable mints (\<lambda>_ _. False)"

locale session_store =
  fixes save :: "'w \<Rightarrow> Session \<Rightarrow> duration \<Rightarrow> 's \<Rightarrow> (storeError, string) result \<times> 's"
    and load :: "'w \<Rightarrow> string \<Rightarrow> 's \<Rightarrow> (storeError, Session option) result \<times> 's"
    and del :: "'w \<Rightarrow> string \<Rightarrow> 's \<Rightarrow> storeError option \<times> 's"
    and clock :: "'w \<Rightarrow> time"
    and usable :: "'w \<Rightarrow> bool"
    and storable :: "Session \<Rightarrow> bool"
    and mints :: "'w \<Rightarrow> string \<Rightarrow> bool"
    and aliases :: "string \<Rightarrow> string \<Rightarrow> bool"
    and holds :: "'s \<Rightarrow> string \<Rightarrow> Session \<Rightarrow> time \<Rightarrow> time \<Rightarrow> bool"
  assumes save_holds: "usable w \<Longrightarrow> storable sess \<Longrightarrow> save w sess ttl s = (Inr tok, s')
      \<Longrightarrow> holds s' tok sess (clock w) (clock w + ttl)"
    and load_holds: "holds s tok sess t e \<Longrightarrow> usable w \<Longrightarrow> t \<le> clock w \<Longrightarrow> clock w < e
      \<Longrightarrow> fst (load w tok s) = Inr (Some sess)"
    and load_keeps: "holds s tok sess t e \<Longrightarrow> usable w \<Longrightarrow> t \<le> clock w \<Longrightarrow> clock w < e
      \<Longrightarrow> holds (snd (load w tok' s)) tok sess (clock w) e"
    and save_keeps: "holds s tok sess t e \<Longrightarrow> usable w \<Longrightarrow> t \<le> clock w \<Longrightarrow> \<not> mints w tok
      \<Longrightarrow> holds (snd (save w sess' ttl s)) tok sess (clock w) e"
    and delete_keeps: "holds s tok sess t e \<Longrightarrow> usable w \<Longrightarrow> t \<le> clock w \<Longrightarrow> \<not> aliases tok' tok
      \<Longrightarrow> holds (snd (del w tok' s)) tok sess (clock w) e"
begin

lemma holds_run:
  "holds s tok sess t e \<Longrightarrow> timely clock t ops u \<Longrightarrow> u < e \<Longrightarrow> list_all (undisturbed usable mints aliases tok) ops
     \<Longrightarrow> \<exists>t'. t' \<le> u \<and> holds (run_ops save load del ops s) tok sess t' e"
proof (induction ops arbitrary: s t)
  case Nil
  then show ?case by auto
next
  case (Cons x ops)
  have before: "clock (op_world x) < e" using Cons.prems(2,3) timely_le by fastforce
  show ?case
  proof (cases x)
    case (SaveOp w sess' ttl)
    then show ?thesis using Cons.prems Cons.IH [OF save_keeps [OF Cons.prems(1)], of w sess' ttl] by simp
  next
    case (LoadOp w tok')
    then show ?thesis using before Cons.prems Cons.IH [OF load_keeps [OF Cons.prems(1)], of w tok'] by simp
  next
    case (DeleteOp w tok')
    then show ?thesis using Cons.prems Cons.IH [OF delete_keeps [OF Cons.prems(1)], of w tok'] by simp
  qed
qed

text \<open>A saved session is returned under its token until it expires.\<close>

lemma saved_survives:
  assumes "save w sess ttl s = (Inr tok, s')" and "usable w" and "storable sess"
    and "timely clock (clock w) ops (clock w')" and "clock w' < clock w + ttl" and "list_all (undisturbed usable mints aliases tok) ops"
    and "usable w'"
  shows "fst (load w' tok (run_ops save load del ops s')) = Inr (Some sess)"
  using holds_run [OF save_holds [OF assms(2,3,1)] assms(4-6)] load_holds [OF _ assms(7) _ assms(5)] by blast

end

locale revocable_store = session_store +
  fixes gone :: "'s \<Rightarrow> string \<Rightarrow> time \<Rightarrow> bool"
  assumes delete_gone: "usable w \<Longrightarrow> del w tok s = (None, s') \<Longrightarrow> gone s' tok (clock w)"
    and gone_load: "gone s tok t \<Longrightarrow> usable w \<Longrightarrow> t \<le> clock w \<Longrightarrow> fst (load w tok s) = Inr None"
    and load_gone: "gone s tok t \<Longrightarrow> usable w \<Longrightarrow> t \<le> clock w \<Longrightarrow> gone (snd (load w tok' s)) tok (clock w)"
    and save_gone: "gone s tok t \<Longrightarrow> usable w \<Longrightarrow> t \<le> clock w \<Longrightarrow> \<not> mints w tok
      \<Longrightarrow> gone (snd (save w sess ttl s)) tok (clock w)"
    and del_gone: "gone s tok t \<Longrightarrow> usable w \<Longrightarrow> t \<le> clock w \<Longrightarrow> gone (snd (del w tok' s)) tok (clock w)"
begin

lemma gone_run:
  "gone s tok t \<Longrightarrow> timely clock t ops u \<Longrightarrow> list_all (unminted usable mints tok) ops
     \<Longrightarrow> \<exists>t'. t' \<le> u \<and> gone (run_ops save load del ops s) tok t'"
proof (induction ops arbitrary: s t)
  case (Cons x ops)
  show ?case
  proof (cases x)
    case (SaveOp w sess ttl)
    then show ?thesis using Cons.prems Cons.IH [OF save_gone [OF Cons.prems(1)], of w sess ttl] by simp
  next
    case (LoadOp w tok')
    then show ?thesis using Cons.prems Cons.IH [OF load_gone [OF Cons.prems(1)], of w tok'] by simp
  next
    case (DeleteOp w tok')
    then show ?thesis using Cons.prems Cons.IH [OF del_gone [OF Cons.prems(1)], of w tok'] by simp
  qed
qed auto

text \<open>A deleted session stays deleted, until its identifier is drawn again.\<close>

lemma revoked:
  assumes "del w tok s = (None, s')" and "usable w"
    and "timely clock (clock w) ops (clock w')" and "list_all (unminted usable mints tok) ops" and "usable w'"
  shows "fst (load w' tok (run_ops save load del ops s')) = Inr None"
  using gone_run [OF delete_gone [OF assms(2,1)] assms(3,4)] gone_load [OF _ assms(5)] by blast

end

section \<open>The memory store\<close>

definition memory_mints :: "'r bworld \<Rightarrow> string \<Rightarrow> bool" where
  "memory_mints w tok \<longleftrightarrow> (\<exists>b. bw_idBytes w = Some b \<and> tok = b64_encode b)"

definition memory_holds :: "memory \<Rightarrow> string \<Rightarrow> Session \<Rightarrow> time \<Rightarrow> time \<Rightarrow> bool" where
  "memory_holds m tok sess t e \<longleftrightarrow> m tok = Some \<lparr>mi_session = sess, mi_expires = e\<rparr>"

lemmas memory_defs = memory_Save_def memory_Load_def memory_Delete_def randomToken_def

interpretation mem: revocable_store memory_Save memory_Load memory_Delete bw_now "\<lambda>w. True" "\<lambda>s. True"
  memory_mints "(=)" memory_holds "\<lambda>m tok t. m tok = None"
  by unfold_locales
    (auto simp: memory_defs memory_holds_def memory_mints_def time_defs split: option.splits if_splits)

section \<open>What the encrypting stores rely on\<close>

definition same_library :: "'r bworld \<Rightarrow> 'r bworld \<Rightarrow> bool" where
  "same_library w0 w \<longleftrightarrow> bw_seal w = bw_seal w0 \<and> bw_open w = bw_open w0 \<and> bw_json w = bw_json w0
     \<and> bw_render w = bw_render w0 \<and> bw_timeText w = bw_timeText w0 \<and> bw_parseTime w = bw_parseTime w0
     \<and> bw_redis w = bw_redis w0"

text \<open>The JSON text of this session parses back to the same value, and so does its expiry.\<close>

definition codec_ok :: "'r bworld \<Rightarrow> Session \<Rightarrow> bool" where
  "codec_ok w s \<longleftrightarrow> (\<exists>e. bw_timeText w (ss_AccessTokenExpiry s) = Some e \<and> bw_parseTime w e = Some (ss_AccessTokenExpiry s)
     \<and> bw_json w (bw_render w (session_json s e)) = Some (session_json s e))"

definition gcm_ok :: "'r bworld \<Rightarrow> bool" where
  "gcm_ok w \<longleftrightarrow> (\<forall>k n p. length n = gcm_NonceSize \<longrightarrow> bw_open w k n (bw_seal w k n p) = Some p)"

definition sizes_ok :: "'r bworld \<Rightarrow> bool" where
  "sizes_ok w \<longleftrightarrow> (\<forall>n. bw_nonce w = Some n \<longrightarrow> length n = gcm_NonceSize)"

text \<open>SET, GET and DEL as Redis documents them.\<close>

definition redis_ok :: "'r redis \<Rightarrow> bool" where
  "redis_ok R \<longleftrightarrow>
     (\<forall>db t k v ttl db' u. rd_Set R db t k v ttl = (True, db') \<longrightarrow> t \<le> u \<longrightarrow> u < t + ttl
        \<longrightarrow> rd_Get R db' u k = Some (Some v))
     \<and> (\<forall>db t k k' v ttl u. k' \<noteq> k \<longrightarrow> t \<le> u \<longrightarrow> rd_Get R (snd (rd_Set R db t k' v ttl)) u k = rd_Get R db u k)
     \<and> (\<forall>db t k db' u. rd_Del R db t k = (True, db') \<longrightarrow> t \<le> u \<longrightarrow> rd_Get R db' u k = Some None)
     \<and> (\<forall>db t k k' u. t \<le> u \<longrightarrow> rd_Get R (snd (rd_Del R db t k')) u k = rd_Get R db u k
          \<or> k' = k \<and> rd_Get R (snd (rd_Del R db t k')) u k = Some None)"

lemma redis_okD:
  assumes "redis_ok R"
  shows "rd_Set R db t k v ttl = (True, db') \<Longrightarrow> t \<le> u \<Longrightarrow> u < t + ttl \<Longrightarrow> rd_Get R db' u k = Some (Some v)"
    and "k' \<noteq> k \<Longrightarrow> t \<le> u \<Longrightarrow> rd_Get R (snd (rd_Set R db t k' v ttl)) u k = rd_Get R db u k"
    and "rd_Del R db t k = (True, db') \<Longrightarrow> t \<le> u \<Longrightarrow> rd_Get R db' u k = Some None"
    and "k' \<noteq> k \<Longrightarrow> t \<le> u \<Longrightarrow> rd_Get R (snd (rd_Del R db t k')) u k = rd_Get R db u k"
    and "rd_Get R db u k = Some None \<Longrightarrow> t \<le> u \<Longrightarrow> rd_Get R (snd (rd_Del R db t k')) u k = Some None"
  using assms unfolding redis_ok_def by metis+

lemma library_cong:
  assumes "same_library w0 w"
  shows "decryptAESGCM w k c = decryptAESGCM w0 k c" "unmarshal_Session w t = unmarshal_Session w0 t"
    "marshal_Session w s = marshal_Session w0 s" "cookie_Load w key tok = cookie_Load w0 key tok"
proof -
  have "decode_session_field w = decode_session_field w0"
    using assms by (intro ext) (simp add: decode_session_field_def same_library_def split: json.split)
  then show u: "unmarshal_Session w t = unmarshal_Session w0 t" for t
    using assms by (simp add: unmarshal_Session_def same_library_def)
  show "decryptAESGCM w k c = decryptAESGCM w0 k c" "marshal_Session w s = marshal_Session w0 s"
    "cookie_Load w key tok = cookie_Load w0 key tok"
    using assms by (simp_all add: same_library_def decryptAESGCM_def marshal_Session_def cookie_Load_def u split: option.split)
qed

lemma session_tags_match:
  "match_tag session_tags ''accessToken'' = Some ''accessToken''" "match_tag session_tags ''refreshToken'' = Some ''refreshToken''"
  "match_tag session_tags ''idToken'' = Some ''idToken''" "match_tag session_tags ''csrfToken'' = Some ''csrfToken''"
  "match_tag session_tags ''accessTokenExpiry'' = Some ''accessTokenExpiry''"
  by (simp_all add: match_tag_def session_tags_def)

lemma unmarshal_marshal:
  "codec_ok w s \<Longrightarrow> \<exists>text. marshal_Session w s = Some text \<and> unmarshal_Session w text = Some s"
  by (auto simp: codec_ok_def marshal_Session_def unmarshal_Session_def unmarshal_struct_def session_json_def
      session_tags_match decode_session_field_def decode_string_def)

lemma decrypt_encrypt:
  "gcm_ok w \<Longrightarrow> sizes_ok w \<Longrightarrow> encryptAESGCM w k p = Inr c \<Longrightarrow> decryptAESGCM w k c = Inr p"
  by (auto simp: gcm_ok_def sizes_ok_def encryptAESGCM_def decryptAESGCM_def split: if_splits option.splits)

lemma b64_no_dot: "CHR ''.'' \<notin> set (b64_encode s)"
proof -
  have "CHR ''.'' \<notin> set url_alphabet" by code_simp
  then show ?thesis using b64_encode_chars by blast
qed

section \<open>The Redis store\<close>

definition token_id :: "string \<Rightarrow> string" where
  "token_id tok = fst (Cut tok (CHR ''.''))"

lemma token_id_append [simp]: "CHR ''.'' \<notin> set i \<Longrightarrow> token_id (i @ CHR ''.'' # x) = i"
  by (simp add: token_id_def Cut_found)

definition redis_mints :: "'r bworld \<Rightarrow> string \<Rightarrow> bool" where
  "redis_mints w tok \<longleftrightarrow> (\<exists>b. bw_idBytes w = Some b \<and> token_id tok = b64_encode b)"

definition redis_aliases :: "string \<Rightarrow> string \<Rightarrow> bool" where
  "redis_aliases tok' tok \<longleftrightarrow> token_id tok' = token_id tok"

definition redis_usable :: "'r bworld \<Rightarrow> 'r bworld \<Rightarrow> bool" where
  "redis_usable w0 w \<longleftrightarrow> same_library w0 w \<and> sizes_ok w \<and> redis_ok (bw_redis w0)"

definition encryptable :: "'r bworld \<Rightarrow> Session \<Rightarrow> bool" where
  "encryptable w0 s \<longleftrightarrow> codec_ok w0 s \<and> gcm_ok w0"

definition redis_holds ::
  "'r bworld \<Rightarrow> string \<Rightarrow> 'r \<Rightarrow> string \<Rightarrow> Session \<Rightarrow> time \<Rightarrow> time \<Rightarrow> bool" where
  "redis_holds w0 pfx db tok sess t e \<longleftrightarrow>
     (\<exists>i sec pt ct. tok = i @ CHR ''.'' # b64_encode sec \<and> CHR ''.'' \<notin> set i
        \<and> decryptAESGCM w0 sec ct = Inr pt \<and> unmarshal_Session w0 pt = Some sess
        \<and> (\<forall>u. t \<le> u \<longrightarrow> u < e \<longrightarrow> rd_Get (bw_redis w0) db u (pfx @ i) = Some (Some ct)))"

definition redis_gone :: "'r bworld \<Rightarrow> string \<Rightarrow> 'r \<Rightarrow> string \<Rightarrow> time \<Rightarrow> bool" where
  "redis_gone w0 pfx db tok t \<longleftrightarrow> (\<forall>u. t \<le> u \<longrightarrow> rd_Get (bw_redis w0) db u (pfx @ token_id tok) = Some None)"

lemma redis_Save_cases:
  assumes "redis_Save w pfx s ttl db = (res, db')"
  obtains (stored) b sec pt ct where "bw_idBytes w = Some b" "bw_secretBytes w = Some sec" "marshal_Session w s = Some pt"
      "encryptAESGCM w sec pt = Inr ct" "rd_Set (bw_redis w) db (bw_now w) (pfx @ b64_encode b) ct ttl = (True, db')"
      "res = Inr (b64_encode b @ ''.'' @ b64_encode sec)"
  | (failed) err b ct where "res = Inl err" "bw_idBytes w = Some b"
      "db' = snd (rd_Set (bw_redis w) db (bw_now w) (pfx @ b64_encode b) ct ttl)"
  | (unchanged) err where "res = Inl err" "db' = db"
  using assms
  by (auto simp: redis_Save_def randomToken_def split: option.splits sum.splits prod.splits bool.splits)
    (metis snd_conv)+

lemma redis_save_holds:
  assumes "redis_usable w0 w" and "encryptable w0 sess" and "redis_Save w pfx sess ttl db = (Inr tok, db')"
  shows "redis_holds w0 pfx db' tok sess (bw_now w) (bw_now w + ttl)"
  using assms(3)
proof (cases rule: redis_Save_cases)
  case (stored b sec pt ct)
  have lib: "same_library w0 w" "sizes_ok w" "redis_ok (bw_redis w0)" "codec_ok w0 sess" "gcm_ok w0" "bw_redis w = bw_redis w0"
    using assms(1,2) by (auto simp: redis_usable_def encryptable_def same_library_def)
  have "gcm_ok w" using lib(1,5) by (simp add: gcm_ok_def same_library_def)
  then have d: "decryptAESGCM w0 sec ct = Inr pt"
    using decrypt_encrypt [OF _ lib(2) stored(4)] library_cong [OF lib(1)] by simp
  have "unmarshal_Session w0 pt = Some sess"
    using unmarshal_marshal [OF lib(4)] stored(3) library_cong [OF lib(1)] by auto
  with d stored lib redis_okD(1) [OF lib(3)] b64_no_dot show ?thesis
    unfolding redis_holds_def
    by (intro exI [of _ "b64_encode b"] exI [of _ sec] exI [of _ pt] exI [of _ ct]) auto
qed auto

lemma redis_load_holds:
  assumes "redis_holds w0 pfx db tok sess t e" and "redis_usable w0 w" and "t \<le> bw_now w" and "bw_now w < e"
  shows "redis_Load w pfx tok db = Inr (Some sess)"
proof -
  have "same_library w0 w" "bw_redis w = bw_redis w0" using assms(2) by (auto simp: redis_usable_def same_library_def)
  with assms show ?thesis
    by (auto simp: redis_holds_def redis_Load_def Cut_found b64_decode_encode library_cong)
qed

lemma redis_get_save:
  assumes "redis_usable w0 w" and "bw_now w \<le> u"
    and "\<And>b. bw_idBytes w = Some b \<Longrightarrow> i \<noteq> b64_encode b"
  shows "rd_Get (bw_redis w0) (snd (redis_Save w pfx s ttl db)) u (pfx @ i) = rd_Get (bw_redis w0) db u (pfx @ i)"
proof -
  have R: "redis_ok (bw_redis w0)" "bw_redis w = bw_redis w0" using assms(1) by (auto simp: redis_usable_def same_library_def)
  obtain res db' where s: "redis_Save w pfx s ttl db = (res, db')" by fastforce
  then show ?thesis
  proof (cases rule: redis_Save_cases)
    case (stored b sec pt ct)
    then show ?thesis
      using redis_okD(2) [OF R(1), of "pfx @ b64_encode b" "pfx @ i" "bw_now w" u db ct ttl] assms(2,3) R(2) s by simp
  next
    case (failed err b ct)
    then show ?thesis
      using redis_okD(2) [OF R(1), of "pfx @ b64_encode b" "pfx @ i" "bw_now w" u db ct ttl] assms(2,3) R(2) s by simp
  qed (use s in simp)
qed

lemma redis_Delete_snd: "snd (redis_Delete w pfx tok db) = snd (rd_Del (bw_redis w) db (bw_now w) (pfx @ token_id tok))"
  by (simp add: redis_Delete_def token_id_def split_def Let_def split: bool.split)

lemma redis_save_keeps:
  assumes "redis_holds w0 pfx db tok sess t e" and "redis_usable w0 w" and "t \<le> bw_now w" and "\<not> redis_mints w tok"
  shows "redis_holds w0 pfx (snd (redis_Save w pfx sess' ttl db)) tok sess (bw_now w) e"
  using assms unfolding redis_holds_def
  by (elim exE conjE, intro exI conjI) (auto simp: redis_get_save redis_mints_def)

lemma redis_delete_keeps:
  assumes "redis_holds w0 pfx db tok sess t e" and "redis_usable w0 w" and "t \<le> bw_now w" and "\<not> redis_aliases tok' tok"
  shows "redis_holds w0 pfx (snd (redis_Delete w pfx tok' db)) tok sess (bw_now w) e"
  using assms unfolding redis_holds_def redis_Delete_snd
  by (elim exE conjE, intro exI conjI)
    (auto simp: redis_usable_def same_library_def redis_aliases_def redis_okD(4))

lemma redis_delete_gone:
  assumes "redis_usable w0 w" and "redis_Delete w pfx tok db = (None, db')"
  shows "redis_gone w0 pfx db' tok (bw_now w)"
proof -
  have "rd_Del (bw_redis w) db (bw_now w) (pfx @ token_id tok) = (True, db')"
    using assms(2) by (auto simp: redis_Delete_def token_id_def split: prod.splits bool.splits)
  with assms(1) show ?thesis by (auto simp: redis_gone_def redis_usable_def same_library_def intro: redis_okD(3))
qed

lemma redis_gone_load:
  "redis_gone w0 pfx db tok t \<Longrightarrow> redis_usable w0 w \<Longrightarrow> t \<le> bw_now w \<Longrightarrow> redis_Load w pfx tok db = Inr None"
  by (auto simp: redis_gone_def redis_Load_def redis_usable_def same_library_def token_id_def split_def Let_def split: option.split)

interpretation red: revocable_store "\<lambda>w. redis_Save w pfx" "\<lambda>w tok db. (redis_Load w pfx tok db, db)" "\<lambda>w. redis_Delete w pfx"
  bw_now "redis_usable w0" "encryptable w0" redis_mints redis_aliases "redis_holds w0 pfx" "redis_gone w0 pfx" for w0 pfx
proof unfold_locales
  show "redis_holds w0 pfx (snd (redis_Load w pfx tok' s, s)) tok sess (bw_now w) e"
    if "redis_holds w0 pfx s tok sess t e" "t \<le> bw_now w" for w tok' s tok sess t e
    using that unfolding redis_holds_def by (elim exE conjE, intro exI conjI) auto
  show "redis_gone w0 pfx (snd (redis_Save w pfx sess ttl s)) tok (bw_now w)"
    if "redis_gone w0 pfx s tok t" "redis_usable w0 w" "t \<le> bw_now w" "\<not> redis_mints w tok" for w sess ttl s tok t
    using that by (auto simp: redis_gone_def redis_get_save redis_mints_def)
  show "redis_gone w0 pfx (snd (redis_Delete w pfx tok' s)) tok (bw_now w)"
    if "redis_gone w0 pfx s tok t" "redis_usable w0 w" "t \<le> bw_now w" for w tok' s tok t
    using that redis_okD(5) [of "bw_redis w0"]
    by (auto simp: redis_gone_def redis_Delete_snd redis_usable_def same_library_def)
  show "redis_gone w0 pfx (snd (redis_Load w pfx tok' s, s)) tok (bw_now w)"
    if "redis_gone w0 pfx s tok t" "t \<le> bw_now w" for w tok' s tok t
    using that by (auto simp: redis_gone_def)
qed (auto intro: redis_save_holds redis_load_holds redis_save_keeps redis_delete_keeps redis_delete_gone redis_gone_load)

section \<open>The cookie store\<close>

definition cookie_usable :: "'r bworld \<Rightarrow> 'r bworld \<Rightarrow> bool" where
  "cookie_usable w0 w \<longleftrightarrow> same_library w0 w \<and> sizes_ok w"

lemma cookie_load_save:
  assumes "cookie_usable w0 w" and "encryptable w0 sess" and "cookie_Save w key sess = Inr tok"
  shows "cookie_Load w0 key tok = Inr (Some sess)"
proof -
  from assms(2) obtain pt where t: "marshal_Session w0 sess = Some pt" "unmarshal_Session w0 pt = Some sess"
    using unmarshal_marshal by (auto simp: encryptable_def)
  have lib: "same_library w0 w" "sizes_ok w" "gcm_ok w0" "bw_open w = bw_open w0" "bw_seal w = bw_seal w0"
    using assms(1,2) by (auto simp: cookie_usable_def encryptable_def same_library_def)
  from assms(3) obtain nonce where n: "bw_nonce w = Some nonce" "aes_NewCipher key"
    "tok = b64_encode (nonce @ bw_seal w0 key nonce pt)"
    using t lib library_cong [OF lib(1)] by (auto simp: cookie_Save_def Let_def split: option.splits if_splits)
  then have "length nonce = gcm_NonceSize" using lib(2) by (simp add: sizes_ok_def)
  with n t lib(3) show ?thesis by (simp add: cookie_Load_def b64_decode_encode gcm_ok_def)
qed

interpretation ckst: session_store "\<lambda>w s ttl st. (cookie_Save w key s, st)" "\<lambda>w tok st. (cookie_Load w key tok, st)"
  "\<lambda>w tok st. (None, st)" bw_now "cookie_usable w0" "encryptable w0" "\<lambda>w tok. False" "\<lambda>tok' tok. False"
  "\<lambda>st tok sess t e. cookie_Load w0 key tok = Inr (Some sess)" for w0 key
  by unfold_locales (auto simp: cookie_load_save cookie_usable_def library_cong)

section \<open>What the stores guarantee\<close>

text \<open>
  C26: a session that the memory store accepted is returned under its token until its time to live has passed, whatever is
  saved, loaded or deleted in between under other tokens; after it is deleted it is never returned
  again, unless the random generator draws the same identifier.
\<close>

theorem memory_session_lifecycle:
  fixes w w' :: "'r bworld" and ops :: "'r bworld store_op list"
  shows "(memory_Save w sess ttl m = (Inr tok, m1) \<longrightarrow> timely bw_now (bw_now w) ops (bw_now w') \<longrightarrow> bw_now w' < bw_now w + ttl
      \<longrightarrow> list_all (undisturbed (\<lambda>w. True) memory_mints (=) tok) ops
      \<longrightarrow> fst (memory_Load w' tok (run_ops memory_Save memory_Load memory_Delete ops m1)) = Inr (Some sess))
   \<and> (memory_Delete w tok m = (None, m2) \<longrightarrow> timely bw_now (bw_now w) ops (bw_now w')
      \<longrightarrow> list_all (unminted (\<lambda>w. True) memory_mints tok) ops
      \<longrightarrow> fst (memory_Load w' tok (run_ops memory_Save memory_Load memory_Delete ops m2)) = Inr None)"
  using mem.saved_survives [of w sess ttl m tok m1 ops w'] mem.revoked [of w tok m m2 ops w'] by blast

text \<open>
  C24: a session saved in Redis is returned under its token until its time to live has passed, whatever other operations
  run in between. The code relies on Redis keeping a key until it expires or is deleted, on AES-GCM opening what it
  sealed, and on JSON reading back what it wrote.
\<close>

theorem redis_session_survives:
  assumes "redis_Save w pfx sess ttl db = (Inr tok, db')" and "redis_usable w0 w" and "encryptable w0 sess"
    and "timely bw_now (bw_now w) ops (bw_now w')" and "bw_now w' < bw_now w + ttl"
    and "list_all (undisturbed (redis_usable w0) redis_mints redis_aliases tok) ops" and "redis_usable w0 w'"
  shows "redis_Load w' pfx tok (run_ops (\<lambda>w. redis_Save w pfx) (\<lambda>w tok db. (redis_Load w pfx tok db, db))
    (\<lambda>w. redis_Delete w pfx) ops db') = Inr (Some sess)"
  using red.saved_survives [OF assms] by simp

text \<open>
  C25: once Redis confirmed the deletion of a session, no token with its identifier loads anything again, whatever other operations
  run, until that identifier is drawn for a new session.
\<close>

theorem redis_session_revoked:
  assumes "redis_Delete w pfx tok db = (None, db')" and "redis_usable w0 w"
    and "timely bw_now (bw_now w) ops (bw_now w')" and "list_all (unminted (redis_usable w0) redis_mints tok) ops"
    and "redis_usable w0 w'"
  shows "redis_Load w' pfx tok (run_ops (\<lambda>w. redis_Save w pfx) (\<lambda>w tok db. (redis_Load w pfx tok db, db))
    (\<lambda>w. redis_Delete w pfx) ops db') = Inr None"
  using red.revoked [OF assms] by simp

text \<open>
  C27: the cookie store is stateless: the token it hands out fits the size limit and decrypts to the session it was
  made from, at any later time and whatever was deleted meanwhile.
\<close>

theorem cookie_session_roundtrip:
  assumes "cookie_Save w key sess = Inr tok" and "cookie_usable w0 w" and "encryptable w0 sess" and "cookie_usable w0 w'"
  shows "cookie_Load w' key tok = Inr (Some sess) \<and> length tok \<le> maxCookieValueBytes
    \<and> fst (store_Load w' tok (snd (store_Delete w'' tok (CookieStore key)))) = Inr (Some sess)"
proof -
  have "cookie_Load w' key tok = Inr (Some sess)"
    using cookie_load_save [OF assms(2,3,1)] assms(4) library_cong(4) [of w0 w' key tok]
    by (simp add: cookie_usable_def)
  moreover have "length tok \<le> maxCookieValueBytes"
    using assms(1) by (auto simp: cookie_Save_def Let_def not_less split: option.splits if_splits)
  ultimately show ?thesis by (simp add: store_Load_def store_Delete_def)
qed

section \<open>A concrete Redis and a concrete session\<close>

text \<open>A table of values with their expiry times, an identity cipher, and JSON for one session.\<close>

definition table_redis :: "(string \<rightharpoonup> string \<times> time) redis" where
  "table_redis = \<lparr>rd_Set = (\<lambda>db t k v ttl. (True, db(k \<mapsto> (v, t + ttl)))),
     rd_Get = (\<lambda>db u k. Some (case db k of Some (v, e) \<Rightarrow> (if u < e then Some v else None) | None \<Rightarrow> None)),
     rd_Del = (\<lambda>db t k. (True, db(k := None)))\<rparr>"

lemma table_redis_ok: "redis_ok table_redis"
  by (auto simp: redis_ok_def table_redis_def)

definition example_Session :: Session where
  "example_Session = \<lparr>ss_AccessToken = ''at'', ss_RefreshToken = ''rt'', ss_IDToken = ''h.e30.s'', ss_CSRFToken = ''csrf'',
     ss_AccessTokenExpiry = None\<rparr>"

definition example_bworld :: "(string \<rightharpoonup> string \<times> time) bworld" where
  "example_bworld = \<lparr>bw_now = 1000 * Second, bw_idBytes = Some ''id'', bw_secretBytes = Some ''0123456789abcdef'',
     bw_nonce = Some ''nonce-nonce-'', bw_state = ''state-1'', bw_verifier = ''verifier-1'', bw_csrf = ''csrf'',
     bw_seal = (\<lambda>k n p. p), bw_open = (\<lambda>k n c. Some c),
     bw_json = (\<lambda>raw. if raw = ''J'' then Some (session_json example_Session ''T'') else if raw = ''{}'' then Some (JObj []) else None),
     bw_render = (\<lambda>j. ''J''), bw_timeText = (\<lambda>t. Some ''T''), bw_parseTime = (\<lambda>v. Some None), bw_redis = table_redis,
     bw_exchange = (\<lambda>cfg code verifier. Some \<lparr>ot_AccessToken = ''at'', ot_RefreshToken = ''rt'', ot_Expiry = None,
        ot_IDToken = Some ''h.e30.s''\<rparr>),
     bw_refresh = (\<lambda>cfg rt. None), bw_verifyIDToken = (\<lambda>cid raw. Some zero_UserClaims),
     bw_upstream = (\<lambda>out. UpstreamFailed)\<rparr>"

lemma example_bworld_ok:
  "redis_usable example_bworld example_bworld" "encryptable example_bworld example_Session"
  "cookie_usable example_bworld example_bworld"
  by (auto simp: redis_usable_def cookie_usable_def same_library_def sizes_ok_def encryptable_def codec_ok_def gcm_ok_def
      example_bworld_def example_Session_def gcm_NonceSize_def table_redis_ok)

definition example_token :: string where
  "example_token = b64_encode ''id'' @ ''.'' @ b64_encode ''0123456789abcdef''"

lemma example_Save: "fst (redis_Save example_bworld ''p-'' example_Session Hour Map.empty) = Inr example_token"
  by code_simp

theorem redis_session_survives_witness:
  "redis_Load example_bworld ''p-'' example_token (snd (redis_Save example_bworld ''p-'' example_Session Hour Map.empty))
     = Inr (Some example_Session)"
proof -
  have s: "redis_Save example_bworld ''p-'' example_Session Hour Map.empty
      = (Inr example_token, snd (redis_Save example_bworld ''p-'' example_Session Hour Map.empty))"
    using example_Save by (metis prod.collapse)
  show ?thesis
    using redis_session_survives [OF s example_bworld_ok(1,2), of "[]" example_bworld] example_bworld_ok(1)
    by (simp add: Hour_def)
qed

theorem redis_session_revoked_witness:
  "redis_Load example_bworld ''p-'' example_token
     (snd (redis_Delete example_bworld ''p-'' example_token
        (snd (redis_Save example_bworld ''p-'' example_Session Hour Map.empty)))) = Inr None"
proof -
  let ?db = "snd (redis_Save example_bworld ''p-'' example_Session Hour Map.empty)"
  have d: "redis_Delete example_bworld ''p-'' example_token ?db = (None, snd (redis_Delete example_bworld ''p-'' example_token ?db))"
    by (simp add: redis_Delete_def example_bworld_def table_redis_def split_def Let_def)
  show ?thesis
    using redis_session_revoked [OF d example_bworld_ok(1), of "[]" example_bworld] example_bworld_ok(1) by simp
qed

definition example_key :: string where
  "example_key = ''0123456789abcdef''"

theorem cookie_session_roundtrip_witness:
  "\<exists>tok. cookie_Save example_bworld example_key example_Session = Inr tok
     \<and> cookie_Load example_bworld example_key tok = Inr (Some example_Session)"
proof -
  have "\<not> isl (cookie_Save example_bworld example_key example_Session)" by code_simp
  then obtain tok where "cookie_Save example_bworld example_key example_Session = Inr tok"
    by (cases "cookie_Save example_bworld example_key example_Session") auto
  with cookie_session_roundtrip [OF this example_bworld_ok(3,2,3)] show ?thesis by blast
qed

theorem memory_session_lifecycle_witness:
  "fst (memory_Load example_bworld ''aWQ'' (snd (memory_Save example_bworld example_Session Hour Map.empty)))
     = Inr (Some example_Session)"
proof -
  have "memory_Save example_bworld example_Session Hour Map.empty
      = (Inr ''aWQ'', snd (memory_Save example_bworld example_Session Hour Map.empty))"
  proof -
    have "fst (memory_Save example_bworld example_Session Hour Map.empty) = Inr ''aWQ''" by code_simp
    then show ?thesis by (metis prod.collapse)
  qed
  with memory_session_lifecycle [of example_bworld example_Session Hour Map.empty "''aWQ''" _ "[]" example_bworld]
  show ?thesis by (simp add: Hour_def)
qed

end
