(* ===== verification/Bff_StateClaims.thy ===== *)
theory Bff_StateClaims
  imports Replay_Guard
begin

text \<open>
  The guard against replayed login callbacks (\<^verbatim>\<open>bff/internal/handler/state_claims.go\<close>): a \<^verbatim>\<open>state\<close> value is
  claimed at most once per time to live, across the clean-ups that keep the table small. The guard instantiates the
  contract that the identity provider's assertion replay cache satisfies too.
\<close>

definition oidcStateClaimTTL :: duration where
  "oidcStateClaimTTL = 5 * Minute"

record stateClaims =
  sc_claimedAt :: "string \<rightharpoonup> time"
  sc_lastCleanup :: time
  sc_ttl :: duration

definition newStateClaims :: "time \<Rightarrow> duration \<Rightarrow> stateClaims" where
  "newStateClaims now ttl = \<lparr>sc_claimedAt = Map.empty, sc_lastCleanup = now, sc_ttl = ttl\<rparr>"

definition cleanupLocked :: "time \<Rightarrow> stateClaims \<Rightarrow> stateClaims" where
  "cleanupLocked now s =
     s\<lparr>sc_claimedAt := (\<lambda>state. case sc_claimedAt s state of
          None \<Rightarrow> None
        | Some claimedAt \<Rightarrow> if time_Sub now claimedAt \<ge> sc_ttl s then None else Some claimedAt),
       sc_lastCleanup := now\<rparr>"

definition Claim :: "time \<Rightarrow> string \<Rightarrow> stateClaims \<Rightarrow> bool \<times> stateClaims" where
  "Claim now state s0 =
     (let s = (if time_Sub now (sc_lastCleanup s0) \<ge> sc_ttl s0 then cleanupLocked now s0 else s0)
      in case sc_claimedAt s state of
        Some claimedAt \<Rightarrow>
          if time_Sub now claimedAt < sc_ttl s then (False, s)
          else (True, s\<lparr>sc_claimedAt := (sc_claimedAt s)(state \<mapsto> now)\<rparr>)
      | None \<Rightarrow> (True, s\<lparr>sc_claimedAt := (sc_claimedAt s)(state \<mapsto> now)\<rparr>))"

section \<open>At most one claim per time to live\<close>

definition state_blocked :: "duration \<Rightarrow> stateClaims \<Rightarrow> string \<Rightarrow> time \<Rightarrow> bool" where
  "state_blocked ttl s state u \<longleftrightarrow> (\<exists>t. sc_claimedAt s state = Some t \<and> time_Sub u t < ttl)"

lemma time_Sub_mono: "t \<le> u \<Longrightarrow> time_Sub t a \<le> time_Sub u a"
  by (simp add: time_Sub_def)

lemma cleanup_blocked:
  assumes "t \<le> u" and "sc_ttl s = ttl"
  shows "state_blocked ttl (cleanupLocked t s) k u \<longleftrightarrow> state_blocked ttl s k u"
proof (cases "sc_claimedAt s k")
  case (Some a)
  have "time_Sub t a \<le> time_Sub u a" using assms(1) by (rule time_Sub_mono)
  with Some assms(2) show ?thesis by (simp add: state_blocked_def cleanupLocked_def)
qed (simp add: state_blocked_def cleanupLocked_def)

lemma ttl_id: "sc_ttl s = ttl \<Longrightarrow> s\<lparr>sc_ttl := ttl\<rparr> = (s :: stateClaims)"
  by (cases s) simp

lemma Claim_cases:
  assumes "sc_ttl s = ttl"
  obtains (refused) s1 where "Claim t k s = (False, s1)" "state_blocked ttl s k t"
      "\<And>k' u. t \<le> u \<Longrightarrow> state_blocked ttl s1 k' u \<longleftrightarrow> state_blocked ttl s k' u" "sc_ttl s1 = ttl"
  | (accepted) s1 where "Claim t k s = (True, s1\<lparr>sc_claimedAt := (sc_claimedAt s1)(k \<mapsto> t)\<rparr>)" "\<not> state_blocked ttl s k t"
      "\<And>k' u. t \<le> u \<Longrightarrow> state_blocked ttl s1 k' u \<longleftrightarrow> state_blocked ttl s k' u" "sc_ttl s1 = ttl"
proof -
  define s1 where "s1 = (if time_Sub t (sc_lastCleanup s) \<ge> sc_ttl s then cleanupLocked t s else s)"
  have keep: "state_blocked ttl s1 k' u \<longleftrightarrow> state_blocked ttl s k' u" if "t \<le> u" for k' u
    using that assms by (simp add: s1_def cleanup_blocked)
  have ttl: "sc_ttl s1 = ttl" using assms by (simp add: s1_def cleanupLocked_def)
  show thesis
  proof (cases "state_blocked ttl s1 k t")
    case True
    then have "Claim t k s = (False, s1)"
      using ttl by (auto simp: Claim_def s1_def [symmetric] state_blocked_def)
    with True keep ttl show thesis by (intro refused) auto
  next
    case False
    then have "Claim t k s = (True, s1\<lparr>sc_claimedAt := (sc_claimedAt s1)(k \<mapsto> t)\<rparr>)"
      using ttl by (auto simp: Claim_def s1_def [symmetric] state_blocked_def split: option.split)
    with False keep ttl show thesis by (intro accepted) auto
  qed
qed

interpretation stc: replay_guard "\<lambda>t k (_ :: unit) s. Claim t k (s\<lparr>sc_ttl := ttl\<rparr>)" "state_blocked ttl"
  "\<lambda>_ t u. time_Sub u t < ttl" for ttl
proof unfold_locales
  fix t k and s :: stateClaims and u k'
  let ?s = "s\<lparr>sc_ttl := ttl\<rparr>"
  have ttl: "sc_ttl ?s = ttl" by simp
  have blk: "state_blocked ttl ?s k u \<longleftrightarrow> state_blocked ttl s k u" for k u by (simp add: state_blocked_def)
  show "fst (Claim t k ?s) \<longleftrightarrow> \<not> state_blocked ttl s k t"
    using ttl by (cases rule: Claim_cases [where t = t and k = k]) (simp_all add: blk)
  show "state_blocked ttl (snd (Claim t k ?s)) k u" if "fst (Claim t k ?s)" "time_Sub u t < ttl"
    using ttl
  proof (cases rule: Claim_cases [where t = t and k = k])
    case (refused s1)
    with that show ?thesis by simp
  next
    case (accepted s1)
    with that show ?thesis by (simp add: state_blocked_def)
  qed
  show "state_blocked ttl (snd (Claim t k' ?s)) k u" if "state_blocked ttl s k u" "t \<le> u"
    using ttl
  proof (cases rule: Claim_cases [where t = t and k = k'])
    case (refused s1)
    with that blk show ?thesis by simp
  next
    case (accepted s1)
    then have "state_blocked ttl s1 k u" using that blk by simp
    then obtain a where a: "sc_claimedAt s1 k = Some a" "time_Sub u a < ttl" by (auto simp: state_blocked_def)
    have "\<not> state_blocked ttl s1 k' t" using accepted by simp
    then have "k' \<noteq> k" using a time_Sub_mono [OF that(2), of a] by (auto simp: state_blocked_def)
    with a accepted(1) show ?thesis by (simp add: state_blocked_def)
  qed
qed

lemma Claim_ttl: "sc_ttl (snd (Claim t k s)) = sc_ttl s"
  by (simp add: Claim_def Let_def cleanupLocked_def split: option.split)

text \<open>A sequence of claims, each with its time and its state.\<close>

fun claim_all :: "(time \<times> string) list \<Rightarrow> stateClaims \<Rightarrow> stateClaims" where
  "claim_all [] s = s"
| "claim_all ((t, k) # cs) s = claim_all cs (snd (Claim t k s))"

lemma claim_all_run:
  "sc_ttl s = ttl \<Longrightarrow> claim_all cs s =
     claims_run (\<lambda>t k (_ :: unit) s. Claim t k (s\<lparr>sc_ttl := ttl\<rparr>)) (map (\<lambda>(t, k). (t, k, ())) cs) s"
proof (induction cs arbitrary: s)
  case (Cons c cs)
  obtain t k where c: "c = (t, k)" by (cases c)
  with Cons show ?case by (simp add: Claim_ttl ttl_id [OF Cons.prems])
qed simp

text \<open>
  A state that was claimed is refused when it is claimed again within the time to live, whatever other states were
  claimed and cleaned up in between.
\<close>

theorem state_claimed_once:
  assumes "fst (Claim t k s)" and "t \<le> u" and "time_Sub u t < sc_ttl s" and "\<forall>c\<in>set cs. fst c \<le> u"
  shows "\<not> fst (Claim u k (claim_all cs (snd (Claim t k s))))"
proof -
  define ttl where "ttl = sc_ttl s"
  have "sc_ttl (claim_all cs x) = sc_ttl x" for x by (induction cs arbitrary: x) (auto simp: Claim_ttl)
  then have ttl: "sc_ttl (claim_all cs (snd (Claim t k s))) = ttl" by (simp add: Claim_ttl ttl_def)
  have s: "s\<lparr>sc_ttl := ttl\<rparr> = s" by (simp add: ttl_id ttl_def)
  have "\<not> fst (Claim u k ((claims_run (\<lambda>t k (_ :: unit) s. Claim t k (s\<lparr>sc_ttl := ttl\<rparr>)) (map (\<lambda>(t, k). (t, k, ())) cs)
      (snd (Claim t k (s\<lparr>sc_ttl := ttl\<rparr>))))\<lparr>sc_ttl := ttl\<rparr>))"
    using assms by (intro stc.no_second_claim) (auto simp: s ttl_def)
  with ttl show ?thesis using claim_all_run [of "snd (Claim t k s)" ttl cs] by (simp add: s ttl_id Claim_ttl ttl_def)
qed

theorem state_claimed_once_witness:
  "\<not> fst (Claim (3 * Second) ''x'' (claim_all [(2 * Second, ''y'')]
     (snd (Claim (1 * Second) ''x'' (newStateClaims 0 oidcStateClaimTTL)))))"
  by (rule state_claimed_once)
    (simp_all add: newStateClaims_def oidcStateClaimTTL_def Claim_def time_Sub_def Second_def Minute_def min_int64_def
      max_int64_def)

end
