(* ===== verification/Bff_Handlers.thy ===== *)
theory Bff_Handlers
  imports Bff_Config Bff_Stores Bff_StateClaims
begin

text \<open>
  The authentication handlers of the backend-for-frontend (\<^verbatim>\<open>bff/internal/handler/auth.go\<close>, \<^verbatim>\<open>oidc.go\<close> and
  \<^verbatim>\<open>oidc_runtime.go\<close>): starting a login, the callback that turns a code into a session, logout, the user's
  claims and picture, and the discovery of the identity provider with its retries.
\<close>

section \<open>State and dependencies\<close>

record 'r bff =
  bf_store :: "'r store"
  bf_claims :: stateClaims

record 'r Dependencies =
  dp_Sessions :: Manager
  dp_AuthCodeURL :: "string \<Rightarrow> string \<Rightarrow> string"
  dp_ExchangeCode :: "'r bworld \<Rightarrow> string \<Rightarrow> string \<Rightarrow> oauthToken option"
  dp_VerifyIDToken :: "('r bworld \<Rightarrow> string \<Rightarrow> UserClaims option) option"
  dp_RefreshTokens :: "('r bworld \<Rightarrow> string \<Rightarrow> oauthToken option) option"
  dp_EndSessionEndpoint :: string
  dp_ContentSecurityPolicy :: string
  dp_InsecureCookies :: bool
  dp_APIPathPrefix :: string
  dp_AuthBypassPaths :: "string list"

text \<open>\<^verbatim>\<open>New\<close>: the defaults it fills in, and the state a handler starts with.\<close>

definition New_deps :: "'r Dependencies \<Rightarrow> 'r Dependencies" where
  "New_deps deps = (if dp_APIPathPrefix deps = [] then deps\<lparr>dp_APIPathPrefix := ''/api''\<rparr> else deps)"

definition New_state :: "time \<Rightarrow> 'r store \<Rightarrow> 'r bff" where
  "New_state now st = \<lparr>bf_store = st, bf_claims = newStateClaims now oidcStateClaimTTL\<rparr>"

definition stateCookieName :: string where
  "stateCookieName = ''oidc_state''"

definition verifierCookieName :: string where
  "verifierCookieName = ''oidc_verifier''"

definition csrfCookieName :: string where
  "csrfCookieName = ''csrf_token''"

lemmas cookieName_defs = stateCookieName_def verifierCookieName_def csrfCookieName_def

definition set_cookie :: "'r Dependencies \<Rightarrow> string \<Rightarrow> string \<Rightarrow> bool \<Rightarrow> int \<Rightarrow> cookie" where
  "set_cookie d name v httpOnly maxAge = \<lparr>ck_Name = name, ck_Value = v, ck_HttpOnly = httpOnly,
     ck_Secure = (\<not> dp_InsecureCookies d), ck_MaxAge = maxAge\<rparr>"

definition writeError :: "nat \<Rightarrow> string \<Rightarrow> bresponse" where
  "writeError st msg = base_bresponse\<lparr>bs_Status := st, bs_Header := [(''Content-Type'', ''application/json'')],
     bs_Body := BJSON [(''error'', msg)]\<rparr>"

section \<open>Login and callback\<close>

definition Login :: "'r Dependencies \<Rightarrow> 'r bworld \<Rightarrow> 'r bff \<Rightarrow> brequest \<Rightarrow> bresponse \<times> 'r bff" where
  "Login d w b r =
     (let state = bw_state w; verifier = bw_verifier w
      in (with_cookies [set_cookie d stateCookieName state True 300, set_cookie d verifierCookieName verifier True 300]
            (seeOther (dp_AuthCodeURL d state verifier)), b))"

text \<open>The claims and the raw ID token of a token response; \<open>None\<close> where it is refused.\<close>

definition readClaims :: "'r Dependencies \<Rightarrow> 'r bworld \<Rightarrow> oauthToken \<Rightarrow> (UserClaims \<times> string) option" where
  "readClaims d w tokenSet =
     (let raw = (case ot_IDToken tokenSet of Some v \<Rightarrow> v | None \<Rightarrow> [])
      in case dp_VerifyIDToken d of
        Some verify \<Rightarrow> map_option (\<lambda>claims. (claims, raw)) (verify w raw)
      | None \<Rightarrow> None)"

definition callback_session :: "'r bworld \<Rightarrow> oauthToken \<Rightarrow> string \<Rightarrow> Session" where
  "callback_session w tokenSet rawIDToken =
     \<lparr>ss_AccessToken = ot_AccessToken tokenSet, ss_RefreshToken = ot_RefreshToken tokenSet, ss_IDToken = rawIDToken,
      ss_CSRFToken = bw_csrf w, ss_AccessTokenExpiry = ot_Expiry tokenSet\<rparr>"

text \<open>What the callback has to bring: the state of its cookie, a verifier and a code.\<close>

definition callback_params :: "brequest \<Rightarrow> (string \<times> string \<times> string) option" where
  "callback_params r =
     (case br_Cookie r stateCookieName of
        None \<Rightarrow> None
      | Some stateCookie \<Rightarrow>
          if values_Get (br_Query r) ''state'' = [] \<or> stateCookie \<noteq> values_Get (br_Query r) ''state'' then None
          else case br_Cookie r verifierCookieName of
            None \<Rightarrow> None
          | Some verifierCookie \<Rightarrow>
              if verifierCookie = [] then None
              else let code = values_Get (br_Query r) ''code''
                   in if code = [] then None else Some (stateCookie, verifierCookie, code))"

definition Callback :: "'r Dependencies \<Rightarrow> 'r bworld \<Rightarrow> 'r bff \<Rightarrow> brequest \<Rightarrow> bresponse \<times> 'r bff" where
  "Callback d w b r =
     (let unauthorized = writeError 401 ''unauthorized''
      in case callback_params r of
        None \<Rightarrow> (unauthorized, b)
      | Some (state, verifier, code) \<Rightarrow>
          (case Claim (bw_now w) state (bf_claims b) of
             (False, claims) \<Rightarrow> (unauthorized, b\<lparr>bf_claims := claims\<rparr>)
           | (True, claims) \<Rightarrow>
               let b1 = b\<lparr>bf_claims := claims\<rparr>
               in case dp_ExchangeCode d w code verifier of
                 None \<Rightarrow> (unauthorized, b1)
               | Some tokenSet \<Rightarrow>
                   (case readClaims d w tokenSet of
                      None \<Rightarrow> (unauthorized, b1)
                    | Some (_, rawIDToken) \<Rightarrow>
                        (case Manager_Create w (dp_Sessions d) (callback_session w tokenSet rawIDToken) (bf_store b1) of
                           (Inl err, st) \<Rightarrow> (writeError 500 ''internal server error'', b1\<lparr>bf_store := st\<rparr>)
                         | (Inr cookies, st) \<Rightarrow>
                             (with_cookies (cookies @
                                [set_cookie d csrfCookieName (bw_csrf w) False (24 * Hour div Second),
                                 set_cookie d stateCookieName [] True (- 1),
                                 set_cookie d verifierCookieName [] True (- 1)])
                                (seeOther ''/''), b1\<lparr>bf_store := st\<rparr>)))))"

section \<open>Logout\<close>

definition appendIDTokenHint :: "string \<Rightarrow> string \<Rightarrow> string" where
  "appendIDTokenHint baseURL idTokenHint =
     (case url_Parse baseURL of
        None \<Rightarrow> baseURL
      | Some u \<Rightarrow> url_String (u\<lparr>u_RawQuery :=
          values_Encode (values_Set (ParseQuery (u_RawQuery u)) ''id_token_hint'' idTokenHint)\<rparr>))"

definition BuildEndSessionURL :: "string \<Rightarrow> string \<Rightarrow> string \<Rightarrow> string" where
  "BuildEndSessionURL baseURL postLogoutRedirectURI idTokenHint =
     (if baseURL = [] then baseURL
      else case url_Parse baseURL of
        None \<Rightarrow> baseURL
      | Some u \<Rightarrow>
          let q0 = ParseQuery (u_RawQuery u);
              q1 = (if postLogoutRedirectURI \<noteq> [] then values_Set q0 ''post_logout_redirect_uri'' postLogoutRedirectURI else q0);
              q2 = (if idTokenHint \<noteq> [] then values_Set q1 ''id_token_hint'' idTokenHint else q1)
          in url_String (u\<lparr>u_RawQuery := values_Encode q2\<rparr>))"

definition logout_url :: "'r Dependencies \<Rightarrow> Session option \<Rightarrow> string" where
  "logout_url d current =
     (if dp_EndSessionEndpoint d = [] then ''/login''
      else case current of
        Some s \<Rightarrow> if ss_IDToken s \<noteq> [] then appendIDTokenHint (dp_EndSessionEndpoint d) (ss_IDToken s)
                  else dp_EndSessionEndpoint d
      | None \<Rightarrow> dp_EndSessionEndpoint d)"

definition Logout :: "'r Dependencies \<Rightarrow> 'r bworld \<Rightarrow> 'r bff \<Rightarrow> brequest \<Rightarrow> bresponse \<times> 'r bff" where
  "Logout d w b r =
     (let (res, st0) = Manager_Get w (dp_Sessions d) r (bf_store b);
          current = (case res of Inl err \<Rightarrow> None | Inr found \<Rightarrow> found)
      in case Manager_Destroy w (dp_Sessions d) r st0 of
        (Inl err, st) \<Rightarrow> (writeError 500 ''internal server error'', b\<lparr>bf_store := st\<rparr>)
      | (Inr cookies, st) \<Rightarrow>
          (with_cookies (cookies @ [set_cookie d csrfCookieName [] False (- 1)])
             (base_bresponse\<lparr>bs_Header := [(''Content-Type'', ''application/json'')],
                bs_Body := BJSON [(''redirectTo'', logout_url d current)]\<rparr>), b\<lparr>bf_store := st\<rparr>))"

section \<open>The user\<close>

definition Me :: "'r Dependencies \<Rightarrow> 'r bworld \<Rightarrow> 'r bff \<Rightarrow> brequest \<Rightarrow> bresponse \<times> 'r bff" where
  "Me d w b r =
     (let (res, st) = Manager_Get w (dp_Sessions d) r (bf_store b); b1 = b\<lparr>bf_store := st\<rparr>
      in case res of
        Inl err \<Rightarrow> (writeError 500 ''internal server error'', b1)
      | Inr None \<Rightarrow> (writeError 401 ''unauthorized'', b1)
      | Inr (Some current) \<Rightarrow>
          (case ParseIDTokenClaims w (ss_IDToken current) of
             None \<Rightarrow> (writeError 500 ''internal server error'', b1)
           | Some claims \<Rightarrow>
               (base_bresponse\<lparr>bs_Header := [(''Content-Type'', ''application/json'')],
                  bs_Body := BClaims (if uc_Picture claims \<noteq> [] then claims\<lparr>uc_Picture := ''/auth/avatar''\<rparr> else claims)\<rparr>,
                b1)))"

text \<open>The request for the picture, when its URL is an absolute http or https URL.\<close>

definition avatar_request :: "Session \<Rightarrow> string \<Rightarrow> outgoing option" where
  "avatar_request current picture =
     (case url_Parse picture of
        None \<Rightarrow> None
      | Some u \<Rightarrow>
          if u_Scheme u = [] \<or> u_Host u = [] \<or> u_Scheme u \<noteq> ''http'' \<and> u_Scheme u \<noteq> ''https'' then None
          else if url_Parse (url_String u) = None then None
          else Some \<lparr>og_Method = ''GET'', og_URL = url_String u, og_Host = u_Host u,
            og_Header = (if ss_AccessToken current \<noteq> [] then [(''Authorization'', [''Bearer '' @ ss_AccessToken current])]
                         else [])\<rparr>)"

definition avatar_response :: "upstream_reply \<Rightarrow> bresponse" where
  "avatar_response reply =
     (if up_Status reply \<noteq> 200 then writeError 502 ''bad gateway''
      else base_bresponse\<lparr>bs_Header :=
          (let ct = values_Get (up_Header reply) ''Content-Type''; cc = values_Get (up_Header reply) ''Cache-Control''
           in (if ct \<noteq> [] then [(''Content-Type'', ct)] else []) @ (if cc \<noteq> [] then [(''Cache-Control'', cc)] else [])),
        bs_Body := BBytes (up_Body reply)\<rparr>)"

definition Avatar :: "'r Dependencies \<Rightarrow> 'r bworld \<Rightarrow> 'r bff \<Rightarrow> brequest \<Rightarrow> bresponse \<times> 'r bff" where
  "Avatar d w b r =
     (let (res, st) = Manager_Get w (dp_Sessions d) r (bf_store b); b1 = b\<lparr>bf_store := st\<rparr>
      in case res of
        Inl err \<Rightarrow> (writeError 500 ''internal server error'', b1)
      | Inr None \<Rightarrow> (writeError 401 ''unauthorized'', b1)
      | Inr (Some current) \<Rightarrow>
          let picture = (case ParseIDTokenClaims w (ss_IDToken current) of Some c \<Rightarrow> uc_Picture c | None \<Rightarrow> [])
          in if picture = [] then (writeError 404 ''not found'', b1)
             else case avatar_request current picture of
               None \<Rightarrow> (writeError 502 ''bad gateway'', b1)
             | Some out \<Rightarrow>
                 (case bw_upstream w out of
                    UpstreamFailed \<Rightarrow> (writeError 502 ''bad gateway'', b1)
                  | Upstream reply \<Rightarrow> (avatar_response reply, b1)
                  | UpstreamAborted reply \<Rightarrow> (avatar_response reply, b1)))"

section \<open>The OAuth client\<close>

text \<open>
  \<^verbatim>\<open>OAuthClient\<close> around an optional configuration; building the authorization URL is the OAuth library's,
  given as \<open>authCodeURL\<close>, which receives the S256 challenge of the verifier.
\<close>

definition S256Challenge :: "string \<Rightarrow> string" where
  "S256Challenge verifier = b64_encode (sha256 verifier)"

definition OAuthClient_AuthCodeURL ::
  "(oauthConfig \<Rightarrow> string \<Rightarrow> string \<Rightarrow> string) \<Rightarrow> oauthConfig option \<Rightarrow> string \<Rightarrow> string \<Rightarrow> string" where
  "OAuthClient_AuthCodeURL authCodeURL cfg state verifier =
     (case cfg of None \<Rightarrow> ''/login'' | Some c \<Rightarrow> authCodeURL c state (S256Challenge verifier))"

definition OAuthClient_ExchangeCode :: "oauthConfig option \<Rightarrow> 'r bworld \<Rightarrow> string \<Rightarrow> string \<Rightarrow> oauthToken option" where
  "OAuthClient_ExchangeCode cfg w code verifier = (case cfg of None \<Rightarrow> None | Some c \<Rightarrow> bw_exchange w c code verifier)"

definition OAuthClient_RefreshTokens :: "oauthConfig option \<Rightarrow> 'r bworld \<Rightarrow> string \<Rightarrow> oauthToken option" where
  "OAuthClient_RefreshTokens cfg w refreshToken = (case cfg of None \<Rightarrow> None | Some c \<Rightarrow> bw_refresh w c refreshToken)"

section \<open>Discovery\<close>

text \<open>A discovered provider: its endpoints, and the end-session endpoint if its metadata decodes.\<close>

record provider =
  pr_AuthURL :: string
  pr_TokenURL :: string
  pr_EndSession :: "string option"

record 'r OIDCDependencies =
  od_AuthCodeURL :: "string \<Rightarrow> string \<Rightarrow> string"
  od_ExchangeCode :: "'r bworld \<Rightarrow> string \<Rightarrow> string \<Rightarrow> oauthToken option"
  od_VerifyIDToken :: "'r bworld \<Rightarrow> string \<Rightarrow> UserClaims option"
  od_RefreshTokens :: "'r bworld \<Rightarrow> string \<Rightarrow> oauthToken option"
  od_EndSessionEndpoint :: string

definition oauth_config :: "BFFConfig \<Rightarrow> provider \<Rightarrow> oauthConfig" where
  "oauth_config cfg p = \<lparr>oc_ClientID = OIDCClientID cfg, oc_ClientSecret = OIDCClientSecret cfg, oc_AuthURL = pr_AuthURL p,
     oc_TokenURL = pr_TokenURL p, oc_RedirectURL = BFFExternalURL cfg @ ''/auth/callback'', oc_Scopes = OIDCScopes cfg\<rparr>"

definition BuildOIDCDependencies ::
  "(oauthConfig \<Rightarrow> string \<Rightarrow> string \<Rightarrow> string) \<Rightarrow> BFFConfig \<Rightarrow> provider option \<Rightarrow> 'r OIDCDependencies option" where
  "BuildOIDCDependencies authCodeURL cfg discovered =
     (case discovered of
        None \<Rightarrow> None
      | Some p \<Rightarrow>
          let oauthConfig = oauth_config cfg p;
              endSession = (case pr_EndSession p of Some u \<Rightarrow> u | None \<Rightarrow> [])
          in Some \<lparr>od_AuthCodeURL = OAuthClient_AuthCodeURL authCodeURL (Some oauthConfig),
               od_ExchangeCode = OAuthClient_ExchangeCode (Some oauthConfig),
               od_VerifyIDToken = (\<lambda>w raw. bw_verifyIDToken w (OIDCClientID cfg) raw),
               od_RefreshTokens = OAuthClient_RefreshTokens (Some oauthConfig),
               od_EndSessionEndpoint = BuildEndSessionURL endSession (BFFExternalURL cfg @ ''/login'') []\<rparr>)"

definition maxAttempts :: nat where
  "maxAttempts = 30"

definition retryDelay :: duration where
  "retryDelay = 2 * Second"

text \<open>
  The retry loop; \<open>discover n\<close> is what discovery finds at attempt \<open>n\<close>. The second component is the
  time slept.
\<close>

function retry_loop ::
  "(nat \<Rightarrow> 'a option) \<Rightarrow> nat \<Rightarrow> duration \<Rightarrow> 'a option \<times> duration" where
  "retry_loop build attempt slept =
     (if attempt > maxAttempts then (None, slept)
      else case build attempt of
        Some deps \<Rightarrow> (Some deps, slept)
      | None \<Rightarrow> retry_loop build (attempt + 1) (if attempt < maxAttempts then slept + retryDelay else slept))"
  by pat_completeness auto
termination by (relation "measure (\<lambda>(_, attempt, _). Suc maxAttempts - attempt)") auto

declare retry_loop.simps [simp del]

definition BuildOIDCDependenciesWithRetry ::
  "(oauthConfig \<Rightarrow> string \<Rightarrow> string \<Rightarrow> string) \<Rightarrow> BFFConfig \<Rightarrow> (nat \<Rightarrow> provider option)
     \<Rightarrow> 'r OIDCDependencies option \<times> duration" where
  "BuildOIDCDependenciesWithRetry authCodeURL cfg discover =
     retry_loop (\<lambda>attempt. BuildOIDCDependencies authCodeURL cfg (discover attempt)) 1 0"

end
