(* ===== verification/Bff_Middleware.thy ===== *)
theory Bff_Middleware
  imports Bff_Handlers
begin

text \<open>
  The middleware of the backend-for-frontend (\<^verbatim>\<open>bff/internal/handler/middleware.go\<close>, \<^verbatim>\<open>recovery.go\<close>): security headers,
  the session guard, the CSRF check, and the forwarding of the access token with its refresh. A handler answers or panics;
  a panic is tagged with whether it is \<^verbatim>\<open>http.ErrAbortHandler\<close>.
\<close>

datatype outcome = Responded bresponse | Panicked bool

type_synonym 'r bhandler = "'r bworld \<Rightarrow> 'r bff \<Rightarrow> brequest \<Rightarrow> outcome \<times> 'r bff"

primrec on_response :: "(bresponse \<Rightarrow> bresponse) \<Rightarrow> outcome \<Rightarrow> outcome" where
  "on_response f (Responded resp) = Responded (f resp)"
| "on_response f (Panicked abort) = Panicked abort"

definition answering :: "('r bworld \<Rightarrow> 'r bff \<Rightarrow> brequest \<Rightarrow> bresponse \<times> 'r bff) \<Rightarrow> 'r bhandler" where
  "answering h w b r = map_prod Responded id (h w b r)"

section \<open>Security headers\<close>

definition security_headers :: "'r Dependencies \<Rightarrow> (string \<times> string) list" where
  "security_headers d =
     [(''Strict-Transport-Security'', ''max-age=63072000; includeSubDomains''),
      (''X-Content-Type-Options'', ''nosniff''),
      (''X-Frame-Options'', ''DENY''),
      (''Content-Security-Policy'', TrimSpace (dp_ContentSecurityPolicy d)),
      (''Referrer-Policy'', ''strict-origin-when-cross-origin'')]"

definition SecurityHeaders :: "'r Dependencies \<Rightarrow> 'r bhandler \<Rightarrow> 'r bhandler" where
  "SecurityHeaders d next_handler w b r =
     map_prod (on_response (\<lambda>resp. resp\<lparr>bs_Header := security_headers d @ bs_Header resp\<rparr>)) id (next_handler w b r)"

section \<open>The session guard\<close>

definition api_path :: "'r Dependencies \<Rightarrow> string \<Rightarrow> bool" where
  "api_path d path \<longleftrightarrow> HasPrefix path (dp_APIPathPrefix d @ ''/'') \<or> path = dp_APIPathPrefix d"

definition AuthGuard :: "'r Dependencies \<Rightarrow> 'r bhandler \<Rightarrow> 'r bhandler" where
  "AuthGuard d next_handler w b r =
     (if api_path d (br_Path r) then next_handler w b r
      else if list_ex (\<lambda>pfx. HasPrefix (br_Path r) pfx) (dp_AuthBypassPaths d) then next_handler w b r
      else
        let (res, st) = Manager_Get w (dp_Sessions d) r (bf_store b); b1 = b\<lparr>bf_store := st\<rparr>
        in case res of
          Inl err \<Rightarrow> (Responded (writeJSONError 500 ''internal server error''), b1)
        | Inr None \<Rightarrow> (Responded (seeOther ''/login''), b1)
        | Inr (Some _) \<Rightarrow> next_handler w b1 r)"

section \<open>Forwarding the access token\<close>

definition tokenRefreshThreshold :: duration where
  "tokenRefreshThreshold = 60 * Second"

definition updated_session :: "Session \<Rightarrow> oauthToken \<Rightarrow> Session" where
  "updated_session current newToken =
     (let u0 = current\<lparr>ss_AccessToken := ot_AccessToken newToken, ss_AccessTokenExpiry := ot_Expiry newToken\<rparr>;
          u1 = (if ot_RefreshToken newToken \<noteq> [] then u0\<lparr>ss_RefreshToken := ot_RefreshToken newToken\<rparr> else u0)
      in case ot_IDToken newToken of
        Some rawID \<Rightarrow> if rawID \<noteq> [] then u1\<lparr>ss_IDToken := rawID\<rparr> else u1
      | None \<Rightarrow> u1)"

text \<open>The refreshed session with the cookies of its rotation, \<open>None\<close> where the refresh or the rotation fails.\<close>

definition refreshAccessToken ::
  "'r Dependencies \<Rightarrow> ('r bworld \<Rightarrow> string \<Rightarrow> oauthToken option) \<Rightarrow> 'r bworld \<Rightarrow> brequest \<Rightarrow> Session \<Rightarrow> 'r store
     \<Rightarrow> (Session \<times> cookie list) option \<times> 'r store" where
  "refreshAccessToken d refreshTokens w r current st =
     (case refreshTokens w (ss_RefreshToken current) of
        None \<Rightarrow> (None, st)
      | Some newToken \<Rightarrow>
          let updated = updated_session current newToken
          in case Manager_Rotate w (dp_Sessions d) r updated st of
            (Inl err, st') \<Rightarrow> (None, st')
          | (Inr cookies, st') \<Rightarrow> (Some (updated, cookies), st'))"

definition is_bearer :: "brequest \<Rightarrow> bool" where
  "is_bearer r \<longleftrightarrow> HasPrefix (TrimSpace (header_Get r ''Authorization'')) ''Bearer ''"

text \<open>
  What becomes of a found session before its request is forwarded: the session to use with the cookies set so far, or \<open>None\<close>
  where the expired session is given up.
\<close>

definition refresh_step ::
  "'r Dependencies \<Rightarrow> 'r bworld \<Rightarrow> brequest \<Rightarrow> Session \<Rightarrow> 'r store \<Rightarrow> (Session option \<times> cookie list) \<times> 'r store" where
  "refresh_step d w r current st =
     (case (dp_RefreshTokens d, ss_AccessTokenExpiry current) of
        (Some refreshTokens, Some expiry) \<Rightarrow>
          if ss_RefreshToken current = [] then ((Some current, []), st)
          else
            let tokenExpired = time_After (bw_now w) expiry;
                tokenNearExpiry = time_After (time_Add (bw_now w) tokenRefreshThreshold) expiry
            in if \<not> (tokenExpired \<or> tokenNearExpiry) then ((Some current, []), st)
               else case refreshAccessToken d refreshTokens w r current st of
                 (Some (refreshed, cookies), st') \<Rightarrow> ((Some refreshed, cookies), st')
               | (None, st') \<Rightarrow>
                   if tokenExpired then
                     (case Manager_Destroy w (dp_Sessions d) r st' of
                        (Inl err, st'') \<Rightarrow> ((None, []), st'')
                      | (Inr cookies, st'') \<Rightarrow> ((None, cookies), st''))
                   else ((Some current, []), st')
      | _ \<Rightarrow> ((Some current, []), st))"

definition TokenForwarder :: "'r Dependencies \<Rightarrow> 'r bhandler \<Rightarrow> 'r bhandler" where
  "TokenForwarder d next_handler w b r =
     (if \<not> api_path d (br_Path r) then next_handler w b r
      else if is_bearer r then next_handler w b r
      else
        let (res, st) = Manager_Get w (dp_Sessions d) r (bf_store b); b1 = b\<lparr>bf_store := st\<rparr>
        in case res of
          Inl err \<Rightarrow> (Responded (writeJSONError 500 ''internal server error''), b1)
        | Inr None \<Rightarrow> (Responded (writeJSONError 401 ''unauthorized''), b1)
        | Inr (Some current) \<Rightarrow>
            if TrimSpace (ss_AccessToken current) = [] then (Responded (writeJSONError 401 ''unauthorized''), b1)
            else case refresh_step d w r current st of
              ((None, cookies), st') \<Rightarrow>
                (Responded (with_cookies cookies (writeJSONError 401 ''session expired'')), b1\<lparr>bf_store := st'\<rparr>)
            | ((Some session, cookies), st') \<Rightarrow>
                map_prod (on_response (with_cookies cookies)) id
                  (next_handler w (b1\<lparr>bf_store := st'\<rparr>)
                     (header_Set r ''Authorization'' (''Bearer '' @ ss_AccessToken session))))"

section \<open>The CSRF check\<close>

definition CSRFMiddleware :: "'r Dependencies \<Rightarrow> 'r bhandler \<Rightarrow> 'r bhandler" where
  "CSRFMiddleware d next_handler w b r =
     (if br_Method r = ''GET'' \<or> br_Method r = ''HEAD'' \<or> br_Method r = ''OPTIONS'' then next_handler w b r
      else if \<not> api_path d (br_Path r) \<and> \<not> HasPrefix (br_Path r) ''/auth/logout'' then next_handler w b r
      else
        let (res, st) = Manager_Get w (dp_Sessions d) r (bf_store b); b1 = b\<lparr>bf_store := st\<rparr>
        in case res of
          Inl err \<Rightarrow> (Responded (writeJSONError 500 ''internal server error''), b1)
        | Inr None \<Rightarrow> (Responded (writeJSONError 401 ''unauthorized''), b1)
        | Inr (Some current) \<Rightarrow>
            let headerToken = TrimSpace (header_Get r ''X-CSRF-Token'')
            in if headerToken = [] \<or> headerToken \<noteq> ss_CSRFToken current
               then (Responded (writeJSONError 403 ''forbidden''), b1)
               else next_handler w b1 r)"

section \<open>Recovery\<close>

definition Recovery :: "'r bhandler \<Rightarrow> 'r bhandler" where
  "Recovery next_handler w b r =
     (case next_handler w b r of
        (Responded resp, b') \<Rightarrow> (Responded resp, b')
      | (Panicked abort, b') \<Rightarrow>
          if abort then (Panicked abort, b')
          else (Responded (writeJSONError 500 ''internal server error''), b'))"

section \<open>The stack\<close>

definition BuildMiddlewareStack :: "'r Dependencies \<Rightarrow> 'r bhandler \<Rightarrow> 'r bhandler" where
  "BuildMiddlewareStack d next_handler =
     SecurityHeaders d (AuthGuard d (CSRFMiddleware d (TokenForwarder d (Recovery next_handler))))"

end
