(* ===== verification/Go_Path.thy ===== *)
theory Go_Path
  imports Go_URL
begin

text \<open>
  Go's \<^verbatim>\<open>path\<close> package on slash-separated paths, and how \<^verbatim>\<open>net/http/httputil\<close> joins the path of a reverse proxy's target
  with that of a request. A cleaned rooted path is a list of proper segments, and joining keeps a path below
  its first element as long as the second has no \<^verbatim>\<open>..\<close> segment.
\<close>

section \<open>Clean and Join\<close>

text \<open>The segments kept so far, the last one first.\<close>

fun clean_segs :: "bool \<Rightarrow> string list \<Rightarrow> string list \<Rightarrow> string list" where
  "clean_segs rooted out [] = rev out"
| "clean_segs rooted out (seg # segs) =
     (if seg = [] \<or> seg = ''.'' then clean_segs rooted out segs
      else if seg = ''..'' then
        (if out \<noteq> [] \<and> hd out \<noteq> ''..'' then clean_segs rooted (tl out) segs
         else if rooted then clean_segs rooted out segs
         else clean_segs rooted (seg # out) segs)
      else clean_segs rooted (seg # out) segs)"

definition path_Clean :: "string \<Rightarrow> string" where
  "path_Clean p =
     (let rooted = HasPrefix p ''/'';
          q = (if rooted then ''/'' else []) @ Join (clean_segs rooted [] (Split p (CHR ''/''))) ''/''
      in if q = [] then ''.'' else q)"

text \<open>\<^verbatim>\<open>path.Join\<close> of two elements.\<close>

definition path_Join :: "string \<Rightarrow> string \<Rightarrow> string" where
  "path_Join a b =
     (if a = [] \<and> b = [] then []
      else path_Clean (if a = [] then b else a @ ''/'' @ b))"

text \<open>The cleaning a \<^verbatim>\<open>ServeMux\<close> does: a trailing slash stays.\<close>

definition mux_cleanPath :: "string \<Rightarrow> string" where
  "mux_cleanPath p0 =
     (if p0 = [] then ''/''
      else let p = (if HasPrefix p0 ''/'' then p0 else ''/'' @ p0); np = path_Clean p
           in if last p = CHR ''/'' \<and> np \<noteq> ''/'' then np @ ''/'' else np)"

section \<open>Joining the target and the request\<close>

definition singleJoiningSlash :: "string \<Rightarrow> string \<Rightarrow> string" where
  "singleJoiningSlash a b =
     (if HasSuffix a ''/'' \<and> HasPrefix b ''/'' then a @ tl b
      else if \<not> HasSuffix a ''/'' \<and> \<not> HasPrefix b ''/'' then a @ ''/'' @ b
      else a @ b)"

definition joinURLPath :: "url \<Rightarrow> url \<Rightarrow> string \<times> string" where
  "joinURLPath a b =
     (if u_RawPath a = [] \<and> u_RawPath b = [] then (singleJoiningSlash (u_Path a) (u_Path b), [])
      else
        let apath = EscapedPath a; bpath = EscapedPath b; aslash = HasSuffix apath ''/''; bslash = HasPrefix bpath ''/''
        in if aslash \<and> bslash then (u_Path a @ tl (u_Path b), apath @ tl bpath)
           else if \<not> aslash \<and> \<not> bslash then (u_Path a @ ''/'' @ u_Path b, apath @ ''/'' @ bpath)
           else (u_Path a @ u_Path b, apath @ bpath))"

section \<open>Confinement\<close>

definition proper_seg :: "string \<Rightarrow> bool" where
  "proper_seg seg \<longleftrightarrow> seg \<noteq> [] \<and> seg \<noteq> ''.'' \<and> seg \<noteq> ''..'' \<and> CHR ''/'' \<notin> set seg"

text \<open>The segments of a path that are not empty and not a single dot.\<close>

definition kept_segs :: "string \<Rightarrow> string list" where
  "kept_segs p = filter (\<lambda>seg. seg \<noteq> [] \<and> seg \<noteq> ''.'') (Split p (CHR ''/''))"

lemma clean_segs_plain:
  "''..'' \<notin> set segs \<Longrightarrow> clean_segs r out segs = rev out @ filter (\<lambda>seg. seg \<noteq> [] \<and> seg \<noteq> ''.'') segs"
  by (induction segs arbitrary: out) auto

lemma Split_append_slash: "Split (a @ sep # b) sep = Split a sep @ Split b sep"
  by (induction a) (auto split: list.split)

lemma Split_no_sep_elem: "seg \<in> set (Split s sep) \<Longrightarrow> sep \<notin> set seg"
  by (induction s arbitrary: seg) (auto split: list.splits if_splits)

lemma proper_kept: "''..'' \<notin> set (Split p (CHR ''/'')) \<Longrightarrow> seg \<in> set (kept_segs p) \<Longrightarrow> proper_seg seg"
  by (auto simp: kept_segs_def proper_seg_def dest: Split_no_sep_elem)

text \<open>A rooted path without \<^verbatim>\<open>..\<close> segments is cleaned to its proper segments.\<close>

lemma path_Clean_rooted:
  "HasPrefix p ''/'' \<Longrightarrow> ''..'' \<notin> set (Split p (CHR ''/'')) \<Longrightarrow> path_Clean p = ''/'' @ Join (kept_segs p) ''/''"
  by (simp add: path_Clean_def clean_segs_plain kept_segs_def)

lemma path_Join_confined:
  assumes "HasPrefix a ''/''" and "''..'' \<notin> set (Split a (CHR ''/''))" and "''..'' \<notin> set (Split b (CHR ''/''))"
  shows "path_Join a b = ''/'' @ Join (kept_segs a @ kept_segs b) ''/''"
proof -
  have ne: "a \<noteq> []" and p: "HasPrefix (a @ ''/'' @ b) ''/''" using assms(1) by (auto simp: HasPrefix_iff)
  have s: "Split (a @ ''/'' @ b) (CHR ''/'') = Split a (CHR ''/'') @ Split b (CHR ''/'')"
    by (simp add: Split_append_slash)
  with assms have "''..'' \<notin> set (Split (a @ ''/'' @ b) (CHR ''/''))" by simp
  from path_Clean_rooted [OF p this] s ne show ?thesis by (simp add: path_Join_def kept_segs_def)
qed

end
