(* ===== verification/Bff_Proxy.thy ===== *)
theory Bff_Proxy
  imports Bff_Middleware Go_Path
begin

text \<open>
  The reverse proxies and the router of the backend-for-frontend (\<^verbatim>\<open>bff/internal/handler/proxy.go\<close>, \<^verbatim>\<open>router.go\<close>,
  \<^verbatim>\<open>server.go\<close>) and its start-up (\<^verbatim>\<open>bff/cmd/bff/main.go\<close>). A proxied request is described by its URL,
  host and header as the code hands it to \<^verbatim>\<open>httputil.ReverseProxy\<close>; dropping hop-by-hop headers is the library's.
\<close>

section \<open>Proxies\<close>

datatype proxyError = BaseURLMissing | BaseURLInvalid | BaseURLIncomplete

definition proxy_target :: "string \<Rightarrow> (proxyError, url) result" where
  "proxy_target baseURL =
     (if TrimSpace baseURL = [] then Inl BaseURLMissing
      else case url_Parse baseURL of
        None \<Rightarrow> Inl BaseURLInvalid
      | Some target \<Rightarrow> if u_Scheme target = [] \<or> u_Host target = [] then Inl BaseURLIncomplete else Inr target)"

text \<open>A request's URL as the server parsed it, and the part of it \<^verbatim>\<open>NewSingleHostReverseProxy\<close> rewrites.\<close>

definition request_url :: "brequest \<Rightarrow> url" where
  "request_url r = zero_url\<lparr>u_Path := br_Path r, u_RawPath := br_RawPath r, u_RawQuery := br_RawQuery r\<rparr>"

definition rewriteRequestURL :: "url \<Rightarrow> url \<Rightarrow> url" where
  "rewriteRequestURL target u =
     (let (p, rp) = joinURLPath target u
      in u\<lparr>u_Scheme := u_Scheme target, u_Host := u_Host target, u_Path := p, u_RawPath := rp,
           u_RawQuery := (if u_RawQuery target = [] \<or> u_RawQuery u = [] then u_RawQuery target @ u_RawQuery u
                          else u_RawQuery target @ ''&'' @ u_RawQuery u)\<rparr>)"

record APIProxy =
  ap_target :: url
  ap_sessions :: Manager
  ap_pathPrefix :: string
  ap_upstreamPathPrefix :: string

definition NewAPIProxy :: "Manager \<Rightarrow> string \<Rightarrow> string \<Rightarrow> string \<Rightarrow> (proxyError, APIProxy) result" where
  "NewAPIProxy sessions apiBaseURL apiPathPrefix upstreamPathPrefix =
     (case proxy_target apiBaseURL of
        Inl err \<Rightarrow> Inl err
      | Inr target \<Rightarrow> Inr \<lparr>ap_target = target, ap_sessions = sessions, ap_pathPrefix = apiPathPrefix,
          ap_upstreamPathPrefix = upstreamPathPrefix\<rparr>)"

definition director :: "APIProxy \<Rightarrow> url \<Rightarrow> url" where
  "director p u0 =
     (let u = rewriteRequestURL (ap_target p) u0
      in u\<lparr>u_Path := path_Join (ap_upstreamPathPrefix p) (TrimPrefix (u_Path u) (ap_pathPrefix p)),
           u_RawPath := (if u_RawPath u \<noteq> []
             then path_Join (ap_upstreamPathPrefix p) (TrimPrefix (u_RawPath u) (ap_pathPrefix p)) else [])\<rparr>)"

text \<open>\<^verbatim>\<open>ReverseProxy.ServeHTTP\<close>: the upstream's answer, the error handler's, or an abort while copying.\<close>

definition reply_response :: "upstream_reply \<Rightarrow> bresponse" where
  "reply_response reply = base_bresponse\<lparr>bs_Status := up_Status reply,
     bs_Header := concat (map (\<lambda>(k, vs). map (\<lambda>v. (k, v)) vs) (up_Header reply)), bs_Body := BBytes (up_Body reply)\<rparr>"

definition proxy_ServeHTTP :: "bresponse \<Rightarrow> url \<Rightarrow> string \<Rightarrow> 'r bhandler" where
  "proxy_ServeHTTP bad_gateway u host w b r =
     (case bw_upstream w \<lparr>og_Method = br_Method r, og_URL = url_String u, og_Host = host, og_Header = br_Header r\<rparr> of
        UpstreamFailed \<Rightarrow> (Responded bad_gateway, b)
      | Upstream reply \<Rightarrow> (Responded (reply_response reply), b)
      | UpstreamAborted reply \<Rightarrow> (Panicked True, b))"

text \<open>\<^verbatim>\<open>net.SplitHostPort\<close>: the host, \<open>None\<close> for an address without exactly one port.\<close>

definition SplitHostPort :: "string \<Rightarrow> string option" where
  "SplitHostPort hostport =
     (case cut_last hostport (CHR '':'') of
        None \<Rightarrow> None
      | Some (before, port) \<Rightarrow>
          if HasPrefix hostport ''['' then
            (let (host, rest, closed) = Cut (tl before) (CHR '']'')
             in if closed \<and> rest = [] \<and> before \<noteq> [] \<and> CHR ''['' \<notin> set (tl hostport) \<and> CHR '']'' \<notin> set port
                then Some host else None)
          else if CHR '':'' \<in> set before \<or> CHR ''['' \<in> set hostport \<or> CHR '']'' \<in> set hostport then None
          else Some before)"

definition api_forward :: "APIProxy \<Rightarrow> 'r bhandler" where
  "api_forward p w b r0 =
     (let r1 = header_Set r0 ''X-Forwarded-Host'' (br_Host r0);
          r2 = (case SplitHostPort (br_RemoteAddr r0) of
                  Some host \<Rightarrow> header_Set r1 ''X-Forwarded-For'' host
                | None \<Rightarrow> r1)
      in proxy_ServeHTTP (writeJSONError 502 ''bad gateway'') (director p (request_url r2)) (u_Host (ap_target p)) w b r2)"

definition APIProxy_ServeHTTP :: "APIProxy \<Rightarrow> 'r bhandler" where
  "APIProxy_ServeHTTP p w b r =
     (if is_bearer r then api_forward p w b r
      else
        let (res, st) = Manager_Get w (ap_sessions p) r (bf_store b); b1 = b\<lparr>bf_store := st\<rparr>
        in case res of
          Inl err \<Rightarrow> (Responded (writeJSONError 500 ''internal server error''), b1)
        | Inr None \<Rightarrow> (Responded (writeJSONError 401 ''unauthorized''), b1)
        | Inr (Some current) \<Rightarrow>
            if TrimSpace (ss_AccessToken current) = [] then (Responded (writeJSONError 401 ''unauthorized''), b1)
            else api_forward p w b1 (header_Set r ''Authorization'' (''Bearer '' @ ss_AccessToken current)))"

definition NewStaticAssetsProxy :: "string \<Rightarrow> (proxyError, url) result" where
  "NewStaticAssetsProxy staticAssetsBaseURL = proxy_target staticAssetsBaseURL"

definition static_bad_gateway :: bresponse where
  "static_bad_gateway = base_bresponse\<lparr>bs_Status := 502, bs_Body := BText ''bad gateway''\<rparr>"

definition StaticAssetsProxy_ServeHTTP :: "url \<Rightarrow> 'r bhandler" where
  "StaticAssetsProxy_ServeHTTP target w b r =
     proxy_ServeHTTP static_bad_gateway (rewriteRequestURL target (request_url r)) (u_Host target) w b r"

section \<open>The router\<close>

text \<open>
  A pattern of the router: a method, where it names one, and a path, which stands for everything below it when it ends in a
  slash. Registering the same pattern twice panics.
\<close>

record route =
  rt_Method :: "string option"
  rt_Path :: string

datatype target_handler = Healthz | LoginH | CallbackH | LogoutH | MeH | AvatarH | APIH | StaticH

definition bff_routes :: "string \<Rightarrow> (route \<times> target_handler) list" where
  "bff_routes apiPathPrefix =
     [(\<lparr>rt_Method = Some ''GET'', rt_Path = ''/healthz''\<rparr>, Healthz),
      (\<lparr>rt_Method = Some ''GET'', rt_Path = ''/auth/login''\<rparr>, LoginH),
      (\<lparr>rt_Method = Some ''GET'', rt_Path = ''/auth/callback''\<rparr>, CallbackH),
      (\<lparr>rt_Method = Some ''POST'', rt_Path = ''/auth/logout''\<rparr>, LogoutH),
      (\<lparr>rt_Method = Some ''GET'', rt_Path = ''/auth/me''\<rparr>, MeH),
      (\<lparr>rt_Method = Some ''GET'', rt_Path = ''/auth/avatar''\<rparr>, AvatarH),
      (\<lparr>rt_Method = None, rt_Path = apiPathPrefix @ ''/''\<rparr>, APIH),
      (\<lparr>rt_Method = None, rt_Path = apiPathPrefix\<rparr>, APIH),
      (\<lparr>rt_Method = None, rt_Path = ''/''\<rparr>, StaticH)]"

definition register_routes :: "(route \<times> 'h) list \<Rightarrow> (route \<times> 'h) list option" where
  "register_routes rs = (if distinct (map fst rs) then Some rs else None)"

text \<open>Matching is by segments of the escaped path, each unescaped; a \<^verbatim>\<open>GET\<close> pattern also takes \<^verbatim>\<open>HEAD\<close>.\<close>

definition mux_segments :: "brequest \<Rightarrow> string list" where
  "mux_segments r =
     map (\<lambda>seg. case unescape seg encodePath of Some s \<Rightarrow> s | None \<Rightarrow> seg)
       (Split (EscapedPath (request_url r)) (CHR ''/''))"

definition method_matches :: "string option \<Rightarrow> string \<Rightarrow> bool" where
  "method_matches m method = (case m of None \<Rightarrow> True | Some v \<Rightarrow> v = method \<or> v = ''GET'' \<and> method = ''HEAD'')"

definition path_matches :: "string \<Rightarrow> string list \<Rightarrow> bool" where
  "path_matches pat segs =
     (let ps = Split pat (CHR ''/'')
      in if HasSuffix pat ''/'' then take (length ps - 1) segs = butlast ps \<and> length ps \<le> length segs else segs = ps)"

text \<open>The most specific match: the longest path, and with a method before without.\<close>

definition route_rank :: "route \<Rightarrow> nat" where
  "route_rank rt = 2 * length (rt_Path rt) + (if rt_Method rt = None then 0 else 1)"

fun best_route :: "(route \<times> 'h) list \<Rightarrow> (route \<times> 'h) option" where
  "best_route [] = None"
| "best_route (x # xs) =
     (case best_route xs of
        None \<Rightarrow> Some x
      | Some y \<Rightarrow> if route_rank (fst x) \<ge> route_rank (fst y) then Some x else Some y)"

definition find_route :: "(route \<times> 'h) list \<Rightarrow> brequest \<Rightarrow> 'h option" where
  "find_route rs r =
     map_option snd (best_route (filter (\<lambda>(rt, h). method_matches (rt_Method rt) (br_Method r)
        \<and> path_matches (rt_Path rt) (mux_segments r)) rs))"

section \<open>The server\<close>

record 'r bff_server =
  sv_deps :: "'r Dependencies"
  sv_api :: APIProxy
  sv_static :: url
  sv_routes :: "(route \<times> target_handler) list"

definition target_ServeHTTP :: "'r bff_server \<Rightarrow> target_handler \<Rightarrow> 'r bhandler" where
  "target_ServeHTTP sv t =
     (case t of
        Healthz \<Rightarrow> (\<lambda>w b r. (Responded base_bresponse, b))
      | LoginH \<Rightarrow> answering (Login (sv_deps sv))
      | CallbackH \<Rightarrow> answering (Callback (sv_deps sv))
      | LogoutH \<Rightarrow> answering (Logout (sv_deps sv))
      | MeH \<Rightarrow> answering (Me (sv_deps sv))
      | AvatarH \<Rightarrow> answering (Avatar (sv_deps sv))
      | APIH \<Rightarrow> APIProxy_ServeHTTP (sv_api sv)
      | StaticH \<Rightarrow> StaticAssetsProxy_ServeHTTP (sv_static sv))"

definition not_found_response :: bresponse where
  "not_found_response = base_bresponse\<lparr>bs_Status := 404, bs_Body := BText ''404 page not found''\<rparr>"

definition mux_ServeHTTP :: "'r bff_server \<Rightarrow> 'r bhandler" where
  "mux_ServeHTTP sv w b r =
     (let escaped = EscapedPath (request_url r); cleaned = mux_cleanPath escaped
      in if br_Method r \<noteq> ''CONNECT'' \<and> cleaned \<noteq> escaped
         then (Responded (base_bresponse\<lparr>bs_Status := 301, bs_Location :=
           Some (url_String (zero_url\<lparr>u_Path := cleaned, u_RawQuery := br_RawQuery r\<rparr>))\<rparr>), b)
         else case find_route (sv_routes sv) r of
           None \<Rightarrow> (Responded not_found_response, b)
         | Some t \<Rightarrow> target_ServeHTTP sv t w b r)"

definition bff_handle :: "'r bff_server \<Rightarrow> 'r bhandler" where
  "bff_handle sv = BuildMiddlewareStack (sv_deps sv) (mux_ServeHTTP sv)"

section \<open>Start-up\<close>

datatype bffError =
    ConfigInvalid "configError list"
  | StoreInvalid
  | OIDCUnavailable
  | APIProxyInvalid proxyError
  | StaticProxyInvalid proxyError
  | RoutesConflict

text \<open>\<open>redis_connect\<close> is \<^verbatim>\<open>redis.ParseURL\<close> and the client it gives.\<close>

definition newSessionStore :: "(string \<Rightarrow> 'r option) \<Rightarrow> BFFConfig \<Rightarrow> 'r store option" where
  "newSessionStore redis_connect cfg =
     (if SessionStorageType cfg = ''redis''
      then map_option (RedisStore (SessionCookieName cfg @ ''-'')) (redis_connect (RedisURL cfg))
      else if SessionStorageType cfg = ''cookie'' then Some (NewCookieStore (SessionSecret cfg))
      else Some (MemoryStore Map.empty))"

definition requireConfig :: "environment \<Rightarrow> (configError list, BFFConfig \<times> ServerConfig) result" where
  "requireConfig env =
     (case LoadBFF env of
        Inl errs \<Rightarrow> Inl errs
      | Inr bffCfg \<Rightarrow>
          (case LoadServer env of Inl err \<Rightarrow> Inl [err] | Inr serverCfg \<Rightarrow> Inr (bffCfg, serverCfg)))"

definition handler_deps :: "BFFConfig \<Rightarrow> 'r OIDCDependencies \<Rightarrow> 'r Dependencies" where
  "handler_deps cfg oidc = New_deps
     \<lparr>dp_Sessions = \<lparr>mg_cookieName = SessionCookieName cfg, mg_insecureCookie = InsecureCookies cfg\<rparr>,
      dp_AuthCodeURL = od_AuthCodeURL oidc, dp_ExchangeCode = od_ExchangeCode oidc,
      dp_VerifyIDToken = Some (od_VerifyIDToken oidc), dp_RefreshTokens = Some (od_RefreshTokens oidc),
      dp_EndSessionEndpoint = od_EndSessionEndpoint oidc, dp_ContentSecurityPolicy = ContentSecurityPolicy cfg,
      dp_InsecureCookies = InsecureCookies cfg, dp_APIPathPrefix = APIPathPrefix cfg,
      dp_AuthBypassPaths = AuthBypassPaths cfg\<rparr>"

definition run_bff ::
  "(oauthConfig \<Rightarrow> string \<Rightarrow> string \<Rightarrow> string) \<Rightarrow> (nat \<Rightarrow> provider option) \<Rightarrow> (string \<Rightarrow> 'r option) \<Rightarrow> time \<Rightarrow> environment
     \<Rightarrow> (bffError, 'r bff_server \<times> 'r bff) result" where
  "run_bff authCodeURL discover redis_connect now env =
     (case requireConfig env of
        Inl errs \<Rightarrow> Inl (ConfigInvalid errs)
      | Inr (cfg, _) \<Rightarrow>
          (case newSessionStore redis_connect cfg of
             None \<Rightarrow> Inl StoreInvalid
           | Some st \<Rightarrow>
               (case BuildOIDCDependenciesWithRetry authCodeURL cfg discover of
                  (None, _) \<Rightarrow> Inl OIDCUnavailable
                | (Some oidc, _) \<Rightarrow>
                    let deps = handler_deps cfg oidc
                    in case NewAPIProxy (dp_Sessions deps) (APIBaseURL cfg) (APIPathPrefix cfg) (APIUpstreamPathPrefix cfg) of
                      Inl err \<Rightarrow> Inl (APIProxyInvalid err)
                    | Inr api \<Rightarrow>
                        (case NewStaticAssetsProxy (StaticAssetsBaseURL cfg) of
                           Inl err \<Rightarrow> Inl (StaticProxyInvalid err)
                         | Inr static \<Rightarrow>
                             (case register_routes (bff_routes (APIPathPrefix cfg)) of
                                None \<Rightarrow> Inl RoutesConflict
                              | Some routes \<Rightarrow>
                                  Inr (\<lparr>sv_deps = deps, sv_api = api, sv_static = static, sv_routes = routes\<rparr>,
                                       New_state now st))))))"

end
