(* ===== verification/Bff_StoreLaws.thy ===== *)
theory Bff_StoreLaws
  imports Bff_Stores
begin

text \<open>
  The laws of the three stores put together for the \<^verbatim>\<open>Store\<close> interface and for the \<^verbatim>\<open>Manager\<close> above it: what a load returns after a
  save or a delete, whichever store is configured. The memory and the Redis store revoke, the cookie store does not.
\<close>

section \<open>The contract of the configured store\<close>

text \<open>
  What the configured store relies on: the memory store draws a nonempty identifier, Redis and the cipher behave as documented
  in the surroundings \<open>w0\<close> and \<open>w\<close>, and a session kept outside the process survives its encoding.
\<close>

definition store_reliable :: "'r bworld \<Rightarrow> 'r store \<Rightarrow> 'r bworld \<Rightarrow> bool" where
  "store_reliable w0 st w \<longleftrightarrow> (case st of MemoryStore m \<Rightarrow> bw_idBytes w \<noteq> Some [] | RedisStore pfx db \<Rightarrow> redis_usable w0 w
     | CookieStore key \<Rightarrow> cookie_usable w0 w)"

definition store_encodes :: "'r bworld \<Rightarrow> 'r store \<Rightarrow> Session \<Rightarrow> bool" where
  "store_encodes w0 st sess \<longleftrightarrow> (case st of MemoryStore m \<Rightarrow> True | RedisStore pfx db \<Rightarrow> encryptable w0 sess
     | CookieStore key \<Rightarrow> encryptable w0 sess)"

definition revocable :: "'r store \<Rightarrow> bool" where
  "revocable st \<longleftrightarrow> (case st of CookieStore key \<Rightarrow> False | MemoryStore m \<Rightarrow> True | RedisStore pfx db \<Rightarrow> True)"

text \<open>Two tokens that name the same entry.\<close>

definition same_entry :: "'r store \<Rightarrow> string \<Rightarrow> string \<Rightarrow> bool" where
  "same_entry st tok' tok \<longleftrightarrow> (case st of MemoryStore m \<Rightarrow> tok' = tok | RedisStore pfx db \<Rightarrow> redis_aliases tok' tok
     | CookieStore key \<Rightarrow> tok' = tok)"

lemma map_prod_id_eq: "map_prod id f p = (a, b) \<longleftrightarrow> (\<exists>y. p = (a, y) \<and> b = f y)"
  by (cases p) auto

lemmas store_law_defs = store_reliable_def store_encodes_def revocable_def same_entry_def map_prod_id_eq

lemma store_load_saved:
  assumes "store_Save w sess ttl st = (Inr tok, st')" and "store_reliable w0 st w" and "store_encodes w0 st sess"
    and "store_reliable w0 st w'" and "bw_now w \<le> bw_now w'" and "bw_now w' < bw_now w + ttl"
  shows "fst (store_Load w' tok st') = Inr (Some sess)"
proof (cases st)
  case (MemoryStore m)
  then show ?thesis
    using assms mem.saved_survives [of w sess ttl m tok _ "[]" w']
    by (auto simp: store_Save_def store_Load_def store_law_defs)
next
  case (RedisStore pfx db)
  then show ?thesis
    using assms red.saved_survives [of w pfx sess ttl db tok _ w0 "[]" w']
    by (auto simp: store_Save_def store_Load_def store_law_defs)
next
  case (CookieStore key)
  then show ?thesis
    using assms ckst.saved_survives [where ops = "[]" and key = key and w = w and w' = w']
    by (auto simp: store_Save_def store_Load_def store_law_defs)
qed

text \<open>A deleted token loads nothing, also after another session was saved.\<close>

lemma store_Save_token:
  assumes "store_Save w sess ttl st = (Inr tok, st')"
  shows "(case st of MemoryStore m \<Rightarrow> memory_mints w tok | RedisStore pfx db \<Rightarrow> redis_mints w tok | CookieStore key \<Rightarrow> st' = st)"
  using assms b64_no_dot
  by (auto simp: store_Save_def memory_Save_def randomToken_def memory_mints_def redis_mints_def map_prod_id_eq
      split: store.splits option.splits elim!: redis_Save_cases)

lemma store_load_deleted:
  assumes "store_Delete w tok st = (None, st')" and "revocable st" and "store_reliable w0 st w" and "store_reliable w0 st w'"
    and "bw_now w \<le> bw_now w'"
  shows "fst (store_Load w' tok st') = Inr None"
proof (cases st)
  case (MemoryStore m)
  then show ?thesis using assms by (auto simp: store_Delete_def store_Load_def memory_defs)
next
  case (RedisStore pfx db)
  then show ?thesis
    using assms red.revoked [of w pfx tok db _ w0 "[]" w']
    by (auto simp: store_Delete_def store_Load_def store_law_defs)
qed (use assms in \<open>simp add: revocable_def\<close>)

lemma redis_mints_unique: "redis_mints w a \<Longrightarrow> redis_mints w b \<Longrightarrow> redis_aliases a b"
  by (auto simp: redis_mints_def redis_aliases_def)

lemma store_deleted_saved:
  assumes "store_Delete w old st = (None, st1)" and "store_Save w sess ttl st1 = (Inr tok, st2)" and "revocable st"
    and "\<not> same_entry st tok old" and "store_reliable w0 st w" and "store_reliable w0 st w'" and "bw_now w \<le> bw_now w'"
  shows "fst (store_Load w' old st2) = Inr None"
proof (cases st)
  case (MemoryStore m)
  then show ?thesis
    using assms by (auto simp: store_Delete_def store_Save_def store_Load_def memory_defs same_entry_def split: option.splits)
next
  case (RedisStore pfx db)
  then obtain db1 where d: "redis_Delete w pfx old db = (None, db1)" "st1 = RedisStore pfx db1"
    using assms(1) by (auto simp: store_Delete_def map_prod_id_eq)
  then obtain db2 where s: "redis_Save w pfx sess ttl db1 = (Inr tok, db2)" "st2 = RedisStore pfx db2"
    using assms(2) by (auto simp: store_Save_def map_prod_id_eq)
  have "\<not> redis_mints w old"
    using store_Save_token [OF assms(2)] redis_mints_unique assms(4) RedisStore d(2) by (auto simp: same_entry_def)
  then show ?thesis
    using red.revoked [OF d(1), of w0 "[SaveOp w sess ttl]" w'] assms(5-7) RedisStore s
    by (auto simp: store_Load_def store_law_defs)
qed (use assms in \<open>simp add: revocable_def\<close>)

text \<open>The operations keep the kind of store.\<close>

lemma store_kind:
  "store_reliable w0 (snd (store_Delete w tok st)) = store_reliable w0 st"
  "store_encodes w0 (snd (store_Delete w tok st)) = store_encodes w0 st"
  "store_reliable w0 (snd (store_Load w tok st)) = store_reliable w0 st"
  "revocable (snd (store_Load w tok st)) = revocable st"
  by (cases st; simp add: store_law_defs store_Delete_def store_Load_def fun_eq_iff)+

section \<open>Tokens as cookie values\<close>

lemma strip_lead_id: "s \<noteq> [] \<Longrightarrow> space_len ws s = 0 \<Longrightarrow> strip_lead ws s = s"
  by (cases s) (simp_all add: Let_def)

lemma token_char_ascii:
  assumes "c \<in> set (CHR ''.'' # url_alphabet)"
  shows "\<not> ascii_space c" "of_char c < (128 :: nat)"
proof -
  have "list_all (\<lambda>c. \<not> ascii_space c \<and> of_char c < (128 :: nat)) (CHR ''.'' # url_alphabet)" by code_simp
  with assms show "\<not> ascii_space c" "of_char c < (128 :: nat)" by (auto simp: list_all_iff)
qed

lemma space_len_token: "c \<in> set (CHR ''.'' # url_alphabet) \<Longrightarrow> space_len (map rev wide_spaces) (c # cs) = 0"
proof -
  assume c: "c \<in> set (CHR ''.'' # url_alphabet)"
  have "\<forall>v \<in> set (map rev wide_spaces). v \<noteq> [] \<and> (128 :: nat) \<le> of_char (hd v)" by code_simp
  then have "find (\<lambda>v. take (length v) (c # cs) = v) (map rev wide_spaces) = None"
    using token_char_ascii(2) [OF c] by (fastforce simp: find_None_iff dest: arg_cong [where f = hd] split: if_splits)
  then show ?thesis using token_char_ascii [OF c] by (simp add: wide_space_len_def)
qed

lemma b64_token_chars: "set (b64_encode s) \<subseteq> insert (CHR ''.'') (set url_alphabet)"
  using b64_encode_chars by blast

lemma TrimSpace_token:
  assumes "set tok \<subseteq> set (CHR ''.'' # url_alphabet)"
  shows "TrimSpace tok = tok"
proof (cases "tok = []")
  case False
  then obtain c cs d ds where t: "tok = c # cs" "rev tok = d # ds" "c \<in> set tok" "d \<in> set tok"
    by (metis list.exhaust list.set_intros(1) rev_is_Nil_conv set_rev)
  have "strip_lead wide_spaces tok = tok" using token_char_ascii [of c] assms t(1,3) by (auto simp: Let_def)
  moreover have "strip_lead (map rev wide_spaces) (rev tok) = rev tok"
    using strip_lead_id space_len_token [of d ds] assms t(2,4) by auto
  ultimately show ?thesis by (simp add: TrimSpace_def)
qed (simp add: TrimSpace_def)

lemma b64_encode_Nil_iff: "b64_encode s = [] \<longleftrightarrow> s = []"
  using b64_decode_encode [of s] b64_decode_encode [of "[]"] by (auto simp: b64_encode_def bytes_of_def)

lemma store_Save_cookie_value:
  assumes "store_Save w sess ttl st = (Inr tok, st')" and "store_reliable w0 st w"
  shows "TrimSpace tok = tok \<and> tok \<noteq> []"
proof (cases st)
  case (MemoryStore m)
  then show ?thesis
    using assms b64_token_chars TrimSpace_token [of tok]
    by (auto simp: store_Save_def memory_defs store_reliable_def b64_encode_Nil_iff split: option.splits)
next
  case (RedisStore pfx db)
  then show ?thesis
    using assms b64_token_chars TrimSpace_token [of tok]
    by (auto simp: store_Save_def map_prod_id_eq elim!: redis_Save_cases)
next
  case (CookieStore key)
  then obtain n p where "bw_nonce w = Some n" "tok = b64_encode (n @ p)"
    using assms(1) by (auto simp: store_Save_def cookie_Save_def Let_def split: option.splits if_splits)
  then show ?thesis
    using assms(2) CookieStore b64_token_chars TrimSpace_token [of tok]
    by (auto simp: store_reliable_def cookie_usable_def sizes_ok_def b64_encode_Nil_iff gcm_NonceSize_def)
qed

text \<open>A request that brings the cookie of a session just created finds that session.\<close>

lemma Manager_Get_created:
  assumes "store_Save w sess sessionTTL st = (Inr tok, st')" and "store_reliable w0 st w" and "store_encodes w0 st sess"
    and "br_Cookie r (mg_cookieName m) = Some tok"
    and "store_reliable w0 st w'" and "bw_now w \<le> bw_now w'" and "bw_now w' < bw_now w + sessionTTL"
  shows "fst (Manager_Get w' m r st') = Inr (Some sess)"
  using store_Save_cookie_value [OF assms(1,2)] store_load_saved [OF assms(1-3,5-7)] assms(4)
  by (simp add: Manager_Get_def Let_def)

end
