(* ===== verification/Bff_Security.thy ===== *)
theory Bff_Security
  imports Bff_Proxy Bff_StoreLaws Systems
begin

text \<open>
  What the backend-for-frontend guarantees, stated on its middleware stack and handlers: which requests reach the handlers
  behind the guards and with which token, what a login callback needs and leaves behind, that a callback is not
  replayed, how a session is refreshed and ended, and where proxied requests go.
\<close>

section \<open>Behind the guards\<close>

text \<open>
  That a request is stopped by the middleware is stated as independence from the handler behind it.
\<close>

definition stopped :: "'r Dependencies \<Rightarrow> 'r bworld \<Rightarrow> 'r bff \<Rightarrow> brequest \<Rightarrow> nat set \<Rightarrow> bool" where
  "stopped d w b r codes \<longleftrightarrow>
     (\<exists>resp b'. bs_Status resp \<in> codes \<and> (\<forall>h. BuildMiddlewareStack d h w b r = (Responded resp, b')))"

definition session_of :: "'r Dependencies \<Rightarrow> 'r bworld \<Rightarrow> 'r bff \<Rightarrow> brequest \<Rightarrow> Session option" where
  "session_of d w b r = (case fst (Manager_Get w (dp_Sessions d) r (bf_store b)) of Inr (Some s) \<Rightarrow> Some s | _ \<Rightarrow> None)"

definition unsafe_method :: "brequest \<Rightarrow> bool" where
  "unsafe_method r \<longleftrightarrow> br_Method r \<notin> {''GET'', ''HEAD'', ''OPTIONS''}"

definition bypassed :: "'r Dependencies \<Rightarrow> brequest \<Rightarrow> bool" where
  "bypassed d r \<longleftrightarrow> list_ex (\<lambda>pfx. HasPrefix (br_Path r) pfx) (dp_AuthBypassPaths d)"

text \<open>Reading a session twice gives the same answer as reading it once.\<close>

lemma memory_Load_again: "memory_Load w tok (snd (memory_Load w tok m)) = memory_Load w tok m"
  by (auto simp: memory_Load_def time_After_def split: option.split)

lemma store_Load_again: "store_Load w tok (snd (store_Load w tok st)) = store_Load w tok st"
  by (cases st) (simp_all add: store_Load_def memory_Load_again map_prod_def split_def)

lemma Manager_Get_again: "Manager_Get w m r (snd (Manager_Get w m r st)) = Manager_Get w m r st"
  by (simp add: Manager_Get_def Let_def store_Load_again split: option.split)

lemma stack_stopped:
  assumes "\<And>h. AuthGuard d (CSRFMiddleware d (TokenForwarder d (Recovery h))) w b r = (Responded resp, b')"
    and "bs_Status resp \<in> codes"
  shows "stopped d w b r codes"
  unfolding stopped_def BuildMiddlewareStack_def SecurityHeaders_def assms(1)
  by (intro exI [of _ "resp\<lparr>bs_Header := security_headers d @ bs_Header resp\<rparr>"] exI [of _ b']) (simp add: assms(2))

lemma guard_refuses:
  assumes "\<not> api_path d (br_Path r)" and "\<not> bypassed d r" and "session_of d w b r = None"
  shows "\<exists>resp b'. bs_Status resp \<in> {303, 500} \<and> (\<forall>h. AuthGuard d h w b r = (Responded resp, b'))"
proof -
  obtain res st where g: "Manager_Get w (dp_Sessions d) r (bf_store b) = (res, st)" by fastforce
  define resp where "resp = (if isl res then writeJSONError 500 ''internal server error'' else seeOther ''/login'')"
  have "AuthGuard d h w b r = (Responded resp, b\<lparr>bf_store := st\<rparr>)" for h
    using assms g by (auto simp: AuthGuard_def bypassed_def session_of_def resp_def split: sum.splits option.splits)
  moreover have "bs_Status resp \<in> {303, 500}" by (simp add: resp_def bresponse_defs)
  ultimately show ?thesis by blast
qed

text \<open>
  C4: a state-changing request to the API or to the logout endpoint that does not carry the CSRF token of its own session
  never reaches the handlers: it is answered with 401, 403 or 500, or redirected to the login page.
\<close>

theorem csrf_enforced:
  assumes "unsafe_method r" and "api_path d (br_Path r) \<or> HasPrefix (br_Path r) ''/auth/logout''"
    and "\<not> (\<exists>s. session_of d w b r = Some s \<and> TrimSpace (header_Get r ''X-CSRF-Token'') = ss_CSRFToken s
        \<and> ss_CSRFToken s \<noteq> [])"
  shows "stopped d w b r {303, 401, 403, 500}"
proof -
  obtain res st where g: "Manager_Get w (dp_Sessions d) r (bf_store b) = (res, st)" by fastforce
  then have g': "Manager_Get w (dp_Sessions d) r st = (res, st)" using Manager_Get_again by (metis snd_conv)
  define resp where "resp = (case res of
      Inl err \<Rightarrow> writeJSONError 500 ''internal server error''
    | Inr None \<Rightarrow> writeJSONError 401 ''unauthorized''
    | Inr (Some _) \<Rightarrow> writeJSONError 403 ''forbidden'')"
  have csrf: "CSRFMiddleware d h w b1 r = (Responded resp, b\<lparr>bf_store := st\<rparr>)"
    if "b1 = b \<or> b1 = b\<lparr>bf_store := st\<rparr>" for h b1
    using assms that
    by (auto simp: CSRFMiddleware_def unsafe_method_def g g' session_of_def resp_def Let_def split: sum.splits option.splits)
  have codes: "bs_Status resp \<in> {303, 401, 403, 500}"
    by (auto simp: resp_def bresponse_defs split: sum.split option.split)
  show ?thesis
  proof (cases "api_path d (br_Path r) \<or> bypassed d r \<or> (\<exists>s. res = Inr (Some s))")
    case True
    then have "AuthGuard d (CSRFMiddleware d (TokenForwarder d (Recovery h))) w b r = (Responded resp, b\<lparr>bf_store := st\<rparr>)" for h
      by (auto simp: AuthGuard_def bypassed_def g csrf)
    then show ?thesis using codes by (rule stack_stopped)
  next
    case False
    then have "session_of d w b r = None" using g by (auto simp: session_of_def split: sum.splits option.splits)
    with False guard_refuses [of d r w b] obtain resp2 b2 where
      "bs_Status resp2 \<in> {303, 500}" "\<And>h. AuthGuard d h w b r = (Responded resp2, b2)" by blast
    then show ?thesis by (intro stack_stopped) auto
  qed
qed


text \<open>
  C16: an API request that brings no bearer token of its own and whose session is missing or holds no access token never reaches the
  proxy: it is answered with 401, 403 or 500.
\<close>

theorem api_session_required:
  assumes "api_path d (br_Path r)" and "\<not> is_bearer r"
    and "\<not> (\<exists>s. session_of d w b r = Some s \<and> TrimSpace (ss_AccessToken s) \<noteq> [])"
  shows "stopped d w b r {401, 403, 500}"
proof -
  obtain res st where g: "Manager_Get w (dp_Sessions d) r (bf_store b) = (res, st)" by fastforce
  then have g': "Manager_Get w (dp_Sessions d) r st = (res, st)" using Manager_Get_again by (metis snd_conv)
  define resp where "resp = (if isl res then writeJSONError 500 ''internal server error''
    else writeJSONError 401 ''unauthorized'')"
  have tf: "TokenForwarder d h w b1 r = (Responded resp, b\<lparr>bf_store := st\<rparr>)"
    if "b1 = b \<or> b1 = b\<lparr>bf_store := st\<rparr>" for h b1
    using assms that
    by (auto simp: TokenForwarder_def g g' session_of_def resp_def Let_def split: sum.splits option.splits)
  obtain resp' where c: "bs_Status resp' \<in> {401, 403, 500}"
    "\<And>h. CSRFMiddleware d (TokenForwarder d h) w b r = (Responded resp', b\<lparr>bf_store := st\<rparr>)"
  proof (cases "br_Method r \<in> {''GET'', ''HEAD'', ''OPTIONS''}
      \<or> (\<exists>s. res = Inr (Some s) \<and> TrimSpace (header_Get r ''X-CSRF-Token'') \<noteq> [] \<and> TrimSpace (header_Get r ''X-CSRF-Token'') = ss_CSRFToken s)")
    case True
    then have "CSRFMiddleware d (TokenForwarder d h) w b r = (Responded resp, b\<lparr>bf_store := st\<rparr>)" for h
      using assms(1) by (auto simp: CSRFMiddleware_def g tf Let_def)
    moreover have "bs_Status resp \<in> {401, 403, 500}" by (simp add: resp_def bresponse_defs)
    ultimately show thesis using that by blast
  next
    case False
    define resp2 where "resp2 = (case res of
        Inl err \<Rightarrow> writeJSONError 500 ''internal server error''
      | Inr None \<Rightarrow> writeJSONError 401 ''unauthorized''
      | Inr (Some _) \<Rightarrow> writeJSONError 403 ''forbidden'')"
    have "CSRFMiddleware d (TokenForwarder d h) w b r = (Responded resp2, b\<lparr>bf_store := st\<rparr>)" for h
      using False assms(1) by (auto simp: CSRFMiddleware_def g resp2_def Let_def split: sum.splits option.splits)
    moreover have "bs_Status resp2 \<in> {401, 403, 500}"
      by (auto simp: resp2_def bresponse_defs split: sum.split option.split)
    ultimately show thesis using that by blast
  qed
  then show ?thesis using assms(1) by (auto simp: AuthGuard_def intro!: stack_stopped)
qed

section \<open>Refreshing the access token\<close>

text \<open>A session whose access token has expired or is about to, and which can be refreshed.\<close>

definition refresh_due :: "'r Dependencies \<Rightarrow> 'r bworld \<Rightarrow> Session \<Rightarrow> bool" where
  "refresh_due d w s \<longleftrightarrow> dp_RefreshTokens d \<noteq> None \<and> ss_RefreshToken s \<noteq> []
     \<and> (\<exists>e. ss_AccessTokenExpiry s = Some e \<and> e < bw_now w + 60 * Second)"

text \<open>
  C23: an API request is forwarded with the access token of its session, except that a token which expires within 60 seconds is
  refreshed first: a successful refresh forwards the new token, a failed one still forwards the old token while it
  is valid, and gives the session up with 401 once it has expired.
\<close>

theorem token_forwarder_decision:
  assumes "api_path d (br_Path r)" and "\<not> is_bearer r" and "Manager_Get w (dp_Sessions d) r (bf_store b) = (Inr (Some s), st)"
    and "TrimSpace (ss_AccessToken s) \<noteq> []"
  shows "if \<not> refresh_due d w s then
      TokenForwarder d h w b r = map_prod (on_response (with_cookies [])) id
        (h w (b\<lparr>bf_store := st\<rparr>) (header_Set r ''Authorization'' (''Bearer '' @ ss_AccessToken s)))
    else case refreshAccessToken d (the (dp_RefreshTokens d)) w r s st of
      (Some (s', cookies), st') \<Rightarrow>
        TokenForwarder d h w b r = map_prod (on_response (with_cookies cookies)) id
          (h w (b\<lparr>bf_store := st'\<rparr>) (header_Set r ''Authorization'' (''Bearer '' @ ss_AccessToken s')))
    | (None, st') \<Rightarrow>
        if the (ss_AccessTokenExpiry s) < bw_now w
        then \<exists>resp b'. TokenForwarder d h w b r = (Responded resp, b') \<and> bs_Status resp = 401
        else TokenForwarder d h w b r = map_prod (on_response (with_cookies [])) id
          (h w (b\<lparr>bf_store := st'\<rparr>) (header_Set r ''Authorization'' (''Bearer '' @ ss_AccessToken s)))"
proof (cases "refresh_due d w s")
  case False
  then have "refresh_step d w r s st = ((Some s, []), st)"
    by (auto simp: refresh_due_def refresh_step_def time_defs tokenRefreshThreshold_def Second_def Let_def
        split: option.splits)
  with False assms show ?thesis by (simp add: TokenForwarder_def Let_def)
next
  case True
  then obtain f e where fe: "dp_RefreshTokens d = Some f" "ss_AccessTokenExpiry s = Some e" "ss_RefreshToken s \<noteq> []"
    "e < bw_now w + 60 * Second" by (auto simp: refresh_due_def)
  obtain res st' where rf: "refreshAccessToken d f w r s st = (res, st')" by fastforce
  obtain dres st'' where ds: "Manager_Destroy w (dp_Sessions d) r st' = (dres, st'')" by fastforce
  have step: "refresh_step d w r s st = (case res of
      Some (s', cookies) \<Rightarrow> ((Some s', cookies), st')
    | None \<Rightarrow> if e < bw_now w then ((None, case dres of Inl _ \<Rightarrow> [] | Inr cs \<Rightarrow> cs), st'') else ((Some s, []), st'))"
    using fe rf ds by (auto simp: refresh_step_def time_defs tokenRefreshThreshold_def Let_def split: option.split sum.split)
  show ?thesis
  proof (cases res)
    case None
    then show ?thesis using True assms fe rf step
      by (auto simp: TokenForwarder_def with_cookies_def bresponse_defs Let_def)
  next
    case (Some p)
    then show ?thesis using True assms fe rf step by (cases p) (simp add: TokenForwarder_def Let_def)
  qed
qed

text \<open>
  C22: a refresh rotates the session, with any of the three stores. The session that a successful refresh returns takes the access token and
  expiry of the token response, takes its refresh and ID token where they are not empty and keeps the rest; a request with
  the one cookie set finds exactly that session for 24 hours. The cookie the request brought (a value without surrounding blanks) finds
  nothing any more with the memory and the Redis store, if the deletion succeeded (\<^verbatim>\<open>Rotate\<close> ignores its error) and the new
  token does not draw the same identifier. The cookie store does not change, so that there the old cookie stays valid.
\<close>

theorem refresh_rotates:
  assumes "refreshAccessToken d f w r s st = (Some (s', cookies), st')"
    and "br_Cookie r (mg_cookieName (dp_Sessions d)) = Some old" and "TrimSpace old = old" and "old \<noteq> []"
    and "store_reliable w0 st w" and "store_encodes w0 st s'"
    and "store_reliable w0 st w'" and "bw_now w \<le> bw_now w'" and "bw_now w' < bw_now w + 24 * Hour"
  shows "\<exists>tok newToken. f w (ss_RefreshToken s) = Some newToken
    \<and> s' = \<lparr>ss_AccessToken = ot_AccessToken newToken,
        ss_RefreshToken = (if ot_RefreshToken newToken = [] then ss_RefreshToken s else ot_RefreshToken newToken),
        ss_IDToken = (if ot_IDToken newToken \<in> {None, Some []} then ss_IDToken s else the (ot_IDToken newToken)),
        ss_CSRFToken = ss_CSRFToken s, ss_AccessTokenExpiry = ot_Expiry newToken\<rparr>
    \<and> cookies = [session_cookie (dp_Sessions d) tok]
    \<and> (\<forall>r'. br_Cookie r' (mg_cookieName (dp_Sessions d)) = Some tok \<longrightarrow> fst (Manager_Get w' (dp_Sessions d) r' st') = Inr (Some s'))
    \<and> (revocable st \<longrightarrow> fst (store_Delete w old st) = None \<longrightarrow> \<not> same_entry st tok old
        \<longrightarrow> fst (Manager_Get w' (dp_Sessions d) r st') = Inr None)
    \<and> (\<not> revocable st \<longrightarrow> st' = st)"
proof -
  from assms(1) obtain t where t: "f w (ss_RefreshToken s) = Some t" "s' = updated_session s t"
    and rot: "Manager_Rotate w (dp_Sessions d) r s' st = (Inr cookies, st')"
    by (auto simp: refreshAccessToken_def Let_def split: option.splits prod.splits sum.splits)
  obtain err st1 where del: "store_Delete w old st = (err, st1)" by fastforce
  then have "Manager_Create w (dp_Sessions d) s' st1 = (Inr cookies, st')"
    using rot assms(2-4) by (simp add: Manager_Rotate_def delete_cookie_session_def)
  then obtain tok where save: "store_Save w s' sessionTTL st1 = (Inr tok, st')" and c: "cookies = [session_cookie (dp_Sessions d) tok]"
    by (auto simp: Manager_Create_def split: prod.splits sum.splits)
  have kind: "store_reliable w0 st1 = store_reliable w0 st" "store_encodes w0 st1 = store_encodes w0 st"
    using store_kind(1,2) [of w0 w old st] del by simp_all
  have new: "fst (Manager_Get w' (dp_Sessions d) r' st') = Inr (Some s')"
    if "br_Cookie r' (mg_cookieName (dp_Sessions d)) = Some tok" for r'
    using Manager_Get_created [OF save _ _ that, of w0 w'] assms(5-9) by (simp add: kind sessionTTL_def)
  have gone: "fst (Manager_Get w' (dp_Sessions d) r st') = Inr None" if "revocable st" "err = None" "\<not> same_entry st tok old"
    using store_deleted_saved [OF del [unfolded that(2)] save that(1,3) assms(5,7,8)] assms(2-4) by (simp add: Manager_Get_def Let_def)
  have kept: "st' = st" if "\<not> revocable st"
    using that del save by (auto simp: revocable_def store_Delete_def store_Save_def split: store.splits)
  from t have "s' = \<lparr>ss_AccessToken = ot_AccessToken t,
        ss_RefreshToken = (if ot_RefreshToken t = [] then ss_RefreshToken s else ot_RefreshToken t),
        ss_IDToken = (if ot_IDToken t \<in> {None, Some []} then ss_IDToken s else the (ot_IDToken t)),
        ss_CSRFToken = ss_CSRFToken s, ss_AccessTokenExpiry = ot_Expiry t\<rparr>"
    by (auto simp: updated_session_def Let_def split: option.split)
  with t(1) c new gone kept del show ?thesis by (intro exI [of _ tok] exI [of _ t]) auto
qed

section \<open>The login callback\<close>

lemma readClaims_Some:
  "readClaims d w tokenSet = Some (uc, raw) \<Longrightarrow> \<exists>verify. dp_VerifyIDToken d = Some verify \<and> verify w raw = Some uc
     \<and> raw = (case ot_IDToken tokenSet of Some v \<Rightarrow> v | None \<Rightarrow> [])"
  by (cases "dp_VerifyIDToken d") (auto simp: readClaims_def Let_def)

text \<open>
  C13: a callback that logs a user in brought the state of its own cookie, not yet claimed, with a verifier and a code; the code and the
  verifier were exchanged, the ID token was verified, and exactly that token set with the fresh CSRF token is stored
  under the session cookie it sets.
\<close>

theorem callback_creates_session:
  assumes "Callback d w b r = (resp, b')" and "bs_Status resp = 303"
  shows "\<exists>state verifier code tokenSet verify claims raw tok.
    br_Cookie r stateCookieName = Some state \<and> values_Get (br_Query r) ''state'' = state \<and> state \<noteq> []
    \<and> br_Cookie r verifierCookieName = Some verifier \<and> verifier \<noteq> [] \<and> values_Get (br_Query r) ''code'' = code \<and> code \<noteq> []
    \<and> fst (Claim (bw_now w) state (bf_claims b))
    \<and> dp_ExchangeCode d w code verifier = Some tokenSet
    \<and> dp_VerifyIDToken d = Some verify \<and> verify w raw = Some claims
    \<and> raw = (case ot_IDToken tokenSet of Some v \<Rightarrow> v | None \<Rightarrow> [])
    \<and> store_Save w \<lparr>ss_AccessToken = ot_AccessToken tokenSet, ss_RefreshToken = ot_RefreshToken tokenSet, ss_IDToken = raw,
        ss_CSRFToken = bw_csrf w, ss_AccessTokenExpiry = ot_Expiry tokenSet\<rparr> sessionTTL (bf_store b) = (Inr tok, bf_store b')
    \<and> session_cookie (dp_Sessions d) tok \<in> set (bs_Cookies resp) \<and> bs_Location resp = Some ''/''"
proof -
  have refused: "bs_Status (writeError c m) = c" for c m by (simp add: writeError_def)
  from assms obtain state verifier code where p: "callback_params r = Some (state, verifier, code)"
    by (auto simp: Callback_def Let_def refused split: option.splits)
  from p have q: "br_Cookie r stateCookieName = Some state" "values_Get (br_Query r) ''state'' = state" "state \<noteq> []"
    "br_Cookie r verifierCookieName = Some verifier" "verifier \<noteq> []" "values_Get (br_Query r) ''code'' = code" "code \<noteq> []"
    by (auto simp: callback_params_def Let_def split: option.splits if_splits)
  obtain cl claims' where c: "Claim (bw_now w) state (bf_claims b) = (cl, claims')" by fastforce
  from assms p c have cl: cl by (auto simp: Callback_def Let_def refused split: bool.splits)
  from assms p c cl obtain tokenSet where x: "dp_ExchangeCode d w code verifier = Some tokenSet"
    by (auto simp: Callback_def Let_def refused split: option.splits)
  from assms p c cl x obtain uc raw where rc: "readClaims d w tokenSet = Some (uc, raw)"
    by (auto simp: Callback_def Let_def refused split: option.splits)
  obtain cr st where m: "Manager_Create w (dp_Sessions d) (callback_session w tokenSet raw) (bf_store b) = (cr, st)" by fastforce
  from assms p c cl x rc m obtain cookies where cr: "cr = Inr cookies"
    by (cases cr) (auto simp: Callback_def Let_def refused)
  from assms p c cl x rc m cr have out: "bf_store b' = st" "set cookies \<subseteq> set (bs_Cookies resp)" "bs_Location resp = Some ''/''"
    by (auto simp: Callback_def Let_def with_cookies_def bresponse_defs)
  from m cr obtain tok where s: "store_Save w (callback_session w tokenSet raw) sessionTTL (bf_store b) = (Inr tok, st)"
    "cookies = [session_cookie (dp_Sessions d) tok]"
    by (auto simp: Manager_Create_def split: prod.splits sum.splits)
  from rc obtain verify where v: "dp_VerifyIDToken d = Some verify" "verify w raw = Some uc"
    "raw = (case ot_IDToken tokenSet of Some v \<Rightarrow> v | None \<Rightarrow> [])"
    using readClaims_Some by blast
  show ?thesis
    using q c cl x v s out
    by (intro exI [of _ state] exI [of _ verifier] exI [of _ code] exI [of _ tokenSet] exI [of _ verify] exI [of _ uc]
        exI [of _ raw] exI [of _ tok]) (simp add: callback_session_def)
qed

section \<open>Replayed callbacks\<close>

text \<open>Every handler leaves the claimed states alone or claims one at the time of its request.\<close>

definition claims_step :: "time \<Rightarrow> stateClaims \<Rightarrow> stateClaims \<Rightarrow> bool" where
  "claims_step t c c' \<longleftrightarrow> c' = c \<or> (\<exists>k. c' = snd (Claim t k c))"

definition claims_kept :: "'r bhandler \<Rightarrow> bool" where
  "claims_kept h \<longleftrightarrow> (\<forall>w b r. claims_step (bw_now w) (bf_claims b) (bf_claims (snd (h w b r))))"

lemma claims_keptD: "claims_kept h \<Longrightarrow> claims_step (bw_now w) (bf_claims b) (bf_claims (snd (h w b r)))"
  by (simp add: claims_kept_def)

lemma claims_kept_store:
  "claims_kept h \<Longrightarrow> claims_step (bw_now w) (bf_claims b) (bf_claims (snd (h w (b\<lparr>bf_store := st\<rparr>) r)))"
  using claims_keptD [of h w "b\<lparr>bf_store := st\<rparr>" r] by simp

lemma claims_step_refl [simp]: "claims_step t c c"
  by (simp add: claims_step_def)

lemmas claims_kept_intros = claims_keptD claims_kept_store

lemma middleware_claims:
  assumes "claims_kept h"
  shows "claims_kept (SecurityHeaders d h)" "claims_kept (AuthGuard d h)" "claims_kept (CSRFMiddleware d h)"
    "claims_kept (TokenForwarder d h)" "claims_kept (Recovery h)"
proof -
  note k = claims_kept_intros [OF assms]
  show "claims_kept (SecurityHeaders d h)" using k by (simp add: claims_kept_def SecurityHeaders_def)
  show "claims_kept (AuthGuard d h)"
    using k by (simp add: claims_kept_def AuthGuard_def Let_def split: prod.split sum.split option.split)
  show "claims_kept (CSRFMiddleware d h)"
    using k by (simp add: claims_kept_def CSRFMiddleware_def Let_def split: prod.split sum.split option.split)
  show "claims_kept (TokenForwarder d h)"
    using k by (simp add: claims_kept_def TokenForwarder_def Let_def split: prod.split sum.split option.split)
  show "claims_kept (Recovery h)"
    unfolding claims_kept_def
  proof (intro allI)
    fix w b r
    show "claims_step (bw_now w) (bf_claims b) (bf_claims (snd (Recovery h w b r)))"
      using k(1) [of w b r] by (cases "h w b r") (simp add: Recovery_def split: outcome.split)
  qed
qed

lemma Callback_claims: "claims_kept (answering (Callback d))"
  unfolding claims_kept_def
proof (intro allI)
  fix w b r
  have "bf_claims (snd (Callback d w b r)) = bf_claims b
      \<or> (\<exists>k. bf_claims (snd (Callback d w b r)) = snd (Claim (bw_now w) k (bf_claims b)))"
  proof (cases "callback_params r")
    case None
    then show ?thesis by (simp add: Callback_def Let_def)
  next
    case (Some p)
    obtain state verifier code where "p = (state, verifier, code)" by (cases p)
    moreover obtain cl c where "Claim (bw_now w) state (bf_claims b) = (cl, c)" by fastforce
    ultimately have "bf_claims (snd (Callback d w b r)) = snd (Claim (bw_now w) state (bf_claims b))"
      using Some by (simp add: Callback_def Let_def split: bool.split option.split prod.split sum.split)
    then show ?thesis by blast
  qed
  then show "claims_step (bw_now w) (bf_claims b) (bf_claims (snd (answering (Callback d) w b r)))"
    by (simp add: claims_step_def answering_def)
qed

lemma proxy_claims: "bf_claims (snd (proxy_ServeHTTP bg u host w b r)) = bf_claims b"
  by (simp add: proxy_ServeHTTP_def split: exchange.split)

lemma api_forward_claims: "bf_claims (snd (api_forward p w b r)) = bf_claims b"
  by (simp add: api_forward_def Let_def proxy_claims)

lemma target_claims: "claims_kept (target_ServeHTTP sv t)"
proof (cases t)
  case CallbackH
  then show ?thesis by (simp add: target_ServeHTTP_def Callback_claims)
next
  case APIH
  then show ?thesis
    by (simp add: target_ServeHTTP_def claims_kept_def APIProxy_ServeHTTP_def Let_def api_forward_claims
        split: prod.split sum.split option.split)
next
  case LogoutH
  then show ?thesis
    by (simp add: target_ServeHTTP_def claims_kept_def answering_def Logout_def Let_def split: prod.split sum.split option.split)
next
  case MeH
  then show ?thesis
    by (simp add: target_ServeHTTP_def claims_kept_def answering_def Me_def Let_def split: prod.split sum.split option.split)
next
  case AvatarH
  then show ?thesis
    by (simp add: target_ServeHTTP_def claims_kept_def answering_def Avatar_def Let_def
        split: prod.split sum.split option.split exchange.split)
qed (simp_all add: target_ServeHTTP_def claims_kept_def answering_def Login_def Let_def StaticAssetsProxy_ServeHTTP_def proxy_claims)

lemma bff_handle_claims: "claims_kept (bff_handle sv)"
proof -
  have "claims_kept (mux_ServeHTTP sv)"
    by (simp add: claims_kept_def mux_ServeHTTP_def Let_def claims_keptD [OF target_claims] split: option.split)
  then show ?thesis by (simp add: bff_handle_def BuildMiddlewareStack_def middleware_claims)
qed

text \<open>Serving a sequence of requests.\<close>

fun bff_serve :: "'r bff_server \<Rightarrow> ('r bworld \<times> brequest) list \<Rightarrow> 'r bff \<Rightarrow> 'r bff" where
  "bff_serve sv [] b = b"
| "bff_serve sv ((w, r) # rs) b = bff_serve sv rs (snd (bff_handle sv w b r))"

lemma Claim_remembers:
  assumes "state_blocked ttl c k u" and "sc_ttl c = ttl" and "t \<le> u"
  shows "state_blocked ttl (snd (Claim t k' c)) k u"
  using stc.remembers [OF assms(1,3), of k'] by (simp add: ttl_id [OF assms(2)])

lemma serve_blocked:
  assumes "state_blocked ttl (bf_claims b) k u" and "sc_ttl (bf_claims b) = ttl" and "\<forall>(w, r)\<in>set rs. bw_now w \<le> u"
  shows "state_blocked ttl (bf_claims (bff_serve sv rs b)) k u \<and> sc_ttl (bf_claims (bff_serve sv rs b)) = ttl"
  using assms
proof (induction rs arbitrary: b)
  case (Cons x rs)
  obtain w r where x: "x = (w, r)" by (cases x)
  have "claims_step (bw_now w) (bf_claims b) (bf_claims (snd (bff_handle sv w b r)))"
    using bff_handle_claims by (rule claims_keptD)
  with Cons.prems x have "state_blocked ttl (bf_claims (snd (bff_handle sv w b r))) k u"
    "sc_ttl (bf_claims (snd (bff_handle sv w b r))) = ttl"
    by (auto simp: claims_step_def Claim_ttl intro: Claim_remembers)
  with Cons x show ?case by simp
qed simp

text \<open>
  C6: a callback is not replayed. Once a callback claimed its state, another callback with the same state within five minutes is answered
  with 401, without an exchange of its code or a change to the session store, whatever requests were served in between.
\<close>

theorem callback_replay_refused:
  assumes "callback_params r1 = Some (state, v1, c1)" and "fst (Claim (bw_now w1) state (bf_claims b))"
    and "sc_ttl (bf_claims b) = oidcStateClaimTTL"
    and "\<forall>(w, r)\<in>set rs. bw_now w \<le> bw_now w2" and "bw_now w1 \<le> bw_now w2" and "bw_now w2 < bw_now w1 + 5 * Minute"
    and "callback_params r2 = Some (state, v2, c2)" and "b2 = bff_serve sv rs (snd (Callback d w1 b r1))"
  shows "fst (Callback d w2 b2 r2) = writeError 401 ''unauthorized'' \<and> bf_store (snd (Callback d w2 b2 r2)) = bf_store b2"
proof -
  let ?ttl = oidcStateClaimTTL
  obtain cl c where cl: "Claim (bw_now w1) state (bf_claims b) = (cl, c)" by fastforce
  have c1: "bf_claims (snd (Callback d w1 b r1)) = c"
    using assms(1) cl by (simp add: Callback_def Let_def split: bool.split option.split prod.split sum.split)
  have win: "time_Sub (bw_now w2) (bw_now w1) < ?ttl"
    using assms(5,6) by (simp add: time_Sub_def oidcStateClaimTTL_def Minute_def min_int64_def max_int64_def)
  have s: "(bf_claims b)\<lparr>sc_ttl := ?ttl\<rparr> = bf_claims b" using assms(3) by (rule ttl_id)
  have "state_blocked ?ttl c state (bw_now w2)"
    using stc.records [where t = "bw_now w1" and k = state and s = "bf_claims b" and ttl = ?ttl and u = "bw_now w2"] assms(2,5) win cl by (simp add: s)
  moreover have "sc_ttl c = ?ttl" using Claim_ttl [of "bw_now w1" state "bf_claims b"] cl assms(3) by simp
  ultimately have blk: "state_blocked ?ttl (bf_claims b2) state (bw_now w2) \<and> sc_ttl (bf_claims b2) = ?ttl"
    using serve_blocked assms(4,8) c1 by metis
  then have s2: "(bf_claims b2)\<lparr>sc_ttl := ?ttl\<rparr> = bf_claims b2" by (simp add: ttl_id)
  have "\<not> fst (Claim (bw_now w2) state (bf_claims b2))"
    using stc.accepts [where t = "bw_now w2" and k = state and s = "bf_claims b2" and ttl = ?ttl] blk by (simp add: s2)
  then obtain c2' where "Claim (bw_now w2) state (bf_claims b2) = (False, c2')" by (metis prod.collapse)
  with assms(7) show ?thesis by (simp add: Callback_def Let_def)
qed

section \<open>Concrete requests\<close>

definition example_manager :: Manager where
  "example_manager = \<lparr>mg_cookieName = ''session'', mg_insecureCookie = False\<rparr>"

definition example_oauth :: oauthConfig where
  "example_oauth = \<lparr>oc_ClientID = ''bff'', oc_ClientSecret = ''s'', oc_AuthURL = ''https://idp/authorize'',
     oc_TokenURL = ''https://idp/token'', oc_RedirectURL = ''https://bff/auth/callback'', oc_Scopes = [''openid'']\<rparr>"

definition example_newToken :: oauthToken where
  "example_newToken = \<lparr>ot_AccessToken = ''at2'', ot_RefreshToken = [], ot_Expiry = None, ot_IDToken = None\<rparr>"

definition example_deps :: "(string \<rightharpoonup> string \<times> time) Dependencies" where
  "example_deps = \<lparr>dp_Sessions = example_manager, dp_AuthCodeURL = (\<lambda>state challenge. ''https://idp/authorize''),
     dp_ExchangeCode = OAuthClient_ExchangeCode (Some example_oauth),
     dp_VerifyIDToken = Some (\<lambda>w raw. bw_verifyIDToken w ''bff'' raw),
     dp_RefreshTokens = Some (\<lambda>w rt. Some example_newToken), dp_EndSessionEndpoint = ''https://idp/endsession'',
     dp_ContentSecurityPolicy = DefaultContentSecurityPolicy, dp_InsecureCookies = False, dp_APIPathPrefix = ''/api'',
     dp_AuthBypassPaths = parseAuthBypassPaths []\<rparr>"

definition get_request :: "string \<Rightarrow> brequest" where
  "get_request path = \<lparr>br_Method = ''GET'', br_Path = path, br_RawPath = [], br_Query = [], br_RawQuery = [], br_Cookies = [],
     br_Header = [], br_Host = ''bff'', br_RemoteAddr = ''10.0.0.1:1234''\<rparr>"

text \<open>A started server without sessions, and one with a session under the token \<open>tok\<close>.\<close>

definition empty_bff :: "(string \<rightharpoonup> string \<times> time) bff" where
  "empty_bff = New_state 0 (MemoryStore Map.empty)"

definition live_bff :: "(string \<rightharpoonup> string \<times> time) bff" where
  "live_bff = New_state 0 (MemoryStore [''tok'' \<mapsto> \<lparr>mi_session = example_Session\<lparr>ss_AccessTokenExpiry := Some (1010 * Second)\<rparr>,
     mi_expires = 2000 * Second\<rparr>])"

theorem csrf_enforced_witness:
  "stopped example_deps example_bworld empty_bff ((get_request ''/api/x'')\<lparr>br_Method := ''POST''\<rparr>) {303, 401, 403, 500}"
proof -
  let ?r = "(get_request ''/api/x'')\<lparr>br_Method := ''POST''\<rparr>"
  have "unsafe_method ?r" "api_path example_deps (br_Path ?r)" "session_of example_deps example_bworld empty_bff ?r = None"
    by code_simp+
  with csrf_enforced [of ?r example_deps example_bworld empty_bff] show ?thesis by simp
qed


theorem api_session_required_witness:
  "stopped example_deps example_bworld empty_bff (get_request ''/api/x'') {401, 403, 500}"
proof -
  let ?r = "get_request ''/api/x''"
  have "api_path example_deps (br_Path ?r)" "\<not> is_bearer ?r" "session_of example_deps example_bworld empty_bff ?r = None"
    by code_simp+
  with api_session_required [of example_deps ?r example_bworld empty_bff] show ?thesis by simp
qed

definition api_request :: brequest where
  "api_request = (get_request ''/api/x'')\<lparr>br_Cookies := [(''session'', ''tok'')]\<rparr>"

definition expiring_Session :: Session where
  "expiring_Session = example_Session\<lparr>ss_AccessTokenExpiry := Some (1010 * Second)\<rparr>"

lemma live_Get:
  "Manager_Get example_bworld (dp_Sessions example_deps) api_request (bf_store live_bff) = (Inr (Some expiring_Session), bf_store live_bff)"
proof -
  have t: "TrimSpace ''tok'' = ''tok''" by code_simp
  show ?thesis
    by (simp add: Manager_Get_def api_request_def get_request_def br_Cookie_def example_deps_def example_manager_def Let_def t
        store_Load_def live_bff_def New_state_def memory_Load_def example_bworld_def time_After_def expiring_Session_def Second_def)
qed

theorem token_forwarder_decision_witness:
  "\<exists>cookies st'. TokenForwarder example_deps (\<lambda>w b r. (Responded (base_bresponse\<lparr>bs_Body := BText (header_Get r ''Authorization'')\<rparr>), b))
     example_bworld live_bff api_request
   = (Responded (with_cookies cookies (base_bresponse\<lparr>bs_Body := BText ''Bearer at2''\<rparr>)), live_bff\<lparr>bf_store := st'\<rparr>)"
proof -
  let ?rf = "refreshAccessToken example_deps (\<lambda>w rt. Some example_newToken) example_bworld api_request expiring_Session
    (bf_store live_bff)"
  have h: "api_path example_deps (br_Path api_request)" "\<not> is_bearer api_request" "TrimSpace (ss_AccessToken expiring_Session) \<noteq> []"
    "refresh_due example_deps example_bworld expiring_Session" "dp_RefreshTokens example_deps = Some (\<lambda>w rt. Some example_newToken)"
    "header_Get (header_Set api_request ''Authorization'' ''Bearer at2'') ''Authorization'' = ''Bearer at2''"
    by (code_simp, code_simp, code_simp)
      (simp_all add: refresh_due_def example_deps_def expiring_Session_def example_Session_def example_bworld_def Second_def
        header_Get_def header_Set_def api_request_def get_request_def values_Get_def)
  have "map_option (ss_AccessToken \<circ> fst) (fst ?rf) = Some ''at2''" by code_simp
  then obtain s' cookies st' where rf: "?rf = (Some (s', cookies), st')" "ss_AccessToken s' = ''at2''"
    by (cases ?rf) auto
  have j: "''Bearer '' @ ''at2'' = ''Bearer at2''" by simp
  from token_forwarder_decision [OF h(1,2) live_Get h(3)] h(4-6) rf show ?thesis by (auto simp: j)
qed

theorem refresh_rotates_witness:
  "\<exists>s'. fst (Manager_Get example_bworld example_manager (api_request\<lparr>br_Cookies := [(''session'', ''aWQ'')]\<rparr>)
       (snd (refreshAccessToken example_deps (\<lambda>w rt. Some example_newToken) example_bworld api_request expiring_Session
          (bf_store live_bff)))) = Inr (Some s')
     \<and> ss_AccessToken s' = ''at2'' \<and> ss_RefreshToken s' = ''rt''
   \<and> fst (Manager_Get example_bworld example_manager api_request
       (snd (refreshAccessToken example_deps (\<lambda>w rt. Some example_newToken) example_bworld api_request expiring_Session
          (bf_store live_bff)))) = Inr None"
proof -
  let ?rf = "refreshAccessToken example_deps (\<lambda>w rt. Some example_newToken) example_bworld api_request expiring_Session
    (bf_store live_bff)"
  have "map_option (map ck_Value \<circ> snd) (fst ?rf) = Some [''aWQ'']" by code_simp
  then obtain s' cookies st' where rf: "?rf = (Some (s', cookies), st')" "map ck_Value cookies = [''aWQ'']" by (cases ?rf) auto
  have m: "bf_store live_bff = MemoryStore [''tok'' \<mapsto> \<lparr>mi_session = expiring_Session, mi_expires = 2000 * Second\<rparr>]"
    by (simp add: live_bff_def New_state_def expiring_Session_def)
  have c: "br_Cookie api_request (mg_cookieName (dp_Sessions example_deps)) = Some ''tok''" "TrimSpace ''tok'' = ''tok''" "''tok'' \<noteq> []"
    by code_simp+
  have st: "store_reliable w0 (bf_store live_bff) example_bworld" "store_encodes w0 (bf_store live_bff) s'" for w0
    by (simp_all add: m store_law_defs example_bworld_def)
  have man: "dp_Sessions example_deps = example_manager" "mg_cookieName example_manager = ''session''"
    by (simp_all add: example_deps_def example_manager_def)
  have "br_Cookie (api_request\<lparr>br_Cookies := [(''session'', ''aWQ'')]\<rparr>) ''session'' = Some ''aWQ''" by (simp add: br_Cookie_def)
  moreover have "revocable (bf_store live_bff)" "fst (store_Delete example_bworld ''tok'' (bf_store live_bff)) = None"
    "\<not> same_entry (bf_store live_bff) ''aWQ'' ''tok''"
    by (simp_all add: m store_law_defs store_Delete_def memory_Delete_def)
  ultimately show ?thesis
    unfolding rf(1) snd_conv using refresh_rotates [OF rf(1) c st(1,2) st(1)] rf(2)
    by (auto simp: man Hour_def session_cookie_def example_newToken_def expiring_Session_def example_Session_def)
qed

definition callback_request :: brequest where
  "callback_request = (get_request ''/auth/callback'')\<lparr>br_Cookies := [(''oidc_state'', ''state-1''), (''oidc_verifier'', ''verifier-1'')],
     br_Query := [(''state'', [''state-1'']), (''code'', [''code-1''])]\<rparr>"

theorem callback_creates_session_witness:
  "bs_Status (fst (Callback example_deps example_bworld empty_bff callback_request)) = 303
   \<and> bs_Location (fst (Callback example_deps example_bworld empty_bff callback_request)) = Some ''/''"
proof -
  have "bs_Status (fst (Callback example_deps example_bworld empty_bff callback_request)) = 303" by code_simp
  with callback_creates_session [OF prod.collapse [symmetric] this] show ?thesis by blast
qed

lemma callback_request_params: "callback_params callback_request = Some (''state-1'', ''verifier-1'', ''code-1'')"
  by code_simp

definition example_proxy :: APIProxy where
  "example_proxy = \<lparr>ap_target = zero_url\<lparr>u_Scheme := ''http'', u_Host := ''api''\<rparr>, ap_sessions = example_manager,
     ap_pathPrefix = ''/api'', ap_upstreamPathPrefix = ''/v2''\<rparr>"

definition example_sv :: "(string \<rightharpoonup> string \<times> time) bff_server" where
  "example_sv = \<lparr>sv_deps = example_deps, sv_api = example_proxy,
     sv_static = zero_url\<lparr>u_Scheme := ''http'', u_Host := ''static''\<rparr>, sv_routes = bff_routes ''/api''\<rparr>"

theorem callback_replay_refused_witness:
  "fst (Callback example_deps example_bworld (snd (Callback example_deps example_bworld empty_bff callback_request)) callback_request)
     = writeError 401 ''unauthorized''"
proof -
  have c: "fst (Claim (bw_now example_bworld) ''state-1'' (bf_claims empty_bff))" by code_simp
  have t: "sc_ttl (bf_claims empty_bff) = oidcStateClaimTTL" by (simp add: empty_bff_def New_state_def newStateClaims_def)
  show ?thesis
    using callback_replay_refused [OF callback_request_params c t _ _ _ callback_request_params,
        of "[]" example_bworld _ example_sv example_deps]
    by (simp add: Minute_def)
qed

end
