(* ===== verification/Bff_Routing.thy ===== *)
theory Bff_Routing
  imports Bff_Security
begin

text \<open>
  Where requests go: the router agrees with the guards on what an API path is, the director keeps proxied requests below the
  upstream prefix, discovery is retried a bounded number of times, and logging out ends the session. The
  examples at the end record inputs on which the code does not do what its documentation says.
\<close>

section \<open>Discovery\<close>

lemma retry_loop_result:
  "1 \<le> n \<Longrightarrow> n \<le> Suc maxAttempts \<Longrightarrow> retry_loop build n slept =
     (case find (\<lambda>k. build k \<noteq> None) [n..<Suc maxAttempts] of
        Some k \<Rightarrow> (build k, slept + int (k - n) * retryDelay)
      | None \<Rightarrow> (None, slept + int (maxAttempts - n) * retryDelay))"
proof (induction build n slept rule: retry_loop.induct)
  case (1 build n slept)
  show ?case
  proof (cases "n > maxAttempts")
    case True
    then show ?thesis by (simp add: retry_loop.simps)
  next
    case False
    then have up: "[n..<Suc maxAttempts] = n # [Suc n..<Suc maxAttempts]" by (simp add: upt_rec)
    show ?thesis
    proof (cases "build n")
      case (Some d)
      then show ?thesis using False up by (simp add: retry_loop.simps)
    next
      case None
      let ?s = "if n < maxAttempts then slept + retryDelay else slept"
      have IH: "retry_loop build (n + 1) ?s = (case find (\<lambda>k. build k \<noteq> None) [Suc n..<Suc maxAttempts] of
          Some k \<Rightarrow> (build k, ?s + int (k - (n + 1)) * retryDelay)
        | None \<Rightarrow> (None, ?s + int (maxAttempts - (n + 1)) * retryDelay))"
        using "1.IH" [OF _ None] False "1.prems" by simp
      have step: "retry_loop build n slept = retry_loop build (n + 1) ?s"
        using None False by (simp add: retry_loop.simps [of build n slept])
      show ?thesis
      proof (cases "find (\<lambda>k. build k \<noteq> None) [Suc n..<Suc maxAttempts]")
        case nobody: None
        have "?s + int (maxAttempts - (n + 1)) * retryDelay = slept + int (maxAttempts - n) * retryDelay"
          using False by (cases "n = maxAttempts") (simp_all add: of_nat_diff algebra_simps)
        with nobody IH step None up show ?thesis by simp
      next
        case (Some k)
        then have "Suc n \<le> k" "k \<le> maxAttempts" using find_SomeD [OF Some] by auto
        then have "?s + int (k - (n + 1)) * retryDelay = slept + int (k - n) * retryDelay"
          by (simp add: of_nat_diff algebra_simps)
        with Some IH step None up show ?thesis by simp
      qed
    qed
  qed
qed

text \<open>
  C39: discovery is attempted at most 30 times. The first attempt that finds the provider decides, after two seconds of waiting per failed
  attempt before it; if none does, start-up fails after 58 seconds of waiting.
\<close>

theorem discovery_retries:
  "BuildOIDCDependenciesWithRetry authCodeURL cfg discover =
     (case find (\<lambda>k. discover k \<noteq> None) [1..<31] of
        Some k \<Rightarrow> (BuildOIDCDependencies authCodeURL cfg (discover k), int (k - 1) * (2 * Second))
      | None \<Rightarrow> (None, 58 * Second))"
proof -
  have b: "BuildOIDCDependencies authCodeURL cfg p \<noteq> None \<longleftrightarrow> p \<noteq> None" for p
    by (auto simp: BuildOIDCDependencies_def Let_def split: option.splits)
  have upto: "[1..<31] = [1..<Suc maxAttempts]"
    by (rule arg_cong [where f = "\<lambda>n. [1..<n]"]) (simp add: maxAttempts_def)
  define x where "x = find (\<lambda>k. discover k \<noteq> None) [1..<31]"
  have "BuildOIDCDependenciesWithRetry authCodeURL cfg discover = (case x of
      Some k \<Rightarrow> (BuildOIDCDependencies authCodeURL cfg (discover k), 0 + int (k - 1) * retryDelay)
    | None \<Rightarrow> (None, 0 + int (maxAttempts - 1) * retryDelay))"
    unfolding BuildOIDCDependenciesWithRetry_def upto x_def
    by (rule retry_loop_result [of 1 "\<lambda>attempt. BuildOIDCDependencies authCodeURL cfg (discover attempt)" 0, unfolded b])
      (simp_all add: maxAttempts_def)
  then show ?thesis unfolding x_def [symmetric] by (cases x) (simp_all add: retryDelay_def maxAttempts_def)
qed

section \<open>Proxied paths\<close>

text \<open>A path written as its segments.\<close>

definition slashed :: "string list \<Rightarrow> string" where
  "slashed segs = concat (map (\<lambda>seg. CHR ''/'' # seg) segs)"

lemma Split_segment: "CHR ''/'' \<notin> set seg \<Longrightarrow> Split seg (CHR ''/'') = [seg]"
  by (induction seg) auto

lemma Split_slashed: "CHR ''/'' \<notin> set seg \<Longrightarrow> list_all proper_seg segs \<Longrightarrow> Split (seg @ slashed segs) (CHR ''/'') = seg # segs"
  by (induction segs arbitrary: seg) (simp_all add: slashed_def Split_append_slash Split_segment proper_seg_def)

lemma Join_slashed: "segs \<noteq> [] \<Longrightarrow> CHR ''/'' # Join segs ''/'' = slashed segs"
  by (induction segs rule: induct_list012) (simp_all add: slashed_def)

lemma slashed_segs:
  assumes "list_all proper_seg segs"
  shows "kept_segs (slashed segs) = segs" "''..'' \<notin> set (Split (slashed segs) (CHR ''/''))"
  using Split_slashed [of "[]" segs] assms by (auto simp: kept_segs_def list_all_iff proper_seg_def)

text \<open>
  C29: what the director makes of a request for the path prefix followed by proper segments (not empty, not \<^verbatim>\<open>.\<close> or \<^verbatim>\<open>..\<close>, without a
  trailing slash and without escapes that need a raw path), when the base URL of the API has no path or query: it goes to
  the scheme and host of the API, to the upstream prefix followed by exactly these segments, with the query unchanged. For the upstream
  prefix \<^verbatim>\<open>/\<close> the prefix is stripped.
\<close>

theorem director_confined:
  assumes "u_Path (ap_target p) = []" and "u_RawPath (ap_target p) = []" and "u_RawQuery (ap_target p) = []"
    and "HasPrefix (ap_pathPrefix p) ''/''" and "br_Path r = ap_pathPrefix p @ slashed segs" and "br_RawPath r = []"
    and "list_all proper_seg segs" and "list_all proper_seg ups"
    and "ap_upstreamPathPrefix p = (if ups = [] then ''/'' else slashed ups)"
  shows "u_Path (director p (request_url r)) =
        (if ups = [] then if segs = [] then ''/'' else slashed segs else ap_upstreamPathPrefix p @ slashed segs)
    \<and> u_RawPath (director p (request_url r)) = [] \<and> u_Host (director p (request_url r)) = u_Host (ap_target p)
    \<and> u_Scheme (director p (request_url r)) = u_Scheme (ap_target p)
    \<and> u_RawQuery (director p (request_url r)) = br_RawQuery r"
proof -
  have "HasPrefix (br_Path r) ''/''" using assms(4,5) by (auto simp: HasPrefix_iff)
  then have "singleJoiningSlash [] (br_Path r) = br_Path r" by (simp add: singleJoiningSlash_def HasSuffix_def)
  moreover have up: "HasPrefix (ap_upstreamPathPrefix p) ''/''" "kept_segs (ap_upstreamPathPrefix p) = ups"
    "''..'' \<notin> set (Split (ap_upstreamPathPrefix p) (CHR ''/''))"
    using assms(9) slashed_segs [OF assms(8)]
    by (auto simp: HasPrefix_iff slashed_def kept_segs_def neq_Nil_conv split: if_splits)
  moreover have "path_Join (ap_upstreamPathPrefix p) (slashed segs) = (if ups @ segs = [] then ''/'' else slashed (ups @ segs))"
    using path_Join_confined [OF up(1,3) slashed_segs(2) [OF assms(7)]] Join_slashed [of "ups @ segs"]
    by (simp add: up(2) slashed_segs(1) [OF assms(7)])
  ultimately show ?thesis
    using assms(1-6,9)
    by (auto simp: director_def rewriteRequestURL_def request_url_def joinURLPath_def zero_url_def Let_def slashed_def)
qed

section \<open>Routing\<close>

lemma Join_Split: "Join (Split s c) [c] = s"
proof (induction s)
  case (Cons x s)
  obtain y ys where "Split s c = y # ys" using Split_nonempty by (cases "Split s c") auto
  with Cons show ?case by (cases ys) auto
qed simp

lemma Join_append: "xs \<noteq> [] \<Longrightarrow> ys \<noteq> [] \<Longrightarrow> Join (xs @ ys) sep = Join xs sep @ sep @ Join ys sep"
proof (induction xs)
  case (Cons x xs)
  then show ?case by (cases xs; cases ys) auto
qed simp

lemma path_matches_subtree:
  assumes "path_matches (pfx @ ''/'') segs"
  shows "HasPrefix (Join segs ''/'') (pfx @ ''/'')"
proof -
  have s: "Split (pfx @ ''/'') (CHR ''/'') = Split pfx (CHR ''/'') @ [[]]" using Split_append_slash [of pfx "CHR ''/''" "[]"] by simp
  from assms have t: "take (length (Split pfx (CHR ''/''))) segs = Split pfx (CHR ''/'')" "Suc (length (Split pfx (CHR ''/''))) \<le> length segs"
    by (simp_all add: path_matches_def HasSuffix_def s)
  let ?n = "length (Split pfx (CHR ''/''))"
  have "segs = Split pfx (CHR ''/'') @ drop ?n segs" using append_take_drop_id [of ?n segs] t(1) by simp
  moreover have "drop ?n segs \<noteq> []" using t(2) by simp
  ultimately have "Join segs ''/'' = pfx @ ''/'' @ Join (drop ?n segs) ''/''"
    using Join_append [of "Split pfx (CHR ''/'')" "drop ?n segs" "''/''"] Join_Split [of pfx "CHR ''/''"] by simp
  then show ?thesis by (simp add: HasPrefix_iff)
qed

lemma best_route_mem: "best_route xs = Some x \<Longrightarrow> x \<in> set xs"
  by (induction xs arbitrary: x) (auto split: option.splits if_splits)

text \<open>A path is its segments joined by slashes, before and after unescaping.\<close>

lemma ishex_not_slash: "ishex c \<Longrightarrow> c \<noteq> CHR ''/''"
  by (auto simp: ishex_def is_digit_def)

text \<open>\<open>segs_ok s ts\<close>: the segments of \<open>s\<close> unescape to \<open>ts\<close>.\<close>

definition segs_ok :: "string \<Rightarrow> string list \<Rightarrow> bool" where
  "segs_ok s ts \<longleftrightarrow> map (\<lambda>seg. unescape seg encodePath) (Split s (CHR ''/'')) = map Some ts"

lemma segs_ok_nonempty: "segs_ok s ts \<Longrightarrow> ts \<noteq> []"
  by (auto simp: segs_ok_def)

lemma segs_ok_extend:
  assumes "segs_ok s (t # ts)" and "CHR ''/'' \<notin> set a"
    and "\<And>w x. unescape w encodePath = Some x \<Longrightarrow> unescape (a @ w) encodePath = Some (b # x)"
  shows "segs_ok (a @ s) ((b # t) # ts)"
proof -
  obtain x xs where x: "Split s (CHR ''/'') = x # xs" using Split_nonempty by (cases "Split s (CHR ''/'')") auto
  have "Split (a @ s) (CHR ''/'') = (a @ x) # xs" using assms(2) x by (induction a) auto
  with assms(1,3) x show ?thesis by (simp add: segs_ok_def)
qed

lemma segs_ok_grow:
  assumes "segs_ok s ts" and "Join ts ''/'' = t" and "CHR ''/'' \<notin> set a"
    and "\<And>w x. unescape w encodePath = Some x \<Longrightarrow> unescape (a @ w) encodePath = Some (b # x)"
  shows "\<exists>ts. segs_ok (a @ s) ts \<and> Join ts ''/'' = b # t"
proof -
  obtain t1 ts1 where ts: "ts = t1 # ts1" using segs_ok_nonempty [OF assms(1)] by (cases ts) auto
  then have "Join ((b # t1) # ts1) ''/'' = b # Join ts ''/''" by (cases ts1) auto
  with segs_ok_extend [OF assms(1) [unfolded ts] assms(3,4)] assms(2) show ?thesis by blast
qed

lemma unescape_segs: "unescape s mode = Some t \<Longrightarrow> mode = encodePath \<Longrightarrow> \<exists>ts. segs_ok s ts \<and> Join ts ''/'' = t"
proof (induction s mode arbitrary: t rule: unescape.induct)
  case (1 mode)
  then show ?case by (intro exI [of _ "[[]]"]) (simp add: segs_ok_def)
next
  case (2 c cs mode)
  show ?case
  proof (cases "c = CHR ''%''")
    case True
    then obtain a b ds u where p: "cs = a # b # ds" "percent_ok encodePath a b" "unescape ds encodePath = Some u"
      "t = char_of (unhex a * 16 + unhex b) # u"
      using 2(4,5) by (auto split: list.splits if_splits)
    from "2.IH"(1) [OF True p(1)] p 2(5) obtain ts where "segs_ok ds ts" "Join ts ''/'' = u" by auto
    moreover have "CHR ''/'' \<notin> set [CHR ''%'', a, b]" using p(2) ishex_not_slash by (auto simp: percent_ok_def)
    ultimately show ?thesis
      using segs_ok_grow [of ds ts u "[CHR ''%'', a, b]" "char_of (unhex a * 16 + unhex b)"] p True by simp
  next
    case False
    then obtain u where u: "unescape cs encodePath = Some u" "t = c # u"
      using 2(4,5) by (auto simp: plain_ok_def split: if_splits)
    have "\<exists>ts. segs_ok cs ts \<and> Join ts ''/'' = u"
      using "2.IH"(2) [OF False] "2.IH"(3) [OF False] u(1) 2(5) by (cases "c = CHR ''+''") (auto simp: plain_ok_def)
    then obtain ts where ts: "segs_ok cs ts" "Join ts ''/'' = u" by blast
    show ?thesis
    proof (cases "c = CHR ''/''")
      case True
      then have "segs_ok (c # cs) ([] # ts)" using ts(1) by (simp add: segs_ok_def)
      moreover have "Join ([] # ts) ''/'' = c # u" using ts True segs_ok_nonempty [OF ts(1)] by (cases ts) auto
      ultimately show ?thesis using u(2) by blast
    next
      case noslash: False
      then show ?thesis using segs_ok_grow [of cs ts u "[c]" c] ts u False by (simp add: plain_ok_def)
    qed
  qed
qed

text \<open>A request whose decoded path is what its escaped path stands for, as the server parses it.\<close>

definition request_ok :: "brequest \<Rightarrow> bool" where
  "request_ok r \<longleftrightarrow> unescape (EscapedPath (request_url r)) encodePath = Some (br_Path r)"

lemma map_all_Some:
  "map f xs = map Some ts \<Longrightarrow> map (\<lambda>x. case f x of Some y \<Rightarrow> y | None \<Rightarrow> x) xs = ts"
  by (induction xs arbitrary: ts) (auto split: option.splits)

lemma mux_segments_path:
  assumes "request_ok r"
  shows "Join (mux_segments r) ''/'' = br_Path r"
proof -
  from assms unescape_segs [OF _ refl] obtain ts where
    ts: "segs_ok (EscapedPath (request_url r)) ts" "Join ts ''/'' = br_Path r" unfolding request_ok_def by blast
  then have "mux_segments r = ts" unfolding mux_segments_def segs_ok_def by (intro map_all_Some)
  with ts(2) show ?thesis by simp
qed

text \<open>
  C17: the router hands a request to the API proxy only on a path that the guards treat as an API path, however the path is escaped, so
  that every proxied request has passed the session and CSRF checks for API paths.
\<close>

theorem api_route_guarded:
  assumes "find_route (bff_routes (dp_APIPathPrefix d)) r = Some APIH" and "request_ok r"
    and "\<not> HasSuffix (dp_APIPathPrefix d) ''/''"
  shows "api_path d (br_Path r)"
proof -
  let ?p = "dp_APIPathPrefix d"
  from assms(1) obtain rt where "(rt, APIH) \<in> set (bff_routes ?p)" "path_matches (rt_Path rt) (mux_segments r)"
    by (auto simp: find_route_def dest!: best_route_mem)
  then consider "path_matches (?p @ ''/'') (mux_segments r)" | "path_matches ?p (mux_segments r)"
    by (auto simp: bff_routes_def)
  then show ?thesis
  proof cases
    case 1
    from path_matches_subtree [OF this] mux_segments_path [OF assms(2)] show ?thesis by (simp add: api_path_def)
  next
    case 2
    then have "mux_segments r = Split ?p (CHR ''/'')" using assms(3) by (simp add: path_matches_def)
    then have "br_Path r = ?p" using mux_segments_path [OF assms(2)] Join_Split [of ?p "CHR ''/''"] by simp
    then show ?thesis by (simp add: api_path_def)
  qed
qed

section \<open>Logging out\<close>

lemma hint_query:
  assumes "url_Parse base = Some u"
  shows "\<exists>q. appendIDTokenHint base hint = url_String (u\<lparr>u_RawQuery := q\<rparr>)
    \<and> map_of (ParseQuery q) = (map_of (ParseQuery (u_RawQuery u)))(''id_token_hint'' \<mapsto> [hint])"
proof -
  let ?m = "values_Set (ParseQuery (u_RawQuery u)) ''id_token_hint'' hint"
  have "distinct (map fst ?m)" "[] \<notin> snd ` set ?m"
    using distinct_values_Set nonempty_values_Set ParseQuery_wf by blast+
  then have "map_of (ParseQuery (values_Encode ?m)) = map_of ?m" by (rule ParseQuery_values_Encode)
  with assms show ?thesis
    by (intro exI [of _ "values_Encode ?m"]) (simp add: appendIDTokenHint_def map_of_values_Set fun_eq_iff)
qed

text \<open>Where the browser is sent after logging out.\<close>

definition logout_target :: "string \<Rightarrow> Session option \<Rightarrow> string \<Rightarrow> bool" where
  "logout_target endpoint current target \<longleftrightarrow>
     (case (endpoint = [], current, url_Parse endpoint) of
        (True, _, _) \<Rightarrow> target = ''/login''
      | (False, Some s, Some u) \<Rightarrow>
          if ss_IDToken s = [] then target = endpoint
          else \<exists>q. target = url_String (u\<lparr>u_RawQuery := q\<rparr>)
            \<and> map_of (ParseQuery q) = (map_of (ParseQuery (u_RawQuery u)))(''id_token_hint'' \<mapsto> [ss_IDToken s])
      | (False, _, _) \<Rightarrow> target = endpoint)"

lemma logout_url_target: "logout_target (dp_EndSessionEndpoint d) current (logout_url d current)"
  using hint_query [of "dp_EndSessionEndpoint d"]
  by (auto simp: logout_target_def logout_url_def appendIDTokenHint_def split: option.split)

lemma store_Delete_loaded: "fst (store_Delete w tok (snd (store_Load w tok st))) = fst (store_Delete w tok st)"
  by (cases st) (simp_all add: store_Delete_def store_Load_def memory_Delete_def)

text \<open>
  C28: logging out with a session cookie whose value has no surrounding blanks. The answer is 200 exactly when the store confirms the
  deletion (the memory and the cookie store always do), else 500. A 200 clears the session and the CSRF cookie, and its body sends the
  browser to \<^verbatim>\<open>/login\<close> when no end-session endpoint is configured, else to that endpoint, with the ID token of the session added
  to its query as the hint when there is a session with an ID token and the endpoint parses. After it, with the memory and
  the Redis store, the same cookie finds no session; the cookie store does not change, so that there a copy of the cookie stays valid.
\<close>

theorem logout_ends_session:
  assumes "Logout d w b r = (resp, b')"
    and "br_Cookie r (mg_cookieName (dp_Sessions d)) = Some tok" and "TrimSpace tok = tok" and "tok \<noteq> []"
    and "store_reliable w0 (bf_store b) w" and "store_reliable w0 (bf_store b) w'" and "bw_now w \<le> bw_now w'"
  shows "bs_Status resp = (if fst (store_Delete w tok (bf_store b)) = None then 200 else 500)
    \<and> (bs_Status resp = 200 \<longrightarrow>
         bs_Cookies resp = [expired_cookie (dp_Sessions d), set_cookie d csrfCookieName [] False (- 1)]
         \<and> (\<exists>target. bs_Body resp = BJSON [(''redirectTo'', target)]
              \<and> logout_target (dp_EndSessionEndpoint d) (session_of d w b r) target)
         \<and> (revocable (bf_store b) \<longrightarrow> fst (Manager_Get w' (dp_Sessions d) r (bf_store b')) = Inr None)
         \<and> (\<not> revocable (bf_store b) \<longrightarrow> bf_store b' = bf_store b))"
proof -
  define st0 where "st0 = snd (store_Load w tok (bf_store b))"
  obtain err st where del: "store_Delete w tok st0 = (err, st)" by fastforce
  have err: "fst (store_Delete w tok (bf_store b)) = err" using store_Delete_loaded [of w tok "bf_store b"] del by (simp add: st0_def)
  have g: "Manager_Get w (dp_Sessions d) r (bf_store b) = (fst (store_Load w tok (bf_store b)), st0)"
    using assms(2-4) by (simp add: Manager_Get_def Let_def st0_def)
  have cur: "(case fst (store_Load w tok (bf_store b)) of Inl err \<Rightarrow> None | Inr found \<Rightarrow> found) = session_of d w b r"
    by (auto simp: session_of_def g split: sum.split option.split)
  have "Manager_Destroy w (dp_Sessions d) r st0 = (case err of Some e \<Rightarrow> (Inl e, st) | None \<Rightarrow> (Inr [expired_cookie (dp_Sessions d)], st))"
    using assms(2-4) del by (simp add: Manager_Destroy_def delete_cookie_session_def split: option.split)
  then have out: "Logout d w b r = (case err of
      Some e \<Rightarrow> (writeError 500 ''internal server error'', b\<lparr>bf_store := st\<rparr>)
    | None \<Rightarrow> (with_cookies [expired_cookie (dp_Sessions d), set_cookie d csrfCookieName [] False (- 1)]
        (base_bresponse\<lparr>bs_Header := [(''Content-Type'', ''application/json'')],
          bs_Body := BJSON [(''redirectTo'', logout_url d (session_of d w b r))]\<rparr>), b\<lparr>bf_store := st\<rparr>))"
    by (simp add: Logout_def g cur Let_def split: option.split)
  have gone: "fst (Manager_Get w' (dp_Sessions d) r st) = Inr None" if "revocable (bf_store b)" "err = None"
    using store_load_deleted [OF del [unfolded that(2)], of w0 w'] store_kind(3) [of w0 w tok "bf_store b"] store_kind(4) [of w tok "bf_store b"] that assms(2-7)
    by (simp add: Manager_Get_def Let_def st0_def)
  have kept: "st = bf_store b" if "\<not> revocable (bf_store b)"
    using that del by (auto simp: revocable_def st0_def store_Delete_def store_Load_def split: store.splits)
  show ?thesis
  proof (cases err)
    case None
    then show ?thesis
      using assms(1) out gone kept err logout_url_target [of d "session_of d w b r"]
      by (auto simp: with_cookies_def base_bresponse_def)
  next
    case (Some e)
    then show ?thesis using assms(1) out err by (auto simp: writeError_def writeJSONError_def base_bresponse_def)
  qed
qed

section \<open>Witnesses\<close>

theorem director_confined_witness:
  "url_String (director example_proxy (request_url (get_request ''/api/users/7''))) = ''http://api/v2/users/7''"
proof -
  let ?r = "get_request ''/api/users/7''"
  have h: "u_Path (ap_target example_proxy) = []" "u_RawPath (ap_target example_proxy) = []" "u_RawQuery (ap_target example_proxy) = []"
    "HasPrefix (ap_pathPrefix example_proxy) ''/''" "br_Path ?r = ap_pathPrefix example_proxy @ slashed [''users'', ''7'']"
    "br_RawPath ?r = []" "list_all proper_seg [''users'', ''7'']" "list_all proper_seg [''v2'']"
    "ap_upstreamPathPrefix example_proxy = (if [''v2''] = [] then ''/'' else slashed [''v2''])"
    by code_simp+
  have "u_Path (director example_proxy (request_url ?r)) = ''/v2/users/7''"
    using director_confined [OF h] by (simp add: example_proxy_def slashed_def)
  moreover have "url_String (director example_proxy (request_url ?r))
      = ''http://api'' @ u_Path (director example_proxy (request_url ?r))" by code_simp
  ultimately show ?thesis by simp
qed

theorem api_route_guarded_witness:
  "find_route (bff_routes ''/api'') (get_request ''/api/users'') = Some APIH
   \<and> api_path example_deps (br_Path (get_request ''/api/users''))"
proof -
  have f: "find_route (bff_routes (dp_APIPathPrefix example_deps)) (get_request ''/api/users'') = Some APIH"
    "request_ok (get_request ''/api/users'')" "\<not> HasSuffix (dp_APIPathPrefix example_deps) ''/''"
    by code_simp+
  have "dp_APIPathPrefix example_deps = ''/api''" by (simp add: example_deps_def)
  with f(1) api_route_guarded [OF f] show ?thesis by simp
qed

theorem logout_ends_session_witness:
  "bs_Status (fst (Logout example_deps example_bworld live_bff api_request)) = 200
   \<and> fst (Manager_Get example_bworld example_manager api_request
       (bf_store (snd (Logout example_deps example_bworld live_bff api_request)))) = Inr None
   \<and> (\<exists>target. bs_Body (fst (Logout example_deps example_bworld live_bff api_request)) = BJSON [(''redirectTo'', target)]
        \<and> logout_target ''https://idp/endsession'' (Some expiring_Session) target)"
proof -
  have m: "bf_store live_bff = MemoryStore [''tok'' \<mapsto> \<lparr>mi_session = expiring_Session, mi_expires = 2000 * Second\<rparr>]"
    by (simp add: live_bff_def New_state_def expiring_Session_def)
  have c: "br_Cookie api_request (mg_cookieName (dp_Sessions example_deps)) = Some ''tok''" "TrimSpace ''tok'' = ''tok''"
    "''tok'' \<noteq> []" by code_simp+
  have st: "store_reliable w0 (bf_store live_bff) example_bworld" "revocable (bf_store live_bff)"
    "fst (store_Delete example_bworld ''tok'' (bf_store live_bff)) = None" for w0
    by (simp_all add: m store_law_defs example_bworld_def store_Delete_def memory_Delete_def)
  have s: "session_of example_deps example_bworld live_bff api_request = Some expiring_Session"
    by (simp add: session_of_def live_Get)
  have d: "dp_Sessions example_deps = example_manager" "dp_EndSessionEndpoint example_deps = ''https://idp/endsession''"
    by (simp_all add: example_deps_def)
  from logout_ends_session [OF prod.collapse [symmetric] c st(1) st(1)] show ?thesis
    by (simp add: st(2,3) s d)
qed

section \<open>Where the code departs from its description\<close>

text \<open>A request with an escaped slash before \<^verbatim>\<open>..\<close> leaves the upstream prefix.\<close>

lemma director_escapes_prefix:
  "url_String (director example_proxy (request_url ((get_request ''/api/../admin'')\<lparr>br_RawPath := ''/api/..%2fadmin''\<rparr>)))
     = ''http://api/admin''
   \<and> mux_cleanPath ''/api/..%2fadmin'' = ''/api/..%2fadmin''
   \<and> find_route (bff_routes ''/api'') ((get_request ''/api/../admin'')\<lparr>br_RawPath := ''/api/..%2fadmin''\<rparr>) = Some APIH"
  by code_simp

text \<open>A path in the base URL ends up behind the upstream prefix, together with the prefix that should be stripped.\<close>

lemma director_base_path:
  "u_Path (director (example_proxy\<lparr>ap_target := zero_url\<lparr>u_Scheme := ''http'', u_Host := ''api'', u_Path := ''/base''\<rparr>\<rparr>)
     (request_url (get_request ''/api/x''))) = ''/v2/base/api/x''"
  by code_simp

text \<open>A trailing slash is lost.\<close>

lemma director_drops_slash: "u_Path (director example_proxy (request_url (get_request ''/api/x/''))) = ''/v2/x''"
  by code_simp

text \<open>With an escaped slash after the prefix, the guards see an API path, and the router sends it, with the access token, to the static server.\<close>

lemma escaped_slash_to_static:
  "api_path example_deps ''/api/x''
   \<and> find_route (bff_routes ''/api'') ((get_request ''/api/x'')\<lparr>br_RawPath := ''/api%2Fx''\<rparr>) = Some StaticH"
  by code_simp

text \<open>An API request with any bearer token of its own needs no session.\<close>

lemma bearer_needs_no_session:
  "\<not> unsafe_method r \<Longrightarrow> api_path d (br_Path r) \<Longrightarrow> is_bearer r
     \<Longrightarrow> BuildMiddlewareStack d h w b r = SecurityHeaders d (Recovery h) w b r"
  by (simp add: BuildMiddlewareStack_def SecurityHeaders_def AuthGuard_def CSRFMiddleware_def TokenForwarder_def unsafe_method_def)

text \<open>The prefix \<^verbatim>\<open>/\<close> passes validation and makes the registration of the routes panic.\<close>

lemma root_prefix_conflict: "normalizePathPrefix ''/'' = ''/'' \<and> register_routes (bff_routes ''/'') = None"
  by code_simp

text \<open>
  Near expiry, when the refreshed session cannot be saved, the request goes on with the old token while the old session is already deleted.
\<close>

lemma failed_rotation_loses_session:
  "map_option ss_AccessToken (fst (fst (refresh_step example_deps (example_bworld\<lparr>bw_idBytes := None\<rparr>) api_request expiring_Session
       (bf_store live_bff)))) = Some ''at''
   \<and> fst (store_Load example_bworld ''tok'' (snd (refresh_step example_deps (example_bworld\<lparr>bw_idBytes := None\<rparr>) api_request
       expiring_Session (bf_store live_bff)))) = Inr None"
  by code_simp

text \<open>A session is found under the trimmed cookie value and deleted under the untrimmed one, so a padded cookie survives its logout.\<close>

lemma padded_cookie_survives_logout:
  "map_option ss_AccessToken (session_of example_deps example_bworld
     (snd (Logout example_deps example_bworld live_bff (api_request\<lparr>br_Cookies := [(''session'', '' tok'')]\<rparr>)))
     (api_request\<lparr>br_Cookies := [(''session'', '' tok'')]\<rparr>)) = Some ''at''"
  by code_simp

end
