(* ===== verification/Bff_Logging.thy ===== *)
theory Bff_Logging
  imports Bff_Proxy
begin

text \<open>
  The request log of the backend-for-frontend (\<^verbatim>\<open>bff/internal/middleware/logging.go\<close>) and the log level flag of its command
  (\<^verbatim>\<open>bff/cmd/bff/main.go\<close>): what is logged, and that logging leaves the answer alone.
\<close>

section \<open>The log level\<close>

datatype level = LevelDebug | LevelInfo | LevelWarn | LevelError

text \<open>\<open>to_lower\<close> is \<^verbatim>\<open>strings.ToLower\<close>; \<open>None\<close> is the error that ends the program.\<close>

definition parseLogLevelFlag :: "(string \<Rightarrow> string) \<Rightarrow> string \<Rightarrow> level option" where
  "parseLogLevelFlag to_lower flag =
     (let v = to_lower (TrimSpace flag)
      in if v = ''debug'' then Some LevelDebug
         else if v = ''info'' then Some LevelInfo
         else if v = ''warn'' \<or> v = ''warning'' then Some LevelWarn
         else if v = ''error'' then Some LevelError
         else None)"

section \<open>The status writer\<close>

text \<open>
  The calls a handler makes on its response writer. \<^verbatim>\<open>statusWriter\<close> keeps the status of the last \<^verbatim>\<open>WriteHeader\<close>; the connection
  sends that of the first, or 200 if the body comes first.
\<close>

datatype writer_call = WriteHeader nat | Write string

primrec statusWriter_call :: "writer_call \<Rightarrow> nat \<Rightarrow> nat" where
  "statusWriter_call (WriteHeader status) st = status"
| "statusWriter_call (Write p) st = (if st = 0 then 200 else st)"

definition logged_status :: "writer_call list \<Rightarrow> nat" where
  "logged_status calls = fold statusWriter_call calls 200"

primrec sent_status :: "writer_call list \<Rightarrow> nat" where
  "sent_status [] = 200"
| "sent_status (c # calls) = (case c of WriteHeader status \<Rightarrow> status | Write p \<Rightarrow> 200)"

text \<open>The calls that send a response: the status, then the body in pieces.\<close>

definition response_calls :: "nat \<Rightarrow> string list \<Rightarrow> writer_call list" where
  "response_calls status pieces = WriteHeader status # map Write pieces"

lemma writes_keep_status: "st \<noteq> 0 \<Longrightarrow> fold statusWriter_call (map Write pieces) st = st"
  by (induction pieces) auto

lemma logged_status_sent:
  "status \<noteq> 0 \<Longrightarrow> logged_status (response_calls status pieces) = sent_status (response_calls status pieces)"
  by (simp add: logged_status_def response_calls_def writes_keep_status)

lemma logged_status_implicit: "logged_status (map Write pieces) = sent_status (map Write pieces)"
  by (cases pieces) (simp_all add: logged_status_def writes_keep_status)

text \<open>A second \<^verbatim>\<open>WriteHeader\<close>, as the recovery makes after a handler panicked half way, is logged but not sent.\<close>

lemma logged_status_after_panic:
  "logged_status (response_calls 200 [p] @ response_calls 500 [e]) = 500"
  "sent_status (response_calls 200 [p] @ response_calls 500 [e]) = 200"
  by (simp_all add: logged_status_def response_calls_def)

section \<open>The request log\<close>

record log_entry =
  le_method :: string
  le_path :: string
  le_status :: nat
  le_remote_addr :: string

definition RequestURI :: "brequest \<Rightarrow> string" where
  "RequestURI r = EscapedPath (request_url r) @ (if br_RawQuery r = [] then [] else ''?'' @ br_RawQuery r)"

text \<open>A panic passes through and leaves no entry; a response is written as its status and then its body.\<close>

definition RequestLogger ::
  "'r bhandler \<Rightarrow> 'r bworld \<Rightarrow> 'r bff \<Rightarrow> brequest \<Rightarrow> (outcome \<times> 'r bff) \<times> log_entry option" where
  "RequestLogger next_handler w b r =
     (case next_handler w b r of
        (Responded resp, b') \<Rightarrow> ((Responded resp, b'),
          Some \<lparr>le_method = br_Method r, le_path = RequestURI r,
            le_status = logged_status (response_calls (bs_Status resp) []), le_remote_addr = br_RemoteAddr r\<rparr>)
      | (Panicked abort, b') \<Rightarrow> ((Panicked abort, b'), None))"

definition NewBFF :: "'r bff_server \<Rightarrow> 'r bworld \<Rightarrow> 'r bff \<Rightarrow> brequest \<Rightarrow> (outcome \<times> 'r bff) \<times> log_entry option" where
  "NewBFF sv = RequestLogger (bff_handle sv)"

lemma NewBFF_transparent: "fst (NewBFF sv w b r) = bff_handle sv w b r"
  by (auto simp: NewBFF_def RequestLogger_def split: prod.split outcome.split)

lemma NewBFF_logs:
  "snd (NewBFF sv w b r) = Some e \<longleftrightarrow> (\<exists>resp b'. bff_handle sv w b r = (Responded resp, b')
     \<and> e = \<lparr>le_method = br_Method r, le_path = RequestURI r, le_status = bs_Status resp, le_remote_addr = br_RemoteAddr r\<rparr>)"
  by (auto simp: NewBFF_def RequestLogger_def logged_status_def response_calls_def split: prod.splits outcome.splits)

end
