(* ===== verification/Code_Flow.thy ===== *)
theory Code_Flow
  imports Idp_Security Bff_Handlers Bff_StoreLaws
begin

text \<open>
  The authorization code flow of the two programs together: the backend-for-frontend sends the browser off with a state and a
  challenge, the identity provider asks the user and redirects back with a code, the backend exchanges the code
  with its verifier.
\<close>

section \<open>The steps at the identity provider\<close>

definition flow_context :: "request \<Rightarrow> authContextEntry" where
  "flow_context r = \<lparr>ac_Scope = form_Get r ''scope'', ac_ClientID = form_Get r ''client_id'',
     ac_RedirectURI = form_Get r ''redirect_uri'', ac_State = form_Get r ''state'', ac_Nonce = form_Get r ''nonce'',
     ac_CodeChallenge = form_Get r ''code_challenge'', ac_CodeChallengeMethod = form_Get r ''code_challenge_method'',
     ac_Username = [], ac_Sub = []\<rparr>"

text \<open>A browser without a session asks for a code with an S256 challenge, for a client that did not register itself.\<close>

definition flow_start :: "server \<Rightarrow> request \<Rightarrow> string \<Rightarrow> bool" where
  "flow_start s r verifier \<longleftrightarrow> r_Method r = ''GET'' \<and> form_Get r ''client_id'' \<noteq> []
     \<and> \<not> isClientIDMetadataDocumentURL (form_Get r ''client_id'')
     \<and> (\<forall>reg. clients s (form_Get r ''client_id'') = Some reg \<longrightarrow> RegistrationMethod reg = registrationMethodAutomatic)
     \<and> form_Get r ''code_challenge'' = S256Challenge verifier \<and> form_Get r ''code_challenge_method'' = ''S256''
     \<and> sessions s (case cookie_of r sessionCookieName of Some v \<Rightarrow> v | None \<Rightarrow> []) = None
     \<and> form_Get r ''prompt'' \<noteq> ''none''"

definition automatic_client :: "server \<Rightarrow> string \<Rightarrow> bool" where
  "automatic_client s c \<longleftrightarrow> (\<exists>reg. clients s c = Some reg \<and> RegistrationMethod reg = registrationMethodAutomatic)"

lemma flow_authorize:
  assumes "flow_start s r v"
  shows "\<exists>s1. authorize w s r = (renderPage (AuthenticatePage (w_reqID w)), s1)
    \<and> authContext s1 (w_reqID w) = Some (flow_context r) \<and> automatic_client s1 (form_Get r ''client_id'')"
proof -
  let ?c = "form_Get r ''client_id''"
  let ?s1 = "registerClientLocked w s ?c (form_Get r ''redirect_uri'') (form_Get r ''scope'')"
  have "\<exists>reg. clients ?s1 ?c = Some reg \<and> RegistrationMethod reg = registrationMethodAutomatic"
    using assms
    by (auto simp: flow_start_def registerClientLocked_def observe_request_fields automatic_registration_def split: option.splits)
  then obtain reg where reg: "clients ?s1 ?c = Some reg" "RegistrationMethod reg = registrationMethodAutomatic" by blast
  have "resolveAuthorizeClient w s ?c (form_Get r ''redirect_uri'') (form_Get r ''scope'') (form_Get r ''code_challenge'') = (None, ?s1)"
    using assms reg
    by (simp add: flow_start_def resolveAuthorizeClient_def Let_def check_registration_def registrationMethod_defs)
  with assms reg show ?thesis
    by (simp add: flow_start_def authorize_def authorize_resolved_def challenge_method_def supportedCodeChallengeMethods_def
        Let_def idp_frames flow_context_def automatic_client_def)
qed

lemma flow_login:
  assumes "authContext s k = Some ctx" and "r_Method r = ''POST''" and "form_Get r ''reqid'' = k"
    and "form_Get r ''password'' = ''valid''"
  shows "authContext (snd (login w s r)) k =
      Some (ctx\<lparr>ac_Username := form_Get r ''username'', ac_Sub := ''internal|'' @ form_Get r ''username''\<rparr>)"
    and "clients (snd (login w s r)) = clients s"
  using assms by (simp_all add: login_def Let_def)

lemma flow_approve:
  assumes "authContext s k = Some ctx" and "r_Method r = ''POST''" and "form_Get r ''reqid'' = k"
    and "values_Has (r_Form r) ''approve''"
    and "parseClaimsJSON w (form_Get r ''id_token_claims_json'') = Some ic"
    and "parseClaimsJSON w (form_Get r ''access_token_claims_json'') = Some ac"
  shows "location (fst (approve w s r)) = Some (buildURL (ac_RedirectURI ctx)
      [(''code'', w_code w), (''state'', ac_State ctx), (''iss'', externalURL s)])"
    and "\<exists>j sess cs. codeMeta (snd (approve w s r)) (w_code w)
        = Some \<lparr>cm_CookieID = j, cm_ClientID = ac_ClientID ctx, cm_Nonce = ac_Nonce ctx\<rparr>
      \<and> sessions (snd (approve w s r)) j = Some sess \<and> getClientSessionByID sess (ac_ClientID ctx) = Some cs
      \<and> cs_CodeChallenge cs = ac_CodeChallenge ctx \<and> cs_CodeChallengeMethod cs = ac_CodeChallengeMethod ctx"
    and "clients (snd (approve w s r)) = clients s"
  using assms
  by (simp_all add: approve_def approve_session_def issueCodeAndRedirect_def Let_def getClientSessionByID_def
      find_upsertClientSession approved_clientSession_def response_defs)

lemma token_succeeds:
  assumes "code_request r code" and "codeMeta s code = Some meta" and "sessions s (cm_CookieID meta) = Some sess"
    and "getClientSessionByID sess (cm_ClientID meta) = Some cs" and "pkce_verified cs (form_Get r ''code_verifier'')"
    and "automatic_client s (cm_ClientID meta)" and "\<And>c. w_sign w c \<notin> {None, Some []}"
  shows "\<exists>m a. status (fst (token w s r)) = 200 \<and> rbody (fst (token w s r)) = JSONBody m \<and> m ''access_token'' = Some (AStr a) \<and> a \<noteq> []"
proof -
  obtain g s1 where g: "code_grant w s r = (Inr g, s1)"
    using assms(1-5) by (auto simp: code_grant_def code_request_def Let_def)
  have c: "gr_clientID g = cm_ClientID meta" "clients s1 = clients s"
    using code_grant_Inr [OF g] assms(1,2) by (auto simp: code_request_def)
  have auth: "authenticateClient w s1 (gr_clientID g) creds = (None, s1)" for creds
    using assms(6) c
    by (auto simp: automatic_client_def authenticateClient_def registrationMethod_defs)
  have signed: "(issueToken w s1 a b c e = None) = False" for a b c e
    using assms(7) by (simp add: issueToken_def Let_def)
  have "issue_all w s1 g \<noteq> None" by (simp add: issue_all_def Let_def signed split: option.split)
  then obtain t where t: "issue_all w s1 g = Some t" by blast
  have nonempty: "fst x \<noteq> []" if "issueToken w s1 a b c e = Some x" for a b c e x
    using that assms(7) by (auto simp: issueToken_def Let_def split: option.splits)
  have "fst (it_access t) \<noteq> []"
    using t nonempty by (auto simp: issue_all_def Let_def split: option.splits)
  moreover have "fst (token w s r) = token_response s1 t"
    using g assms(1) auth t by (auto simp: token_def token_grant_def code_request_def Let_def)
  ultimately show ?thesis using token_response_fields [OF refl, of s1 t] by (auto simp: token_response_def base_response_def)
qed

section \<open>The whole flow\<close>

text \<open>What the user does at the login and the approval page.\<close>

definition flow_logs_in :: "string \<Rightarrow> request \<Rightarrow> bool" where
  "flow_logs_in reqID r \<longleftrightarrow> r_Method r = ''POST'' \<and> form_Get r ''reqid'' = reqID \<and> form_Get r ''password'' = ''valid''"

definition flow_approves :: "world \<Rightarrow> string \<Rightarrow> request \<Rightarrow> bool" where
  "flow_approves w reqID r \<longleftrightarrow> r_Method r = ''POST'' \<and> form_Get r ''reqid'' = reqID \<and> values_Has (r_Form r) ''approve''
     \<and> parseClaimsJSON w (form_Get r ''id_token_claims_json'') \<noteq> None
     \<and> parseClaimsJSON w (form_Get r ''access_token_claims_json'') \<noteq> None"

text \<open>The browser follows the redirect to the callback, with the cookies the backend gave it.\<close>

definition flow_returns :: "brequest \<Rightarrow> string \<Rightarrow> string \<Rightarrow> string \<Rightarrow> bool" where
  "flow_returns r location_query state verifier \<longleftrightarrow> br_Query r = ParseQuery location_query
     \<and> br_Cookie r stateCookieName = Some state \<and> br_Cookie r verifierCookieName = Some verifier"

lemma values_Get_single: "map_of m k = Some [v] \<Longrightarrow> values_Get m k = v"
  by (simp add: values_Get_def)

lemma flow_callback:
  assumes "flow_returns r q state verifier" and "map_of (ParseQuery q) ''state'' = Some [state]"
    and "map_of (ParseQuery q) ''code'' = Some [code]" and "state \<noteq> []" and "verifier \<noteq> []" and "code \<noteq> []"
  shows "callback_params r = Some (state, verifier, code)"
  using assms values_Get_single [OF assms(2)] values_Get_single [OF assms(3)]
  by (simp add: flow_returns_def callback_params_def Let_def)

text \<open>A text member of a JSON object, empty if there is none.\<close>

definition json_text :: "claims \<Rightarrow> string \<Rightarrow> string" where
  "json_text m k = (case m k of Some (AStr t) \<Rightarrow> t | _ \<Rightarrow> [])"

text \<open>
  What the OAuth library documents of an exchange: a 200 with an access token becomes a token set with the access, refresh
  and ID token of the response.
\<close>

definition exchange_reads :: "response \<Rightarrow> oauthToken option \<Rightarrow> bool" where
  "exchange_reads resp result \<longleftrightarrow> (\<forall>m. status resp = 200 \<longrightarrow> rbody resp = JSONBody m \<longrightarrow> json_text m ''access_token'' \<noteq> []
     \<longrightarrow> (\<exists>t. result = Some t \<and> ot_AccessToken t = json_text m ''access_token'' \<and> ot_RefreshToken t = json_text m ''refresh_token''
          \<and> (case ot_IDToken t of Some v \<Rightarrow> v | None \<Rightarrow> []) = json_text m ''id_token''))"

text \<open>The backend verifies the ID token it is given, and its store accepts the session made of the token set.\<close>

definition backend_ready :: "'r bworld \<Rightarrow> 'r Dependencies \<Rightarrow> 'r bworld \<Rightarrow> 'r bff \<Rightarrow> oauthToken option \<Rightarrow> bool" where
  "backend_ready w0 d w b exchanged \<longleftrightarrow> store_reliable w0 (bf_store b) w
     \<and> (\<forall>t claims raw. exchanged = Some t \<longrightarrow> readClaims d w t \<noteq> None
          \<and> (readClaims d w t = Some (claims, raw) \<longrightarrow> store_encodes w0 (bf_store b) (callback_session w t raw)
               \<and> \<not> isl (fst (store_Save w (callback_session w t raw) sessionTTL (bf_store b)))))"

text \<open>
  A request that brings the session cookie finds, for 24 hours, a session with the tokens of the response \<open>m\<close> and
  the CSRF token drawn.
\<close>

definition logged_in :: "'r bworld \<Rightarrow> 'r Dependencies \<Rightarrow> 'r bworld \<Rightarrow> 'r store \<Rightarrow> claims \<Rightarrow> bresponse \<times> 'r bff \<Rightarrow> bool" where
  "logged_in w0 d w st m result \<longleftrightarrow>
     (\<exists>tok sess. session_cookie (dp_Sessions d) tok \<in> set (bs_Cookies (fst result))
        \<and> ss_AccessToken sess = json_text m ''access_token'' \<and> ss_RefreshToken sess = json_text m ''refresh_token''
        \<and> ss_IDToken sess = json_text m ''id_token'' \<and> ss_CSRFToken sess = bw_csrf w
        \<and> (\<forall>w' r. br_Cookie r (mg_cookieName (dp_Sessions d)) = Some tok \<longrightarrow> store_reliable w0 st w'
             \<longrightarrow> bw_now w \<le> bw_now w' \<longrightarrow> bw_now w' < bw_now w + 24 * Hour
             \<longrightarrow> fst (Manager_Get w' (dp_Sessions d) r (bf_store (snd result))) = Inr (Some sess)))"

text \<open>A callback whose state is unclaimed and whose code is exchanged for verifiable tokens logs the user in.\<close>

lemma callback_logs_in:
  assumes "callback_params r = Some (state, verifier, code)" and "fst (Claim (bw_now w) state (bf_claims b))"
    and "status resp = 200" and "rbody resp = JSONBody m" and "m ''access_token'' = Some (AStr a)" and "a \<noteq> []"
    and "exchange_reads resp (dp_ExchangeCode d w code verifier)" and "backend_ready w0 d w b (dp_ExchangeCode d w code verifier)"
  shows "bs_Status (fst (Callback d w b r)) = 303 \<and> logged_in w0 d w (bf_store b) m (Callback d w b r)"
proof -
  from assms(3-7) obtain t where x: "dp_ExchangeCode d w code verifier = Some t"
    and f: "ot_AccessToken t = json_text m ''access_token''" "ot_RefreshToken t = json_text m ''refresh_token''"
      "(case ot_IDToken t of Some v \<Rightarrow> v | None \<Rightarrow> []) = json_text m ''id_token''"
    unfolding exchange_reads_def by (auto simp: json_text_def)
  from assms(8) x obtain claims raw where rc: "readClaims d w t = Some (claims, raw)" by (auto simp: backend_ready_def)
  then have raw: "raw = json_text m ''id_token''" using f(3) by (auto simp: readClaims_def Let_def split: option.splits)
  let ?s = "callback_session w t raw"
  from assms(8) x rc have ok: "store_reliable w0 (bf_store b) w" "store_encodes w0 (bf_store b) ?s"
    and "\<not> isl (fst (store_Save w ?s sessionTTL (bf_store b)))" by (auto simp: backend_ready_def)
  then obtain tok st where save: "store_Save w ?s sessionTTL (bf_store b) = (Inr tok, st)"
    by (cases "store_Save w ?s sessionTTL (bf_store b)"; cases "fst (store_Save w ?s sessionTTL (bf_store b))") auto
  have cb: "bs_Status (fst (Callback d w b r)) = 303" "session_cookie (dp_Sessions d) tok \<in> set (bs_Cookies (fst (Callback d w b r)))"
    "bf_store (snd (Callback d w b r)) = st"
    using assms(1,2) x rc save
    by (cases "Claim (bw_now w) state (bf_claims b)"; simp add: Callback_def Let_def Manager_Create_def seeOther_def with_cookies_def
        base_bresponse_def)+
  have "fst (Manager_Get w' (dp_Sessions d) r' st) = Inr (Some ?s)"
    if "br_Cookie r' (mg_cookieName (dp_Sessions d)) = Some tok" "store_reliable w0 (bf_store b) w'"
      "bw_now w \<le> bw_now w'" "bw_now w' < bw_now w + 24 * Hour" for w' r'
    using Manager_Get_created [OF save ok that(1-3)] that(4) by (simp add: sessionTTL_def)
  with cb show ?thesis
    unfolding logged_in_def
    by (intro conjI exI [of _ tok] exI [of _ ?s]) (simp_all add: callback_session_def f raw)
qed

end
