(* ===== verification/Spec2Isabelle.thy ===== *)
theory Spec2Isabelle
  imports Idp_Grants Idp_Interleaving Idp_Disclosure Bff_Routing Bff_Logging Code_Flow
begin

text \<open>
  A verification of the two programs of this repository: the OpenID Connect identity provider
  (\<^verbatim>\<open>src/idp-auth-server\<close>) and the backend-for-frontend (\<^verbatim>\<open>src/bff\<close>) that logs browsers in at it, keeps
  their tokens in sessions and proxies their API and asset requests.

  \<^bold>\<open>How the programs are modelled.\<close> A handler is a function from the world, the state and a request to a response and the
  state afterwards; every early return is a branch. One request is one atomic step; only the code grant is also modelled at
  the granularity of its critical sections (\<open>Idp_Interleaving\<close>), other interleavings inside a handler are not. The world of a request (\<open>world\<close> of \<open>Idp_State\<close>,
  \<open>bworld\<close> of \<open>Bff_State\<close>) holds what the code does not compute: the clock, the
  identifiers and bytes drawn from random generators, the iteration order of Go maps, the JWT, JSON, OAuth and OIDC libraries, AES-GCM,
  Redis and remote servers. What is relied on there is a named hypothesis: \<open>fresh_world\<close> (generated identifiers are unused),
  \<open>redis_ok\<close>, \<open>gcm_ok\<close>, \<open>codec_ok\<close>. The standard library functions the code calls on strings,
  URLs, paths, base64, SHA-256, JSON fields and IP addresses are defined in the \<open>Go_\<close> theories, and errors are values of a sum or
  option type.

  \<^bold>\<open>Shared theories.\<close> \<open>Prelude\<close> (time and int64 arithmetic with its wrap-around, map iteration, updating a slice element),
  \<open>Go_Strings\<close>, \<open>Go_URL\<close>, \<open>Go_Encoding\<close>, \<open>Go_JSON\<close>, \<open>Go_Net\<close>, \<open>Go_Path\<close>.
  \<open>Systems\<close> has the locales \<open>guarded_system\<close> (an invariant and what is stable along runs) and \<open>refined_system\<close>
  (an abstract system that a concrete one refines); \<open>Replay_Guard\<close> the locale \<open>replay_guard\<close> (a claimed key is refused for a while),
  interpreted on the \<^verbatim>\<open>jti\<close> cache of the identity provider and on the state claims of the backend.

  \<^bold>\<open>The identity provider.\<close>
  \<^item> \<open>Idp_State\<close>: the structs of \<^verbatim>\<open>main.go\<close> and \<^verbatim>\<open>clientid_metadata.go\<close> as records, requests, pages and responses.
  \<^item> \<open>Idp_Claims\<close>: claims, tokens, subjects and redirect URLs (\<^verbatim>\<open>issueToken\<close>, \<^verbatim>\<open>decodeJWT\<close>,
    \<^verbatim>\<open>computeAdvertisedSub\<close>, \<^verbatim>\<open>buildURL\<close>).
  \<^item> \<open>Idp_Registration\<close>: the client registry (\<^verbatim>\<open>register\<close>, \<^verbatim>\<open>normalizeRegistration\<close>, \<^verbatim>\<open>registerClientLocked\<close>,
    \<^verbatim>\<open>clientsPage\<close>): exactly which metadata is accepted, in the terms of RFC 7591, and what comes out of it; what a request records of its client.
  \<^item> \<open>Idp_Sessions\<close>: sessions and client sessions with their lookups, over the locale \<open>keyed_table\<close>; identifiers find exactly one
    client session whatever the map order.
  \<^item> \<open>Idp_Metadata\<close>: client ID metadata documents (\<^verbatim>\<open>clientid_metadata.go\<close>): the guarded fetch and its address filter, which
    equals a table of prefixes, the cache and its lifetimes under int64 overflow.
  \<^item> \<open>Idp_ClientAuth\<close>: client authentication (\<^verbatim>\<open>private_key_jwt.go\<close>, \<^verbatim>\<open>authenticateClient\<close>): secrets, assertions and their single use.
  \<^item> \<open>Idp_Authorize\<close>, \<open>Idp_Token\<close>, \<open>Idp_Server\<close>: the handlers, the router with CORS and start-up.
  \<^item> \<open>Idp_Invariants\<close>: the invariant \<open>idp_ok\<close> of every reachable state.
  \<^item> \<open>Idp_Security\<close>: codes are redeemed once, by the holder of the verifier and the client's secret, and delivered to registered redirect URIs; what
    \<^verbatim>\<open>/authorize\<close> changes in the client registry; what tokens contain.
  \<^item> \<open>Idp_Interleaving\<close>: concurrent token requests with one code, interleaved between the two critical sections of the grant: at most one obtains it.
  \<^item> \<open>Idp_Grants\<close>: the refinement of the abstract authorization service \<open>grant_step\<close>, and that an ended session revokes its codes and refresh tokens and
    leaves its access tokens only their subject at userinfo.
  \<^item> \<open>Idp_Disclosure\<close>: what userinfo and redirects disclose, and concrete runs of unintended behaviour.

  \<^bold>\<open>The backend-for-frontend.\<close>
  \<^item> \<open>Bff_Config\<close> (\<^verbatim>\<open>config.go\<close>): loading the configuration is the documented function of the environment, errors included.
  \<^item> \<open>Bff_State\<close>, \<open>Bff_Session\<close> (\<^verbatim>\<open>session.go\<close>, \<^verbatim>\<open>store.go\<close>, \<^verbatim>\<open>cookie_store.go\<close>,
    \<^verbatim>\<open>manager.go\<close>): sessions, the three stores and the manager.
  \<^item> \<open>Bff_Stores\<close>: the contract of a store as the locales \<open>session_store\<close> and \<open>revocable_store\<close>, interpreted on the memory,
    Redis and cookie stores: what was saved is loaded, what was deleted is not, across any operations. \<open>Bff_StoreLaws\<close> puts their laws together for
    the configured store and the manager: \<open>store_reliable\<close> and \<open>store_encodes\<close> are what it relies on, \<open>revocable\<close> tells the stores that revoke.
  \<^item> \<open>Bff_StateClaims\<close> (\<^verbatim>\<open>state_claims.go\<close>), \<open>Bff_Handlers\<close> (\<^verbatim>\<open>auth.go\<close>, \<^verbatim>\<open>oidc.go\<close>,
    \<^verbatim>\<open>oidc_runtime.go\<close>), \<open>Bff_Middleware\<close> (\<^verbatim>\<open>middleware.go\<close>, \<^verbatim>\<open>recovery.go\<close>),
    \<open>Bff_Proxy\<close> (\<^verbatim>\<open>proxy.go\<close>, \<^verbatim>\<open>router.go\<close>, \<^verbatim>\<open>server.go\<close>, \<^verbatim>\<open>cmd/bff/main.go\<close>),
    \<open>Bff_Logging\<close> (\<^verbatim>\<open>logging.go\<close>): the handlers, the middleware stack, proxies, routes, start-up and request log.
  \<^item> \<open>Bff_Security\<close>: the guards of the middleware stack, token forwarding and refresh, the login callback and its replays.
  \<^item> \<open>Bff_Routing\<close>: discovery with its 30 attempts, the paths the API proxy is asked for and asks for, logout, and concrete runs of unintended behaviour.

  \<^bold>\<open>Both programs.\<close> \<open>Code_Flow\<close> and this theory: the authorization code flow between the two completes with
  a session that later requests find; \<open>exchange_reads\<close> is what it relies on of the OAuth library.

  \<^bold>\<open>Bounds.\<close> Nothing runs on fuel: every loop is a total function, and the only bound, the 30 discovery attempts, is the program's own.

  \<^bold>\<open>Not modelled.\<close> The HTML templates and their rendering (a page is the data it is given; a failing template is not modelled), debug
  logging of requests (\<^verbatim>\<open>logRequest\<close>, \<^verbatim>\<open>readBody\<close>), the indented JSON text on the clients page, \<^verbatim>\<open>Hijack\<close> and \<^verbatim>\<open>Flush\<close> of the
  response writer, hop-by-hop headers in the reverse proxy, and the two \<^verbatim>\<open>main\<close> functions beyond
  start-up: these are I/O around the logic above.

  \<^bold>\<open>Simplifications.\<close> A request reads the clock once where the code calls \<^verbatim>\<open>time.Now\<close> several times. The location of a redirect is the URL
  given to \<^verbatim>\<open>http.Redirect\<close>, which also cleans URLs without a scheme and escapes bytes that are not ASCII. The timeout of a metadata
  fetch is one of the ways a dial or an exchange fails. Routes are literal: wildcards in braces in \<^verbatim>\<open>API_PATH_PREFIX\<close> and conflicts of
  \<^verbatim>\<open>ServeMux\<close> patterns other than equal ones are not modelled. A panic behind \<^verbatim>\<open>Recovery\<close> becomes a plain 500, also where part of the
  response had been written.
\<close>

section \<open>The code flow of both programs\<close>

text \<open>
  C8: the authorization code flow completes. The browser has no session at the identity provider and asks for a code with an S256
  challenge, for a client that did not register itself and is not named by a metadata URL (the identity provider registers it
  automatically); the user logs in and approves. Then the identity provider redirects to the callback with a code that, with the
  verifier, gives 200 and an access token at its token endpoint; and a callback with that redirect's query and the backend's cookies
  answers 303, sets a session cookie, and whoever brings that cookie finds, for 24 hours, a session with exactly the access, refresh
  and ID token of the token response and the CSRF token drawn. It holds for every store of the backend that accepts the session, and
  relies on signing to succeed, on the OAuth library to read the token response, and on the ID token to verify.
\<close>

theorem code_flow_completes:
  assumes "flow_start s r1 verifier" and "flow_logs_in (w_reqID w1) r2" and "flow_approves w3 (w_reqID w1) r3"
    and s1: "s1 = snd (authorize w1 s r1)" and s2: "s2 = snd (login w2 s1 r2)" and s3: "s3 = snd (approve w3 s2 r3)"
    and "url_Parse (form_Get r1 ''redirect_uri'') = Some u" and "form_Get r1 ''state'' = state"
    and "state \<noteq> []" and "verifier \<noteq> []" and "w_code w3 \<noteq> []"
    and "code_request r5 (w_code w3)" and "form_Get r5 ''code_verifier'' = verifier" and "\<And>c. w_sign w4 c \<notin> {None, Some []}"
    and "exchange_reads (fst (token w4 s3 r5)) (dp_ExchangeCode d wb (w_code w3) verifier)"
    and "fst (Claim (bw_now wb) state (bf_claims b))" and "backend_ready w0 d wb b (dp_ExchangeCode d wb (w_code w3) verifier)"
  shows "\<exists>q m. location (fst (approve w3 s2 r3)) = Some (url_String (u\<lparr>u_RawQuery := q\<rparr>))
    \<and> status (fst (token w4 s3 r5)) = 200 \<and> rbody (fst (token w4 s3 r5)) = JSONBody m \<and> json_text m ''access_token'' \<noteq> []
    \<and> (\<forall>r4. flow_returns r4 q state verifier \<longrightarrow>
        bs_Status (fst (Callback d wb b r4)) = 303 \<and> logged_in w0 d wb (bf_store b) m (Callback d wb b r4))"
proof -
  define ctx where "ctx = (flow_context r1)\<lparr>ac_Username := form_Get r2 ''username'', ac_Sub := ''internal|'' @ form_Get r2 ''username''\<rparr>"
  have ctx: "ac_RedirectURI ctx = form_Get r1 ''redirect_uri''" "ac_State ctx = state" "ac_ClientID ctx = form_Get r1 ''client_id''"
    "ac_CodeChallenge ctx = S256Challenge verifier" "ac_CodeChallengeMethod ctx = ''S256''"
    using assms(1,8) by (simp_all add: ctx_def flow_context_def flow_start_def)
  from flow_authorize [OF assms(1), of w1] have a: "authContext s1 (w_reqID w1) = Some (flow_context r1)"
    and auto: "automatic_client s1 (ac_ClientID ctx)" unfolding s1 ctx by auto
  have l: "authContext s2 (w_reqID w1) = Some ctx" "clients s2 = clients s1"
    using flow_login [OF a] assms(2) unfolding s2 ctx_def flow_logs_in_def by auto
  obtain ic ac where ap: "r_Method r3 = ''POST''" "form_Get r3 ''reqid'' = w_reqID w1" "values_Has (r_Form r3) ''approve''"
    "parseClaimsJSON w3 (form_Get r3 ''id_token_claims_json'') = Some ic"
    "parseClaimsJSON w3 (form_Get r3 ''access_token_claims_json'') = Some ac"
    using assms(3) unfolding flow_approves_def by blast
  note p = flow_approve [OF l(1) ap]
  obtain j sess cs where m: "codeMeta s3 (w_code w3) = Some \<lparr>cm_CookieID = j, cm_ClientID = ac_ClientID ctx, cm_Nonce = ac_Nonce ctx\<rparr>"
    "sessions s3 j = Some sess" "getClientSessionByID sess (ac_ClientID ctx) = Some cs"
    "cs_CodeChallenge cs = S256Challenge verifier" "cs_CodeChallengeMethod cs = ''S256''"
    using p(2) ctx unfolding s3 by auto
  have pk: "pkce_verified cs (form_Get r5 ''code_verifier'')"
    using m(4,5) assms(13) by (simp add: pkce_verified_def S256Challenge_def)
  have "automatic_client s3 (ac_ClientID ctx)"
    using auto l(2) p(3) by (simp add: automatic_client_def s3)
  then obtain body a where ok: "status (fst (token w4 s3 r5)) = 200" "rbody (fst (token w4 s3 r5)) = JSONBody body"
    "body ''access_token'' = Some (AStr a)" "a \<noteq> []"
    using token_succeeds [OF assms(12) m(1), of sess cs w4, OF _ _ pk _ assms(14)] m(2,3) by auto
  from buildURL_query [OF assms(7), of "[(''code'', w_code w3), (''state'', state), (''iss'', externalURL s2)]"]
  obtain q where q: "location (fst (approve w3 s2 r3)) = Some (url_String (u\<lparr>u_RawQuery := q\<rparr>))"
    "map_of (ParseQuery q) ''code'' = Some [w_code w3]" "map_of (ParseQuery q) ''state'' = Some [state]"
    using p(1) ctx(1,2) by auto
  have "bs_Status (fst (Callback d wb b r4)) = 303 \<and> logged_in w0 d wb (bf_store b) body (Callback d wb b r4)"
    if "flow_returns r4 q state verifier" for r4
    using callback_logs_in [OF flow_callback [OF that q(3,2) assms(9-11)] assms(16) ok assms(15,17)] .
  with q(1) ok show ?thesis by (intro exI [of _ q] exI [of _ body]) (simp add: json_text_def)
qed

text \<open>Bob logs in at a freshly started identity provider for the backend \<open>bff\<close>, whose verifier is \<open>verifier-1\<close>.\<close>

definition flow_r1 :: request where
  "flow_r1 = example_request\<lparr>r_Path := ''/authorize'', r_Form := [(''client_id'', [''bff'']), (''scope'', [''openid'']),
     (''redirect_uri'', [''https://bff/auth/callback'']), (''state'', [''state-1'']),
     (''code_challenge'', [S256Challenge ''verifier-1'']), (''code_challenge_method'', [''S256''])]\<rparr>"

definition flow_r2 :: request where
  "flow_r2 = example_request\<lparr>r_Method := ''POST'', r_Path := ''/login'',
     r_Form := [(''reqid'', [''req-1'']), (''username'', [''bob'']), (''password'', [''valid''])]\<rparr>"

definition flow_r3 :: request where
  "flow_r3 = example_request\<lparr>r_Method := ''POST'', r_Path := ''/approve'',
     r_Form := [(''reqid'', [''req-1'']), (''approve'', [''yes''])]\<rparr>"

definition flow_r5 :: request where
  "flow_r5 = example_request\<lparr>r_Method := ''POST'', r_Path := ''/token'', r_Form := [(''grant_type'', [''authorization_code'']),
     (''code'', [''code-1'']), (''code_verifier'', [''verifier-1''])]\<rparr>"

definition flow_s3 :: server where
  "flow_s3 = (let s1 = snd (authorize consent_world example_server flow_r1); s2 = snd (login consent_world s1 flow_r2)
     in snd (approve consent_world s2 flow_r3))"

definition flow_deps :: "(string \<rightharpoonup> string \<times> time) Dependencies" where
  "flow_deps = example_deps\<lparr>dp_ExchangeCode := (\<lambda>w code verifier.
     case rbody (fst (token consent_world flow_s3 flow_r5)) of
       JSONBody m \<Rightarrow> Some \<lparr>ot_AccessToken = json_text m ''access_token'', ot_RefreshToken = json_text m ''refresh_token'',
         ot_Expiry = None, ot_IDToken = Some (json_text m ''id_token'')\<rparr>
     | _ \<Rightarrow> None)\<rparr>"

definition flow_r4 :: "string \<Rightarrow> brequest" where
  "flow_r4 q = (get_request ''/auth/callback'')\<lparr>br_Query := ParseQuery q,
     br_Cookies := [(stateCookieName, ''state-1''), (verifierCookieName, ''verifier-1'')]\<rparr>"

theorem code_flow_completes_witness:
  "\<exists>q m. rbody (fst (token consent_world flow_s3 flow_r5)) = JSONBody m \<and> json_text m ''access_token'' \<noteq> []
     \<and> bs_Status (fst (Callback flow_deps example_bworld empty_bff (flow_r4 q))) = 303
     \<and> logged_in example_bworld flow_deps example_bworld (MemoryStore Map.empty) m
         (Callback flow_deps example_bworld empty_bff (flow_r4 q))"
proof -
  have url: "url_Parse ''https://bff/auth/callback'' \<noteq> None" "\<not> isClientIDMetadataDocumentURL ''bff''"
    and claim: "fst (Claim (bw_now example_bworld) ''state-1'' (bf_claims empty_bff))" by code_simp+
  then obtain u where u: "url_Parse (form_Get flow_r1 ''redirect_uri'') = Some u"
    by (auto simp: flow_r1_def form_Get_def values_Get_def)
  have cw: "w_reqID consent_world = ''req-1''" "w_code consent_world = ''code-1''" "w_sign consent_world = (\<lambda>c. Some ''tok'')"
    "w_json consent_world = (\<lambda>raw. Some (JObj []))"
    by (simp_all add: consent_world_def quiet_world_def example_world_def)
  have start: "flow_start example_server flow_r1 ''verifier-1''"
    using url by (simp add: flow_start_def flow_r1_def form_Get_def values_Get_def example_request_def example_server_def)
  have pages: "flow_logs_in (w_reqID consent_world) flow_r2" "flow_approves consent_world (w_reqID consent_world) flow_r3"
    "code_request flow_r5 (w_code consent_world)" "form_Get flow_r5 ''code_verifier'' = ''verifier-1''"
    "form_Get flow_r1 ''state'' = ''state-1''"
    by (simp_all add: cw flow_logs_in_def flow_approves_def code_request_def flow_r1_def flow_r2_def flow_r3_def flow_r5_def form_Get_def
        values_Get_def values_Has_def parseClaimsJSON_def)
  have store: "bf_store empty_bff = MemoryStore Map.empty" by (simp add: empty_bff_def New_state_def)
  have ready: "backend_ready example_bworld flow_deps example_bworld empty_bff x" for x
    by (auto simp: backend_ready_def store store_law_defs store_Save_def memory_Save_def randomToken_def readClaims_def flow_deps_def
        example_deps_def example_bworld_def)
  have reads: "exchange_reads (fst (token consent_world flow_s3 flow_r5))
      (dp_ExchangeCode flow_deps example_bworld (w_code consent_world) ''verifier-1'')"
    by (auto simp: exchange_reads_def flow_deps_def)
  have s3: "flow_s3 = snd (approve consent_world (snd (login consent_world (snd (authorize consent_world example_server flow_r1)) flow_r2)) flow_r3)"
    by (simp add: flow_s3_def Let_def)
  have "flow_returns (flow_r4 q) q ''state-1'' ''verifier-1''" for q
    by (simp add: flow_returns_def flow_r4_def br_Cookie_def stateCookieName_def verifierCookieName_def)
  moreover note code_flow_completes [OF start pages(1,2) refl refl s3 u pages(5) _ _ _ pages(3,4) _ reads claim ready]
  ultimately show ?thesis by (auto simp: cw store)
qed

end
